(* ===== verification/KPrelude.thy ===== *)
theory KPrelude
  imports Main "HOL-Library.Word" "HOL-Library.Signed_Division" "HOL-Library.Tree"
begin

text \<open>
  Shared vocabulary of the development: C's machine integers (as \<^typ>\<open>int\<close> with the
  wrap-around written out), the faults a kernel path can end in, the result type of fallible
  operations, and the list lemmas the run-queue proofs use.
\<close>

unbundle bit_operations_syntax

section \<open>Machine integers\<close>

text \<open>
  The kernel is built with \<^verbatim>\<open>-fno-strict-overflow\<close>, so signed arithmetic wraps in two's
  complement. A \<open>long\<close> (64 bit) or an \<open>int\<close> (32 bit) is an \<^typ>\<open>int\<close> in range, and
  every operation that can leave the range is wrapped by \<open>s64\<close> or \<open>s32\<close>.
\<close>

definition s64 :: "int \<Rightarrow> int" where
  "s64 x = (x + 2 ^ 63) mod 2 ^ 64 - 2 ^ 63"

definition s32 :: "int \<Rightarrow> int" where
  "s32 x = (x + 2 ^ 31) mod 2 ^ 32 - 2 ^ 31"

definition u64 :: "int \<Rightarrow> int" where
  "u64 x = x mod 2 ^ 64"

definition u32 :: "int \<Rightarrow> int" where
  "u32 x = x mod 2 ^ 32"

named_theorems cint \<open>the wrap-around functions and the cases where they are the identity\<close>

lemma s64_id [cint]: "- (2 ^ 63) \<le> x \<Longrightarrow> x < 2 ^ 63 \<Longrightarrow> s64 x = x"
  by (simp add: s64_def)

lemma s32_id [cint]: "- (2 ^ 31) \<le> x \<Longrightarrow> x < 2 ^ 31 \<Longrightarrow> s32 x = x"
  by (simp add: s32_def)

lemma u64_id [cint]: "0 \<le> x \<Longrightarrow> x < 2 ^ 64 \<Longrightarrow> u64 x = x"
  by (simp add: u64_def)

lemma u32_id [cint]: "0 \<le> x \<Longrightarrow> x < 2 ^ 32 \<Longrightarrow> u32 x = x"
  by (simp add: u32_def)

lemma s64_period: "s64 (x + k * 2 ^ 64) = s64 x"
proof -
  have "x + k * 2 ^ 64 + 2 ^ 63 = x + 2 ^ 63 + k * 2 ^ 64" by simp
  then show ?thesis unfolding s64_def by (simp only: mod_mult_self1)
qed

lemma s64_range: "- (2 ^ 63) \<le> s64 x" "s64 x < 2 ^ 63"
  by (simp_all add: s64_def)

lemma s32_range: "- (2 ^ 31) \<le> s32 x" "s32 x < 2 ^ 31"
  by (simp_all add: s32_def)

text \<open>C division truncates towards zero; \<open>sdiv\<close> is that division on \<^typ>\<open>int\<close>.\<close>

lemma sdiv_nonneg: "0 \<le> a \<Longrightarrow> 0 < b \<Longrightarrow> a sdiv b = a div (b :: int)"
  by (cases "a = 0") (simp_all add: signed_divide_int_def)

section \<open>Faults and results\<close>

text \<open>
  Where the C code traps, oopses or dereferences garbage, the model ends in a fault:
  the x86 divide error, a call through a null method pointer, the use of a pointer that
  is not an object, and \<open>BUG()\<close>. \<open>No_return\<close> stands for a loop that does not end.
\<close>

datatype fault = Div_trap | Null_call | Bad_pointer | Bug | No_return

type_synonym 'a res = "fault + 'a"

definition bindr :: "'a res \<Rightarrow> ('a \<Rightarrow> 'b res) \<Rightarrow> 'b res" where
  "bindr m f = (case m of Inl e \<Rightarrow> Inl e | Inr a \<Rightarrow> f a)"

lemma bindr_simps [simp]:
  "bindr (Inl e) f = Inl e"
  "bindr (Inr a) f = f a"
  by (simp_all add: bindr_def)

lemma bindr_Inr_iff: "bindr m f = Inr b \<longleftrightarrow> (\<exists>a. m = Inr a \<and> f a = Inr b)"
  by (cases m) simp_all

lemma bindr_Inr_E [elim!]:
  assumes "bindr m f = Inr b"
  obtains a where "m = Inr a" "f a = Inr b"
  using assms by (auto simp: bindr_Inr_iff)

text \<open>Division of two \<open>long\<close>s on x86: a zero divisor and the overflowing quotient trap.\<close>

definition cdiv :: "int \<Rightarrow> int \<Rightarrow> int res" where
  "cdiv a b =
     (if b = 0 \<or> (a = - (2 ^ 63) \<and> b = - 1) then Inl Div_trap else Inr (a sdiv b))"

lemma cdiv_nonneg: "0 \<le> a \<Longrightarrow> 0 < b \<Longrightarrow> cdiv a b = Inr (a div b)"
  by (simp add: cdiv_def sdiv_nonneg)

section \<open>Neighbours in a list\<close>

fun next_in :: "'a list \<Rightarrow> 'a \<Rightarrow> 'a option" where
  "next_in [] x = None"
| "next_in (y # ys) x =
     (if x = y then (case ys of [] \<Rightarrow> None | z # _ \<Rightarrow> Some z) else next_in ys x)"

definition prev_in :: "'a list \<Rightarrow> 'a \<Rightarrow> 'a option" where
  "prev_in xs x = next_in (rev xs) x"

lemma next_in_mid: "x \<notin> set xs \<Longrightarrow> next_in (xs @ x # ys) x = (case ys of [] \<Rightarrow> None | z # _ \<Rightarrow> Some z)"
  by (induction xs) auto

lemma prev_in_last:
  assumes "distinct xs" "xs \<noteq> []"
  shows "prev_in xs (last xs) = (if butlast xs = [] then None else Some (last (butlast xs)))"
proof -
  obtain ys x where xs: "xs = ys @ [x]"
    using assms(2) by (metis rev_exhaust)
  show ?thesis
    by (cases ys rule: rev_cases) (simp_all add: xs prev_in_def butlast_append)
qed

lemma last_notin_butlast: "distinct xs \<Longrightarrow> xs \<noteq> [] \<Longrightarrow> last xs \<notin> set (butlast xs)"
  by (induction xs rule: rev_induct) auto

lemma remove1_last: "distinct xs \<Longrightarrow> xs \<noteq> [] \<Longrightarrow> remove1 (last xs) xs = butlast xs"
  by (induction xs rule: rev_induct) (auto simp: remove1_append)

lemma last_remove1:
  assumes "xs \<noteq> []" "x \<noteq> last xs"
  shows "remove1 x xs \<noteq> [] \<and> last (remove1 x xs) = last xs"
proof -
  obtain ys z where xs: "xs = ys @ [z]"
    using assms(1) by (metis rev_exhaust)
  with assms(2) show ?thesis by (simp add: remove1_append)
qed

lemma sorted_wrt_remove1: "sorted_wrt P xs \<Longrightarrow> sorted_wrt P (remove1 x xs)"
proof (induction xs)
  case (Cons y ys)
  then show ?case
    using set_remove1_subset [of x ys] by auto
qed simp

end
