(* ===== verification/Sched_Types.thy ===== *)
theory Sched_Types
  imports KPrelude
begin

text \<open>
  The data of the scheduler: the constants of \<^verbatim>\<open>include/uapi/linux/sched.h\<close> and
  \<^verbatim>\<open>kernel/sched/sched.h\<close>, the scheduling entities and \<open>task_struct\<close> of
  \<^verbatim>\<open>include/linux/sched.h\<close>, the run queues of \<^verbatim>\<open>kernel/sched/sched.h\<close>, the table of
  scheduling-class methods, and the machine state the operations pass around.

  A task is named by a number (\<open>tid\<close>) and stands for its \<open>task_struct\<close>; the entity
  \<open>&p->hvf\<close> embedded in it is named by the same number, so that \<open>task_hvf_of\<close> is the
  identity. A cpu names its run queue, so that \<open>cpu_rq\<close> is a lookup.
\<close>

type_synonym tid = nat
type_synonym cpu = nat
type_synonym flags = "32 word"
type_synonym cpumask = "nat set"

section \<open>Constants\<close>

abbreviation (input) EPERM :: int where "EPERM \<equiv> 1"
abbreviation (input) ESRCH :: int where "ESRCH \<equiv> 3"
abbreviation (input) E2BIG :: int where "E2BIG \<equiv> 7"
abbreviation (input) EAGAIN :: int where "EAGAIN \<equiv> 11"
abbreviation (input) ENOMEM :: int where "ENOMEM \<equiv> 12"
abbreviation (input) EFAULT :: int where "EFAULT \<equiv> 14"
abbreviation (input) EBUSY :: int where "EBUSY \<equiv> 16"
abbreviation (input) EINVAL :: int where "EINVAL \<equiv> 22"

abbreviation (input) SCHED_NORMAL :: int where "SCHED_NORMAL \<equiv> 0"
abbreviation (input) SCHED_FIFO :: int where "SCHED_FIFO \<equiv> 1"
abbreviation (input) SCHED_RR :: int where "SCHED_RR \<equiv> 2"
abbreviation (input) SCHED_BATCH :: int where "SCHED_BATCH \<equiv> 3"
abbreviation (input) SCHED_IDLE :: int where "SCHED_IDLE \<equiv> 5"
abbreviation (input) SCHED_DEADLINE :: int where "SCHED_DEADLINE \<equiv> 6"
abbreviation (input) SCHED_EXT :: int where "SCHED_EXT \<equiv> 7"
abbreviation (input) SCHED_HVF :: int where "SCHED_HVF \<equiv> 8"

abbreviation (input) TASK_RUNNING :: "32 word" where "TASK_RUNNING \<equiv> 0x0"
abbreviation (input) TASK_INTERRUPTIBLE :: "32 word" where "TASK_INTERRUPTIBLE \<equiv> 0x1"
abbreviation (input) TASK_UNINTERRUPTIBLE :: "32 word" where "TASK_UNINTERRUPTIBLE \<equiv> 0x2"
abbreviation (input) TASK_STOPPED_BIT :: "32 word" where "TASK_STOPPED_BIT \<equiv> 0x4"
abbreviation (input) TASK_TRACED_BIT :: "32 word" where "TASK_TRACED_BIT \<equiv> 0x8"
abbreviation (input) TASK_PARKED :: "32 word" where "TASK_PARKED \<equiv> 0x40"
abbreviation (input) TASK_WAKING :: "32 word" where "TASK_WAKING \<equiv> 0x200"
abbreviation (input) TASK_DEAD :: "32 word" where "TASK_DEAD \<equiv> 0x80"
abbreviation (input) TASK_NOLOAD :: "32 word" where "TASK_NOLOAD \<equiv> 0x400"
abbreviation (input) TASK_NEW :: "32 word" where "TASK_NEW \<equiv> 0x800"
abbreviation (input) TASK_FROZEN :: "32 word" where "TASK_FROZEN \<equiv> 0x8000"

abbreviation (input) TASK_ON_RQ_QUEUED :: int where "TASK_ON_RQ_QUEUED \<equiv> 1"
abbreviation (input) TASK_ON_RQ_MIGRATING :: int where "TASK_ON_RQ_MIGRATING \<equiv> 2"

abbreviation (input) WF_FORK :: flags where "WF_FORK \<equiv> 0x04"
abbreviation (input) WF_TTWU :: flags where "WF_TTWU \<equiv> 0x08"
abbreviation (input) WF_MIGRATED :: flags where "WF_MIGRATED \<equiv> 0x20"
abbreviation (input) WF_RQ_SELECTED :: flags where "WF_RQ_SELECTED \<equiv> 0x80"

abbreviation (input) DEQUEUE_SLEEP :: flags where "DEQUEUE_SLEEP \<equiv> 0x01"
abbreviation (input) DEQUEUE_SAVE :: flags where "DEQUEUE_SAVE \<equiv> 0x02"
abbreviation (input) DEQUEUE_MOVE :: flags where "DEQUEUE_MOVE \<equiv> 0x04"
abbreviation (input) DEQUEUE_NOCLOCK :: flags where "DEQUEUE_NOCLOCK \<equiv> 0x08"
abbreviation (input) DEQUEUE_SPECIAL :: flags where "DEQUEUE_SPECIAL \<equiv> 0x10"
abbreviation (input) DEQUEUE_DELAYED :: flags where "DEQUEUE_DELAYED \<equiv> 0x200"
abbreviation (input) ENQUEUE_WAKEUP :: flags where "ENQUEUE_WAKEUP \<equiv> 0x01"
abbreviation (input) ENQUEUE_RESTORE :: flags where "ENQUEUE_RESTORE \<equiv> 0x02"
abbreviation (input) ENQUEUE_MOVE :: flags where "ENQUEUE_MOVE \<equiv> 0x04"
abbreviation (input) ENQUEUE_NOCLOCK :: flags where "ENQUEUE_NOCLOCK \<equiv> 0x08"
abbreviation (input) ENQUEUE_HEAD :: flags where "ENQUEUE_HEAD \<equiv> 0x10"
abbreviation (input) ENQUEUE_REPLENISH :: flags where "ENQUEUE_REPLENISH \<equiv> 0x20"
abbreviation (input) ENQUEUE_MIGRATED :: flags where "ENQUEUE_MIGRATED \<equiv> 0x40"
abbreviation (input) ENQUEUE_INITIAL :: flags where "ENQUEUE_INITIAL \<equiv> 0x80"
abbreviation (input) ENQUEUE_DELAYED :: flags where "ENQUEUE_DELAYED \<equiv> 0x200"
abbreviation (input) ENQUEUE_RQ_SELECTED :: flags where "ENQUEUE_RQ_SELECTED \<equiv> 0x400"
abbreviation (input) ENQUEUE_CHANGED :: flags where "ENQUEUE_CHANGED \<equiv> 0x800"

text \<open>
  The priority scale: -1 is SCHED_DEADLINE, 0 to 99 real time, 100 to 139 the nice levels
  -20 to 19 (the table above \<open>task_prio\<close> in \<^verbatim>\<open>kernel/sched/syscalls.c\<close>).
\<close>

abbreviation (input) MAX_DL_PRIO :: int where "MAX_DL_PRIO \<equiv> 0"
abbreviation (input) MAX_RT_PRIO :: int where "MAX_RT_PRIO \<equiv> 100"
abbreviation (input) MIN_NICE :: int where "MIN_NICE \<equiv> - 20"
abbreviation (input) MAX_NICE :: int where "MAX_NICE \<equiv> 19"
abbreviation (input) NICE_WIDTH :: int where "NICE_WIDTH \<equiv> 40"
abbreviation (input) SCHED_CAPACITY_SCALE :: int where "SCHED_CAPACITY_SCALE \<equiv> 1024"

text \<open>
  The bands of that table: a deadline priority is below 0, a real-time one from 0 to 99
  (\<open>dl_prio\<close>, \<open>rt_prio\<close>, \<open>rt_or_dl_prio\<close>).
\<close>

definition dl_prio :: "int \<Rightarrow> bool" where
  "dl_prio p \<longleftrightarrow> p < MAX_DL_PRIO"

definition rt_prio :: "int \<Rightarrow> bool" where
  "rt_prio p \<longleftrightarrow> MAX_DL_PRIO \<le> p \<and> p < MAX_RT_PRIO"

definition rt_or_dl_prio :: "int \<Rightarrow> bool" where
  "rt_or_dl_prio p \<longleftrightarrow> p < MAX_RT_PRIO"

abbreviation (input) SCHED_FLAG_RESET_ON_FORK :: "64 word" where "SCHED_FLAG_RESET_ON_FORK \<equiv> 0x01"
abbreviation (input) SCHED_FLAG_RECLAIM :: "64 word" where "SCHED_FLAG_RECLAIM \<equiv> 0x02"
abbreviation (input) SCHED_FLAG_DL_OVERRUN :: "64 word" where "SCHED_FLAG_DL_OVERRUN \<equiv> 0x04"
abbreviation (input) SCHED_FLAG_KEEP_POLICY :: "64 word" where "SCHED_FLAG_KEEP_POLICY \<equiv> 0x08"
abbreviation (input) SCHED_FLAG_KEEP_PARAMS :: "64 word" where "SCHED_FLAG_KEEP_PARAMS \<equiv> 0x10"
abbreviation (input) SCHED_FLAG_UTIL_CLAMP_MIN :: "64 word" where "SCHED_FLAG_UTIL_CLAMP_MIN \<equiv> 0x20"
abbreviation (input) SCHED_FLAG_UTIL_CLAMP_MAX :: "64 word" where "SCHED_FLAG_UTIL_CLAMP_MAX \<equiv> 0x40"
abbreviation (input) SCHED_FLAG_UTIL_CLAMP :: "64 word" where "SCHED_FLAG_UTIL_CLAMP \<equiv> 0x60"
abbreviation (input) SCHED_FLAG_ALL :: "64 word" where "SCHED_FLAG_ALL \<equiv> 0x7f"
abbreviation (input) SCHED_FLAG_SUGOV :: "64 word" where "SCHED_FLAG_SUGOV \<equiv> 0x10000000"

section \<open>Scheduling policies\<close>

definition idle_policy :: "int \<Rightarrow> bool" where
  "idle_policy policy \<longleftrightarrow> policy = SCHED_IDLE"

definition normal_policy :: "int \<Rightarrow> bool" where
  "normal_policy policy \<longleftrightarrow> policy = SCHED_NORMAL"

definition fair_policy :: "int \<Rightarrow> bool" where
  "fair_policy policy \<longleftrightarrow> normal_policy policy \<or> policy = SCHED_BATCH"

definition rt_policy :: "int \<Rightarrow> bool" where
  "rt_policy policy \<longleftrightarrow> policy = SCHED_FIFO \<or> policy = SCHED_RR"

definition dl_policy :: "int \<Rightarrow> bool" where
  "dl_policy policy \<longleftrightarrow> policy = SCHED_DEADLINE"

definition hvf_policy :: "int \<Rightarrow> bool" where
  "hvf_policy policy \<longleftrightarrow> policy = SCHED_HVF"

definition valid_policy :: "int \<Rightarrow> bool" where
  "valid_policy policy \<longleftrightarrow>
     idle_policy policy \<or> fair_policy policy \<or> rt_policy policy \<or> dl_policy policy \<or>
     hvf_policy policy"

lemmas policy_defs =
  idle_policy_def normal_policy_def fair_policy_def rt_policy_def dl_policy_def
  hvf_policy_def valid_policy_def

section \<open>Scheduling classes\<close>

text \<open>
  The linker script lays the class tables out in this order, so that an address comparison
  is a priority comparison (\<open>SCHED_DATA\<close> in \<^verbatim>\<open>vmlinux.lds.h\<close>). The sched_ext class is
  configured out.
\<close>

datatype sclass = Stop | Dl | Rt | Fair | Hvf | Idle

definition sched_classes :: "sclass list" where
  "sched_classes = [Stop, Dl, Rt, Fair, Hvf, Idle]"

fun class_index :: "sclass \<Rightarrow> nat" where
  "class_index Stop = 0"
| "class_index Dl = 1"
| "class_index Rt = 2"
| "class_index Fair = 3"
| "class_index Hvf = 4"
| "class_index Idle = 5"

definition sched_class_above :: "sclass \<Rightarrow> sclass \<Rightarrow> bool" where
  "sched_class_above a b \<longleftrightarrow> class_index a < class_index b"

lemma class_index_inj: "class_index a = class_index b \<Longrightarrow> a = b"
  by (cases a; cases b) simp_all

instantiation sclass :: linorder
begin

definition less_eq_sclass :: "sclass \<Rightarrow> sclass \<Rightarrow> bool" where
  "less_eq_sclass a b \<longleftrightarrow> class_index a \<le> class_index b"

definition less_sclass :: "sclass \<Rightarrow> sclass \<Rightarrow> bool" where
  "less_sclass a b \<longleftrightarrow> class_index a < class_index b"

instance
proof
  fix x y z :: sclass
  show "x < y \<longleftrightarrow> x \<le> y \<and> \<not> y \<le> x"
    by (auto simp: less_eq_sclass_def less_sclass_def)
  show "x \<le> x" and "x \<le> y \<or> y \<le> x"
    by (auto simp: less_eq_sclass_def)
  show "x \<le> y \<Longrightarrow> y \<le> z \<Longrightarrow> x \<le> z"
    by (simp add: less_eq_sclass_def)
  show "x \<le> y \<Longrightarrow> y \<le> x \<Longrightarrow> x = y"
    by (simp add: less_eq_sclass_def class_index_inj)
qed

end

lemma sched_class_above_iff: "sched_class_above a b \<longleftrightarrow> a < b"
  by (simp add: sched_class_above_def less_sclass_def)

lemma sorted_sched_classes: "sorted_wrt (<) sched_classes"
  by (simp add: sched_classes_def less_sclass_def)

lemma set_sched_classes: "set sched_classes = UNIV"
  using sclass.exhaust by (auto simp: sched_classes_def)

section \<open>Scheduling entities and tasks\<close>

text \<open>
  \<open>run_node\<close>, the first member of \<open>struct sched_hvf_entity\<close>, links the entity into the
  tree of \<open>hvf_rq\<close>; the model keeps the links in the tree itself. Its offset is 0, so
  \<open>rb_entry(NULL, ...)\<close> is \<open>NULL\<close>.
\<close>

record sched_hvf_entity =
  init_sched_value :: int
  curr_sched_value :: int
  first_time :: int
  latest_time :: int
  time_used :: int
  runtime :: int
  hvf_on_rq :: bool
  cpu_answers :: int
  cpu_first_answer :: int
  slice_expired :: bool
  prev_cpu :: int
  curr_cpu :: int

datatype uclamp_id = UCLAMP_MIN | UCLAMP_MAX

record uclamp_se =
  uc_value :: int
  uc_bucket_id :: nat
  uc_active :: bool
  uc_user_defined :: bool

record load_weight =
  weight :: int
  inv_weight :: int

text \<open>The fields of the fair, real-time and deadline entities that the core scheduler touches.\<close>

record sched_entity =
  se_load :: load_weight
  se_on_rq :: bool
  exec_start :: int
  sum_exec_runtime :: int
  prev_sum_exec_runtime :: int
  nr_migrations :: int
  vruntime :: int
  vlag :: int
  slice :: int
  custom_slice :: bool
  sched_delayed :: bool
  se_cfs_rq :: "(nat \<times> cpu) option"
  se_parent :: "(nat \<times> cpu) option"
  se_depth :: int

record sched_rt_entity =
  rt_timeout :: int
  rt_time_slice :: int
  rt_on_rq :: bool
  rt_on_list :: bool

record sched_dl_entity =
  dl_deadline :: int
  dl_flags :: "64 word"
  pi_se :: tid

record task_struct =
  pid :: int
  tstate :: "32 word"
  on_rq :: int
  on_cpu :: bool
  task_cpu :: cpu
  policy :: int
  prio :: int
  static_prio :: int
  normal_prio :: int
  rt_priority :: int
  sched_class :: sclass
  pflags :: "32 word"
  cpus_mask :: cpumask
  cpus_ptr_to :: "cpumask option"
  nr_cpus_allowed :: int
  hvf :: sched_hvf_entity
  deadline_1 :: int
  deadline_2 :: int
  computation_time :: int
  pars_set :: bool
  se :: sched_entity
  rt :: sched_rt_entity
  dl :: sched_dl_entity
  dl_server :: "sched_dl_entity option"
  uclamp_req :: "uclamp_id \<Rightarrow> uclamp_se"
  uclamp :: "uclamp_id \<Rightarrow> uclamp_se"
  sched_reset_on_fork :: bool
  timer_slack_ns :: int
  default_timer_slack_ns :: int
  sched_contributes_to_load :: bool
  in_iowait :: bool
  core_cookie :: int
  pi_top_task :: "tid option"
  tif_need_resched :: bool
  tif_need_resched_lazy :: bool
  tif_polling :: bool
  nvcsw :: int
  nivcsw :: int
  saved_state :: "32 word"
  wake_cpu :: cpu
  migration_disabled :: int
  sched_remote_wakeup :: bool
  user_cpus_ptr :: "cpumask option"
  mm :: "nat option"
  active_mm :: "nat option"
  migration_pending :: "nat option"
  migration_flags :: "32 word"
  wake_q_queued :: bool
  core_occupation :: int
  mm_cid :: "nat option"
  last_mm_cid :: "nat option"
  mm_cid_active :: bool
  migrate_from_cpu :: "cpu option"
  cid_work_queued :: bool
  sched_task_group :: nat
  numa_preferred_nid :: int

text \<open>
  The pointer \<open>cpus_ptr\<close> is at \<open>cpus_mask\<close> of the same task (\<open>None\<close>), or at a mask of one cpu
  while migration is disabled.
\<close>

definition cpus_ptr :: "task_struct \<Rightarrow> cpumask" where
  "cpus_ptr p = (case cpus_ptr_to p of None \<Rightarrow> cpus_mask p | Some m \<Rightarrow> m)"

text \<open>
  The attributes of \<open>sched_setattr\<close>; the two clamp values are unsigned 32-bit, with
  \<open>0xffffffff\<close> (the \<open>-1\<close> of user space) to reset a clamp.
\<close>

record sched_attr =
  sa_size :: int
  sa_policy :: int
  sa_flags :: "64 word"
  sa_nice :: int
  sa_priority :: int
  sa_runtime :: int
  sa_deadline :: int
  sa_period :: int
  sa_util_min :: int
  sa_util_max :: int

section \<open>Address spaces\<close>

text \<open>
  The concurrency ids of an address space (the fields of \<open>struct mm_struct\<close> that the scheduler keeps): the id
  a cpu holds is unset, valid, or valid with the flag that asks for a lazy release.
\<close>

datatype cid_slot = Cid_unset | Cid_valid nat | Cid_lazy nat

record mm_cid_pcpu =
  pc_cid :: cid_slot
  pc_time :: int
  recent_cid :: "nat option"

record mm_struct =
  pcpu_cid :: "cpu \<Rightarrow> mm_cid_pcpu"
  cidmask :: "nat set"
  max_nr_cid :: nat
  mm_nr_cpus_allowed :: nat
  mm_users :: nat
  mm_cid_next_scan :: int

section \<open>Task groups\<close>

text \<open>
  A group of tasks is named by a number, \<open>0\<close> for \<open>root_task_group\<close>. \<open>tg_children\<close> is the list of its children, newest
  first; \<open>tg_rq\<close> is what the bandwidth control keeps in its queue on each cpu.
\<close>

record cfs_bandwidth =
  bw_period :: int
  bw_quota :: int
  bw_runtime :: int
  bw_burst :: int
  hierarchical_quota :: int
  bw_nr_periods :: int
  bw_nr_throttled :: int
  bw_nr_burst :: int
  bw_throttled_time :: int
  bw_burst_time :: int

record tg_cfs_rq =
  runtime_enabled :: bool
  runtime_remaining :: int
  throttled :: bool
  throttled_clock_self_time :: int

record task_group =
  tg_idle :: int
  tg_shares :: int
  tg_depth :: int
  tg_parent :: "nat option"
  tg_children :: "nat list"
  tg_bandwidth :: cfs_bandwidth
  tg_rq :: "cpu \<Rightarrow> tg_cfs_rq"

abbreviation (input) root_task_group :: nat where "root_task_group \<equiv> 0"

section \<open>Run queues\<close>

record hvf_rq =
  hvf_task_queue :: "tid tree"
  max_value_entity :: "tid option"
  hvf_curr :: "tid option"
  nr_hvf_queued :: int

record uclamp_bucket =
  bk_value :: int
  bk_tasks :: int

record uclamp_rq =
  ucr_value :: int
  bucket :: "nat \<Rightarrow> uclamp_bucket"

text \<open>
  \<open>donor\<close> and \<open>curr\<close> of \<open>struct rq\<close> are a union, so one field, \<open>rq_curr\<close>, stands
  for both.
\<close>

text \<open>
  The callbacks a run queue runs when its lock is about to be released, head first: the push of a
  cpu that goes down, the stealing of core scheduling, and those of the other classes.
\<close>

datatype balance_cb = Cb_push | Cb_core | Cb_class nat

record rq =
  rq_hvf :: hvf_rq
  nr_running :: int
  cfs_h_nr_queued :: int
  rq_curr :: tid
  rq_idle :: tid
  rq_stop :: "tid option"
  rq_dl_server :: "sched_dl_entity option"
  nr_switches :: int
  nr_uninterruptible :: int
  nr_iowait :: int
  ttwu_pending :: bool
  rq_uclamp :: "uclamp_id \<Rightarrow> uclamp_rq"
  uclamp_flags :: "32 word"
  clock_update_flags :: "32 word"
  rq_clock :: int
  clock_task :: int
  core_enabled :: bool
  rq_core :: cpu
  core_tree :: "tid tree"
  core_task_seq :: int
  core_forceidle_count :: int
  prev_mm :: "nat option"
  rq_membarrier_state :: int
  nr_pinned :: int
  push_busy :: bool
  core_forceidle_start :: int
  core_pick :: "tid option"
  core_dl_server :: "sched_dl_entity option"
  core_sched_seq :: int
  core_pick_seq :: int
  rq_core_cookie :: int
  core_forceidle_seq :: int
  core_forceidle_occupation :: int
  balance_callback :: "balance_cb list"
  rq_online :: bool

section \<open>The machine state\<close>

record timespec64 =
  tv_sec :: int
  tv_nsec :: int

text \<open>What \<open>trace_printk\<close> receives from the scheduling class.\<close>

datatype trace_entry =
    Hvf_task_terminated int int int int int int
  | Hvf_task_migrates int int int int int int

text \<open>
  \<open>rt_clock\<close> is the sequence of readings of the wall clock (\<open>ktime_get_real_ts64\<close>) and
  \<open>rt_reads\<close> the number of readings taken; \<open>current\<close> and \<open>this_cpu\<close> are the
  executing context; \<open>ext\<close> is the private state of the code that is not part of this
  repository: the other scheduling classes, the pressure-stall and sched-info accounting, the
  security modules, the locks.
\<close>

text \<open>
  A pending change of affinity (\<open>struct set_affinity_pending\<close>, an object on the stack of the task that
  waits for it) and the work handed to the stopper thread of a cpu.
\<close>

record set_affinity_pending =
  pend_refs :: int
  stop_pending :: bool
  pend_done :: bool
  arg_task :: tid
  arg_dest_cpu :: cpu

datatype stop_work =
    Migration_stop nat
  | Exec_stop tid cpu
  | Push_stop tid
  | Balance_push_stop tid

record 'x kstate =
  tasks :: "tid \<Rightarrow> task_struct"
  rqs :: "cpu \<Rightarrow> rq"
  nr_cpu_ids :: nat
  this_cpu :: cpu
  current :: tid
  rt_clock :: "nat \<Rightarrow> timespec64"
  rt_reads :: nat
  trace :: "trace_entry list"
  preempt_need_resched :: bool
  resched_ipis :: "cpu list"
  cpu_active_mask :: cpumask
  cpu_online_mask :: cpumask
  wake_list :: "cpu \<Rightarrow> tid list"
  uclamp_default :: "uclamp_id \<Rightarrow> uclamp_se"
  sched_uclamp_used :: bool
  sched_core_key :: bool
  sysctl_uclamp_util_min :: int
  sysctl_uclamp_util_max :: int
  sysctl_uclamp_min_rt :: int
  pendings :: "nat \<Rightarrow> set_affinity_pending"
  nr_pendings :: nat
  stop_works :: "(cpu \<times> stop_work) list"
  sched_core_count :: int
  sched_core_work :: bool
  mms :: "nat \<Rightarrow> mm_struct"
  sched_smp_initialized :: bool
  num_cpus_frozen :: int
  sched_smt_present :: int
  scheduler_running :: bool
  tgs :: "nat \<Rightarrow> task_group"
  tg_list :: "nat list"
  ext :: 'x

abbreviation set_task :: "tid \<Rightarrow> task_struct \<Rightarrow> 'x kstate \<Rightarrow> 'x kstate" where
  "set_task t v s \<equiv> s\<lparr>tasks := (tasks s)(t := v)\<rparr>"

abbreviation set_rq :: "cpu \<Rightarrow> rq \<Rightarrow> 'x kstate \<Rightarrow> 'x kstate" where
  "set_rq c v s \<equiv> s\<lparr>rqs := (rqs s)(c := v)\<rparr>"

abbreviation upd_task :: "tid \<Rightarrow> (task_struct \<Rightarrow> task_struct) \<Rightarrow> 'x kstate \<Rightarrow> 'x kstate" where
  "upd_task t f s \<equiv> set_task t (f (tasks s t)) s"

abbreviation upd_tg :: "nat \<Rightarrow> (task_group \<Rightarrow> task_group) \<Rightarrow> 'x kstate \<Rightarrow> 'x kstate" where
  "upd_tg g f s \<equiv> s\<lparr>tgs := (tgs s)(g := f (tgs s g))\<rparr>"

abbreviation upd_mm :: "nat \<Rightarrow> (mm_struct \<Rightarrow> mm_struct) \<Rightarrow> 'x kstate \<Rightarrow> 'x kstate" where
  "upd_mm m f s \<equiv> s\<lparr>mms := (mms s)(m := f (mms s m))\<rparr>"

abbreviation upd_rq :: "cpu \<Rightarrow> (rq \<Rightarrow> rq) \<Rightarrow> 'x kstate \<Rightarrow> 'x kstate" where
  "upd_rq c f s \<equiv> set_rq c (f (rqs s c)) s"

text \<open>The reading of the wall clock that the next call gets, and the state after the call.\<close>

definition ktime_get_real_ts64 :: "'x kstate \<Rightarrow> timespec64 \<times> 'x kstate" where
  "ktime_get_real_ts64 s = (rt_clock s (rt_reads s), s\<lparr>rt_reads := Suc (rt_reads s)\<rparr>)"

section \<open>The table of class methods\<close>

record affinity_context =
  new_mask :: cpumask
  user_mask :: "cpumask option"
  ac_flags :: flags

text \<open>
  \<open>struct sched_class\<close>: every member is a function pointer, \<open>None\<close> where the class leaves
  it null. A method takes the cpu of the run queue and the task, and the state \<open>'s\<close>.
\<close>

record 's sched_class_ops =
  uclamp_enabled :: bool
  op_enqueue_task :: "(cpu \<Rightarrow> tid \<Rightarrow> flags \<Rightarrow> 's \<Rightarrow> 's res) option"
  op_dequeue_task :: "(cpu \<Rightarrow> tid \<Rightarrow> flags \<Rightarrow> 's \<Rightarrow> (bool \<times> 's) res) option"
  op_yield_task :: "(cpu \<Rightarrow> 's \<Rightarrow> 's res) option"
  op_yield_to_task :: "(cpu \<Rightarrow> tid \<Rightarrow> 's \<Rightarrow> (bool \<times> 's) res) option"
  op_wakeup_preempt :: "(cpu \<Rightarrow> tid \<Rightarrow> flags \<Rightarrow> 's \<Rightarrow> 's res) option"
  op_balance :: "(cpu \<Rightarrow> tid \<Rightarrow> 's \<Rightarrow> (bool \<times> 's) res) option"
  op_pick_task :: "(cpu \<Rightarrow> 's \<Rightarrow> (tid option \<times> 's) res) option"
  op_pick_next_task :: "(cpu \<Rightarrow> tid \<Rightarrow> 's \<Rightarrow> (tid option \<times> 's) res) option"
  op_put_prev_task :: "(cpu \<Rightarrow> tid \<Rightarrow> tid option \<Rightarrow> 's \<Rightarrow> 's res) option"
  op_set_next_task :: "(cpu \<Rightarrow> tid \<Rightarrow> bool \<Rightarrow> 's \<Rightarrow> 's res) option"
  op_select_task_rq :: "(tid \<Rightarrow> cpu \<Rightarrow> flags \<Rightarrow> 's \<Rightarrow> (cpu \<times> 's) res) option"
  op_migrate_task_rq :: "(tid \<Rightarrow> cpu \<Rightarrow> 's \<Rightarrow> 's res) option"
  op_task_woken :: "(cpu \<Rightarrow> tid \<Rightarrow> 's \<Rightarrow> 's res) option"
  op_set_cpus_allowed :: "(tid \<Rightarrow> affinity_context \<Rightarrow> 's \<Rightarrow> 's res) option"
  op_find_lock_rq :: "(tid \<Rightarrow> cpu \<Rightarrow> 's \<Rightarrow> (cpu option \<times> 's) res) option"
  op_rq_online :: "(cpu \<Rightarrow> 's \<Rightarrow> 's res) option"
  op_rq_offline :: "(cpu \<Rightarrow> 's \<Rightarrow> 's res) option"
  op_task_tick :: "(cpu \<Rightarrow> tid \<Rightarrow> bool \<Rightarrow> 's \<Rightarrow> 's res) option"
  op_task_fork :: "(tid \<Rightarrow> 's \<Rightarrow> 's res) option"
  op_task_dead :: "(tid \<Rightarrow> 's \<Rightarrow> 's res) option"
  op_switching_to :: "(cpu \<Rightarrow> tid \<Rightarrow> 's \<Rightarrow> 's res) option"
  op_switched_from :: "(cpu \<Rightarrow> tid \<Rightarrow> 's \<Rightarrow> 's res) option"
  op_switched_to :: "(cpu \<Rightarrow> tid \<Rightarrow> 's \<Rightarrow> 's res) option"
  op_reweight_task :: "(cpu \<Rightarrow> tid \<Rightarrow> load_weight \<Rightarrow> 's \<Rightarrow> 's res) option"
  op_prio_changed :: "(cpu \<Rightarrow> tid \<Rightarrow> int \<Rightarrow> 's \<Rightarrow> 's res) option"
  op_get_rr_interval :: "(cpu \<Rightarrow> tid \<Rightarrow> 's \<Rightarrow> int res) option"
  op_update_curr :: "(cpu \<Rightarrow> 's \<Rightarrow> 's res) option"
  op_task_change_group :: "(tid \<Rightarrow> 's \<Rightarrow> 's res) option"
  op_task_is_throttled :: "(tid \<Rightarrow> cpu \<Rightarrow> 's \<Rightarrow> bool res) option"

text \<open>A call through a method pointer faults when the class leaves the pointer null.\<close>

definition call :: "'f option \<Rightarrow> ('f \<Rightarrow> 'b res) \<Rightarrow> 'b res" where
  "call m k = (case m of None \<Rightarrow> Inl Null_call | Some f \<Rightarrow> k f)"

lemma call_simps [simp]:
  "call None k = Inl Null_call"
  "call (Some f) k = k f"
  by (simp_all add: call_def)

end
