(* ===== verification/Hvf_Value.thy ===== *)
theory Hvf_Value
  imports Sched_Types
begin

text \<open>
  The arithmetic of the Highest Value First class (\<^verbatim>\<open>kernel/sched/hvf.c\<close>): the initial
  scheduling value of a task from its two deadlines, the decay and the penalty that lower it,
  the time slice it buys, and the bookkeeping of the entity's clock fields. Every operation
  keeps the width of \<open>long\<close>. An ideal value function over unbounded integers is the
  specification that the code refines while nothing overflows.
\<close>

abbreviation (input) K :: int where "K \<equiv> 1000"
abbreviation (input) H :: int where "H \<equiv> 100"

section \<open>Definitions\<close>

text \<open>The milliseconds of a clock reading: \<open>now.tv_sec*K + now.tv_nsec/(K*K)\<close>.\<close>

definition now_ms :: "timespec64 \<Rightarrow> int" where
  "now_ms now = s64 (s64 (tv_sec now * K) + tv_nsec now sdiv (K * K))"

definition compute_init_sched_value :: "task_struct \<Rightarrow> (int \<times> task_struct) res" where
  "compute_init_sched_value p =
     (let X = s64 (first_time (hvf p) + computation_time p) in
      bindr
        (if X < s64 (deadline_1 p * K) then Inr H
         else if s64 (deadline_2 p * K) < X then Inr 0
         else cdiv (s64 (s64 (s64 (deadline_2 p * K) - X) * H))
                (s64 (s64 (deadline_2 p - deadline_1 p) * K)))
        (\<lambda>V. Inr (V, p\<lparr>hvf := (hvf p)\<lparr>init_sched_value := V, curr_sched_value := V\<rparr>\<rparr>)))"

definition reduce_sched_value :: "sched_hvf_entity \<Rightarrow> int \<times> sched_hvf_entity" where
  "reduce_sched_value e =
     (let rate = time_used e;
          old_value = curr_sched_value e;
          new_value = s64 (old_value - s64 (rate * old_value) sdiv 100);
          new_value = (if new_value > 0 then new_value else if old_value = 0 then 10 else 0)
      in (new_value, e\<lparr>curr_sched_value := new_value\<rparr>))"

definition penalty_hvf_entity :: "sched_hvf_entity \<Rightarrow> int \<Rightarrow> int \<times> sched_hvf_entity" where
  "penalty_hvf_entity e ctime =
     (let diff = s64 (time_used e - ctime);
          old_value = curr_sched_value e;
          new_value = s64 (old_value - s64 (s64 (diff * diff) * old_value) sdiv 100);
          new_value = (if new_value > 0 then new_value else if old_value = 0 then 10 else 0)
      in (new_value, e\<lparr>curr_sched_value := new_value\<rparr>))"

definition time_slice :: "int \<Rightarrow> int" where
  "time_slice sched_value =
     (let max_slice = K;
          min_slice = 10;
          sched_value = (if sched_value < 1 then 1 else sched_value);
          sched_value = (if sched_value > K then K else sched_value);
          scaled_value = sched_value;
          range = max_slice - min_slice
      in s64 (s64 (scaled_value * range) sdiv K + min_slice))"

definition exceeded_time :: "task_struct \<Rightarrow> bool" where
  "exceeded_time p = (let used = time_used (hvf p); ctime = computation_time p in used > ctime)"

definition init_sched_hvf_entity :: "timespec64 \<Rightarrow> sched_hvf_entity \<Rightarrow> sched_hvf_entity" where
  "init_sched_hvf_entity now e =
     e\<lparr>first_time := now_ms now, latest_time := now_ms now, time_used := 0,
       cpu_answers := 0, slice_expired := False\<rparr>"

definition update_latest_se_hvf :: "timespec64 \<Rightarrow> sched_hvf_entity \<Rightarrow> sched_hvf_entity" where
  "update_latest_se_hvf now e =
     (let e = e\<lparr>latest_time := now_ms now, runtime := 0, cpu_answers := s32 (cpu_answers e + 1)\<rparr>
      in e\<lparr>cpu_first_answer :=
             (if cpu_answers e = 1 then latest_time e else cpu_first_answer e)\<rparr>)"

definition update_used_se_hvf :: "timespec64 \<Rightarrow> sched_hvf_entity \<Rightarrow> sched_hvf_entity" where
  "update_used_se_hvf now e =
     (let current_time = now_ms now
      in e\<lparr>time_used := s64 (time_used e + s64 (current_time - latest_time e))\<rparr>)"

text \<open>
  \<open>give_default_hvf_values\<close> reads the clock only when no parameters are set; \<open>now\<close> is
  that reading.
\<close>

definition give_default_hvf_values :: "timespec64 \<Rightarrow> task_struct \<Rightarrow> task_struct res" where
  "give_default_hvf_values now p =
     (if \<not> pars_set p then
        let curr_time = s64 (tv_sec now + tv_nsec now sdiv (K * K * K));
            p = p\<lparr>deadline_1 := s64 (curr_time + 4), deadline_2 := s64 (curr_time + 6),
                  computation_time := K, pars_set := True\<rparr>
        in bindr (compute_init_sched_value p) (\<lambda>(_, p). Inr p)
      else Inr p)"

definition clear_hvf_values :: "task_struct \<Rightarrow> task_struct" where
  "clear_hvf_values p =
     (if pars_set p then
        p\<lparr>deadline_1 := 0, deadline_2 := 0, computation_time := 0, pars_set := False\<rparr>
      else p)"

section \<open>The ideal value function\<close>

text \<open>
  The value of finishing at time \<open>x\<close> (milliseconds) against the soft deadline \<open>d1\<close> and
  the hard deadline \<open>d2\<close> (seconds): all of it before \<open>d1\<close>, nothing after \<open>d2\<close>,
  and a straight line between them.
\<close>

definition ideal_value :: "int \<Rightarrow> int \<Rightarrow> int \<Rightarrow> int" where
  "ideal_value d1 d2 x =
     (if x < d1 * K then H
      else if d2 * K < x then 0
      else ((d2 * K - x) * H) div ((d2 - d1) * K))"

definition hvf_params_ok :: "task_struct \<Rightarrow> bool" where
  "hvf_params_ok p \<longleftrightarrow>
     0 < deadline_1 p \<and> deadline_1 p < deadline_2 p \<and> deadline_2 p < 2 ^ 40"

definition hvf_times_ok :: "task_struct \<Rightarrow> bool" where
  "hvf_times_ok p \<longleftrightarrow>
     - (2 ^ 62) \<le> first_time (hvf p) \<and> first_time (hvf p) < 2 ^ 62 \<and>
     - (2 ^ 62) \<le> computation_time p \<and> computation_time p < 2 ^ 62"

lemma ideal_value_range:
  assumes "d1 < d2"
  shows "0 \<le> ideal_value d1 d2 x" "ideal_value d1 d2 x \<le> H"
proof -
  have pos: "0 < (d2 - d1) * K" using assms by simp
  have "((d2 * K - x) * H) div ((d2 - d1) * K) \<le> (((d2 - d1) * K) * H) div ((d2 - d1) * K)"
    if "\<not> x < d1 * K"
    using that by (intro zdiv_mono1 [OF _ pos]) (simp add: algebra_simps)
  moreover have "(((d2 - d1) * K) * H) div ((d2 - d1) * K) = H"
    by (rule nonzero_mult_div_cancel_left) (use pos in linarith)
  ultimately show "ideal_value d1 d2 x \<le> H"
    by (simp add: ideal_value_def)
  show "0 \<le> ideal_value d1 d2 x"
    using pos by (simp add: ideal_value_def pos_imp_zdiv_nonneg_iff)
qed

lemma ideal_value_antimono:
  assumes d: "d1 < d2" and xy: "x \<le> y"
  shows "ideal_value d1 d2 y \<le> ideal_value d1 d2 x"
proof -
  consider "x < d1 * K" | "d2 * K < y" | "\<not> x < d1 * K" "\<not> d2 * K < y" by blast
  then show ?thesis
  proof cases
    case 1
    then show ?thesis using ideal_value_range(2) [OF d] by (simp add: ideal_value_def)
  next
    case 2
    then have "\<not> y < d1 * K" using d by simp
    with 2 have "ideal_value d1 d2 y = 0" by (simp add: ideal_value_def)
    then show ?thesis using ideal_value_range(1) [OF d] by simp
  next
    case 3
    have "0 < (d2 - d1) * K" using d by simp
    then have "((d2 * K - y) * H) div ((d2 - d1) * K) \<le> ((d2 * K - x) * H) div ((d2 - d1) * K)"
      using xy by (intro zdiv_mono1) simp_all
    then show ?thesis using 3 xy by (simp add: ideal_value_def)
  qed
qed

section \<open>The code computes the ideal value\<close>

lemma compute_init_sched_value_s64:
  assumes "hvf_params_ok p"
  shows "compute_init_sched_value p =
    (let V = ideal_value (deadline_1 p) (deadline_2 p) (s64 (first_time (hvf p) + computation_time p))
     in Inr (V, p\<lparr>hvf := (hvf p)\<lparr>init_sched_value := V, curr_sched_value := V\<rparr>\<rparr>))"
proof -
  define X where "X = s64 (first_time (hvf p) + computation_time p)"
  have d1: "s64 (deadline_1 p * K) = deadline_1 p * K"
    and d2: "s64 (deadline_2 p * K) = deadline_2 p * K"
    and dd: "s64 (s64 (deadline_2 p - deadline_1 p) * K) = (deadline_2 p - deadline_1 p) * K"
    using assms by (simp_all add: hvf_params_ok_def s64_id)
  have q: "cdiv (s64 (s64 (deadline_2 p * K - X) * H)) ((deadline_2 p - deadline_1 p) * K) =
      Inr (((deadline_2 p * K - X) * H) div ((deadline_2 p - deadline_1 p) * K))"
    if "\<not> X < deadline_1 p * K" "\<not> deadline_2 p * K < X"
  proof -
    have "0 \<le> deadline_2 p * K - X" "deadline_2 p * K - X < 2 ^ 50"
      using that assms by (simp_all add: hvf_params_ok_def)
    then have "s64 (s64 (deadline_2 p * K - X) * H) = (deadline_2 p * K - X) * H"
      by (simp add: s64_id)
    then show ?thesis
      using that assms by (simp add: cdiv_nonneg hvf_params_ok_def)
  qed
  show ?thesis
    by (simp add: compute_init_sched_value_def Let_def d1 d2 dd q ideal_value_def flip: X_def
      del: left_diff_distrib_numeral right_diff_distrib_numeral distrib_right_numeral)
qed

lemma compute_init_sched_value_ideal:
  assumes "hvf_params_ok p" "hvf_times_ok p"
  shows "compute_init_sched_value p =
    (let V = ideal_value (deadline_1 p) (deadline_2 p) (first_time (hvf p) + computation_time p)
     in Inr (V, p\<lparr>hvf := (hvf p)\<lparr>init_sched_value := V, curr_sched_value := V\<rparr>\<rparr>))"
proof -
  have "s64 (first_time (hvf p) + computation_time p) = first_time (hvf p) + computation_time p"
    using assms(2) by (intro s64_id) (simp_all add: hvf_times_ok_def)
  then show ?thesis using compute_init_sched_value_s64 [OF assms(1)] by simp
qed

lemma compute_init_sched_value_traps:
  assumes "deadline_1 p = deadline_2 p"
    and "s64 (first_time (hvf p) + computation_time p) = s64 (deadline_1 p * K)"
  shows "compute_init_sched_value p = Inl Div_trap"
  using assms by (simp add: compute_init_sched_value_def cdiv_def s64_def)

lemma time_slice_eq: "time_slice v = (max 1 (min K v) * 990) div K + 10"
proof -
  define w where "w = max 1 (min K v)"
  have w: "1 \<le> w" "w \<le> K" by (simp_all add: w_def)
  have "(w * 990) div K \<le> (K * 990) div K" using w by (intro zdiv_mono1) simp_all
  then have "s64 ((w * 990) div K + 10) = (w * 990) div K + 10"
    using w by (intro s64_id) (simp_all add: pos_imp_zdiv_nonneg_iff)
  moreover have "s64 (w * 990) sdiv K = (w * 990) div K"
    using w by (simp add: s64_id sdiv_nonneg)
  moreover have "time_slice v = s64 (s64 (w * 990) sdiv K + 10)"
    by (simp add: time_slice_def Let_def w_def)
  ultimately show ?thesis by (simp add: w_def)
qed

lemma time_slice_mono: "v \<le> w \<Longrightarrow> time_slice v \<le> time_slice w"
  unfolding time_slice_eq by (intro add_mono zdiv_mono1 mult_right_mono) auto

text \<open>Decay and penalty: one shape, \<open>old - (f * old) / 100\<close>, then the floor at zero.\<close>

lemma decay_range:
  fixes old f :: int
  assumes "0 \<le> old" "old \<le> H" "0 \<le> f" "f * old < 2 ^ 63"
  defines "new \<equiv> s64 (old - s64 (f * old) sdiv 100)"
  shows "new \<le> old" "f * old \<ge> 100 * old \<Longrightarrow> new \<le> 0" "- (2 ^ 63) \<le> new"
proof -
  have nn: "0 \<le> f * old" using assms(1,3) by simp
  then have sd: "s64 (f * old) sdiv 100 = (f * old) div 100"
    using assms(4) by (simp add: s64_id sdiv_nonneg)
  have q: "0 \<le> (f * old) div 100" "(f * old) div 100 < 2 ^ 62"
    using nn assms(4) by simp_all
  have new: "new = old - (f * old) div 100"
    unfolding new_def sd using q assms(1,2) by (intro s64_id) simp_all
  show "new \<le> old" "- (2 ^ 63) \<le> new" using q assms(1) by (simp_all add: new)
  show "new \<le> 0" if "f * old \<ge> 100 * old"
  proof -
    have "(100 * old) div 100 \<le> (f * old) div 100" using that by (intro zdiv_mono1) simp_all
    then show ?thesis by (simp add: new)
  qed
qed

lemma reduce_sched_value_range:
  assumes "0 \<le> curr_sched_value e" "curr_sched_value e \<le> H"
    and "0 \<le> time_used e" "time_used e < 2 ^ 56"
  shows "0 \<le> fst (reduce_sched_value e)" "fst (reduce_sched_value e) \<le> H"
    and "curr_sched_value e \<noteq> 0 \<Longrightarrow> fst (reduce_sched_value e) \<le> curr_sched_value e"
proof -
  have "time_used e * curr_sched_value e \<le> 2 ^ 56 * 100"
    using assms by (intro mult_mono) simp_all
  then have "time_used e * curr_sched_value e < 2 ^ 63" by simp
  from decay_range [OF assms(1-3) this] assms(1,2)
  show "0 \<le> fst (reduce_sched_value e)" "fst (reduce_sched_value e) \<le> H"
    and "curr_sched_value e \<noteq> 0 \<Longrightarrow> fst (reduce_sched_value e) \<le> curr_sched_value e"
    by (auto simp: reduce_sched_value_def Let_def)
qed

text \<open>
  \<open>303700049\<close> milliseconds is the largest overrun whose square times 100 still fits a
  \<open>long\<close>.
\<close>

lemma penalty_hvf_entity_range:
  assumes "0 \<le> curr_sched_value e" "curr_sched_value e \<le> H"
    and "0 \<le> time_used e - ctime" "time_used e - ctime \<le> 303700049"
  shows "0 \<le> fst (penalty_hvf_entity e ctime)" "fst (penalty_hvf_entity e ctime) \<le> H"
    and "curr_sched_value e \<noteq> 0 \<Longrightarrow> fst (penalty_hvf_entity e ctime) \<le> curr_sched_value e"
proof -
  define d where "d = time_used e - ctime"
  have d: "0 \<le> d" "d \<le> 303700049" using assms by (simp_all add: d_def)
  have dd: "d * d \<le> 303700049 * 303700049" using d by (intro mult_mono) simp_all
  then have "d * d * curr_sched_value e \<le> (303700049 * 303700049) * 100"
    using assms(1,2) d by (intro mult_mono) simp_all
  then have lt: "d * d * curr_sched_value e < 2 ^ 63" by simp
  have s: "s64 d = d" "s64 (d * d) = d * d"
    using d dd by (auto intro!: s64_id intro: order_trans [of _ 0])
  have nn: "0 \<le> d * d" using d by simp
  from decay_range [OF assms(1,2) nn lt] assms(1,2) s
  show "0 \<le> fst (penalty_hvf_entity e ctime)" "fst (penalty_hvf_entity e ctime) \<le> H"
    and "curr_sched_value e \<noteq> 0 \<Longrightarrow> fst (penalty_hvf_entity e ctime) \<le> curr_sched_value e"
    by (auto simp: penalty_hvf_entity_def Let_def simp flip: d_def)
qed

end
