(* ===== verification/Value_Queue.thy ===== *)
theory Value_Queue
  imports KPrelude
begin

text \<open>
  The contract of a queue ordered by value: entities are kept lowest value first, an entity
  enters in front of the entities whose value is not below its own, and the last one is served
  next. The locale states the laws; the facts a scheduler relies on (the pick has the highest
  value, a newcomer overtakes only strictly lower values, the service order) are proved once
  from them.
\<close>

section \<open>Insertion by value\<close>

text \<open>Insertion in front of the first entity whose value is not below the new one.\<close>

fun ins_by :: "('a \<Rightarrow> int) \<Rightarrow> 'a \<Rightarrow> 'a list \<Rightarrow> 'a list" where
  "ins_by v x [] = [x]"
| "ins_by v x (y # ys) = (if v x \<le> v y then x # y # ys else y # ins_by v x ys)"

abbreviation sorted_by :: "('a \<Rightarrow> int) \<Rightarrow> 'a list \<Rightarrow> bool" where
  "sorted_by v \<equiv> sorted_wrt (\<lambda>x y. v x \<le> v y)"

lemma set_ins_by [simp]: "set (ins_by v x xs) = insert x (set xs)"
  by (induction xs) auto

lemma length_ins_by [simp]: "length (ins_by v x xs) = Suc (length xs)"
  by (induction xs) auto

lemma ins_by_not_Nil [simp]: "ins_by v x xs \<noteq> []"
  by (cases xs) auto

lemma distinct_ins_by [simp]: "distinct (ins_by v x xs) \<longleftrightarrow> distinct xs \<and> x \<notin> set xs"
  by (induction xs) auto

lemma sorted_ins_by: "sorted_by v xs \<Longrightarrow> sorted_by v (ins_by v x xs)"
  by (induction xs) (auto intro: order_trans)

lemma ins_by_append:
  "sorted_by v (xs @ y # ys) \<Longrightarrow>
   ins_by v x (xs @ y # ys) =
     (if v x \<le> v y then ins_by v x xs @ y # ys else xs @ y # ins_by v x ys)"
  by (induction xs) (auto intro: order_trans)

lemma ins_by_cong: "v x = w x \<Longrightarrow> (\<And>y. y \<in> set xs \<Longrightarrow> v y = w y) \<Longrightarrow> ins_by v x xs = ins_by w x xs"
  by (induction xs) auto

lemma sorted_by_cong: "(\<And>y. y \<in> set xs \<Longrightarrow> v y = w y) \<Longrightarrow> sorted_by v xs = sorted_by w xs"
  by (induction xs) auto

lemma ins_by_end: "\<forall>y \<in> set xs. v y < v x \<Longrightarrow> ins_by v x xs = xs @ [x]"
  by (induction xs) auto

lemma ins_by_last:
  "xs \<noteq> [] \<Longrightarrow> v x \<le> v (last xs) \<Longrightarrow> last (ins_by v x xs) = last xs"
  by (induction xs) auto

lemma sorted_by_last: "sorted_by v xs \<Longrightarrow> y \<in> set xs \<Longrightarrow> v y \<le> v (last xs)"
  by (induction xs) auto

section \<open>The interface\<close>

text \<open>Serving a queue: pick the next entity, remove it, and go on, at most \<open>n\<close> times.\<close>

fun serve :: "('q \<Rightarrow> 'e option) \<Rightarrow> ('e \<Rightarrow> 'q \<Rightarrow> 'q) \<Rightarrow> nat \<Rightarrow> 'q \<Rightarrow> 'e list" where
  "serve pick deq 0 q = []"
| "serve pick deq (Suc n) q =
     (case pick q of None \<Rightarrow> [] | Some x \<Rightarrow> x # serve pick deq n (deq x q))"

locale value_queue =
  fixes order :: "'q \<Rightarrow> 'e list"
    and key :: "'q \<Rightarrow> 'e \<Rightarrow> int"
    and invar :: "'q \<Rightarrow> bool"
    and can :: "'e \<Rightarrow> 'q \<Rightarrow> bool"
    and enq :: "'e \<Rightarrow> 'q \<Rightarrow> 'q"
    and deq :: "'e \<Rightarrow> 'q \<Rightarrow> 'q"
    and pick :: "'q \<Rightarrow> 'e option"
  assumes distinct: "invar q \<Longrightarrow> distinct (order q)"
    and sorted: "invar q \<Longrightarrow> sorted_by (key q) (order q)"
    and pick: "invar q \<Longrightarrow> pick q = (if order q = [] then None else Some (last (order q)))"
    and can_fresh: "invar q \<Longrightarrow> can x q \<Longrightarrow> x \<notin> set (order q)"
    and enq_invar: "invar q \<Longrightarrow> can x q \<Longrightarrow> invar (enq x q)"
    and enq_order: "invar q \<Longrightarrow> can x q \<Longrightarrow> order (enq x q) = ins_by (key (enq x q)) x (order q)"
    and enq_key: "invar q \<Longrightarrow> can x q \<Longrightarrow> y \<noteq> x \<Longrightarrow> key (enq x q) y = key q y"
    and deq_invar: "invar q \<Longrightarrow> x \<in> set (order q) \<Longrightarrow> invar (deq x q)"
    and deq_order: "invar q \<Longrightarrow> x \<in> set (order q) \<Longrightarrow> order (deq x q) = remove1 x (order q)"
    and deq_key: "invar q \<Longrightarrow> x \<in> set (order q) \<Longrightarrow> key (deq x q) y = key q y"
begin

lemma pick_Some_iff: "invar q \<Longrightarrow> pick q = Some x \<longleftrightarrow> order q \<noteq> [] \<and> x = last (order q)"
  by (auto simp: pick)

lemma pick_max:
  assumes "invar q" "pick q = Some x"
  shows "x \<in> set (order q) \<and> (\<forall>y \<in> set (order q). key q y \<le> key q x)"
  using assms sorted_by_last [OF sorted] by (auto simp: pick_Some_iff)

lemma enq_picks_new:
  assumes i: "invar q" and c: "can x q"
  shows "pick (enq x q) = Some x \<longleftrightarrow> (\<forall>y \<in> set (order q). key q y < key (enq x q) x)"
proof
  note same = enq_key [OF i c]
  assume "\<forall>y \<in> set (order q). key q y < key (enq x q) x"
  then have "order (enq x q) = order q @ [x]"
    using can_fresh [OF i c] same by (auto simp: enq_order [OF i c] intro!: ins_by_end) metis
  then show "pick (enq x q) = Some x" by (simp add: pick enq_invar [OF i c])
next
  note same = enq_key [OF i c]
  assume p: "pick (enq x q) = Some x"
  show "\<forall>y \<in> set (order q). key q y < key (enq x q) x"
  proof (rule ccontr)
    assume "\<not> ?thesis"
    then obtain y where y: "y \<in> set (order q)" "key (enq x q) x \<le> key q y"
      by (meson not_less)
    then have ne: "order q \<noteq> []" and last: "key q y \<le> key q (last (order q))"
      using sorted_by_last [OF sorted [OF i]] by auto
    have fresh: "last (order q) \<noteq> x" using ne can_fresh [OF i c] last_in_set by metis
    with y last have "key (enq x q) x \<le> key (enq x q) (last (order q))"
      by (simp add: same)
    then have "last (order (enq x q)) = last (order q)"
      using ne by (simp add: enq_order [OF i c] ins_by_last)
    with p fresh show False by (simp add: pick enq_invar [OF i c] split: if_splits)
  qed
qed

lemma enq_keeps_pick:
  assumes "invar q" "can x q" "pick q = Some m" "key (enq x q) x \<le> key q m"
  shows "pick (enq x q) = Some m"
proof -
  have ne: "order q \<noteq> []" and m: "m = last (order q)" using assms(1,3) by (auto simp: pick_Some_iff)
  then have "m \<noteq> x" using can_fresh [OF assms(1,2)] last_in_set by metis
  then have "key (enq x q) x \<le> key (enq x q) (last (order q))"
    using assms m by (simp add: enq_key)
  then show ?thesis
    using ne m assms by (simp add: pick enq_invar enq_order ins_by_last)
qed

lemma serve_order:
  "invar q \<Longrightarrow> n = length (order q) \<Longrightarrow> serve pick deq n q = rev (order q)"
proof (induction n arbitrary: q)
  case (Suc n)
  then have ne: "order q \<noteq> []" by auto
  have mem: "last (order q) \<in> set (order q)" using ne by simp
  have d: "order (deq (last (order q)) q) = butlast (order q)"
    using Suc.prems(1) mem ne distinct by (simp add: deq_order remove1_last)
  have s: "serve pick deq n (deq (last (order q)) q) = rev (butlast (order q))"
    using Suc.IH [OF deq_invar [OF Suc.prems(1) mem]] d
    by (simp flip: Suc.prems(2))
  have r: "rev (order q) = last (order q) # rev (butlast (order q))"
    using ne by (metis append_butlast_last_id rev_eq_Cons_iff rev_rev_ident)
  show ?case using ne Suc.prems(1) s by (simp add: pick r)
qed simp

lemma serve_descending:
  assumes "invar q"
  shows "sorted_wrt (\<lambda>x y. key q y \<le> key q x) (serve pick deq (length (order q)) q)"
  using sorted [OF assms] by (simp add: serve_order [OF assms] sorted_wrt_rev)

end

end
