(* ===== verification/Hvf_Queue.thy ===== *)
theory Hvf_Queue
  imports Hvf_Value Value_Queue
begin

text \<open>
  The run queue of the class: \<open>struct hvf_rq\<close> (\<^verbatim>\<open>kernel/sched/sched.h\<close>) and the operations of
  \<^verbatim>\<open>kernel/sched/hvf.c\<close> that insert, remove and pick entities. The queue is a binary search
  tree of entities ordered by \<open>curr_sched_value\<close>, with the rightmost entity cached in
  \<open>max_value_entity\<close>. The values themselves live in the tasks, so an operation takes and
  returns the queue together with the task store.

  The generic red-black tree (\<^verbatim>\<open>lib/rbtree.c\<close>) is not part of this repository: its functions
  are the fields of \<open>rb_lib\<close>, and \<open>rb_lib_ok\<close> states what its documentation promises,
  in terms of the in-order sequence of the nodes.
\<close>

declare set_inorder [simp del] length_inorder [simp del]

section \<open>The red-black tree library\<close>

record rb_lib =
  rb_insert_color :: "tid \<Rightarrow> tid tree \<Rightarrow> tid tree"
  rb_erase :: "tid \<Rightarrow> tid tree \<Rightarrow> tid tree"
  rb_next :: "tid tree \<Rightarrow> tid \<Rightarrow> tid option"
  rb_prev :: "tid tree \<Rightarrow> tid \<Rightarrow> tid option"
  rb_last :: "tid tree \<Rightarrow> tid option"

definition rb_lib_ok :: "rb_lib \<Rightarrow> bool" where
  "rb_lib_ok L \<longleftrightarrow>
     (\<forall>t x. x \<in> set (inorder t) \<longrightarrow> inorder (rb_insert_color L x t) = inorder t) \<and>
     (\<forall>t x. distinct (inorder t) \<longrightarrow> x \<in> set (inorder t) \<longrightarrow>
        inorder (rb_erase L x t) = remove1 x (inorder t)) \<and>
     (\<forall>t x. distinct (inorder t) \<longrightarrow> x \<in> set (inorder t) \<longrightarrow> rb_next L t x = next_in (inorder t) x) \<and>
     (\<forall>t x. distinct (inorder t) \<longrightarrow> x \<in> set (inorder t) \<longrightarrow> rb_prev L t x = prev_in (inorder t) x) \<and>
     (\<forall>t. rb_last L t = (if t = Leaf then None else Some (last (inorder t))))"

lemma rb_lib_okD:
  assumes "rb_lib_ok L"
  shows "x \<in> set (inorder t) \<Longrightarrow> inorder (rb_insert_color L x t) = inorder t"
    and "distinct (inorder t) \<Longrightarrow> x \<in> set (inorder t) \<Longrightarrow>
      inorder (rb_erase L x t) = remove1 x (inorder t)"
    and "distinct (inorder t) \<Longrightarrow> x \<in> set (inorder t) \<Longrightarrow> rb_next L t x = next_in (inorder t) x"
    and "distinct (inorder t) \<Longrightarrow> x \<in> set (inorder t) \<Longrightarrow> rb_prev L t x = prev_in (inorder t) x"
    and "rb_last L t = (if t = Leaf then None else Some (last (inorder t)))"
  using assms unfolding rb_lib_ok_def by blast+

section \<open>Operations\<close>

type_synonym hvf_store = "hvf_rq \<times> (tid \<Rightarrow> task_struct)"

text \<open>The value of an entity, \<open>se->curr_sched_value\<close>, in a task store.\<close>

abbreviation val :: "(tid \<Rightarrow> task_struct) \<Rightarrow> tid \<Rightarrow> int" where
  "val ts t \<equiv> curr_sched_value (hvf (ts t))"

definition init_hvf_rq :: "hvf_rq \<Rightarrow> hvf_rq" where
  "init_hvf_rq q =
     q\<lparr>hvf_task_queue := Leaf, max_value_entity := None, hvf_curr := None, nr_hvf_queued := 0\<rparr>"

definition hvf_rq_empty :: "hvf_rq \<Rightarrow> bool" where
  "hvf_rq_empty q = (case hvf_task_queue q of Leaf \<Rightarrow> True | _ \<Rightarrow> False)"

definition pick_entity_hvf :: "hvf_rq \<Rightarrow> tid option" where
  "pick_entity_hvf q = max_value_entity q"

text \<open>
  The descent of \<open>hvf_rq_rbtree_insert\<close>: the difference of two \<open>long\<close>s is stored in an
  \<open>int\<close> before its sign is tested.
\<close>

fun rb_descend :: "(tid \<Rightarrow> int) \<Rightarrow> tid \<Rightarrow> tid tree \<Rightarrow> tid tree" where
  "rb_descend v x Leaf = Node Leaf x Leaf"
| "rb_descend v x (Node l y r) =
     (let result = s32 (s64 (v x - v y)) in
      if result \<le> 0 then Node (rb_descend v x l) y r else Node l y (rb_descend v x r))"

definition hvf_rq_rbtree_insert ::
    "rb_lib \<Rightarrow> (tid \<Rightarrow> task_struct) \<Rightarrow> tid tree \<Rightarrow> tid \<Rightarrow> tid tree" where
  "hvf_rq_rbtree_insert L ts root x = rb_insert_color L x (rb_descend (val ts) x root)"

definition enqueue_hvf_entity :: "rb_lib \<Rightarrow> tid \<Rightarrow> hvf_store \<Rightarrow> hvf_store" where
  "enqueue_hvf_entity L x = (\<lambda>(q, ts).
     let task_to_eq = ts x;
         e = (if exceeded_time task_to_eq
              then snd (penalty_hvf_entity (hvf task_to_eq) (computation_time task_to_eq))
              else hvf task_to_eq);
         ts = ts(x := task_to_eq\<lparr>hvf := e\<rparr>);
         root = hvf_rq_rbtree_insert L ts (hvf_task_queue q) x;
         q = q\<lparr>hvf_task_queue := root, nr_hvf_queued := u32 (nr_hvf_queued q + 1)\<rparr>;
         ts = ts(x := (ts x)\<lparr>hvf := (hvf (ts x))\<lparr>hvf_on_rq := True\<rparr>\<rparr>);
         max' = (case max_value_entity q of
                   None \<Rightarrow> rb_last L root
                 | Some m \<Rightarrow> if val ts m < val ts x then rb_next L root m else Some m)
     in (q\<lparr>max_value_entity := max'\<rparr>, ts))"

definition dequeue_hvf_entity :: "rb_lib \<Rightarrow> tid \<Rightarrow> hvf_store \<Rightarrow> bool \<times> hvf_store" where
  "dequeue_hvf_entity L x = (\<lambda>(q, ts).
     let q = (if max_value_entity q = Some x
              then q\<lparr>max_value_entity := rb_prev L (hvf_task_queue q) x\<rparr> else q);
         q = q\<lparr>hvf_task_queue := rb_erase L x (hvf_task_queue q),
               nr_hvf_queued := u32 (nr_hvf_queued q - 1)\<rparr>;
         ts = ts(x := (ts x)\<lparr>hvf := (hvf (ts x))\<lparr>hvf_on_rq := False\<rparr>\<rparr>)
     in (True, (q, ts)))"

definition set_next_hvf_entity :: "rb_lib \<Rightarrow> timespec64 \<Rightarrow> tid \<Rightarrow> hvf_store \<Rightarrow> hvf_store" where
  "set_next_hvf_entity L now x = (\<lambda>(q, ts).
     let (q, ts) = (if hvf_on_rq (hvf (ts x)) then snd (dequeue_hvf_entity L x (q, ts)) else (q, ts));
         ts = ts(x := (ts x)\<lparr>hvf := update_latest_se_hvf now (hvf (ts x))\<rparr>)
     in (q\<lparr>hvf_curr := Some x\<rparr>, ts))"

definition put_prev_hvf_entity :: "rb_lib \<Rightarrow> tid \<Rightarrow> hvf_store \<Rightarrow> hvf_store" where
  "put_prev_hvf_entity L x = (\<lambda>(q, ts).
     let (q, ts) = (if \<not> hvf_on_rq (hvf (ts x)) then enqueue_hvf_entity L x (q, ts) else (q, ts))
     in (q\<lparr>hvf_curr := None\<rparr>, ts))"

section \<open>The queue as a sorted list\<close>

text \<open>The entities in the order of the tree, lowest value first; the last one is served next.\<close>

definition queue :: "hvf_rq \<Rightarrow> tid list" where
  "queue q = inorder (hvf_task_queue q)"

lemma queue_simps [simp]:
  "queue (q\<lparr>max_value_entity := m\<rparr>) = queue q"
  "queue (q\<lparr>hvf_curr := c\<rparr>) = queue q"
  "queue (q\<lparr>nr_hvf_queued := n\<rparr>) = queue q"
  "queue (q\<lparr>hvf_task_queue := t\<rparr>) = inorder t"
  by (simp_all add: queue_def)

definition value_ok :: "int \<Rightarrow> bool" where
  "value_ok i \<longleftrightarrow> 0 \<le> i \<and> i \<le> H"

lemma s32_diff_sign:
  assumes "value_ok a" "value_ok b"
  shows "s32 (s64 (a - b)) \<le> 0 \<longleftrightarrow> a \<le> b"
proof -
  have "s64 (a - b) = a - b" "s32 (a - b) = a - b"
    using assms by (auto simp: value_ok_def intro!: s64_id s32_id)
  then show ?thesis by simp
qed

lemma inorder_rb_descend:
  assumes "value_ok (v x)" "\<forall>y \<in> set (inorder t). value_ok (v y)" "sorted_by v (inorder t)"
  shows "inorder (rb_descend v x t) = ins_by v x (inorder t)"
  using assms
proof (induction t)
  case (Node l y r)
  then have "sorted_by v (inorder l)" "sorted_by v (inorder r)"
    by (auto simp: sorted_wrt_append)
  with Node show ?case
    by (simp add: Let_def s32_diff_sign ins_by_append)
qed simp

section \<open>The queue invariant\<close>

definition hvf_inv :: "(tid \<Rightarrow> task_struct) \<Rightarrow> hvf_rq \<Rightarrow> bool" where
  "hvf_inv ts q \<longleftrightarrow>
     distinct (queue q) \<and>
     sorted_by (val ts) (queue q) \<and>
     (\<forall>t \<in> set (queue q). hvf_on_rq (hvf (ts t)) \<and> value_ok (val ts t)) \<and>
     max_value_entity q = (if queue q = [] then None else Some (last (queue q))) \<and>
     nr_hvf_queued q = int (length (queue q)) \<and>
     length (queue q) < 2 ^ 32"

text \<open>The entity as \<open>enqueue_hvf_entity\<close> inserts it: penalised when it has overrun.\<close>

definition enq_entity :: "task_struct \<Rightarrow> sched_hvf_entity" where
  "enq_entity p =
     (if exceeded_time p then snd (penalty_hvf_entity (hvf p) (computation_time p)) else hvf p)"

definition can_enq :: "(tid \<Rightarrow> task_struct) \<Rightarrow> hvf_rq \<Rightarrow> tid \<Rightarrow> bool" where
  "can_enq ts q x \<longleftrightarrow>
     x \<notin> set (queue q) \<and> value_ok (curr_sched_value (enq_entity (ts x))) \<and>
     length (queue q) + 1 < 2 ^ 32"

lemma hvf_invD:
  assumes "hvf_inv ts q"
  shows "distinct (queue q)" "sorted_by (val ts) (queue q)"
    and "t \<in> set (queue q) \<Longrightarrow> hvf_on_rq (hvf (ts t))"
    and "t \<in> set (queue q) \<Longrightarrow> value_ok (val ts t)"
    and "max_value_entity q = (if queue q = [] then None else Some (last (queue q)))"
    and "nr_hvf_queued q = int (length (queue q))"
    and "length (queue q) < 2 ^ 32"
  using assms by (simp_all add: hvf_inv_def)

lemma hvf_inv_cong:
  "(\<And>t. t \<in> set (queue q) \<Longrightarrow> hvf_on_rq (hvf (ts t)) = hvf_on_rq (hvf (ts' t)) \<and> val ts t = val ts' t) \<Longrightarrow>
   hvf_inv ts q = hvf_inv ts' q"
  using sorted_by_cong [of "queue q" "val ts" "val ts'"] by (auto simp: hvf_inv_def)

lemma hvf_inv_curr [simp]: "hvf_inv ts (q\<lparr>hvf_curr := c\<rparr>) = hvf_inv ts q"
  by (simp add: hvf_inv_def)

lemma hvf_inv_init: "hvf_inv ts (init_hvf_rq q)"
  by (simp add: hvf_inv_def init_hvf_rq_def)

lemma hvf_rq_empty_iff: "hvf_rq_empty q \<longleftrightarrow> queue q = []"
  by (cases "hvf_task_queue q") (simp_all add: hvf_rq_empty_def queue_def)

lemma enqueue_hvf_entity_eq:
  assumes L: "rb_lib_ok L" and inv: "hvf_inv ts q" and c: "can_enq ts q x"
  obtains q' where
    "enqueue_hvf_entity L x (q, ts) =
       (q', ts(x := (ts x)\<lparr>hvf := (enq_entity (ts x))\<lparr>hvf_on_rq := True\<rparr>\<rparr>))"
    "queue q' = ins_by (val (ts(x := (ts x)\<lparr>hvf := enq_entity (ts x)\<rparr>))) x (queue q)"
    "hvf_curr q' = hvf_curr q"
    "hvf_inv (ts(x := (ts x)\<lparr>hvf := (enq_entity (ts x))\<lparr>hvf_on_rq := True\<rparr>\<rparr>)) q'"
proof -
  define ts1 where "ts1 = ts(x := (ts x)\<lparr>hvf := enq_entity (ts x)\<rparr>)"
  define ts2 where "ts2 = ts(x := (ts x)\<lparr>hvf := (enq_entity (ts x))\<lparr>hvf_on_rq := True\<rparr>\<rparr>)"
  define root where "root = hvf_rq_rbtree_insert L ts1 (hvf_task_queue q) x"
  define mx where "mx = (case max_value_entity q of None \<Rightarrow> rb_last L root
    | Some m \<Rightarrow> if val ts2 m < val ts2 x then rb_next L root m else Some m)"
  define q' where "q' = q\<lparr>hvf_task_queue := root, nr_hvf_queued := u32 (nr_hvf_queued q + 1),
    max_value_entity := mx\<rparr>"
  note d = hvf_invD [OF inv]
  have x: "x \<notin> set (queue q)" and vx: "value_ok (val ts1 x)"
    using c by (simp_all add: can_enq_def ts1_def)
  have v12: "val ts2 t = val ts1 t" for t by (simp add: ts1_def ts2_def)
  have old: "val ts1 t = val ts t" "val ts2 t = val ts t" if "t \<in> set (queue q)" for t
    using x that by (auto simp: ts1_def ts2_def)
  have sorted: "sorted_by (val ts1) (queue q)"
    using sorted_by_cong [of "queue q" "val ts" "val ts1"] d(2) old by simp
  have "inorder (rb_descend (val ts1) x (hvf_task_queue q)) = ins_by (val ts1) x (queue q)"
    using inorder_rb_descend [of "val ts1" x "hvf_task_queue q"] vx sorted d(4) old
    by (simp add: queue_def)
  then have root: "inorder root = ins_by (val ts1) x (queue q)"
    using rb_lib_okD(1) [OF L, of x "rb_descend (val ts1) x (hvf_task_queue q)"]
    by (simp add: root_def hvf_rq_rbtree_insert_def)
  have eq: "enqueue_hvf_entity L x (q, ts) = (q', ts2)"
    by (cases "max_value_entity q")
      (simp_all add: enqueue_hvf_entity_def enq_entity_def ts1_def ts2_def root_def q'_def mx_def
        Let_def)
  have mx: "mx = Some (last (ins_by (val ts1) x (queue q)))"
  proof (cases "queue q = []")
    case True
    then show ?thesis
      using d(5) root rb_lib_okD(5) [OF L, of root] by (cases root) (simp_all add: mx_def)
  next
    case False
    let ?m = "last (queue q)"
    have m: "max_value_entity q = Some ?m" using d(5) False by simp
    show ?thesis
    proof (cases "val ts1 ?m < val ts1 x")
      case True
      have "\<forall>y \<in> set (queue q). val ts1 y < val ts1 x"
        using sorted_by_last [OF sorted] True by (meson le_less_trans)
      then have end': "ins_by (val ts1) x (queue q) = queue q @ [x]" by (rule ins_by_end)
      have "next_in (butlast (queue q) @ ?m # [x]) ?m = Some x"
        using d(1) False by (subst next_in_mid) (simp_all add: last_notin_butlast)
      moreover have "inorder root = butlast (queue q) @ ?m # [x]"
        using root end' False by simp
      moreover have "distinct (inorder root)" "?m \<in> set (inorder root)"
        using root d(1) x False by simp_all
      ultimately have "rb_next L root ?m = Some x" by (simp add: rb_lib_okD(3) [OF L])
      then show ?thesis using True m end' by (simp add: mx_def v12)
    next
      case False
      then show ?thesis
        using \<open>queue q \<noteq> []\<close> m by (simp add: mx_def v12 ins_by_last)
    qed
  qed
  have "hvf_inv ts2 q'"
    unfolding hvf_inv_def
    using root mx d x sorted_ins_by [OF sorted, of x] vx old c
    by (simp add: q'_def v12 can_enq_def u32_id) (simp add: ts2_def)
  moreover have "queue q' = ins_by (val ts1) x (queue q)" by (simp add: q'_def root)
  moreover have "hvf_curr q' = hvf_curr q" by (simp add: q'_def)
  ultimately show thesis using eq that by (simp add: ts1_def ts2_def)
qed

lemma dequeue_hvf_entity_eq:
  assumes L: "rb_lib_ok L" and inv: "hvf_inv ts q" and x: "x \<in> set (queue q)"
  obtains q' where
    "dequeue_hvf_entity L x (q, ts) = (True, q', ts(x := (ts x)\<lparr>hvf := (hvf (ts x))\<lparr>hvf_on_rq := False\<rparr>\<rparr>))"
    "queue q' = remove1 x (queue q)"
    "hvf_curr q' = hvf_curr q"
    "hvf_inv (ts(x := (ts x)\<lparr>hvf := (hvf (ts x))\<lparr>hvf_on_rq := False\<rparr>\<rparr>)) q'"
proof -
  define ts' where "ts' = ts(x := (ts x)\<lparr>hvf := (hvf (ts x))\<lparr>hvf_on_rq := False\<rparr>\<rparr>)"
  define mx where "mx = (if max_value_entity q = Some x then rb_prev L (hvf_task_queue q) x
    else max_value_entity q)"
  define q' where "q' = q\<lparr>max_value_entity := mx, hvf_task_queue := rb_erase L x (hvf_task_queue q),
    nr_hvf_queued := u32 (nr_hvf_queued q - 1)\<rparr>"
  note d = hvf_invD [OF inv]
  have eq: "dequeue_hvf_entity L x (q, ts) = (True, q', ts')"
    by (simp add: dequeue_hvf_entity_def q'_def ts'_def mx_def Let_def)
  have er: "queue q' = remove1 x (queue q)"
    using rb_lib_okD(2) [OF L] d(1) x by (simp add: q'_def queue_def)
  have ne: "queue q \<noteq> []" using x by auto
  have mx: "mx = (if remove1 x (queue q) = [] then None else Some (last (remove1 x (queue q))))"
  proof (cases "x = last (queue q)")
    case True
    then show ?thesis
      using d(1,5) ne x rb_lib_okD(4) [OF L, of "hvf_task_queue q" x]
      by (simp add: mx_def prev_in_last remove1_last queue_def)
  next
    case False
    then show ?thesis using d(5) ne last_remove1 [OF ne False] by (simp add: mx_def)
  qed
  have len: "length (remove1 x (queue q)) = length (queue q) - 1" "1 \<le> length (queue q)"
    using x ne by (simp_all add: length_remove1 Suc_leI)
  have len_ok: "u32 (int (length (queue q)) - 1) = int (length (queue q)) - 1"
    using d(7) ne by (intro u32_id) (simp_all add: Suc_leI)
  have "hvf_inv ts' q'"
    unfolding hvf_inv_def er
    using d mx len sorted_wrt_remove1 [OF d(2), of x] len_ok
      sorted_by_cong [of "remove1 x (queue q)" "val ts" "val ts'"]
    by (auto simp: q'_def ts'_def u32_id set_remove1_eq)
  moreover have "hvf_curr q' = hvf_curr q" by (simp add: q'_def)
  ultimately show thesis using eq er that by (simp add: ts'_def)
qed

section \<open>The queue implements the value-queue interface\<close>

text \<open>
  The provider's state is the tree library, the queue and the task store. Removal drops the
  boolean that \<open>dequeue_hvf_entity\<close> returns, which is always true.
\<close>

type_synonym hvf_prov = "rb_lib \<times> hvf_store"

definition hvf_order :: "hvf_prov \<Rightarrow> tid list" where
  "hvf_order = (\<lambda>(L, q, ts). queue q)"

definition hvf_key :: "hvf_prov \<Rightarrow> tid \<Rightarrow> int" where
  "hvf_key = (\<lambda>(L, q, ts). val ts)"

definition hvf_invar :: "hvf_prov \<Rightarrow> bool" where
  "hvf_invar = (\<lambda>(L, q, ts). rb_lib_ok L \<and> hvf_inv ts q)"

definition hvf_can :: "tid \<Rightarrow> hvf_prov \<Rightarrow> bool" where
  "hvf_can x = (\<lambda>(L, q, ts). can_enq ts q x)"

definition hvf_enq :: "tid \<Rightarrow> hvf_prov \<Rightarrow> hvf_prov" where
  "hvf_enq x = (\<lambda>(L, st). (L, enqueue_hvf_entity L x st))"

definition hvf_deq :: "tid \<Rightarrow> hvf_prov \<Rightarrow> hvf_prov" where
  "hvf_deq x = (\<lambda>(L, st). (L, snd (dequeue_hvf_entity L x st)))"

definition hvf_pick :: "hvf_prov \<Rightarrow> tid option" where
  "hvf_pick = (\<lambda>(L, q, ts). pick_entity_hvf q)"

lemmas hvf_prov_defs =
  hvf_order_def hvf_key_def hvf_invar_def hvf_can_def hvf_enq_def hvf_deq_def hvf_pick_def

interpretation hq: value_queue hvf_order hvf_key hvf_invar hvf_can hvf_enq hvf_deq hvf_pick
proof unfold_locales
  fix s :: hvf_prov and x y
  obtain L q ts where s: "s = (L, q, ts)" by (cases s) auto
  assume i: "hvf_invar s"
  then have L: "rb_lib_ok L" and inv: "hvf_inv ts q" by (simp_all add: hvf_prov_defs s)
  show "distinct (hvf_order s)" "sorted_by (hvf_key s) (hvf_order s)"
    "hvf_pick s = (if hvf_order s = [] then None else Some (last (hvf_order s)))"
    using hvf_invD [OF inv] by (simp_all add: hvf_prov_defs s pick_entity_hvf_def)
  {
    assume "hvf_can x s"
    then have c: "can_enq ts q x" by (simp add: hvf_prov_defs s)
    obtain q' where *: "enqueue_hvf_entity L x (q, ts) =
        (q', ts(x := (ts x)\<lparr>hvf := (enq_entity (ts x))\<lparr>hvf_on_rq := True\<rparr>\<rparr>))"
        "queue q' = ins_by (val (ts(x := (ts x)\<lparr>hvf := enq_entity (ts x)\<rparr>))) x (queue q)"
        "hvf_inv (ts(x := (ts x)\<lparr>hvf := (enq_entity (ts x))\<lparr>hvf_on_rq := True\<rparr>\<rparr>)) q'"
      by (rule enqueue_hvf_entity_eq [OF L inv c])
    show "x \<notin> set (hvf_order s)"
      using c by (simp add: hvf_prov_defs s can_enq_def)
    show "hvf_invar (hvf_enq x s)" using L * by (simp add: hvf_prov_defs s)
    show "hvf_order (hvf_enq x s) = ins_by (hvf_key (hvf_enq x s)) x (hvf_order s)"
      using * by (auto simp: hvf_prov_defs s intro: ins_by_cong)
    show "y \<noteq> x \<Longrightarrow> hvf_key (hvf_enq x s) y = hvf_key s y"
      using * by (simp add: hvf_prov_defs s)
  }
  {
    assume "x \<in> set (hvf_order s)"
    then have x: "x \<in> set (queue q)" by (simp add: hvf_prov_defs s)
    obtain q' where *: "dequeue_hvf_entity L x (q, ts) =
          (True, q', ts(x := (ts x)\<lparr>hvf := (hvf (ts x))\<lparr>hvf_on_rq := False\<rparr>\<rparr>))"
        "queue q' = remove1 x (queue q)"
        "hvf_inv (ts(x := (ts x)\<lparr>hvf := (hvf (ts x))\<lparr>hvf_on_rq := False\<rparr>\<rparr>)) q'"
      by (rule dequeue_hvf_entity_eq [OF L inv x])
    show "hvf_invar (hvf_deq x s)" "hvf_order (hvf_deq x s) = remove1 x (hvf_order s)"
      "hvf_key (hvf_deq x s) y = hvf_key s y"
      using L * by (simp_all add: hvf_prov_defs s)
  }
qed

end
