(* ===== verification/Resched.thy ===== *)
theory Resched
  imports Sched_Types
begin

text \<open>
  Asking a cpu to reschedule (\<^verbatim>\<open>kernel/sched/core.c\<close>): the flag in the thread info of the
  run queue's current task, the per-cpu preemption flag when the cpu is the executing one, and
  the interrupt to another cpu unless its idle loop polls the flag.
\<close>

datatype tif = TIF_NEED_RESCHED | TIF_NEED_RESCHED_LAZY

definition is_idle_task :: "task_struct \<Rightarrow> bool" where
  "is_idle_task p \<longleftrightarrow> pflags p AND 0x2 \<noteq> 0"

definition set_tif :: "tif \<Rightarrow> task_struct \<Rightarrow> task_struct" where
  "set_tif f p = (case f of
     TIF_NEED_RESCHED \<Rightarrow> p\<lparr>tif_need_resched := True\<rparr>
   | TIF_NEED_RESCHED_LAZY \<Rightarrow> p\<lparr>tif_need_resched_lazy := True\<rparr>)"

definition test_tif :: "tif \<Rightarrow> task_struct \<Rightarrow> bool" where
  "test_tif f p = (case f of
     TIF_NEED_RESCHED \<Rightarrow> tif_need_resched p
   | TIF_NEED_RESCHED_LAZY \<Rightarrow> tif_need_resched_lazy p)"

definition set_nr_and_not_polling :: "tid \<Rightarrow> tif \<Rightarrow> 'x kstate \<Rightarrow> bool \<times> 'x kstate" where
  "set_nr_and_not_polling t f s = (\<not> tif_polling (tasks s t), upd_task t (set_tif f) s)"

definition resched_curr_tif :: "cpu \<Rightarrow> tif \<Rightarrow> 'x kstate \<Rightarrow> 'x kstate" where
  "resched_curr_tif c f s =
     (let curr = rq_curr (rqs s c);
          f = (if is_idle_task (tasks s curr) \<and> f = TIF_NEED_RESCHED_LAZY
               then TIF_NEED_RESCHED else f)
      in if test_tif f (tasks s curr) \<or> test_tif TIF_NEED_RESCHED (tasks s curr) then s
         else if c = this_cpu s then
           let s = upd_task curr (set_tif f) s
           in if f = TIF_NEED_RESCHED then s\<lparr>preempt_need_resched := True\<rparr> else s
         else
           let (not_polling, s) = set_nr_and_not_polling curr f s
           in if not_polling
              then if f = TIF_NEED_RESCHED then s\<lparr>resched_ipis := resched_ipis s @ [c]\<rparr> else s
              else s)"

definition resched_curr :: "cpu \<Rightarrow> 'x kstate \<Rightarrow> 'x kstate" where
  "resched_curr c s = resched_curr_tif c TIF_NEED_RESCHED s"

text \<open>\<open>lazy\<close> is the static key of \<open>dynamic_preempt_lazy()\<close>.\<close>

definition get_lazy_tif_bit :: "bool \<Rightarrow> tif" where
  "get_lazy_tif_bit lazy = (if lazy then TIF_NEED_RESCHED_LAZY else TIF_NEED_RESCHED)"

definition resched_curr_lazy :: "bool \<Rightarrow> cpu \<Rightarrow> 'x kstate \<Rightarrow> 'x kstate" where
  "resched_curr_lazy lazy c s = resched_curr_tif c (get_lazy_tif_bit lazy) s"

definition resched_cpu :: "cpumask \<Rightarrow> cpu \<Rightarrow> 'x kstate \<Rightarrow> 'x kstate" where
  "resched_cpu online c s = (if c \<in> online \<or> c = this_cpu s then resched_curr c s else s)"

section \<open>What a request to reschedule does and leaves alone\<close>

lemma resched_curr_sets:
  "tif_need_resched (tasks (resched_curr c s) (rq_curr (rqs s c)))"
  by (simp add: resched_curr_def resched_curr_tif_def set_nr_and_not_polling_def Let_def
      test_tif_def set_tif_def)

lemma resched_curr_tif_task:
  "tasks (resched_curr_tif c f s) =
     (tasks s)(rq_curr (rqs s c) := tasks (resched_curr_tif c f s) (rq_curr (rqs s c)))"
  by (simp add: resched_curr_tif_def set_nr_and_not_polling_def Let_def)

lemma resched_curr_tif_frame [simp]:
  "rqs (resched_curr_tif c f s) = rqs s"
  "this_cpu (resched_curr_tif c f s) = this_cpu s"
  "current (resched_curr_tif c f s) = current s"
  "rt_clock (resched_curr_tif c f s) = rt_clock s"
  "rt_reads (resched_curr_tif c f s) = rt_reads s"
  "nr_cpu_ids (resched_curr_tif c f s) = nr_cpu_ids s"
  "trace (resched_curr_tif c f s) = trace s"
  "ext (resched_curr_tif c f s) = ext s"
  by (simp_all add: resched_curr_tif_def set_nr_and_not_polling_def Let_def)

lemma set_tif_frame [simp]:
  "hvf (set_tif f p) = hvf p" "tstate (set_tif f p) = tstate p" "on_rq (set_tif f p) = on_rq p"
  "sched_class (set_tif f p) = sched_class p" "prio (set_tif f p) = prio p"
  "policy (set_tif f p) = policy p" "task_cpu (set_tif f p) = task_cpu p"
  "se (set_tif f p) = se p" "pars_set (set_tif f p) = pars_set p"
  "computation_time (set_tif f p) = computation_time p"
  "deadline_1 (set_tif f p) = deadline_1 p" "deadline_2 (set_tif f p) = deadline_2 p"
  by (cases f; simp add: set_tif_def)+

lemma resched_curr_tif_task_frame [simp]:
  "hvf (tasks (resched_curr_tif c f s) t) = hvf (tasks s t)"
  "tstate (tasks (resched_curr_tif c f s) t) = tstate (tasks s t)"
  "on_rq (tasks (resched_curr_tif c f s) t) = on_rq (tasks s t)"
  "sched_class (tasks (resched_curr_tif c f s) t) = sched_class (tasks s t)"
  "prio (tasks (resched_curr_tif c f s) t) = prio (tasks s t)"
  "policy (tasks (resched_curr_tif c f s) t) = policy (tasks s t)"
  "task_cpu (tasks (resched_curr_tif c f s) t) = task_cpu (tasks s t)"
  "se (tasks (resched_curr_tif c f s) t) = se (tasks s t)"
  "pars_set (tasks (resched_curr_tif c f s) t) = pars_set (tasks s t)"
  "computation_time (tasks (resched_curr_tif c f s) t) = computation_time (tasks s t)"
  "deadline_1 (tasks (resched_curr_tif c f s) t) = deadline_1 (tasks s t)"
  "deadline_2 (tasks (resched_curr_tif c f s) t) = deadline_2 (tasks s t)"
  by (simp_all add: resched_curr_tif_def set_nr_and_not_polling_def Let_def)

end
