(* ===== verification/Hvf_Methods.thy ===== *)
theory Hvf_Methods
  imports Hvf_Queue Resched
begin

text \<open>
  The methods of \<open>hvf_sched_class\<close> on the machine state (\<^verbatim>\<open>kernel/sched/hvf.c\<close>): enqueue and
  dequeue, pick, set-next and put-prev, the tick, the class changes, fork and death, and the
  wake-up preemption check. \<open>L\<close> is the red-black tree library. The run-queue lock is held
  around each method, so a method is one atomic step.
\<close>

section \<open>Access to the HVF queue of a cpu\<close>

definition hvf_get :: "cpu \<Rightarrow> 'x kstate \<Rightarrow> hvf_store" where
  "hvf_get c s = (rq_hvf (rqs s c), tasks s)"

definition hvf_put :: "cpu \<Rightarrow> hvf_store \<Rightarrow> 'x kstate \<Rightarrow> 'x kstate" where
  "hvf_put c = (\<lambda>(q, ts) s. (upd_rq c (\<lambda>r. r\<lparr>rq_hvf := q\<rparr>) s)\<lparr>tasks := ts\<rparr>)"

abbreviation hvf_of :: "cpu \<Rightarrow> 'x kstate \<Rightarrow> hvf_rq" where
  "hvf_of c s \<equiv> rq_hvf (rqs s c)"

definition add_rq_running :: "cpu \<Rightarrow> int \<Rightarrow> 'x kstate \<Rightarrow> 'x kstate" where
  "add_rq_running c n s = upd_rq c (\<lambda>r. r\<lparr>nr_running := u32 (nr_running r + n)\<rparr>) s"

definition task_is_running :: "task_struct \<Rightarrow> bool" where
  "task_is_running p \<longleftrightarrow> tstate p = TASK_RUNNING"

section \<open>Picking\<close>

text \<open>
  With a non-empty tree and no cached maximum, \<open>task_hvf_of(NULL)\<close> is a pointer in front of
  the zero page; the caller dereferences it.
\<close>

definition pick_task_hvf :: "cpu \<Rightarrow> 'x kstate \<Rightarrow> (tid option \<times> 'x kstate) res" where
  "pick_task_hvf c s =
     (let q = hvf_of c s in
      if hvf_rq_empty q then Inr (Some (rq_idle (rqs s c)), s)
      else case pick_entity_hvf q of
             None \<Rightarrow> Inl Bad_pointer
           | Some e \<Rightarrow> Inr (Some e, s))"

section \<open>Enqueue and dequeue\<close>

definition hvf_give_default :: "tid \<Rightarrow> 'x kstate \<Rightarrow> 'x kstate res" where
  "hvf_give_default p s =
     (if \<not> pars_set (tasks s p) then
        let (now, s) = ktime_get_real_ts64 s
        in bindr (give_default_hvf_values now (tasks s p)) (\<lambda>v. Inr (set_task p v s))
      else Inr s)"

definition hvf_init_entity :: "tid \<Rightarrow> 'x kstate \<Rightarrow> 'x kstate" where
  "hvf_init_entity p s =
     (let (now, s) = ktime_get_real_ts64 s
      in upd_task p (\<lambda>v. v\<lparr>hvf := init_sched_hvf_entity now (hvf v)\<rparr>) s)"

definition hvf_compute :: "tid \<Rightarrow> 'x kstate \<Rightarrow> 'x kstate res" where
  "hvf_compute p s = bindr (compute_init_sched_value (tasks s p)) (\<lambda>(_, v). Inr (set_task p v s))"

definition enqueue_task_hvf :: "rb_lib \<Rightarrow> cpu \<Rightarrow> tid \<Rightarrow> flags \<Rightarrow> 'x kstate \<Rightarrow> 'x kstate res" where
  "enqueue_task_hvf L c p fl s =
     bindr
       (if fl AND (ENQUEUE_INITIAL OR ENQUEUE_CHANGED) \<noteq> 0 then
          bindr (hvf_give_default p s) (\<lambda>s. hvf_compute p (hvf_init_entity p s))
        else if fl AND (ENQUEUE_WAKEUP OR ENQUEUE_MIGRATED OR ENQUEUE_RESTORE) \<noteq> 0 then
          hvf_compute p s
        else Inr s)
       (\<lambda>s. Inr
         (if Some p \<noteq> hvf_curr (hvf_of c s) \<and> \<not> hvf_on_rq (hvf (tasks s p)) then
            add_rq_running c 1 (hvf_put c (enqueue_hvf_entity L p (hvf_get c s)) s)
          else s))"

definition dequeue_task_hvf ::
    "rb_lib \<Rightarrow> cpu \<Rightarrow> tid \<Rightarrow> flags \<Rightarrow> 'x kstate \<Rightarrow> (bool \<times> 'x kstate) res" where
  "dequeue_task_hvf L c p fl s =
     (if Some p \<noteq> hvf_curr (hvf_of c s) \<and> hvf_on_rq (hvf (tasks s p)) then
        let (result, st) = dequeue_hvf_entity L p (hvf_get c s)
        in Inr (result, add_rq_running c (- 1) (hvf_put c st s))
      else if Some p = hvf_curr (hvf_of c s) \<and> \<not> task_is_running (tasks s p) then
        let (result, st) =
              (if hvf_on_rq (hvf (tasks s p)) then dequeue_hvf_entity L p (hvf_get c s)
               else (True, hvf_get c s));
            s = add_rq_running c (- 1) (hvf_put c st s)
        in Inr (result, upd_rq c (\<lambda>r. r\<lparr>rq_hvf := (rq_hvf r)\<lparr>hvf_curr := None\<rparr>\<rparr>) s)
      else Inr (False, s))"

section \<open>Switching to and from a task\<close>

definition set_next_task_hvf :: "rb_lib \<Rightarrow> cpu \<Rightarrow> tid \<Rightarrow> bool \<Rightarrow> 'x kstate \<Rightarrow> 'x kstate" where
  "set_next_task_hvf L c p first s =
     (if \<not> first then s
      else let (now, s) = ktime_get_real_ts64 s
           in hvf_put c (set_next_hvf_entity L now p (hvf_get c s)) s)"

definition put_prev_task_hvf :: "rb_lib \<Rightarrow> cpu \<Rightarrow> tid \<Rightarrow> tid option \<Rightarrow> 'x kstate \<Rightarrow> 'x kstate" where
  "put_prev_task_hvf L c prev next s =
     (let (now, s) = ktime_get_real_ts64 s;
          s = upd_task prev (\<lambda>v. v\<lparr>hvf := update_used_se_hvf now (hvf v)\<rparr>) s
      in if task_is_running (tasks s prev) then
           let s = (if slice_expired (hvf (tasks s prev)) then
                      upd_task prev (\<lambda>v. v\<lparr>hvf :=
                        (snd (reduce_sched_value (hvf v)))\<lparr>slice_expired := False\<rparr>\<rparr>) s
                    else s)
           in hvf_put c (put_prev_hvf_entity L prev (hvf_get c s)) s
         else s)"

definition switching_to_hvf :: "cpu \<Rightarrow> tid \<Rightarrow> 'x kstate \<Rightarrow> 'x kstate res" where
  "switching_to_hvf c p s = hvf_give_default p s"

definition switched_to_hvf :: "cpu \<Rightarrow> tid \<Rightarrow> 'x kstate \<Rightarrow> 'x kstate" where
  "switched_to_hvf c p s = s"

definition switched_from_hvf :: "cpu \<Rightarrow> tid \<Rightarrow> 'x kstate \<Rightarrow> 'x kstate" where
  "switched_from_hvf c p s = upd_task p clear_hvf_values s"

text \<open>\<open>tick_nsec\<close> is \<open>TICK_NSEC\<close>, the length of a tick in nanoseconds.\<close>

definition task_tick_hvf :: "int \<Rightarrow> cpu \<Rightarrow> tid \<Rightarrow> bool \<Rightarrow> 'x kstate \<Rightarrow> 'x kstate" where
  "task_tick_hvf tick_nsec c cur queued s =
     (let sl = time_slice (curr_sched_value (hvf (tasks s cur)));
          s = upd_task cur (\<lambda>v. v\<lparr>hvf := (hvf v)\<lparr>runtime := s64 (runtime (hvf v) + tick_nsec)\<rparr>\<rparr>) s
      in if runtime (hvf (tasks s cur)) \<ge> s64 (s64 (sl * K) * K) then
           resched_curr c (upd_task cur (\<lambda>v. v\<lparr>hvf := (hvf v)\<lparr>slice_expired := True\<rparr>\<rparr>) s)
         else s)"

section \<open>Fork and death\<close>

definition register_entity_info :: "tid \<Rightarrow> int \<Rightarrow> 'x kstate \<Rightarrow> 'x kstate" where
  "register_entity_info p pd s =
     (let e = hvf (tasks s p);
          init_value = init_sched_value e;
          (now, s) = ktime_get_real_ts64 s;
          curr_time = now_ms now;
          turnaround_time = s64 (curr_time - first_time e);
          wait_time = s64 (turnaround_time - time_used e);
          comp_time = time_used e;
          response_time = s64 (cpu_first_answer e - first_time e)
      in s\<lparr>trace := trace s @
           [Hvf_task_terminated pd init_value turnaround_time wait_time comp_time response_time]\<rparr>)"

definition task_dead_hvf :: "rb_lib \<Rightarrow> tid \<Rightarrow> 'x kstate \<Rightarrow> 'x kstate" where
  "task_dead_hvf L p s =
     (let s = register_entity_info p (pid (tasks s p)) s;
          c = task_cpu (tasks s p);
          s = (if hvf_on_rq (hvf (tasks s p))
               then hvf_put c (snd (dequeue_hvf_entity L p (hvf_get c s))) s else s)
      in upd_rq c (\<lambda>r. r\<lparr>rq_hvf := (rq_hvf r)\<lparr>hvf_curr := None\<rparr>\<rparr>) s)"

definition task_fork_hvf :: "tid \<Rightarrow> 'x kstate \<Rightarrow> 'x kstate" where
  "task_fork_hvf p s = upd_task p clear_hvf_values s"

section \<open>Wake-up preemption\<close>

definition wakeup_preempt_hvf :: "cpu \<Rightarrow> tid \<Rightarrow> flags \<Rightarrow> 'x kstate \<Rightarrow> 'x kstate" where
  "wakeup_preempt_hvf c p fl s =
     (let cur = tasks s (current s) in
      if sched_class cur = Hvf then
        if exceeded_time cur \<and>
           curr_sched_value (hvf (tasks s p)) > curr_sched_value (hvf cur)
        then resched_curr c s else s
      else s)"

end
