(* ===== verification/Hvf_Invariant.thy ===== *)
theory Hvf_Invariant
  imports Hvf_Methods
begin

text \<open>
  The invariant of the HVF class over all cpus, and the step relation of the class as the core
  scheduler drives it: a task joins the class, wakes up, is switched to, ticks, is preempted and
  sleeps. Every step keeps the invariant, so in every reachable state each queue is sorted by
  value, the cached maximum is its last entity, the count is exact, and an entity is in at most
  one queue.
\<close>

section \<open>The invariant\<close>

abbreviation read_ms :: "'x kstate \<Rightarrow> nat \<Rightarrow> int" where
  "read_ms s i \<equiv> now_ms (rt_clock s i)"

abbreviation now_of :: "'x kstate \<Rightarrow> int" where
  "now_of s \<equiv> read_ms s (rt_reads s)"

text \<open>
  The readings of the wall clock do not go backwards and stay within \<open>303700049\<close> milliseconds
  (three and a half days) after \<open>T0\<close>; the seconds are those of a date before the year 17000.
\<close>

definition clock_ok :: "int \<Rightarrow> 'x kstate \<Rightarrow> bool" where
  "clock_ok T0 s \<longleftrightarrow>
     0 \<le> T0 \<and>
     (\<forall>i. T0 \<le> read_ms s i \<and> read_ms s i \<le> read_ms s (Suc i) \<and> read_ms s i \<le> T0 + 303700049 \<and>
          0 < tv_sec (rt_clock s i) \<and> tv_sec (rt_clock s i) < 2 ^ 39 \<and>
          0 \<le> tv_nsec (rt_clock s i) \<and> tv_nsec (rt_clock s i) < 1000000000)"

definition ent_ok :: "int \<Rightarrow> int \<Rightarrow> task_struct \<Rightarrow> bool" where
  "ent_ok T0 n p \<longleftrightarrow>
     hvf_params_ok p \<and> 0 \<le> computation_time p \<and> computation_time p < 2 ^ 40 \<and>
     0 \<le> first_time (hvf p) \<and> first_time (hvf p) < 2 ^ 60 \<and>
     value_ok (curr_sched_value (hvf p)) \<and>
     0 \<le> time_used (hvf p) \<and> time_used (hvf p) \<le> n - T0 \<and>
     T0 \<le> latest_time (hvf p) \<and> latest_time (hvf p) \<le> n"

definition hvf_sys :: "int \<Rightarrow> 'x kstate \<Rightarrow> bool" where
  "hvf_sys T0 s \<longleftrightarrow>
     clock_ok T0 s \<and>
     (\<forall>c. hvf_inv (tasks s) (hvf_of c s)) \<and>
     (\<forall>c. \<forall>t \<in> set (queue (hvf_of c s)). t < 2 ^ 31 \<and> sched_class (tasks s t) = Hvf) \<and>
     (\<forall>c d. c \<noteq> d \<longrightarrow> set (queue (hvf_of c s)) \<inter> set (queue (hvf_of d s)) = {}) \<and>
     (\<forall>t. hvf_on_rq (hvf (tasks s t)) \<longrightarrow> (\<exists>c. t \<in> set (queue (hvf_of c s)))) \<and>
     (\<forall>c t. hvf_curr (hvf_of c s) = Some t \<longrightarrow>
        t < 2 ^ 31 \<and> sched_class (tasks s t) = Hvf \<and> \<not> hvf_on_rq (hvf (tasks s t)) \<and>
        time_used (hvf (tasks s t)) \<le> latest_time (hvf (tasks s t)) - T0) \<and>
     (\<forall>t. sched_class (tasks s t) = Hvf \<longrightarrow> ent_ok T0 (now_of s) (tasks s t))"

lemma hvf_sysD:
  assumes "hvf_sys T0 s"
  shows "clock_ok T0 s" "hvf_inv (tasks s) (hvf_of c s)"
    and "t \<in> set (queue (hvf_of c s)) \<Longrightarrow> t < 2 ^ 31"
    and "t \<in> set (queue (hvf_of c s)) \<Longrightarrow> sched_class (tasks s t) = Hvf"
    and "c \<noteq> d \<Longrightarrow> set (queue (hvf_of c s)) \<inter> set (queue (hvf_of d s)) = {}"
    and "hvf_on_rq (hvf (tasks s t)) \<Longrightarrow> \<exists>c. t \<in> set (queue (hvf_of c s))"
    and "hvf_curr (hvf_of c s) = Some t \<Longrightarrow>
        t < 2 ^ 31 \<and> sched_class (tasks s t) = Hvf \<and> \<not> hvf_on_rq (hvf (tasks s t)) \<and>
        time_used (hvf (tasks s t)) \<le> latest_time (hvf (tasks s t)) - T0"
    and "sched_class (tasks s t) = Hvf \<Longrightarrow> ent_ok T0 (now_of s) (tasks s t)"
  using assms unfolding hvf_sys_def by blast+

lemma hvf_inv_upd:
  assumes "p \<notin> set (queue q)" "hvf_inv ts q"
  shows "hvf_inv (ts(p := v)) q"
proof -
  have "hvf_inv (ts(p := v)) q = hvf_inv ts q"
    by (rule hvf_inv_cong) (use assms(1) in auto)
  then show ?thesis using assms(2) by simp
qed

lemma hvf_sys_on_rq_iff:
  assumes "hvf_sys T0 s"
  shows "hvf_on_rq (hvf (tasks s t)) \<longleftrightarrow> (\<exists>c. t \<in> set (queue (hvf_of c s)))"
  using hvf_sysD(6) [OF assms] hvf_invD(3) [OF hvf_sysD(2) [OF assms]] by blast

lemma hvf_sys_length:
  assumes "hvf_sys T0 s"
  shows "length (queue (hvf_of c s)) \<le> 2 ^ 31"
proof -
  have "set (queue (hvf_of c s)) \<subseteq> {..<2 ^ 31}" using hvf_sysD(3) [OF assms] by auto
  then have "card (set (queue (hvf_of c s))) \<le> card {..<(2 :: nat) ^ 31}"
    by (intro card_mono) simp_all
  then show ?thesis
    using hvf_invD(1) [OF hvf_sysD(2) [OF assms]] by (simp add: distinct_card)
qed

section \<open>The entity that enters a queue\<close>

lemma enq_entity_simps [simp]:
  "time_used (enq_entity p) = time_used (hvf p)"
  "latest_time (enq_entity p) = latest_time (hvf p)"
  "first_time (enq_entity p) = first_time (hvf p)"
  by (simp_all add: enq_entity_def penalty_hvf_entity_def Let_def)

lemma snd_penalty: "curr_sched_value (snd (penalty_hvf_entity e c)) = fst (penalty_hvf_entity e c)"
  by (simp add: penalty_hvf_entity_def Let_def)

lemma snd_reduce: "curr_sched_value (snd (reduce_sched_value e)) = fst (reduce_sched_value e)"
  by (simp add: reduce_sched_value_def Let_def)

lemma enq_entity_value:
  assumes "ent_ok T0 n p" "n \<le> T0 + 303700049"
  shows "value_ok (curr_sched_value (enq_entity p))"
proof (cases "exceeded_time p")
  case True
  have v: "0 \<le> curr_sched_value (hvf p)" "curr_sched_value (hvf p) \<le> H"
    and d: "0 \<le> time_used (hvf p) - computation_time p"
      "time_used (hvf p) - computation_time p \<le> 303700049"
    using assms True by (simp_all add: ent_ok_def value_ok_def exceeded_time_def)
  show ?thesis
    using penalty_hvf_entity_range(1,2) [OF v d] True
    by (simp add: enq_entity_def snd_penalty value_ok_def)
next
  case False
  then show ?thesis using assms(1) by (simp add: enq_entity_def ent_ok_def)
qed

lemma ent_ok_enq:
  assumes "ent_ok T0 n p" "n \<le> T0 + 303700049"
  shows "ent_ok T0 n (p\<lparr>hvf := (enq_entity p)\<lparr>hvf_on_rq := b\<rparr>\<rparr>)"
  using assms enq_entity_value [OF assms]
  by (simp add: ent_ok_def hvf_params_ok_def)

lemma ent_ok_on_rq [simp]:
  "ent_ok T0 n (p\<lparr>hvf := (hvf p)\<lparr>hvf_on_rq := b\<rparr>\<rparr>) = ent_ok T0 n p"
  by (simp add: ent_ok_def hvf_params_ok_def)

lemma clock_okD:
  assumes "clock_ok T0 s"
  shows "T0 \<le> read_ms s i" "read_ms s i \<le> read_ms s (Suc i)" "read_ms s i \<le> T0 + 303700049" "0 \<le> T0"
  using assms by (simp_all add: clock_ok_def)

section \<open>The state changes of the methods keep the invariant\<close>

lemma hvf_sys_read:
  assumes "hvf_sys T0 s"
  shows "hvf_sys T0 (s\<lparr>rt_reads := Suc (rt_reads s)\<rparr>)"
proof -
  have "ent_ok T0 (read_ms s (Suc (rt_reads s))) p" if "ent_ok T0 (now_of s) p" for p
    using that clock_okD(2) [OF hvf_sysD(1) [OF assms], of "rt_reads s"]
    by (simp add: ent_ok_def)
  then show ?thesis using assms by (simp add: hvf_sys_def clock_ok_def)
qed

lemma hvf_sys_cong:
  assumes "hvf_sys T0 s" "rt_clock s' = rt_clock s" "rt_reads s' = rt_reads s"
    and "\<And>c. queue (hvf_of c s') = queue (hvf_of c s)"
    and "\<And>c. hvf_inv (tasks s) (hvf_of c s')"
    and "\<And>c t. hvf_curr (hvf_of c s') = Some t \<Longrightarrow>
      hvf_curr (hvf_of c s) = Some t \<or>
      t < 2 ^ 31 \<and> sched_class (tasks s t) = Hvf \<and> \<not> hvf_on_rq (hvf (tasks s t)) \<and>
      time_used (hvf (tasks s t)) \<le> latest_time (hvf (tasks s t)) - T0"
    and "\<And>t. hvf (tasks s' t) = hvf (tasks s t)"
    and "\<And>t. sched_class (tasks s' t) = sched_class (tasks s t)"
    and "\<And>t. sched_class (tasks s t) = Hvf \<Longrightarrow>
      deadline_1 (tasks s' t) = deadline_1 (tasks s t) \<and>
      deadline_2 (tasks s' t) = deadline_2 (tasks s t) \<and>
      computation_time (tasks s' t) = computation_time (tasks s t)"
  shows "hvf_sys T0 s'"
proof -
  have inv: "hvf_inv (tasks s') (hvf_of c s')" for c
    using hvf_inv_cong [of "hvf_of c s'" "tasks s" "tasks s'"] assms(5,7) by simp
  have cur: "t < 2 ^ 31 \<and> sched_class (tasks s t) = Hvf \<and> \<not> hvf_on_rq (hvf (tasks s t)) \<and>
      time_used (hvf (tasks s t)) \<le> latest_time (hvf (tasks s t)) - T0"
    if "hvf_curr (hvf_of c s') = Some t" for c t
    using assms(6) [OF that] hvf_sysD(7) [OF assms(1)] by blast
  have ent: "ent_ok T0 (now_of s') (tasks s' t)" if "sched_class (tasks s t) = Hvf" for t
    using hvf_sysD(8) [OF assms(1) that] assms(2,3,7) assms(9) [OF that]
    by (simp add: ent_ok_def hvf_params_ok_def)
  have clk: "clock_ok T0 s'" using hvf_sysD(1) [OF assms(1)] assms(2) by (simp add: clock_ok_def)
  show ?thesis
    unfolding hvf_sys_def assms(4,7,8)
    using clk inv cur ent hvf_sysD(3-6) [OF assms(1)] by blast
qed

lemma hvf_sys_frame:
  assumes "hvf_sys T0 s" "rt_clock s' = rt_clock s" "rt_reads s' = rt_reads s"
    and "\<And>c. hvf_of c s' = hvf_of c s"
    and "\<And>t. hvf (tasks s' t) = hvf (tasks s t)"
    and "\<And>t. sched_class (tasks s' t) = sched_class (tasks s t)"
    and "\<And>t. sched_class (tasks s t) = Hvf \<Longrightarrow>
      deadline_1 (tasks s' t) = deadline_1 (tasks s t) \<and>
      deadline_2 (tasks s' t) = deadline_2 (tasks s t) \<and>
      computation_time (tasks s' t) = computation_time (tasks s t)"
  shows "hvf_sys T0 s'"
  using hvf_sys_cong [OF assms(1-3) _ _ _ assms(5-7)] hvf_sysD(2) [OF assms(1)] assms(4) by simp

text \<open>An update of a task whose entity is in no queue.\<close>

lemma hvf_sys_set_task:
  assumes i: "hvf_sys T0 s" and off: "\<not> hvf_on_rq (hvf (tasks s p))"
    and v: "\<not> hvf_on_rq (hvf v)" "sched_class v = Hvf" "ent_ok T0 (now_of s) v"
    and cur: "\<And>c. hvf_curr (hvf_of c s) = Some p \<Longrightarrow> time_used (hvf v) \<le> latest_time (hvf v) - T0"
  shows "hvf_sys T0 (set_task p v s)"
proof -
  have nq: "p \<notin> set (queue (hvf_of c s))" for c
    using off hvf_sys_on_rq_iff [OF i] by blast
  have "hvf_inv ((tasks s)(p := v)) (hvf_of c s)" for c
    by (rule hvf_inv_upd [OF nq hvf_sysD(2) [OF i]])
  then show ?thesis
    using i v cur nq by (auto simp: hvf_sys_def clock_ok_def)
qed

definition not_curr :: "tid \<Rightarrow> 'x kstate \<Rightarrow> bool" where
  "not_curr p s \<longleftrightarrow> (\<forall>c. hvf_curr (hvf_of c s) \<noteq> Some p)"

lemma not_currD:
  "not_curr p s \<Longrightarrow> hvf_curr (hvf_of c s) \<noteq> Some p" "not_curr p s \<Longrightarrow> Some p \<noteq> hvf_curr (hvf_of c s)"
  by (auto simp: not_curr_def dest: sym)

text \<open>One entity enters or leaves the queue of one cpu, or changes outside of it.\<close>

lemma hvf_sys_change:
  assumes i: "hvf_sys T0 s"
    and s': "s' = (upd_rq c (\<lambda>r. r\<lparr>rq_hvf := q'\<rparr>) s)\<lparr>tasks := (tasks s)(p := v)\<rparr>"
    and elsewhere: "\<And>d. d \<noteq> c \<Longrightarrow> p \<notin> set (queue (hvf_of d s))"
    and inv: "hvf_inv ((tasks s)(p := v)) q'"
    and qset: "set (queue q') - {p} = set (queue (hvf_of c s)) - {p}"
    and onq: "hvf_on_rq (hvf v) = (p \<in> set (queue q'))"
    and v: "p < 2 ^ 31" "sched_class v = Hvf" "ent_ok T0 (now_of s) v"
    and cu: "\<And>t. hvf_curr q' = Some t \<Longrightarrow> t = p \<or> hvf_curr (hvf_of c s) = Some t"
    and cup: "\<And>d. hvf_curr (hvf_of d s') = Some p \<Longrightarrow>
      \<not> hvf_on_rq (hvf v) \<and> time_used (hvf v) \<le> latest_time (hvf v) - T0"
  shows "hvf_sys T0 s'"
proof -
  have of_c [simp]: "hvf_of c s' = q'" and of_d [simp]: "\<And>d. d \<noteq> c \<Longrightarrow> hvf_of d s' = hvf_of d s"
    and tk [simp]: "tasks s' p = v" "\<And>t. t \<noteq> p \<Longrightarrow> tasks s' t = tasks s t"
    and clk [simp]: "rt_clock s' = rt_clock s" "rt_reads s' = rt_reads s"
    by (simp_all add: s')
  have tks: "tasks s' = (tasks s)(p := v)" by (simp add: s')
  have same: "t \<in> set (queue (hvf_of d s')) \<longleftrightarrow> t \<in> set (queue (hvf_of d s))" if "t \<noteq> p" for t d
    using qset that by (cases "d = c") auto
  have pq: "p \<in> set (queue (hvf_of d s')) \<longleftrightarrow> d = c \<and> hvf_on_rq (hvf v)" for d
    using elsewhere onq by (cases "d = c") auto
  have "hvf_inv (tasks s') (hvf_of d s')" for d
    using inv hvf_inv_upd [OF elsewhere hvf_sysD(2) [OF i]] by (cases "d = c") (simp_all add: tks)
  moreover have "t < 2 ^ 31 \<and> sched_class (tasks s' t) = Hvf" if "t \<in> set (queue (hvf_of d s'))" for d t
    using that same [of t d] v hvf_sysD(3,4) [OF i, of t d] by (cases "t = p") simp_all
  moreover have "set (queue (hvf_of d s')) \<inter> set (queue (hvf_of e s')) = {}" if "d \<noteq> e" for d e
  proof -
    have "t \<notin> set (queue (hvf_of d s')) \<or> t \<notin> set (queue (hvf_of e s'))" for t
      using that same [of t] pq hvf_sysD(5) [OF i that] by (cases "t = p") auto
    then show ?thesis by blast
  qed
  moreover have "\<exists>d. t \<in> set (queue (hvf_of d s'))" if "hvf_on_rq (hvf (tasks s' t))" for t
    using that same pq hvf_sysD(6) [OF i, of t] by (cases "t = p") auto
  moreover have "t < 2 ^ 31 \<and> sched_class (tasks s' t) = Hvf \<and> \<not> hvf_on_rq (hvf (tasks s' t)) \<and>
      time_used (hvf (tasks s' t)) \<le> latest_time (hvf (tasks s' t)) - T0"
    if "hvf_curr (hvf_of d s') = Some t" for d t
  proof (cases "t = p")
    case True
    then show ?thesis using cup [of d] that v by simp
  next
    case False
    then have "hvf_curr (hvf_of d s) = Some t" using that cu [of t] by (cases "d = c") simp_all
    then show ?thesis using hvf_sysD(7) [OF i] False by simp
  qed
  moreover have "ent_ok T0 (now_of s') (tasks s' t)" if "sched_class (tasks s' t) = Hvf" for t
    using that v hvf_sysD(8) [OF i, of t] by (cases "t = p") simp_all
  moreover have "clock_ok T0 s'" using hvf_sysD(1) [OF i] by (simp add: clock_ok_def)
  ultimately show ?thesis unfolding hvf_sys_def by blast
qed

lemma hvf_sys_enqueue:
  assumes L: "rb_lib_ok L" and i: "hvf_sys T0 s" and off: "\<not> hvf_on_rq (hvf (tasks s p))"
    and p: "p < 2 ^ 31" "sched_class (tasks s p) = Hvf" and nc: "not_curr p s"
    and s'_def: "s' = hvf_put c (enqueue_hvf_entity L p (hvf_get c s)) s"
  shows "hvf_sys T0 s'"
    and "queue (hvf_of c s') = ins_by (val (tasks s')) p (queue (hvf_of c s))"
    and "\<And>d. hvf_curr (hvf_of d s') = hvf_curr (hvf_of d s)"
    and "\<And>d. d \<noteq> c \<Longrightarrow> rqs s' d = rqs s d"
    and "\<And>t. t \<noteq> p \<Longrightarrow> tasks s' t = tasks s t"
    and "hvf_on_rq (hvf (tasks s' p))"
proof -
  let ?v = "(tasks s p)\<lparr>hvf := (enq_entity (tasks s p))\<lparr>hvf_on_rq := True\<rparr>\<rparr>"
  have nq: "p \<notin> set (queue (hvf_of d s))" for d
    using off hvf_sys_on_rq_iff [OF i] by blast
  have e: "ent_ok T0 (now_of s) (tasks s p)" and n: "now_of s \<le> T0 + 303700049"
    using hvf_sysD(8) [OF i p(2)] clock_okD(3) [OF hvf_sysD(1) [OF i]] by simp_all
  have "can_enq (tasks s) (hvf_of c s) p"
    using nq enq_entity_value [OF e n] hvf_sys_length [OF i, of c] by (simp add: can_enq_def)
  from enqueue_hvf_entity_eq [OF L hvf_sysD(2) [OF i] this] obtain q' where
    eq: "enqueue_hvf_entity L p (hvf_of c s, tasks s) = (q', (tasks s)(p := ?v))" and
    qu: "queue q' = ins_by (val ((tasks s)(p := (tasks s p)\<lparr>hvf := enq_entity (tasks s p)\<rparr>))) p
      (queue (hvf_of c s))" and
    cu: "hvf_curr q' = hvf_curr (hvf_of c s)" and inv: "hvf_inv ((tasks s)(p := ?v)) q'"
    by blast
  have s': "s' = (upd_rq c (\<lambda>r. r\<lparr>rq_hvf := q'\<rparr>) s)\<lparr>tasks := (tasks s)(p := ?v)\<rparr>"
    by (simp add: s'_def hvf_put_def hvf_get_def eq)
  show "queue (hvf_of c s') = ins_by (val (tasks s')) p (queue (hvf_of c s))"
    by (simp add: s' qu) (rule ins_by_cong, auto)
  show "hvf_curr (hvf_of d s') = hvf_curr (hvf_of d s)" for d
    by (simp add: s' cu)
  show "d \<noteq> c \<Longrightarrow> rqs s' d = rqs s d" for d by (simp add: s')
  show "t \<noteq> p \<Longrightarrow> tasks s' t = tasks s t" for t by (simp add: s')
  show "hvf_on_rq (hvf (tasks s' p))" by (simp add: s')
  have ent: "ent_ok T0 (now_of s) ?v" by (rule ent_ok_enq [OF e n])
  have qset: "set (queue q') = insert p (set (queue (hvf_of c s)))" by (simp add: qu)
  show "hvf_sys T0 s'"
    by (rule hvf_sys_change [OF i s']) (use nq inv qset p ent cu nc in \<open>auto simp: not_curr_def s' split: if_splits\<close>)
qed

lemma hvf_sys_dequeue:
  assumes L: "rb_lib_ok L" and i: "hvf_sys T0 s" and pq: "p \<in> set (queue (hvf_of c s))"
    and s'_def: "s' = hvf_put c (snd (dequeue_hvf_entity L p (hvf_get c s))) s"
  shows "hvf_sys T0 s'"
    and "fst (dequeue_hvf_entity L p (hvf_get c s))"
    and "queue (hvf_of c s') = remove1 p (queue (hvf_of c s))"
    and "\<And>d. hvf_curr (hvf_of d s') = hvf_curr (hvf_of d s)"
    and "\<And>d. d \<noteq> c \<Longrightarrow> rqs s' d = rqs s d"
    and "tasks s' = (tasks s)(p := (tasks s p)\<lparr>hvf := (hvf (tasks s p))\<lparr>hvf_on_rq := False\<rparr>\<rparr>)"
proof -
  let ?v = "(tasks s p)\<lparr>hvf := (hvf (tasks s p))\<lparr>hvf_on_rq := False\<rparr>\<rparr>"
  from dequeue_hvf_entity_eq [OF L hvf_sysD(2) [OF i] pq] obtain q' where
    eq: "dequeue_hvf_entity L p (hvf_of c s, tasks s) = (True, q', (tasks s)(p := ?v))" and
    qu: "queue q' = remove1 p (queue (hvf_of c s))" and
    cu: "hvf_curr q' = hvf_curr (hvf_of c s)" and inv: "hvf_inv ((tasks s)(p := ?v)) q'"
    by blast
  have s': "s' = (upd_rq c (\<lambda>r. r\<lparr>rq_hvf := q'\<rparr>) s)\<lparr>tasks := (tasks s)(p := ?v)\<rparr>"
    by (simp add: s'_def hvf_put_def hvf_get_def eq)
  show "fst (dequeue_hvf_entity L p (hvf_get c s))" by (simp add: hvf_get_def eq)
  show "queue (hvf_of c s') = remove1 p (queue (hvf_of c s))" by (simp add: s' qu)
  show "hvf_curr (hvf_of d s') = hvf_curr (hvf_of d s)" for d by (simp add: s' cu)
  show "d \<noteq> c \<Longrightarrow> rqs s' d = rqs s d" for d by (simp add: s')
  show "tasks s' = (tasks s)(p := ?v)" by (simp add: s')
  have dist: "distinct (queue (hvf_of c s))" using hvf_invD(1) [OF hvf_sysD(2) [OF i]] .
  have on: "hvf_on_rq (hvf (tasks s p))" using hvf_sys_on_rq_iff [OF i] pq by blast
  have nc: "hvf_curr (hvf_of d s) \<noteq> Some p" for d using hvf_sysD(7) [OF i, of d p] on by auto
  have el: "p \<notin> set (queue (hvf_of d s))" if "d \<noteq> c" for d
    using hvf_sysD(5) [OF i that] pq by blast
  note cl = hvf_sysD(3,4) [OF i pq]
  show "hvf_sys T0 s'"
    by (rule hvf_sys_change [OF i s' el inv])
      (use qu dist cl cu nc hvf_sysD(8) [OF i cl(2)] in \<open>auto simp: s' split: if_splits\<close>)
qed

lemma hvf_sys_set_curr:
  assumes i: "hvf_sys T0 s"
    and x: "\<And>t. x = Some t \<Longrightarrow> t < 2 ^ 31 \<and> sched_class (tasks s t) = Hvf \<and>
      \<not> hvf_on_rq (hvf (tasks s t)) \<and> time_used (hvf (tasks s t)) \<le> latest_time (hvf (tasks s t)) - T0"
  shows "hvf_sys T0 (upd_rq c (\<lambda>r. r\<lparr>rq_hvf := (rq_hvf r)\<lparr>hvf_curr := x\<rparr>\<rparr>) s)"
  by (rule hvf_sys_cong [OF i]) (use x hvf_sysD(2) [OF i] in \<open>auto split: if_splits\<close>)

lemma hvf_sys_add_running: "hvf_sys T0 s \<Longrightarrow> hvf_sys T0 (add_rq_running c n s)"
  by (erule hvf_sys_frame) (simp_all add: add_rq_running_def)

section \<open>The methods keep the invariant\<close>

lemma now_ms_eq:
  assumes "clock_ok T0 s"
  shows "now_of s = tv_sec (rt_clock s (rt_reads s)) * K + tv_nsec (rt_clock s (rt_reads s)) div (K * K)"
    and "now_of s < 2 ^ 50" "tv_sec (rt_clock s (rt_reads s)) < 2 ^ 39" "0 < tv_sec (rt_clock s (rt_reads s))"
proof -
  let ?t = "rt_clock s (rt_reads s)"
  have t: "0 < tv_sec ?t" "tv_sec ?t < 2 ^ 39" "0 \<le> tv_nsec ?t" "tv_nsec ?t < 1000000000"
    using assms unfolding clock_ok_def by blast+
  then have m: "0 \<le> tv_nsec ?t div (K * K)" "tv_nsec ?t div (K * K) < K"
    by (simp_all add: pos_imp_zdiv_nonneg_iff)
  show n: "now_of s = tv_sec ?t * K + tv_nsec ?t div (K * K)"
    using t m by (simp add: now_ms_def s64_id sdiv_nonneg)
  show "now_of s < 2 ^ 50" unfolding n using t m by simp
  show "tv_sec ?t < 2 ^ 39" "0 < tv_sec ?t" by (fact t)+
qed

lemma hvf_compute_eq:
  assumes "hvf_params_ok (tasks s p)"
  obtains V where
    "hvf_compute p s = Inr (upd_task p (\<lambda>v. v\<lparr>hvf := (hvf v)\<lparr>init_sched_value := V, curr_sched_value := V\<rparr>\<rparr>) s)"
    "value_ok V"
proof
  let ?p = "tasks s p"
  let ?V = "ideal_value (deadline_1 ?p) (deadline_2 ?p) (s64 (first_time (hvf ?p) + computation_time ?p))"
  show "hvf_compute p s = Inr (upd_task p (\<lambda>v. v\<lparr>hvf := (hvf v)\<lparr>init_sched_value := ?V, curr_sched_value := ?V\<rparr>\<rparr>) s)"
    by (simp add: hvf_compute_def compute_init_sched_value_s64 [OF assms] Let_def)
  show "value_ok ?V"
    using ideal_value_range [of "deadline_1 ?p" "deadline_2 ?p"] assms
    by (simp add: value_ok_def hvf_params_ok_def)
qed

text \<open>The parameters a task brings when it joins: its own if set, else the defaults.\<close>

definition join_params_ok :: "task_struct \<Rightarrow> bool" where
  "join_params_ok p \<longleftrightarrow>
     (pars_set p \<longrightarrow> hvf_params_ok p \<and> 0 \<le> computation_time p \<and> computation_time p < 2 ^ 40)"

lemma hvf_give_default_eq:
  assumes c: "clock_ok T0 s" and j: "join_params_ok (tasks s p)"
  obtains v n where
    "hvf_give_default p s = Inr ((set_task p v s)\<lparr>rt_reads := n\<rparr>)" "n = rt_reads s \<or> n = Suc (rt_reads s)"
    "hvf_params_ok v" "0 \<le> computation_time v" "computation_time v < 2 ^ 40"
    "hvf_on_rq (hvf v) = hvf_on_rq (hvf (tasks s p))" "sched_class v = sched_class (tasks s p)"
proof (cases "pars_set (tasks s p)")
  case True
  have "hvf_give_default p s = Inr ((set_task p (tasks s p) s)\<lparr>rt_reads := rt_reads s\<rparr>)"
    using True by (simp add: hvf_give_default_def)
  then show ?thesis using True j that [of "rt_reads s" "tasks s p"] by (simp add: join_params_ok_def)
next
  case False
  let ?t = "rt_clock s (rt_reads s)"
  let ?d = "s64 (tv_sec ?t + tv_nsec ?t sdiv (K * K * K))"
  let ?v = "(tasks s p)\<lparr>deadline_1 := s64 (?d + 4), deadline_2 := s64 (?d + 6),
                  computation_time := K, pars_set := True\<rparr>"
  have "0 \<le> tv_nsec ?t" "tv_nsec ?t < 1000000000" using c unfolding clock_ok_def by blast+
  then have d: "?d = tv_sec ?t" using now_ms_eq(3,4) [OF c] by (simp add: sdiv_nonneg s64_id)
  have ok: "hvf_params_ok ?v"
    unfolding d using now_ms_eq(3,4) [OF c] by (simp add: hvf_params_ok_def s64_id)
  from compute_init_sched_value_s64 [OF ok] obtain V where
    "compute_init_sched_value ?v =
       Inr (V, ?v\<lparr>hvf := (hvf ?v)\<lparr>init_sched_value := V, curr_sched_value := V\<rparr>\<rparr>)"
    by (simp add: Let_def)
  then have "hvf_give_default p s =
      Inr ((set_task p (?v\<lparr>hvf := (hvf ?v)\<lparr>init_sched_value := V, curr_sched_value := V\<rparr>\<rparr>) s)
        \<lparr>rt_reads := Suc (rt_reads s)\<rparr>)"
    using False by (simp add: hvf_give_default_def give_default_hvf_values_def ktime_get_real_ts64_def Let_def)
  then show ?thesis
    by (rule that) (use ok in \<open>simp_all add: hvf_params_ok_def\<close>)
qed

lemma hvf_sys_reads:
  assumes "hvf_sys T0 s" "n = rt_reads s \<or> n = Suc (rt_reads s)"
  shows "hvf_sys T0 (s\<lparr>rt_reads := Suc n\<rparr>)"
  using hvf_sys_read [OF assms(1)] hvf_sys_read [OF hvf_sys_read [OF assms(1)]] assms(2) by auto

text \<open>What an enqueue leaves behind: the entity in the queue of \<open>c\<close>, one more running.\<close>

definition enqueued :: "cpu \<Rightarrow> tid \<Rightarrow> 'x kstate \<Rightarrow> 'x kstate \<Rightarrow> bool" where
  "enqueued c p s s' \<longleftrightarrow>
     set (queue (hvf_of c s')) = insert p (set (queue (hvf_of c s))) \<and>
     nr_running (rqs s' c) = u32 (nr_running (rqs s c) + 1) \<and>
     (\<forall>d. hvf_curr (hvf_of d s') = hvf_curr (hvf_of d s)) \<and>
     (\<forall>d. d \<noteq> c \<longrightarrow> rqs s' d = rqs s d) \<and>
     (\<forall>t. t \<noteq> p \<longrightarrow> tasks s' t = tasks s t)"

lemma enqueue_tail:
  assumes L: "rb_lib_ok L" and i: "hvf_sys T0 s" and off: "\<not> hvf_on_rq (hvf (tasks s p))"
    and p: "p < 2 ^ 31" "sched_class (tasks s p) = Hvf" and nc: "not_curr p s"
  shows "hvf_sys T0 (add_rq_running c n (hvf_put c (enqueue_hvf_entity L p (hvf_get c s)) s))"
    and "enqueued c p s (add_rq_running c 1 (hvf_put c (enqueue_hvf_entity L p (hvf_get c s)) s))"
proof -
  note e = hvf_sys_enqueue [OF assms refl, where c = c]
  show "hvf_sys T0 (add_rq_running c n (hvf_put c (enqueue_hvf_entity L p (hvf_get c s)) s))"
    by (rule hvf_sys_add_running [OF e(1)])
  have nr: "nr_running (rqs (hvf_put c st s) c) = nr_running (rqs s c)" for st
    by (cases st) (simp add: hvf_put_def)
  show "enqueued c p s (add_rq_running c 1 (hvf_put c (enqueue_hvf_entity L p (hvf_get c s)) s))"
    using e(2-5) nr by (simp add: enqueued_def add_rq_running_def)
qed

lemma enqueue_task_hvf_joins:
  assumes L: "rb_lib_ok L" and i: "hvf_sys T0 s" and off: "\<not> hvf_on_rq (hvf (tasks s p))"
    and p: "p < 2 ^ 31" "join_params_ok (tasks s p)" and nc: "not_curr p s"
    and fl: "fl AND (ENQUEUE_INITIAL OR ENQUEUE_CHANGED) \<noteq> 0"
  obtains s' where
    "enqueue_task_hvf L c p fl (upd_task p (\<lambda>v. v\<lparr>sched_class := Hvf\<rparr>) s) = Inr s'"
    "hvf_sys T0 s'" "enqueued c p s s'"
proof -
  let ?s1 = "upd_task p (\<lambda>v. v\<lparr>sched_class := Hvf\<rparr>) s"
  have clk: "clock_ok T0 ?s1" using hvf_sysD(1) [OF i] by (simp add: clock_ok_def)
  have j: "join_params_ok (tasks ?s1 p)"
    using p(2) by (simp add: join_params_ok_def hvf_params_ok_def)
  obtain v n where gd: "hvf_give_default p ?s1 = Inr ((set_task p v ?s1)\<lparr>rt_reads := n\<rparr>)"
    and n: "n = rt_reads s \<or> n = Suc (rt_reads s)" and v: "hvf_params_ok v"
      "0 \<le> computation_time v" "computation_time v < 2 ^ 40" and
    v': "hvf_on_rq (hvf v) = hvf_on_rq (hvf (tasks ?s1 p))" "sched_class v = sched_class (tasks ?s1 p)"
    by (rule hvf_give_default_eq [OF clk j]) simp
  have v'': "\<not> hvf_on_rq (hvf v)" "sched_class v = Hvf" using v' off by simp_all
  let ?w = "v\<lparr>hvf := init_sched_hvf_entity (rt_clock s n) (hvf v)\<rparr>"
  let ?s = "s\<lparr>rt_reads := Suc n\<rparr>"
  have ini: "hvf_init_entity p ((set_task p v ?s1)\<lparr>rt_reads := n\<rparr>) = set_task p ?w ?s"
    by (simp add: hvf_init_entity_def ktime_get_real_ts64_def)
  have "hvf_params_ok (tasks (set_task p ?w ?s) p)" using v by (simp add: hvf_params_ok_def)
  from hvf_compute_eq [OF this] obtain V where cp: "hvf_compute p (set_task p ?w ?s) =
      Inr (set_task p (?w\<lparr>hvf := (hvf ?w)\<lparr>init_sched_value := V, curr_sched_value := V\<rparr>\<rparr>) ?s)"
    and V: "value_ok V" by auto
  define u where "u = ?w\<lparr>hvf := (hvf ?w)\<lparr>init_sched_value := V, curr_sched_value := V\<rparr>\<rparr>"
  have sys: "hvf_sys T0 ?s" by (rule hvf_sys_reads [OF i n])
  have "clock_ok T0 (s\<lparr>rt_reads := n\<rparr>)" using hvf_sysD(1) [OF i] by (simp add: clock_ok_def)
  note nb = now_ms_eq(2) [OF this]
  have u: "\<not> hvf_on_rq (hvf u)" "sched_class u = Hvf" "ent_ok T0 (now_of ?s) u"
    using v v'' V nb clock_okD(1-3) [OF hvf_sysD(1) [OF i], of n]
      clock_okD(4) [OF hvf_sysD(1) [OF i]]
    by (simp_all add: u_def init_sched_hvf_entity_def ent_ok_def hvf_params_ok_def)
  have sysu: "hvf_sys T0 (set_task p u ?s)"
    by (rule hvf_sys_set_task [OF sys _ u]) (use off nc in \<open>auto simp: not_curr_def\<close>)
  let ?r = "add_rq_running c 1 (hvf_put c (enqueue_hvf_entity L p (hvf_get c (set_task p u ?s))) (set_task p u ?s))"
  have "enqueue_task_hvf L c p fl ?s1 = Inr ?r"
    using gd ini cp nc u(1) fl by (simp add: enqueue_task_hvf_def u_def not_currD)
  moreover have "hvf_sys T0 ?r"
    by (rule enqueue_tail(1) [OF L sysu]) (use u p nc in \<open>auto simp: not_curr_def\<close>)
  moreover have "enqueued c p (set_task p u ?s) ?r"
    by (rule enqueue_tail(2) [OF L sysu]) (use u p nc in \<open>auto simp: not_curr_def\<close>)
  then have "enqueued c p s ?r" by (simp add: enqueued_def)
  ultimately show ?thesis by (rule that)
qed

lemma enqueue_task_hvf_wakes:
  assumes L: "rb_lib_ok L" and i: "hvf_sys T0 s" and off: "\<not> hvf_on_rq (hvf (tasks s p))"
    and p: "p < 2 ^ 31" "sched_class (tasks s p) = Hvf" and nc: "not_curr p s"
    and fl: "fl AND (ENQUEUE_INITIAL OR ENQUEUE_CHANGED) = 0"
  obtains s' where "enqueue_task_hvf L c p fl s = Inr s'" "hvf_sys T0 s'" "enqueued c p s s'"
proof (cases "fl AND (ENQUEUE_WAKEUP OR ENQUEUE_MIGRATED OR ENQUEUE_RESTORE) = 0")
  case True
  then have "enqueue_task_hvf L c p fl s =
      Inr (add_rq_running c 1 (hvf_put c (enqueue_hvf_entity L p (hvf_get c s)) s))"
    using fl nc off by (simp add: enqueue_task_hvf_def not_currD)
  then show ?thesis using that enqueue_tail [OF L i off p nc] by blast
next
  case False
  have e: "ent_ok T0 (now_of s) (tasks s p)" by (rule hvf_sysD(8) [OF i p(2)])
  then have "hvf_params_ok (tasks s p)" by (simp add: ent_ok_def)
  from hvf_compute_eq [OF this] obtain V where
    cp: "hvf_compute p s = Inr (upd_task p (\<lambda>v. v\<lparr>hvf := (hvf v)\<lparr>init_sched_value := V, curr_sched_value := V\<rparr>\<rparr>) s)"
    and V: "value_ok V" .
  define u where "u = (tasks s p)\<lparr>hvf := (hvf (tasks s p))\<lparr>init_sched_value := V, curr_sched_value := V\<rparr>\<rparr>"
  have u: "\<not> hvf_on_rq (hvf u)" "sched_class u = Hvf" "ent_ok T0 (now_of s) u"
    using e V off p by (simp_all add: u_def ent_ok_def hvf_params_ok_def)
  have sysu: "hvf_sys T0 (set_task p u s)"
    by (rule hvf_sys_set_task [OF i off u]) (use nc in \<open>auto simp: not_curr_def\<close>)
  let ?r = "add_rq_running c 1 (hvf_put c (enqueue_hvf_entity L p (hvf_get c (set_task p u s))) (set_task p u s))"
  have "enqueue_task_hvf L c p fl s = Inr ?r"
    using cp nc u(1) fl False by (simp add: enqueue_task_hvf_def u_def not_currD)
  moreover have "hvf_sys T0 ?r"
    by (rule enqueue_tail(1) [OF L sysu]) (use u p nc in \<open>auto simp: not_curr_def\<close>)
  moreover have "enqueued c p (set_task p u s) ?r"
    by (rule enqueue_tail(2) [OF L sysu]) (use u p nc in \<open>auto simp: not_curr_def\<close>)
  then have "enqueued c p s ?r" by (simp add: enqueued_def)
  ultimately show ?thesis by (rule that)
qed

lemma dequeue_task_hvf_queued:
  assumes L: "rb_lib_ok L" and i: "hvf_sys T0 s" and pq: "p \<in> set (queue (hvf_of c s))"
  obtains s' where "dequeue_task_hvf L c p fl s = Inr (True, s')" "hvf_sys T0 s'"
    "queue (hvf_of c s') = remove1 p (queue (hvf_of c s))" "not_curr p s'"
    "nr_running (rqs s' c) = u32 (nr_running (rqs s c) - 1)"
    "\<And>d. hvf_curr (hvf_of d s') = hvf_curr (hvf_of d s)"
proof -
  note d = hvf_sys_dequeue [OF L i pq refl]
  have on: "hvf_on_rq (hvf (tasks s p))" using hvf_sys_on_rq_iff [OF i] pq by blast
  then have nc: "not_curr p s" using hvf_sysD(7) [OF i] by (auto simp: not_curr_def)
  obtain st where st: "dequeue_hvf_entity L p (hvf_get c s) = (True, st)"
    using d(2) by (cases "dequeue_hvf_entity L p (hvf_get c s)") simp
  have "nr_running (rqs (hvf_put c st s) c) = nr_running (rqs s c)"
    by (cases st) (simp add: hvf_put_def)
  moreover have "dequeue_task_hvf L c p fl s = Inr (True, add_rq_running c (- 1) (hvf_put c st s))"
    using on not_currD(2) [OF nc, of c] st by (simp add: dequeue_task_hvf_def)
  ultimately show ?thesis
    using d(1,3,4) nc st
    by (intro that [of "add_rq_running c (- 1) (hvf_put c st s)"] hvf_sys_add_running)
      (auto simp: add_rq_running_def not_curr_def)
qed

lemma dequeue_task_hvf_sleeps:
  assumes i: "hvf_sys T0 s" and cu: "hvf_curr (hvf_of c s) = Some p" "\<not> task_is_running (tasks s p)"
  shows "dequeue_task_hvf L c p fl s =
      Inr (True, upd_rq c (\<lambda>r. r\<lparr>rq_hvf := (rq_hvf r)\<lparr>hvf_curr := None\<rparr>\<rparr>) (add_rq_running c (- 1) s))"
    and "hvf_sys T0 (upd_rq c (\<lambda>r. r\<lparr>rq_hvf := (rq_hvf r)\<lparr>hvf_curr := None\<rparr>\<rparr>) (add_rq_running c (- 1) s))"
proof -
  have "hvf_put c (hvf_get c s) s = s" by (simp add: hvf_put_def hvf_get_def)
  then show "dequeue_task_hvf L c p fl s =
      Inr (True, upd_rq c (\<lambda>r. r\<lparr>rq_hvf := (rq_hvf r)\<lparr>hvf_curr := None\<rparr>\<rparr>) (add_rq_running c (- 1) s))"
    using cu hvf_sysD(7) [OF i cu(1)] by (simp add: dequeue_task_hvf_def Let_def)
  show "hvf_sys T0 (upd_rq c (\<lambda>r. r\<lparr>rq_hvf := (rq_hvf r)\<lparr>hvf_curr := None\<rparr>\<rparr>) (add_rq_running c (- 1) s))"
    by (rule hvf_sys_set_curr [OF hvf_sys_add_running [OF i]]) simp
qed

lemma set_next_task_hvf_sys:
  assumes L: "rb_lib_ok L" and i: "hvf_sys T0 s" and pq: "p \<in> set (queue (hvf_of c s))"
    and s'_def: "s' = set_next_task_hvf L c p True s"
  shows "hvf_sys T0 s'" "hvf_curr (hvf_of c s') = Some p"
    and "queue (hvf_of c s') = remove1 p (queue (hvf_of c s))"
    and "\<And>d. d \<noteq> c \<Longrightarrow> rqs s' d = rqs s d"
proof -
  let ?n = "rt_clock s (rt_reads s)"
  let ?s = "s\<lparr>rt_reads := Suc (rt_reads s)\<rparr>"
  have pq': "p \<in> set (queue (hvf_of c ?s))" using pq by simp
  define s1 where "s1 = hvf_put c (snd (dequeue_hvf_entity L p (hvf_get c ?s))) ?s"
  note d = hvf_sys_dequeue [OF L hvf_sys_read [OF i] pq' s1_def]
  define u where "u = (tasks s1 p)\<lparr>hvf := update_latest_se_hvf ?n (hvf (tasks s1 p))\<rparr>"
  have on: "hvf_on_rq (hvf (tasks s p))" using hvf_sys_on_rq_iff [OF i] pq by blast
  have s': "s' = upd_rq c (\<lambda>r. r\<lparr>rq_hvf := (rq_hvf r)\<lparr>hvf_curr := Some p\<rparr>\<rparr>) (set_task p u s1)"
    using on by (cases "snd (dequeue_hvf_entity L p (hvf_get c ?s))")
      (simp add: s'_def set_next_task_hvf_def ktime_get_real_ts64_def set_next_hvf_entity_def
        s1_def hvf_put_def u_def hvf_get_def)
  have clk: "rt_clock s1 = rt_clock s" "rt_reads s1 = Suc (rt_reads s)"
    by (cases "snd (dequeue_hvf_entity L p (hvf_get c ?s))"; simp add: s1_def hvf_put_def)+
  have cl: "p < 2 ^ 31" "sched_class (tasks s1 p) = Hvf" "sched_class (tasks s p) = Hvf"
    using hvf_sysD(3,4) [OF i pq] d(6) by simp_all
  have e: "ent_ok T0 (now_of s1) (tasks s1 p)" by (rule hvf_sysD(8) [OF d(1) cl(2)])
  have es: "ent_ok T0 (now_of s) (tasks s p)" by (rule hvf_sysD(8) [OF i cl(3)])
  note ck = clock_okD(1,2) [OF hvf_sysD(1) [OF i], of "rt_reads s"]
  have u: "\<not> hvf_on_rq (hvf u)" "sched_class u = Hvf" "ent_ok T0 (now_of s1) u"
      "time_used (hvf u) \<le> latest_time (hvf u) - T0"
    using e es cl ck d(6)
    by (simp_all add: u_def update_latest_se_hvf_def Let_def ent_ok_def hvf_params_ok_def clk)
  have sysu: "hvf_sys T0 (set_task p u s1)"
    by (rule hvf_sys_set_task [OF d(1) _ u(1-3)]) (use d(6) u(4) in simp_all)
  show "hvf_sys T0 s'"
    unfolding s' by (rule hvf_sys_set_curr [OF sysu]) (use u cl in auto)
  show "hvf_curr (hvf_of c s') = Some p" by (simp add: s')
  show "queue (hvf_of c s') = remove1 p (queue (hvf_of c s))" using d(3) by (simp add: s')
  show "d \<noteq> c \<Longrightarrow> rqs s' d = rqs s d" for d using d(5) by (simp add: s')
qed

text \<open>The cursor \<open>curr\<close> plays no part in an enqueue.\<close>

lemma enqueue_hvf_entity_curr:
  "enqueue_hvf_entity L x (q\<lparr>hvf_curr := y\<rparr>, ts) =
     (let (q', ts') = enqueue_hvf_entity L x (q, ts) in (q'\<lparr>hvf_curr := y\<rparr>, ts'))"
  by (simp add: enqueue_hvf_entity_def Let_def split: prod.split option.split)

text \<open>The entity that \<open>put_prev_task_hvf\<close> puts back: charged, and decayed if its slice expired.\<close>

definition put_entity :: "timespec64 \<Rightarrow> sched_hvf_entity \<Rightarrow> sched_hvf_entity" where
  "put_entity now e =
     (let e = update_used_se_hvf now e
      in if slice_expired e then (snd (reduce_sched_value e))\<lparr>slice_expired := False\<rparr> else e)"

lemma put_entity_simps:
  "hvf_on_rq (put_entity now e) = hvf_on_rq e" "latest_time (put_entity now e) = latest_time e"
  "first_time (put_entity now e) = first_time e"
  "time_used (put_entity now e) = s64 (time_used e + s64 (now_ms now - latest_time e))"
  by (simp_all add: put_entity_def update_used_se_hvf_def reduce_sched_value_def Let_def)

lemma put_entity_ok:
  assumes e: "ent_ok T0 n p" and ck: "T0 \<le> now_ms now" "n \<le> now_ms now" "now_ms now \<le> T0 + 303700049" "now_ms now < 2 ^ 50"
    and b: "time_used (hvf p) \<le> latest_time (hvf p) - T0" and T0: "0 \<le> T0"
  shows "ent_ok T0 (now_ms now) (p\<lparr>hvf := put_entity now (hvf p)\<rparr>)"
proof -
  let ?e = "update_used_se_hvf now (hvf p)"
  have t: "s64 (time_used (hvf p) + s64 (now_ms now - latest_time (hvf p))) =
      time_used (hvf p) + (now_ms now - latest_time (hvf p))"
    using e ck b T0 by (simp add: ent_ok_def s64_id)
  have u: "0 \<le> time_used ?e" "time_used ?e < 2 ^ 56" "time_used ?e \<le> now_ms now - T0"
    using e ck b T0 by (simp_all add: update_used_se_hvf_def t ent_ok_def)
  have "0 \<le> curr_sched_value ?e" "curr_sched_value ?e \<le> H"
    using e by (simp_all add: update_used_se_hvf_def ent_ok_def value_ok_def)
  from reduce_sched_value_range(1,2) [OF this u(1,2)] this
  have "value_ok (curr_sched_value (put_entity now (hvf p)))"
    by (simp add: put_entity_def Let_def value_ok_def snd_reduce)
  then show ?thesis
    using e u(1,3) ck by (simp add: ent_ok_def put_entity_simps hvf_params_ok_def update_used_se_hvf_def)
qed

lemma put_prev_task_hvf_eq:
  assumes run: "task_is_running (tasks s p)" and off: "\<not> hvf_on_rq (hvf (tasks s p))"
    and s1_def: "s1 = set_task p ((tasks s p)\<lparr>hvf := put_entity (rt_clock s (rt_reads s)) (hvf (tasks s p))\<rparr>)
      (upd_rq c (\<lambda>r. r\<lparr>rq_hvf := (rq_hvf r)\<lparr>hvf_curr := None\<rparr>\<rparr>) (s\<lparr>rt_reads := Suc (rt_reads s)\<rparr>))"
  shows "put_prev_task_hvf L c p n s = hvf_put c (enqueue_hvf_entity L p (hvf_get c s1)) s1"
proof -
  let ?v = "(tasks s p)\<lparr>hvf := put_entity (rt_clock s (rt_reads s)) (hvf (tasks s p))\<rparr>"
  let ?s0 = "set_task p ?v (s\<lparr>rt_reads := Suc (rt_reads s)\<rparr>)"
  have "put_prev_task_hvf L c p n s = hvf_put c (put_prev_hvf_entity L p (hvf_get c ?s0)) ?s0"
    using run by (simp add: put_prev_task_hvf_def ktime_get_real_ts64_def put_entity_def Let_def
      task_is_running_def)
  also have "\<dots> = hvf_put c (enqueue_hvf_entity L p (hvf_get c s1)) s1"
    using off by (simp add: put_prev_hvf_entity_def hvf_get_def put_entity_simps s1_def
      enqueue_hvf_entity_curr hvf_put_def split: prod.split)
  finally show ?thesis .
qed

lemma put_prev_task_hvf_sys:
  assumes L: "rb_lib_ok L" and i: "hvf_sys T0 s" and cu: "hvf_curr (hvf_of c s) = Some p"
    and un: "\<And>d. d \<noteq> c \<Longrightarrow> hvf_curr (hvf_of d s) \<noteq> Some p"
    and run: "task_is_running (tasks s p)" and s'_def: "s' = put_prev_task_hvf L c p n s"
  shows "hvf_sys T0 s'" "hvf_curr (hvf_of c s') = None"
    and "set (queue (hvf_of c s')) = insert p (set (queue (hvf_of c s)))"
    and "\<And>d. d \<noteq> c \<Longrightarrow> rqs s' d = rqs s d"
proof -
  let ?now = "rt_clock s (rt_reads s)"
  define u where "u = (tasks s p)\<lparr>hvf := put_entity ?now (hvf (tasks s p))\<rparr>"
  define s0 where "s0 = upd_rq c (\<lambda>r. r\<lparr>rq_hvf := (rq_hvf r)\<lparr>hvf_curr := None\<rparr>\<rparr>) (s\<lparr>rt_reads := Suc (rt_reads s)\<rparr>)"
  define s1 where "s1 = set_task p u s0"
  note c = hvf_sysD(7) [OF i cu]
  have off: "\<not> hvf_on_rq (hvf (tasks s p))" using c by simp
  have s': "s' = hvf_put c (enqueue_hvf_entity L p (hvf_get c s1)) s1"
    unfolding s'_def s1_def s0_def u_def by (rule put_prev_task_hvf_eq [OF run off refl])
  have i0: "hvf_sys T0 s0"
    unfolding s0_def by (rule hvf_sys_set_curr [OF hvf_sys_read [OF i]]) simp
  note ck = clock_okD [OF hvf_sysD(1) [OF i]] now_ms_eq(2) [OF hvf_sysD(1) [OF i]]
  have "ent_ok T0 (now_ms ?now) u"
    unfolding u_def using hvf_sysD(8) [OF i, of p] c ck by (intro put_entity_ok) auto
  then have u: "\<not> hvf_on_rq (hvf u)" "sched_class u = Hvf" "ent_ok T0 (now_of s0) u"
    using c ck(2) [of "rt_reads s"] by (simp_all add: u_def put_entity_simps s0_def ent_ok_def)
  have nc: "not_curr p s0" using un by (auto simp: not_curr_def s0_def)
  have i1: "hvf_sys T0 s1"
    unfolding s1_def
    by (rule hvf_sys_set_task [OF i0 _ u]) (use off nc in \<open>auto simp: s0_def not_curr_def\<close>)
  have nc1: "not_curr p s1" using nc by (simp add: not_curr_def s1_def)
  have "\<not> hvf_on_rq (hvf (tasks s1 p))" "p < 2 ^ 31" "sched_class (tasks s1 p) = Hvf"
    using u c by (simp_all add: s1_def)
  note e = hvf_sys_enqueue [OF L i1 this nc1 s']
  show "hvf_sys T0 s'" by (fact e(1))
  show "hvf_curr (hvf_of c s') = None" using e(3) by (simp add: s1_def s0_def)
  show "set (queue (hvf_of c s')) = insert p (set (queue (hvf_of c s)))"
    using e(2) by (simp add: s1_def s0_def)
  show "d \<noteq> c \<Longrightarrow> rqs s' d = rqs s d" for d using e(4) by (simp add: s1_def s0_def)
qed

lemma task_tick_hvf_frame:
  assumes "s' = task_tick_hvf tick c p queued s"
  shows "rt_clock s' = rt_clock s" "rt_reads s' = rt_reads s" "hvf_of d s' = hvf_of d s"
    and "tstate (tasks s' t) = tstate (tasks s t)"
    and "sched_class (tasks s' t) = sched_class (tasks s t)"
    and "deadline_1 (tasks s' t) = deadline_1 (tasks s t)"
    and "deadline_2 (tasks s' t) = deadline_2 (tasks s t)"
    and "computation_time (tasks s' t) = computation_time (tasks s t)"
    and "\<exists>r x. hvf (tasks s' t) = (hvf (tasks s t))\<lparr>runtime := r, slice_expired := x\<rparr>"
proof -
  have same: "\<exists>r x. e = e\<lparr>runtime := r, slice_expired := x\<rparr>"
    "\<exists>r' x. e\<lparr>runtime := r\<rparr> = e\<lparr>runtime := r', slice_expired := x\<rparr>" for r and e :: sched_hvf_entity
    by (rule exI [of _ "runtime e"], rule exI [of _ "slice_expired e"], simp)
      (rule exI [of _ r], rule exI [of _ "slice_expired e"], simp)
  show "\<exists>r x. hvf (tasks s' t) = (hvf (tasks s t))\<lparr>runtime := r, slice_expired := x\<rparr>"
    by (cases "t = p") (auto simp: assms task_tick_hvf_def Let_def resched_curr_def intro: same)
qed (simp_all add: assms task_tick_hvf_def Let_def resched_curr_def)

lemma hvf_sys_runtime:
  assumes i: "hvf_sys T0 s" and fr: "rt_clock s' = rt_clock s" "rt_reads s' = rt_reads s"
      "\<And>d. hvf_of d s' = hvf_of d s"
    and tk: "\<And>t. sched_class (tasks s' t) = sched_class (tasks s t)"
      "\<And>t. deadline_1 (tasks s' t) = deadline_1 (tasks s t)"
      "\<And>t. deadline_2 (tasks s' t) = deadline_2 (tasks s t)"
      "\<And>t. computation_time (tasks s' t) = computation_time (tasks s t)"
      "\<And>t. \<exists>r x. hvf (tasks s' t) = (hvf (tasks s t))\<lparr>runtime := r, slice_expired := x\<rparr>"
  shows "hvf_sys T0 s'"
proof -
  have h: "hvf_on_rq (hvf (tasks s' t)) = hvf_on_rq (hvf (tasks s t))"
    "val (tasks s') t = val (tasks s) t" "time_used (hvf (tasks s' t)) = time_used (hvf (tasks s t))"
    "latest_time (hvf (tasks s' t)) = latest_time (hvf (tasks s t))"
    "first_time (hvf (tasks s' t)) = first_time (hvf (tasks s t))" for t
    using tk(5) [of t] by auto
  have "hvf_inv (tasks s') (hvf_of c s)" for c
    using hvf_inv_cong [of "hvf_of c s" "tasks s" "tasks s'"] h hvf_sysD(2) [OF i] by simp
  moreover have "ent_ok T0 n (tasks s' t) = ent_ok T0 n (tasks s t)" for n t
    using h tk by (simp add: ent_ok_def hvf_params_ok_def)
  moreover have "clock_ok T0 s'" using hvf_sysD(1) [OF i] fr by (simp add: clock_ok_def)
  ultimately show ?thesis
    unfolding hvf_sys_def fr tk h using hvf_sysD(3-8) [OF i] by blast
qed

lemma task_tick_hvf_sys:
  "hvf_sys T0 s \<Longrightarrow> hvf_sys T0 (task_tick_hvf tick c p queued s)"
  by (erule hvf_sys_runtime) (rule task_tick_hvf_frame [OF refl])+

section \<open>The class as a state machine\<close>

definition curr_unique :: "'x kstate \<Rightarrow> bool" where
  "curr_unique s \<longleftrightarrow>
     (\<forall>c d t. hvf_curr (hvf_of c s) = Some t \<longrightarrow> hvf_curr (hvf_of d s) = Some t \<longrightarrow> c = d)"

text \<open>
  The events of the class, each under the condition in which the core scheduler raises it: a task
  that is off the queues and not running joins the class (first wake-up or change of class) or
  wakes up; a queued task is dequeued (migration, change of attributes); the picked task is
  switched to; the running task ticks, is switched away from while still runnable, or goes to
  sleep.
\<close>

inductive hvf_step :: "rb_lib \<Rightarrow> int \<Rightarrow> 'x kstate \<Rightarrow> 'x kstate \<Rightarrow> bool" for L tick where
  Join: "\<lbrakk>\<not> hvf_on_rq (hvf (tasks s p)); not_curr p s; p < 2 ^ 31; join_params_ok (tasks s p);
          fl AND (ENQUEUE_INITIAL OR ENQUEUE_CHANGED) \<noteq> 0;
          enqueue_task_hvf L c p fl (upd_task p (\<lambda>v. v\<lparr>sched_class := Hvf\<rparr>) s) = Inr s'\<rbrakk>
         \<Longrightarrow> hvf_step L tick s s'"
| Wake: "\<lbrakk>\<not> hvf_on_rq (hvf (tasks s p)); not_curr p s; p < 2 ^ 31; sched_class (tasks s p) = Hvf;
          fl AND (ENQUEUE_INITIAL OR ENQUEUE_CHANGED) = 0;
          enqueue_task_hvf L c p fl s = Inr s'\<rbrakk>
         \<Longrightarrow> hvf_step L tick s s'"
| Dequeue: "\<lbrakk>p \<in> set (queue (hvf_of c s)); dequeue_task_hvf L c p fl s = Inr (b, s')\<rbrakk>
         \<Longrightarrow> hvf_step L tick s s'"
| Switch_to: "\<lbrakk>hvf_curr (hvf_of c s) = None; \<not> hvf_rq_empty (hvf_of c s);
          pick_task_hvf c s = Inr (Some p, s)\<rbrakk>
         \<Longrightarrow> hvf_step L tick s (set_next_task_hvf L c p True s)"
| Tick: "hvf_curr (hvf_of c s) = Some p \<Longrightarrow> hvf_step L tick s (task_tick_hvf tick c p queued s)"
| Preempt: "\<lbrakk>hvf_curr (hvf_of c s) = Some p; task_is_running (tasks s p)\<rbrakk>
         \<Longrightarrow> hvf_step L tick s (put_prev_task_hvf L c p n s)"
| Sleep: "\<lbrakk>hvf_curr (hvf_of c s) = Some p; st \<noteq> TASK_RUNNING;
          dequeue_task_hvf L c p fl (upd_task p (\<lambda>v. v\<lparr>tstate := st\<rparr>) s) = Inr (b, s')\<rbrakk>
         \<Longrightarrow> hvf_step L tick s s'"

inductive hvf_run :: "rb_lib \<Rightarrow> int \<Rightarrow> 'x kstate \<Rightarrow> 'x kstate \<Rightarrow> bool" for L tick s where
  Start: "hvf_run L tick s s"
| Step: "\<lbrakk>hvf_run L tick s s'; hvf_step L tick s' s''\<rbrakk> \<Longrightarrow> hvf_run L tick s s''"

definition hvf_ok :: "int \<Rightarrow> 'x kstate \<Rightarrow> bool" where
  "hvf_ok T0 s \<longleftrightarrow> hvf_sys T0 s \<and> curr_unique s"

text \<open>The state \<open>sched_init\<close> leaves: every queue initialised, no task in the class.\<close>

definition hvf_boot :: "int \<Rightarrow> 'x kstate \<Rightarrow> bool" where
  "hvf_boot T0 s \<longleftrightarrow>
     clock_ok T0 s \<and> (\<forall>c. hvf_of c s = init_hvf_rq (hvf_of c s)) \<and>
     (\<forall>t. sched_class (tasks s t) \<noteq> Hvf \<and> \<not> hvf_on_rq (hvf (tasks s t)))"

lemma hvf_boot_ok:
  assumes "hvf_boot T0 s"
  shows "hvf_ok T0 s"
proof -
  have q: "hvf_of c s = init_hvf_rq (hvf_of c s)" for c using assms unfolding hvf_boot_def by blast
  have "queue (init_hvf_rq q) = []" "hvf_curr (init_hvf_rq q) = None" for q
    by (simp_all add: init_hvf_rq_def queue_def)
  then have "queue (hvf_of c s) = []" "hvf_curr (hvf_of c s) = None" "hvf_inv (tasks s) (hvf_of c s)" for c
    using hvf_inv_init [of "tasks s" "hvf_of c s"] q [of c] by metis+
  then show ?thesis
    using assms by (simp add: hvf_ok_def hvf_sys_def hvf_boot_def curr_unique_def)
qed

lemma curr_unique_upd:
  assumes "curr_unique s" "\<And>d. d \<noteq> c \<Longrightarrow> hvf_curr (hvf_of d s') = hvf_curr (hvf_of d s)"
    and "\<And>t. hvf_curr (hvf_of c s') = Some t \<Longrightarrow> hvf_curr (hvf_of c s) = Some t \<or> not_curr t s"
  shows "curr_unique s'"
  unfolding curr_unique_def
proof (intro allI impI)
  fix a b t
  assume t: "hvf_curr (hvf_of a s') = Some t" "hvf_curr (hvf_of b s') = Some t"
  have "hvf_curr (hvf_of d s) = Some t \<or> d = c \<and> not_curr t s" if "hvf_curr (hvf_of d s') = Some t" for d
    using that assms(2) [of d] assms(3) [of t] by (cases "d = c") simp_all
  from this [OF t(1)] this [OF t(2)] show "a = b"
    using assms(1) unfolding curr_unique_def by (auto dest: not_currD(1))
qed

lemma curr_unique_same:
  "curr_unique s \<Longrightarrow> (\<And>d. hvf_curr (hvf_of d s') = hvf_curr (hvf_of d s)) \<Longrightarrow> curr_unique s'"
  by (simp add: curr_unique_def)

lemma pick_task_hvf_queued:
  assumes "hvf_sys T0 s" "\<not> hvf_rq_empty (hvf_of c s)"
  shows "pick_task_hvf c s = Inr (Some (last (queue (hvf_of c s))), s)" "queue (hvf_of c s) \<noteq> []"
  using hvf_sysD(2) [OF assms(1), of c] assms(2)
  by (simp_all add: pick_task_hvf_def Let_def pick_entity_hvf_def hvf_rq_empty_iff hvf_inv_def)

lemma curr_unique_enqueued: "curr_unique s \<Longrightarrow> enqueued c p s s' \<Longrightarrow> curr_unique s'"
  by (rule curr_unique_same) (simp_all add: enqueued_def)

lemma hvf_step_ok:
  assumes L: "rb_lib_ok L" and st: "hvf_step L tick s s'" and ok: "hvf_ok T0 s"
  shows "hvf_ok T0 s'"
proof -
  have i: "hvf_sys T0 s" and u: "curr_unique s" using ok by (simp_all add: hvf_ok_def)
  from st show ?thesis
  proof cases
    case (Join p fl c)
    obtain s'' where "enqueue_task_hvf L c p fl (upd_task p (\<lambda>v. v\<lparr>sched_class := Hvf\<rparr>) s) = Inr s''"
      "hvf_sys T0 s''" "enqueued c p s s''"
      by (rule enqueue_task_hvf_joins [OF L i Join(1,3,4,2,5)])
    with Join(6) show ?thesis
      using curr_unique_enqueued [OF u] by (auto simp: hvf_ok_def)
  next
    case (Wake p fl c)
    obtain s'' where "enqueue_task_hvf L c p fl s = Inr s''" "hvf_sys T0 s''" "enqueued c p s s''"
      by (rule enqueue_task_hvf_wakes [OF L i Wake(1,3,4,2,5)])
    with Wake(6) show ?thesis
      using curr_unique_enqueued [OF u] by (auto simp: hvf_ok_def)
  next
    case (Dequeue p c fl b)
    obtain s'' where "dequeue_task_hvf L c p fl s = Inr (True, s'')" "hvf_sys T0 s''"
      "\<And>d. hvf_curr (hvf_of d s'') = hvf_curr (hvf_of d s)"
      by (rule dequeue_task_hvf_queued [OF L i Dequeue(1), where fl = fl]) blast
    with Dequeue(2) show ?thesis
      using curr_unique_same [OF u, of s''] by (simp add: hvf_ok_def)
  next
    case (Switch_to c p)
    have p: "p \<in> set (queue (hvf_of c s))"
      using pick_task_hvf_queued [OF i Switch_to(3)] Switch_to(4) by auto
    then have "not_curr p s"
      using hvf_sysD(7) [OF i] hvf_sys_on_rq_iff [OF i] unfolding not_curr_def by blast
    with set_next_task_hvf_sys [OF L i p Switch_to(1)] show ?thesis
      using curr_unique_upd [OF u, of c s'] by (simp add: hvf_ok_def)
  next
    case (Tick c p queued)
    have "curr_unique s'"
      by (rule curr_unique_same [OF u]) (simp only: task_tick_hvf_frame(3) [OF Tick(1)])
    then show ?thesis using Tick(1) task_tick_hvf_sys [OF i] by (simp add: hvf_ok_def)
  next
    case (Preempt c p n)
    have "hvf_curr (hvf_of d s) \<noteq> Some p" if "d \<noteq> c" for d
      using u Preempt(2) that unfolding curr_unique_def by blast
    from put_prev_task_hvf_sys [OF L i Preempt(2) this Preempt(3,1)] show ?thesis
      using curr_unique_upd [OF u, of c s'] by (simp add: hvf_ok_def)
  next
    case (Sleep c p st fl b)
    let ?s = "upd_task p (\<lambda>v. v\<lparr>tstate := st\<rparr>) s"
    have "hvf_sys T0 ?s" by (rule hvf_sys_frame [OF i]) auto
    note d = dequeue_task_hvf_sleeps [OF this, where c = c and p = p]
    have "hvf_sys T0 s'" "hvf_curr (hvf_of c s') = None" "\<And>d. d \<noteq> c \<Longrightarrow> hvf_of d s' = hvf_of d s"
      using d(1) [where L = L and fl = fl] d(2) Sleep
      by (auto simp: task_is_running_def add_rq_running_def)
    then show ?thesis using curr_unique_upd [OF u, of c s'] by (simp add: hvf_ok_def)
  qed
qed

lemma hvf_run_ok:
  assumes "rb_lib_ok L" "hvf_run L tick s s'" "hvf_ok T0 s"
  shows "hvf_ok T0 s'"
  using assms(2) by induction (use assms(1,3) hvf_step_ok in blast)+

end
