(* ===== verification/Sample_Machine.thy ===== *)
theory Sample_Machine
  imports Hvf_Invariant
begin

text \<open>
  A reference instance of the tree library and a small concrete machine, on which the witnesses
  of the properties are evaluated: two cpus, cpu \<open>0\<close> running task \<open>1\<close>, every other
  task a sleeping normal task, and a wall clock that stands still.
\<close>

section \<open>A reference tree library\<close>

fun spine :: "tid list \<Rightarrow> tid tree" where
  "spine [] = Leaf"
| "spine (x # xs) = Node Leaf x (spine xs)"

lemma inorder_spine [simp]: "inorder (spine xs) = xs"
  by (induction xs) simp_all

definition ref_lib :: rb_lib where
  "ref_lib = \<lparr>
     rb_insert_color = (\<lambda>x t. t),
     rb_erase = (\<lambda>x t. spine (remove1 x (inorder t))),
     rb_next = (\<lambda>t x. next_in (inorder t) x),
     rb_prev = (\<lambda>t x. prev_in (inorder t) x),
     rb_last = (\<lambda>t. case t of Leaf \<Rightarrow> None | Node _ _ _ \<Rightarrow> Some (last (inorder t)))\<rparr>"

lemma ref_lib_ok: "rb_lib_ok ref_lib"
  by (auto simp: rb_lib_ok_def ref_lib_def split: tree.splits)

section \<open>A concrete machine\<close>

definition hvf0 :: sched_hvf_entity where
  "hvf0 = \<lparr>init_sched_value = 0, curr_sched_value = 0, first_time = 0, latest_time = 0,
     time_used = 0, runtime = 0, hvf_on_rq = False, cpu_answers = 0, cpu_first_answer = 0,
     slice_expired = False, prev_cpu = 0, curr_cpu = 0\<rparr>"

definition uclamp_se0 :: "int \<Rightarrow> nat \<Rightarrow> uclamp_se" where
  "uclamp_se0 v b = \<lparr>uc_value = v, uc_bucket_id = b, uc_active = False, uc_user_defined = False\<rparr>"

definition uclamp0 :: "uclamp_id \<Rightarrow> uclamp_se" where
  "uclamp0 i = (case i of UCLAMP_MIN \<Rightarrow> uclamp_se0 0 0 | UCLAMP_MAX \<Rightarrow> uclamp_se0 1024 4)"

definition se0 :: sched_entity where
  "se0 = \<lparr>se_load = \<lparr>weight = 1048576, inv_weight = 4194304\<rparr>, se_on_rq = False, exec_start = 0,
     sum_exec_runtime = 0, prev_sum_exec_runtime = 0, nr_migrations = 0, vruntime = 0, vlag = 0,
     slice = 2800000, custom_slice = False, sched_delayed = False,
     se_cfs_rq = Some (0, 0), se_parent = None, se_depth = 0\<rparr>"

definition task0 :: "tid \<Rightarrow> task_struct" where
  "task0 t = \<lparr>pid = int t, tstate = 1, on_rq = 0, on_cpu = False, task_cpu = 0,
     policy = 0, prio = 120, static_prio = 120, normal_prio = 120, rt_priority = 0,
     sched_class = Fair, pflags = 0, cpus_mask = {0, 1}, cpus_ptr_to = None, nr_cpus_allowed = 2, hvf = hvf0,
     deadline_1 = 0, deadline_2 = 0, computation_time = 0, pars_set = False, se = se0,
     rt = \<lparr>rt_timeout = 0, rt_time_slice = 100, rt_on_rq = False, rt_on_list = False\<rparr>,
     dl = \<lparr>dl_deadline = 0, dl_flags = 0, pi_se = t\<rparr>, dl_server = None,
     uclamp_req = uclamp0, uclamp = uclamp0, sched_reset_on_fork = False,
     timer_slack_ns = 50000, default_timer_slack_ns = 50000,
     sched_contributes_to_load = False, in_iowait = False, core_cookie = 0,
     pi_top_task = None, tif_need_resched = False, tif_need_resched_lazy = False,
     tif_polling = False, nvcsw = 0, nivcsw = 0,
     saved_state = 0, wake_cpu = 0, migration_disabled = 0, sched_remote_wakeup = False,
     user_cpus_ptr = None, mm = Some t, active_mm = Some t, migration_pending = None,
     migration_flags = 0, wake_q_queued = False, core_occupation = 0, mm_cid = None, last_mm_cid = None,
     mm_cid_active = False, migrate_from_cpu = None, cid_work_queued = False, sched_task_group = 0,
     numa_preferred_nid = - 1\<rparr>"

definition bucket0 :: uclamp_bucket where
  "bucket0 = \<lparr>bk_value = 0, bk_tasks = 0\<rparr>"

definition rq0 :: "tid \<Rightarrow> tid \<Rightarrow> rq" where
  "rq0 cur idle = \<lparr>
     rq_hvf = \<lparr>hvf_task_queue = Leaf, max_value_entity = None, hvf_curr = None, nr_hvf_queued = 0\<rparr>,
     nr_running = 1, cfs_h_nr_queued = 0, rq_curr = cur, rq_idle = idle, rq_stop = None,
     rq_dl_server = None, nr_switches = 0, nr_uninterruptible = 0, nr_iowait = 0,
     ttwu_pending = False, rq_uclamp = (\<lambda>_. \<lparr>ucr_value = 0, bucket = (\<lambda>_. bucket0)\<rparr>),
     uclamp_flags = 0, clock_update_flags = 0, rq_clock = 0, clock_task = 0, core_enabled = False, rq_core = 0,
     core_tree = Leaf, core_task_seq = 0, core_forceidle_count = 0, prev_mm = None,
     rq_membarrier_state = 0, nr_pinned = 0, push_busy = False, core_forceidle_start = 0,
     core_pick = None, core_dl_server = None, core_sched_seq = 0, core_pick_seq = 0, rq_core_cookie = 0,
     core_forceidle_seq = 0, core_forceidle_occupation = 0, balance_callback = [], rq_online = True\<rparr>"

definition tg0 :: task_group where
  "tg0 = \<lparr>tg_idle = 0, tg_shares = 1048576, tg_depth = 0, tg_parent = None, tg_children = [],
     tg_bandwidth = \<lparr>bw_period = 100000000, bw_quota = 2 ^ 64 - 1, bw_runtime = 0, bw_burst = 0,
       hierarchical_quota = - 1, bw_nr_periods = 0, bw_nr_throttled = 0, bw_nr_burst = 0,
       bw_throttled_time = 0, bw_burst_time = 0\<rparr>,
     tg_rq = (\<lambda>_. \<lparr>runtime_enabled = False, runtime_remaining = 0, throttled = False, throttled_clock_self_time = 0\<rparr>)\<rparr>"

definition boot0 :: "unit kstate" where
  "boot0 = \<lparr>
     tasks = (\<lambda>t. if t = 1 then (task0 1)\<lparr>tstate := 0, on_rq := 1, on_cpu := True\<rparr> else task0 t),
     rqs = (\<lambda>c. if c = 0 then rq0 1 100 else rq0 101 101),
     nr_cpu_ids = 2, this_cpu = 0, current = 1,
     rt_clock = (\<lambda>_. \<lparr>tv_sec = 1700000000, tv_nsec = 0\<rparr>), rt_reads = 0, trace = [],
     preempt_need_resched = False, resched_ipis = [], cpu_active_mask = {0, 1},
     cpu_online_mask = {0, 1}, wake_list = (\<lambda>_. []), uclamp_default = uclamp0,
     sched_uclamp_used = True, sched_core_key = False, sysctl_uclamp_util_min = 1024, sysctl_uclamp_util_max = 1024,
     sysctl_uclamp_min_rt = 1024,
     pendings = (\<lambda>_. \<lparr>pend_refs = 0, stop_pending = False, pend_done = False, arg_task = 0, arg_dest_cpu = 0\<rparr>),
     nr_pendings = 0, stop_works = [], sched_core_count = 0, sched_core_work = False,
     mms = (\<lambda>_. \<lparr>pcpu_cid = (\<lambda>_. \<lparr>pc_cid = Cid_unset, pc_time = 0, recent_cid = None\<rparr>), cidmask = {}, max_nr_cid = 0,
       mm_nr_cpus_allowed = 2, mm_users = 1, mm_cid_next_scan = 0\<rparr>),
     sched_smp_initialized = True, num_cpus_frozen = 0, sched_smt_present = 0, scheduler_running = True,
     tgs = (\<lambda>_. tg0), tg_list = [0], ext = ()\<rparr>"

lemmas sample_defs = boot0_def rq0_def task0_def bucket0_def se0_def hvf0_def uclamp0_def uclamp_se0_def

lemma boot0_hvf_boot: "hvf_boot 1700000000000 boot0"
  by (simp add: hvf_boot_def clock_ok_def sample_defs now_ms_def s64_def init_hvf_rq_def sdiv_nonneg)

section \<open>A run of the class\<close>

text \<open>Task \<open>2\<close> joins with parameters of its own, task \<open>3\<close> with the defaults.\<close>

definition demo0 :: "unit kstate" where
  "demo0 = upd_task 2 (\<lambda>v. v\<lparr>deadline_1 := 1700000001, deadline_2 := 1700000011,
     computation_time := 6000, pars_set := True\<rparr>) boot0"

definition res_state :: "'x kstate res \<Rightarrow> 'x kstate \<Rightarrow> 'x kstate" where
  "res_state r d = (case r of Inl _ \<Rightarrow> d | Inr s \<Rightarrow> s)"

definition demo1 :: "unit kstate" where
  "demo1 = res_state (enqueue_task_hvf ref_lib 0 2 ENQUEUE_CHANGED
     (upd_task 2 (\<lambda>v. v\<lparr>sched_class := Hvf\<rparr>) demo0)) demo0"

definition demo2 :: "unit kstate" where
  "demo2 = res_state (enqueue_task_hvf ref_lib 0 3 ENQUEUE_CHANGED
     (upd_task 3 (\<lambda>v. v\<lparr>sched_class := Hvf\<rparr>) demo1)) demo1"

lemma demo0_boot: "hvf_boot 1700000000000 demo0"
  using boot0_hvf_boot by (auto simp: hvf_boot_def demo0_def clock_ok_def)

end
