(* ===== verification/Hvf_Balance.thy ===== *)
theory Hvf_Balance
  imports Hvf_Methods "HOL-Library.Multiset"
begin

text \<open>
  Choosing a cpu for an HVF task (the \<open>CONFIG_SMP\<close> part of \<^verbatim>\<open>kernel/sched/hvf.c\<close>): the
  cpus of the affinity mask are sorted by load and the value of the task selects one of them.
  \<open>sort\<close> of \<^verbatim>\<open>lib/sort.c\<close> and the allocator are not part of this repository. \<open>sort_fn\<close>
  takes the comparison, the swap and the number of elements, \<open>sort_ok\<close> is its
  documented result; \<open>alloc\<close> returns the uninitialised array or \<open>None\<close> when the
  allocation fails.
\<close>

section \<open>Definitions\<close>

record cpu_load =
  cpu_num :: cpu
  ld_running :: int

definition compare_cpu_loads :: "cpu_load \<Rightarrow> cpu_load \<Rightarrow> int" where
  "compare_cpu_loads a b =
     (if ld_running a > ld_running b then 1
      else if ld_running a = ld_running b then 0
      else - 1)"

definition swap_cpu_loads :: "nat \<Rightarrow> nat \<Rightarrow> cpu_load list \<Rightarrow> cpu_load list" where
  "swap_cpu_loads a b xs = (let tmp = xs ! a; xs = xs[a := xs ! b] in xs[b := tmp])"

type_synonym sort_lib =
  "nat \<Rightarrow> (cpu_load \<Rightarrow> cpu_load \<Rightarrow> int) \<Rightarrow> (nat \<Rightarrow> nat \<Rightarrow> cpu_load list \<Rightarrow> cpu_load list) \<Rightarrow>
   cpu_load list \<Rightarrow> cpu_load list"

definition sort_ok :: "sort_lib \<Rightarrow> bool" where
  "sort_ok S \<longleftrightarrow>
     (\<forall>xs cmp swp.
        (\<forall>a b i j. (cmp a b \<le> 0 \<or> cmp b a \<le> 0) \<and>
           (i < length xs \<longrightarrow> j < length xs \<longrightarrow> mset (swp i j xs) = mset xs)) \<longrightarrow>
        (\<forall>a b c. cmp a b \<le> 0 \<longrightarrow> cmp b c \<le> 0 \<longrightarrow> cmp a c \<le> 0) \<longrightarrow>
        mset (S (length xs) cmp swp xs) = mset xs \<and>
        sorted_wrt (\<lambda>a b. cmp a b \<le> 0) (S (length xs) cmp swp xs))"

definition for_each_cpu :: "cpumask \<Rightarrow> 'x kstate \<Rightarrow> cpu list" where
  "for_each_cpu cpus s = filter (\<lambda>c. c \<in> cpus) [0..<nr_cpu_ids s]"

text \<open>
  The loop writes one entry per cpu of the mask, from the front of the array; a write past its
  end is a fault.
\<close>

fun fill_loads :: "(cpu \<Rightarrow> rq) \<Rightarrow> cpu list \<Rightarrow> cpu_load list \<Rightarrow> cpu_load list res" where
  "fill_loads r [] loads = Inr loads"
| "fill_loads r (c # cs) [] = Inl Bad_pointer"
| "fill_loads r (c # cs) (_ # loads) =
     bindr (fill_loads r cs loads)
       (\<lambda>rest. Inr (\<lparr>cpu_num = c, ld_running = nr_running (r c)\<rparr> # rest))"

definition sort_cpu_loads_in_mask ::
    "sort_lib \<Rightarrow> cpumask \<Rightarrow> cpu_load list \<Rightarrow> nat \<Rightarrow> 'x kstate \<Rightarrow> cpu_load list res" where
  "sort_cpu_loads_in_mask S cpus loads nr_cpus s =
     bindr (fill_loads (rqs s) (for_each_cpu cpus s) loads)
       (\<lambda>loads. Inr (S nr_cpus compare_cpu_loads swap_cpu_loads loads))"

text \<open>
  \<open>sched_value\<close> is a \<open>long\<close> and \<open>(j + 1) * chunk_size\<close> a \<open>size_t\<close>, so the
  comparison is unsigned. \<open>H / nr_cpus\<close> traps when \<open>nr_cpus\<close> is zero.
\<close>

definition get_right_cpu :: "cpu_load list \<Rightarrow> int \<Rightarrow> nat \<Rightarrow> cpu res" where
  "get_right_cpu loads sched_value nr_cpus =
     bindr (cdiv H (int nr_cpus))
       (\<lambda>chunk_size.
          case find (\<lambda>j. u64 sched_value < u64 ((int j + 1) * chunk_size)) [0..<nr_cpus] of
            Some j \<Rightarrow> Inr (cpu_num (loads ! j))
          | None \<Rightarrow> Inr (cpu_num (loads ! (nr_cpus - 1))))"

definition select_task_rq_hvf ::
    "sort_lib \<Rightarrow> (nat \<Rightarrow> cpu_load list option) \<Rightarrow> tid \<Rightarrow> cpu \<Rightarrow> flags \<Rightarrow> 'x kstate \<Rightarrow>
     (cpu \<times> 'x kstate) res" where
  "select_task_rq_hvf S alloc p prev wake_flags s =
     (let out = (\<lambda>new_cpu. Inr (new_cpu, upd_task p (\<lambda>v. v\<lparr>hvf := (hvf v)
                    \<lparr>prev_cpu := int prev, curr_cpu := int new_cpu\<rparr>\<rparr>) s));
          cpu_len = nr_cpus_allowed (tasks s p)
      in if wake_flags AND (WF_TTWU OR WF_FORK) = 0 then out prev
         else if cpu_len = 1 then out prev
         else case alloc (nat cpu_len) of
                None \<Rightarrow> Inl Bad_pointer
              | Some loads \<Rightarrow>
                  bindr (sort_cpu_loads_in_mask S (cpus_ptr (tasks s p)) loads (nat cpu_len) s)
                    (\<lambda>loads. bindr (get_right_cpu loads (curr_sched_value (hvf (tasks s p))) (nat cpu_len))
                       out))"

definition migrate_task_rq_hvf :: "tid \<Rightarrow> cpu \<Rightarrow> 'x kstate \<Rightarrow> 'x kstate" where
  "migrate_task_rq_hvf p new_cpu s =
     (let s = upd_task p (\<lambda>v. v\<lparr>hvf := (hvf v)\<lparr>curr_cpu := int new_cpu\<rparr>\<rparr>) s;
          prev = prev_cpu (hvf (tasks s p));
          prev_running = nr_running (rqs s (nat prev));
          new_running = nr_running (rqs s new_cpu);
          curr_value = curr_sched_value (hvf (tasks s p))
      in if prev \<noteq> int new_cpu
         then s\<lparr>trace := trace s @
                [Hvf_task_migrates (pid (tasks s p)) curr_value prev prev_running (int new_cpu) new_running]\<rparr>
         else s)"

definition sched_hvf_runnable :: "rq \<Rightarrow> bool" where
  "sched_hvf_runnable r \<longleftrightarrow> nr_hvf_queued (rq_hvf r) > 0"

definition balance_hvf :: "cpu \<Rightarrow> tid \<Rightarrow> 'x kstate \<Rightarrow> bool" where
  "balance_hvf c prev s = sched_hvf_runnable (rqs s c)"

section \<open>The comparison and the swap meet the sort's contract\<close>

lemma compare_cpu_loads_le: "compare_cpu_loads a b \<le> 0 \<longleftrightarrow> ld_running a \<le> ld_running b"
  by (simp add: compare_cpu_loads_def)

lemma swap_cpu_loads_mset:
  assumes "i < length xs" "j < length xs"
  shows "mset (swap_cpu_loads i j xs) = mset xs"
  using mset_swap [OF assms(2,1)] by (simp add: swap_cpu_loads_def Let_def)

lemma sort_cpu_loads:
  assumes "sort_ok S"
  shows "mset (S (length xs) compare_cpu_loads swap_cpu_loads xs) = mset xs"
    and "sorted_wrt (\<lambda>a b. ld_running a \<le> ld_running b)
      (S (length xs) compare_cpu_loads swap_cpu_loads xs)"
proof -
  have "mset (S (length xs) compare_cpu_loads swap_cpu_loads xs) = mset xs \<and>
      sorted_wrt (\<lambda>a b. compare_cpu_loads a b \<le> 0) (S (length xs) compare_cpu_loads swap_cpu_loads xs)"
  proof -
    have "\<forall>a b i j. (compare_cpu_loads a b \<le> 0 \<or> compare_cpu_loads b a \<le> 0) \<and>
        (i < length xs \<longrightarrow> j < length xs \<longrightarrow> mset (swap_cpu_loads i j xs) = mset xs)"
      using swap_cpu_loads_mset by (auto simp: compare_cpu_loads_le)
    moreover have "\<forall>a b c. compare_cpu_loads a b \<le> 0 \<longrightarrow> compare_cpu_loads b c \<le> 0 \<longrightarrow>
        compare_cpu_loads a c \<le> 0"
      by (auto simp: compare_cpu_loads_le)
    ultimately show ?thesis using assms unfolding sort_ok_def by blast
  qed
  then show "mset (S (length xs) compare_cpu_loads swap_cpu_loads xs) = mset xs"
    and "sorted_wrt (\<lambda>a b. ld_running a \<le> ld_running b)
      (S (length xs) compare_cpu_loads swap_cpu_loads xs)"
    by (simp_all add: compare_cpu_loads_le)
qed

lemma fill_loads_eq:
  "length cs = length loads \<Longrightarrow>
   fill_loads r cs loads = Inr (map (\<lambda>c. \<lparr>cpu_num = c, ld_running = nr_running (r c)\<rparr>) cs)"
  by (induction r cs loads rule: fill_loads.induct) simp_all

lemma fill_loads_overrun: "length loads < length cs \<Longrightarrow> fill_loads r cs loads = Inl Bad_pointer"
  by (induction r cs loads rule: fill_loads.induct) simp_all

section \<open>Which cpu the value selects\<close>

lemma find_upt_first:
  assumes "k < n" "P k" "\<And>j. j < k \<Longrightarrow> \<not> P j"
  shows "find P [0..<n] = Some k"
proof -
  have "[0..<n] = [0..<k] @ k # [Suc k..<n]"
    using assms(1) upt_add_eq_append [of 0 k "n - k"] by (simp add: upt_conv_Cons)
  moreover have "find P (xs @ k # ys) = Some k" if "\<forall>j \<in> set xs. \<not> P j" for xs ys
    using that assms(2) by (induction xs) auto
  ultimately show ?thesis using assms(3) by simp
qed

lemma int_less_mult_iff:
  fixes c v k :: int
  assumes "0 < c"
  shows "v < k * c \<longleftrightarrow> v div c < k"
proof
  assume "v < k * c"
  then show "v div c < k"
    using assms div_mult_mod_eq [of v c] pos_mod_sign [of c v] mult_right_mono [of k "v div c" c]
    by linarith
next
  assume "v div c < k"
  then have "(v div c + 1) * c \<le> k * c" using assms by (intro mult_right_mono) simp_all
  then show "v < k * c"
    using assms div_mult_mod_eq [of v c] pos_mod_bound [of c v] distrib_right [of "v div c" 1 c]
    by linarith
qed

text \<open>With at most 100 cpus the value is divided into chunks of \<open>H / nr_cpus\<close>.\<close>

lemma get_right_cpu_eq:
  assumes n: "0 < n" "n \<le> 100" and v: "0 \<le> v" "v < 2 ^ 63"
  shows "get_right_cpu loads v n =
    Inr (cpu_num (loads ! min (nat (v div (H div int n))) (n - 1)))"
proof -
  define c where "c = H div int n"
  have c: "1 \<le> c" "c \<le> 100" "c * int n \<le> 100"
  proof -
    have "int n div int n \<le> H div int n" using n by (intro zdiv_mono1) simp_all
    then show "1 \<le> c" using n by (simp add: c_def)
    have "H div int n \<le> H div 1" using n by (intro zdiv_mono2) simp_all
    then show "c \<le> 100" by (simp add: c_def)
    have "H = c * int n + H mod int n" by (simp add: c_def)
    then show "c * int n \<le> 100" using n pos_mod_sign [of "int n" H] by linarith
  qed
  have cd: "cdiv H (int n) = Inr c" using n by (simp add: cdiv_nonneg c_def)
  have lt: "u64 v < u64 ((int j + 1) * c) \<longleftrightarrow> nat (v div c) \<le> j" if "j < n" for j
  proof -
    have "(int j + 1) * c \<le> int n * c" using that c by (intro mult_right_mono) simp_all
    then have "0 \<le> (int j + 1) * c" "(int j + 1) * c \<le> 100"
      using c by (simp_all only: mult.commute [of "int n"]) simp_all
    then have "u64 ((int j + 1) * c) = (int j + 1) * c" by (intro u64_id) simp_all
    moreover have "u64 v = v" using v by (intro u64_id) simp_all
    moreover have "v < (int j + 1) * c \<longleftrightarrow> v div c < int j + 1"
      using int_less_mult_iff [of c v "int j + 1"] c by simp
    ultimately show ?thesis using v c by (auto simp: pos_imp_zdiv_nonneg_iff)
  qed
  show ?thesis
  proof (cases "nat (v div c) < n")
    case True
    have "find (\<lambda>j. u64 v < u64 ((int j + 1) * c)) [0..<n] = Some (nat (v div c))"
    proof (rule find_upt_first [OF True])
      show "u64 v < u64 ((int (nat (v div c)) + 1) * c)" using lt [OF True] by blast
      show "\<not> u64 v < u64 ((int j + 1) * c)" if "j < nat (v div c)" for j
        using lt [of j] that True by linarith
    qed
    then show ?thesis using True by (simp add: get_right_cpu_def cd min_def flip: c_def)
  next
    case False
    then have "find (\<lambda>j. u64 v < u64 ((int j + 1) * c)) [0..<n] = None"
      using lt by (auto simp: find_None_iff)
    then show ?thesis using False n by (simp add: get_right_cpu_def cd min_def flip: c_def)
  qed
qed

text \<open>With more than 100 cpus every chunk is empty and the value plays no part.\<close>

lemma get_right_cpu_many:
  assumes "100 < n"
  shows "get_right_cpu loads v n = Inr (cpu_num (loads ! (n - 1)))"
proof -
  have "cdiv H (int n) = Inr 0" using assms by (simp add: cdiv_nonneg)
  moreover have "find (\<lambda>j. u64 v < u64 0) [0..<n] = None"
    by (auto simp: find_None_iff u64_def)
  ultimately show ?thesis by (simp add: get_right_cpu_def)
qed

section \<open>Selection\<close>

text \<open>
  The affinity mask of a task names existing cpus and \<open>nr_cpus_allowed\<close> is its weight; the
  allocator returns an array of the requested length.
\<close>

definition affinity_ok :: "'x kstate \<Rightarrow> tid \<Rightarrow> bool" where
  "affinity_ok s p \<longleftrightarrow>
     cpus_ptr (tasks s p) \<subseteq> {..<nr_cpu_ids s} \<and> cpus_ptr (tasks s p) \<noteq> {} \<and>
     nr_cpus_allowed (tasks s p) = int (card (cpus_ptr (tasks s p)))"

definition alloc_ok :: "(nat \<Rightarrow> cpu_load list option) \<Rightarrow> bool" where
  "alloc_ok alloc \<longleftrightarrow> (\<forall>n. \<exists>xs. alloc n = Some xs \<and> length xs = n)"

text \<open>The loads of the allowed cpus, least loaded first, as the sort leaves them.\<close>

definition sorted_loads :: "sort_lib \<Rightarrow> cpumask \<Rightarrow> 'x kstate \<Rightarrow> cpu_load list" where
  "sorted_loads S cpus s =
     (let cs = for_each_cpu cpus s
      in S (length cs) compare_cpu_loads swap_cpu_loads
           (map (\<lambda>c. \<lparr>cpu_num = c, ld_running = nr_running (rqs s c)\<rparr>) cs))"

lemma set_for_each_cpu: "set (for_each_cpu cpus s) = cpus \<inter> {..<nr_cpu_ids s}"
  by (auto simp: for_each_cpu_def)

lemma length_for_each_cpu:
  assumes "affinity_ok s p"
  shows "length (for_each_cpu (cpus_ptr (tasks s p)) s) = card (cpus_ptr (tasks s p))"
proof -
  have "distinct (for_each_cpu (cpus_ptr (tasks s p)) s)" by (simp add: for_each_cpu_def)
  moreover have "set (for_each_cpu (cpus_ptr (tasks s p)) s) = cpus_ptr (tasks s p)"
    using assms by (auto simp: set_for_each_cpu affinity_ok_def)
  ultimately show ?thesis by (metis distinct_card)
qed

lemma sorted_loads_props:
  assumes "sort_ok S" "affinity_ok s p"
  shows "length (sorted_loads S (cpus_ptr (tasks s p)) s) = card (cpus_ptr (tasks s p))"
    and "l \<in> set (sorted_loads S (cpus_ptr (tasks s p)) s) \<Longrightarrow>
      cpu_num l \<in> cpus_ptr (tasks s p) \<and> ld_running l = nr_running (rqs s (cpu_num l))"
    and "sorted_wrt (\<lambda>a b. ld_running a \<le> ld_running b) (sorted_loads S (cpus_ptr (tasks s p)) s)"
proof -
  let ?cs = "for_each_cpu (cpus_ptr (tasks s p)) s"
  let ?xs = "map (\<lambda>c. \<lparr>cpu_num = c, ld_running = nr_running (rqs s c)\<rparr>) ?cs"
  have eq: "sorted_loads S (cpus_ptr (tasks s p)) s = S (length ?xs) compare_cpu_loads swap_cpu_loads ?xs"
    by (simp add: sorted_loads_def Let_def)
  note so = sort_cpu_loads [OF assms(1), of ?xs, folded eq]
  show "length (sorted_loads S (cpus_ptr (tasks s p)) s) = card (cpus_ptr (tasks s p))"
    using mset_eq_length [OF so(1)] length_for_each_cpu [OF assms(2)] by simp
  show "l \<in> set (sorted_loads S (cpus_ptr (tasks s p)) s) \<Longrightarrow>
      cpu_num l \<in> cpus_ptr (tasks s p) \<and> ld_running l = nr_running (rqs s (cpu_num l))"
    using mset_eq_setD [OF so(1)] by (auto simp: set_for_each_cpu)
  show "sorted_wrt (\<lambda>a b. ld_running a \<le> ld_running b) (sorted_loads S (cpus_ptr (tasks s p)) s)"
    by (fact so(2))
qed

lemma sorted_loads_cover:
  assumes "sort_ok S" "affinity_ok s p"
  shows "cpu_num ` set (sorted_loads S (cpus_ptr (tasks s p)) s) = cpus_ptr (tasks s p)"
proof -
  let ?xs = "map (\<lambda>c. \<lparr>cpu_num = c, ld_running = nr_running (rqs s c)\<rparr>) (for_each_cpu (cpus_ptr (tasks s p)) s)"
  have "set (sorted_loads S (cpus_ptr (tasks s p)) s) = set ?xs"
    using mset_eq_setD [OF sort_cpu_loads(1) [OF assms(1), of ?xs]] by (simp add: sorted_loads_def Let_def)
  then show ?thesis using assms(2) by (auto simp: image_image set_for_each_cpu affinity_ok_def)
qed

text \<open>The cpu that \<open>select_task_rq_hvf\<close> returns on a wake-up or fork.\<close>

lemma select_task_rq_hvf_eq:
  assumes S: "sort_ok S" and a: "alloc_ok alloc" and p: "affinity_ok s p"
    and wf: "fl AND (WF_TTWU OR WF_FORK) \<noteq> 0" and many: "nr_cpus_allowed (tasks s p) \<noteq> 1"
  shows "select_task_rq_hvf S alloc p prev fl s =
    bindr (get_right_cpu (sorted_loads S (cpus_ptr (tasks s p)) s) (curr_sched_value (hvf (tasks s p)))
             (card (cpus_ptr (tasks s p))))
      (\<lambda>c. Inr (c, upd_task p (\<lambda>v. v\<lparr>hvf := (hvf v)\<lparr>prev_cpu := int prev, curr_cpu := int c\<rparr>\<rparr>) s))"
proof -
  let ?n = "card (cpus_ptr (tasks s p))"
  obtain xs where xs: "alloc ?n = Some xs" "length xs = ?n" using a unfolding alloc_ok_def by blast
  have n: "nat (nr_cpus_allowed (tasks s p)) = ?n" using p by (simp add: affinity_ok_def)
  have "fill_loads (rqs s) (for_each_cpu (cpus_ptr (tasks s p)) s) xs =
      Inr (map (\<lambda>c. \<lparr>cpu_num = c, ld_running = nr_running (rqs s c)\<rparr>) (for_each_cpu (cpus_ptr (tasks s p)) s))"
    by (rule fill_loads_eq) (simp add: length_for_each_cpu [OF p] xs)
  then have "sort_cpu_loads_in_mask S (cpus_ptr (tasks s p)) xs ?n s =
      Inr (sorted_loads S (cpus_ptr (tasks s p)) s)"
    by (simp add: sort_cpu_loads_in_mask_def sorted_loads_def Let_def length_for_each_cpu [OF p])
  then show ?thesis
    using wf many by (simp add: select_task_rq_hvf_def Let_def n xs(1))
qed

end
