(* ===== verification/Uclamp.thy ===== *)
theory Uclamp
  imports Sched_Types "HOL-Library.Multiset"
begin

text \<open>
  Utilisation clamping (\<open>CONFIG_UCLAMP_TASK\<close> of \<^verbatim>\<open>kernel/sched/core.c\<close>, without task
  groups): every run queue counts, per clamp, its runnable tasks in buckets of clamp values, and
  caches the largest value. The model keeps the bit fields at their width: 11 bits for a clamp
  value, 53 for a bucket's task count. \<open>UCLAMP_BUCKETS\<close> is the default of
  \<open>CONFIG_UCLAMP_BUCKETS_COUNT\<close>.
\<close>

abbreviation (input) UCLAMP_BUCKETS :: nat where "UCLAMP_BUCKETS \<equiv> 5"
abbreviation (input) UCLAMP_FLAG_IDLE :: flags where "UCLAMP_FLAG_IDLE \<equiv> 0x01"

section \<open>Definitions\<close>

definition uclamp_none :: "uclamp_id \<Rightarrow> int" where
  "uclamp_none clamp_id = (if clamp_id = UCLAMP_MIN then 0 else SCHED_CAPACITY_SCALE)"

definition UCLAMP_BUCKET_DELTA :: int where
  "UCLAMP_BUCKET_DELTA = (SCHED_CAPACITY_SCALE + int UCLAMP_BUCKETS div 2) div int UCLAMP_BUCKETS"

definition uclamp_bucket_id :: "int \<Rightarrow> nat" where
  "uclamp_bucket_id clamp_value =
     nat (min (clamp_value div UCLAMP_BUCKET_DELTA) (int (UCLAMP_BUCKETS - 1)))"

definition uclamp_se_set :: "int \<Rightarrow> bool \<Rightarrow> uclamp_se \<Rightarrow> uclamp_se" where
  "uclamp_se_set v user_defined uc_se =
     uc_se\<lparr>uc_value := v mod 2 ^ 11, uc_bucket_id := uclamp_bucket_id v,
           uc_user_defined := user_defined\<rparr>"

definition uclamp_rq_get :: "uclamp_id \<Rightarrow> rq \<Rightarrow> int" where
  "uclamp_rq_get clamp_id r = ucr_value (rq_uclamp r clamp_id)"

definition uclamp_rq_set :: "uclamp_id \<Rightarrow> int \<Rightarrow> rq \<Rightarrow> rq" where
  "uclamp_rq_set clamp_id v r =
     r\<lparr>rq_uclamp := (rq_uclamp r)(clamp_id := (rq_uclamp r clamp_id)\<lparr>ucr_value := v\<rparr>)\<rparr>"

definition uclamp_rq_is_idle :: "rq \<Rightarrow> bool" where
  "uclamp_rq_is_idle r \<longleftrightarrow> uclamp_flags r AND UCLAMP_FLAG_IDLE \<noteq> 0"

definition uclamp_idle_value :: "uclamp_id \<Rightarrow> int \<Rightarrow> rq \<Rightarrow> int \<times> rq" where
  "uclamp_idle_value clamp_id clamp_value r =
     (if clamp_id = UCLAMP_MAX
      then (clamp_value, r\<lparr>uclamp_flags := uclamp_flags r OR UCLAMP_FLAG_IDLE\<rparr>)
      else (uclamp_none UCLAMP_MIN, r))"

definition uclamp_idle_reset :: "uclamp_id \<Rightarrow> int \<Rightarrow> rq \<Rightarrow> rq" where
  "uclamp_idle_reset clamp_id clamp_value r =
     (if \<not> uclamp_rq_is_idle r then r else uclamp_rq_set clamp_id clamp_value r)"

text \<open>The scan of the buckets from the top: the index of the first one with a task.\<close>

fun top_bucket :: "(nat \<Rightarrow> uclamp_bucket) \<Rightarrow> nat \<Rightarrow> nat option" where
  "top_bucket bk 0 = None"
| "top_bucket bk (Suc n) = (if bk_tasks (bk n) = 0 then top_bucket bk n else Some n)"

definition uclamp_rq_max_value :: "uclamp_id \<Rightarrow> int \<Rightarrow> rq \<Rightarrow> int \<times> rq" where
  "uclamp_rq_max_value clamp_id clamp_value r =
     (let bk = bucket (rq_uclamp r clamp_id)
      in case top_bucket bk UCLAMP_BUCKETS of
           Some bucket_id \<Rightarrow> (bk_value (bk bucket_id), r)
         | None \<Rightarrow> uclamp_idle_value clamp_id clamp_value r)"

text \<open>\<open>CONFIG_UCLAMP_TASK_GROUP\<close> is off, so a task group does not restrict a request.\<close>

definition uclamp_tg_restrict :: "task_struct \<Rightarrow> uclamp_id \<Rightarrow> uclamp_se" where
  "uclamp_tg_restrict p clamp_id = uclamp_req p clamp_id"

definition uclamp_eff_get :: "(uclamp_id \<Rightarrow> uclamp_se) \<Rightarrow> task_struct \<Rightarrow> uclamp_id \<Rightarrow> uclamp_se" where
  "uclamp_eff_get dflt p clamp_id =
     (let uc_req = uclamp_tg_restrict p clamp_id; uc_max = dflt clamp_id
      in if uc_value uc_req > uc_value uc_max then uc_max else uc_req)"

definition uclamp_eff_value :: "(uclamp_id \<Rightarrow> uclamp_se) \<Rightarrow> task_struct \<Rightarrow> uclamp_id \<Rightarrow> int" where
  "uclamp_eff_value dflt p clamp_id =
     (if uc_active (uclamp p clamp_id) then uc_value (uclamp p clamp_id)
      else uc_value (uclamp_eff_get dflt p clamp_id))"

abbreviation set_bucket :: "uclamp_id \<Rightarrow> nat \<Rightarrow> (uclamp_bucket \<Rightarrow> uclamp_bucket) \<Rightarrow> rq \<Rightarrow> rq" where
  "set_bucket i b f r \<equiv>
     r\<lparr>rq_uclamp := (rq_uclamp r)(i := (rq_uclamp r i)\<lparr>bucket :=
         (bucket (rq_uclamp r i))(b := f (bucket (rq_uclamp r i) b))\<rparr>)\<rparr>"

definition uclamp_rq_inc_id ::
    "(uclamp_id \<Rightarrow> uclamp_se) \<Rightarrow> uclamp_id \<Rightarrow> rq \<times> task_struct \<Rightarrow> rq \<times> task_struct" where
  "uclamp_rq_inc_id dflt i = (\<lambda>(r, p).
     let p = p\<lparr>uclamp := (uclamp p)(i := uclamp_eff_get dflt p i)\<rparr>;
         b = uc_bucket_id (uclamp p i);
         r = set_bucket i b (\<lambda>k. k\<lparr>bk_tasks := (bk_tasks k + 1) mod 2 ^ 53\<rparr>) r;
         p = p\<lparr>uclamp := (uclamp p)(i := (uclamp p i)\<lparr>uc_active := True\<rparr>)\<rparr>;
         v = uc_value (uclamp p i);
         r = uclamp_idle_reset i v r;
         k = bucket (rq_uclamp r i) b;
         r = (if bk_tasks k = 1 \<or> v > bk_value k
              then set_bucket i b (\<lambda>k. k\<lparr>bk_value := v\<rparr>) r else r);
         r = (if v > uclamp_rq_get i r then uclamp_rq_set i v r else r)
     in (r, p))"

definition uclamp_rq_dec_id :: "uclamp_id \<Rightarrow> rq \<times> task_struct \<Rightarrow> rq \<times> task_struct" where
  "uclamp_rq_dec_id i = (\<lambda>(r, p).
     if \<not> uc_active (uclamp p i) then (r, p)
     else
       let b = uc_bucket_id (uclamp p i);
           r = (if bk_tasks (bucket (rq_uclamp r i) b) \<noteq> 0
                then set_bucket i b (\<lambda>k. k\<lparr>bk_tasks := bk_tasks k - 1\<rparr>) r else r);
           p = p\<lparr>uclamp := (uclamp p)(i := (uclamp p i)\<lparr>uc_active := False\<rparr>)\<rparr>;
           k = bucket (rq_uclamp r i) b
       in if bk_tasks k \<noteq> 0 then (r, p)
          else let rq_clamp = uclamp_rq_get i r
               in if bk_value k \<ge> rq_clamp
                  then let (bkt_clamp, r) = uclamp_rq_max_value i (uc_value (uclamp p i)) r
                       in (uclamp_rq_set i bkt_clamp r, p)
                  else (r, p))"

text \<open>\<open>enabled\<close> is \<open>uclamp_enabled\<close> of the class of the task.\<close>

abbreviation upd_rq_task ::
    "cpu \<Rightarrow> tid \<Rightarrow> (rq \<times> task_struct \<Rightarrow> rq \<times> task_struct) \<Rightarrow> 'x kstate \<Rightarrow> 'x kstate" where
  "upd_rq_task c p f s \<equiv>
     set_task p (snd (f (rqs s c, tasks s p))) (set_rq c (fst (f (rqs s c, tasks s p))) s)"

definition uclamp_rq_inc :: "bool \<Rightarrow> cpu \<Rightarrow> tid \<Rightarrow> 'x kstate \<Rightarrow> 'x kstate" where
  "uclamp_rq_inc enabled c p s =
     (if \<not> sched_uclamp_used s then s
      else if \<not> enabled then s
      else if sched_delayed (se (tasks s p)) then s
      else
        let s = upd_rq_task c p (uclamp_rq_inc_id (uclamp_default s) UCLAMP_MIN) s;
            s = upd_rq_task c p (uclamp_rq_inc_id (uclamp_default s) UCLAMP_MAX) s
        in if uclamp_rq_is_idle (rqs s c)
           then upd_rq c (\<lambda>r. r\<lparr>uclamp_flags := uclamp_flags r AND NOT UCLAMP_FLAG_IDLE\<rparr>) s
           else s)"

definition uclamp_rq_dec :: "bool \<Rightarrow> cpu \<Rightarrow> tid \<Rightarrow> 'x kstate \<Rightarrow> 'x kstate" where
  "uclamp_rq_dec enabled c p s =
     (if \<not> sched_uclamp_used s then s
      else if \<not> enabled then s
      else if sched_delayed (se (tasks s p)) then s
      else
        let s = upd_rq_task c p (uclamp_rq_dec_id UCLAMP_MIN) s
        in upd_rq_task c p (uclamp_rq_dec_id UCLAMP_MAX) s)"

definition uclamp_rq_reinc_id :: "uclamp_id \<Rightarrow> cpu \<Rightarrow> tid \<Rightarrow> 'x kstate \<Rightarrow> 'x kstate" where
  "uclamp_rq_reinc_id i c p s =
     (if \<not> uc_active (uclamp (tasks s p) i) then s
      else
        let s = upd_rq_task c p (uclamp_rq_dec_id i) s;
            s = upd_rq_task c p (uclamp_rq_inc_id (uclamp_default s) i) s
        in if i = UCLAMP_MAX \<and> uclamp_rq_is_idle (rqs s c)
           then upd_rq c (\<lambda>r. r\<lparr>uclamp_flags := uclamp_flags r AND NOT UCLAMP_FLAG_IDLE\<rparr>) s
           else s)"

definition uclamp_update_active :: "tid \<Rightarrow> 'x kstate \<Rightarrow> 'x kstate" where
  "uclamp_update_active p s =
     (let c = task_cpu (tasks s p)
      in uclamp_rq_reinc_id UCLAMP_MAX c p (uclamp_rq_reinc_id UCLAMP_MIN c p s))"

text \<open>Real-time tasks that did not choose a clamp follow the system default.\<close>

definition rt_task :: "task_struct \<Rightarrow> bool" where
  "rt_task p \<longleftrightarrow> rt_prio (prio p)"

definition uclamp_sync_util_min_rt :: "int \<Rightarrow> task_struct \<Rightarrow> task_struct" where
  "uclamp_sync_util_min_rt rt_default p =
     (let uc_se = uclamp_req p UCLAMP_MIN in
      if uc_user_defined uc_se then p
      else p\<lparr>uclamp_req := (uclamp_req p)(UCLAMP_MIN := uclamp_se_set rt_default False uc_se)\<rparr>)"

definition uclamp_update_util_min_rt_default :: "tid \<Rightarrow> 'x kstate \<Rightarrow> 'x kstate" where
  "uclamp_update_util_min_rt_default p s =
     (if \<not> rt_task (tasks s p) then s
      else upd_task p (uclamp_sync_util_min_rt (sysctl_uclamp_min_rt s)) s)"

text \<open>\<open>threads\<close> is the walk over the thread list, \<open>for_each_process_thread\<close>.\<close>

definition uclamp_sync_util_min_rt_default :: "tid list \<Rightarrow> 'x kstate \<Rightarrow> 'x kstate" where
  "uclamp_sync_util_min_rt_default threads s = fold uclamp_update_util_min_rt_default threads s"

text \<open>
  The sysctl handler. \<open>proc\<close> is \<open>proc_dointvec\<close> on one of the three knobs: its result and
  the knobs after it, in the order minimum, maximum, real-time minimum.
\<close>

definition sysctl_sched_uclamp_handler ::
    "('x kstate \<Rightarrow> int \<times> int \<times> int \<times> int) \<Rightarrow> tid list \<Rightarrow> bool \<Rightarrow> 'x kstate \<Rightarrow> int \<times> 'x kstate" where
  "sysctl_sched_uclamp_handler proc threads write s =
     (let old = s;
          (result, mn, mx, mrt) = proc s;
          s = s\<lparr>sysctl_uclamp_util_min := mn, sysctl_uclamp_util_max := mx, sysctl_uclamp_min_rt := mrt\<rparr>
      in if result \<noteq> 0 then (result, old)
         else if \<not> write then (0, s)
         else if mn > mx \<or> mx > SCHED_CAPACITY_SCALE \<or> mrt > SCHED_CAPACITY_SCALE then (- EINVAL, old)
         else
           let ch_min = (sysctl_uclamp_util_min old \<noteq> mn);
               ch_max = (sysctl_uclamp_util_max old \<noteq> mx);
               s = (if ch_min then s\<lparr>uclamp_default := (uclamp_default s)(UCLAMP_MIN :=
                      uclamp_se_set mn False (uclamp_default s UCLAMP_MIN))\<rparr> else s);
               s = (if ch_max then s\<lparr>uclamp_default := (uclamp_default s)(UCLAMP_MAX :=
                      uclamp_se_set mx False (uclamp_default s UCLAMP_MAX))\<rparr> else s);
               s = (if ch_min \<or> ch_max then s\<lparr>sched_uclamp_used := True\<rparr> else s);
               s = (if sysctl_uclamp_min_rt old \<noteq> mrt
                    then uclamp_sync_util_min_rt_default threads (s\<lparr>sched_uclamp_used := True\<rparr>)
                    else s)
           in (0, s))"

definition uclamp_fork :: "task_struct \<Rightarrow> task_struct" where
  "uclamp_fork p =
     (let p = p\<lparr>uclamp := (\<lambda>i. (uclamp p i)\<lparr>uc_active := False\<rparr>)\<rparr>
      in if \<not> sched_reset_on_fork p then p
         else p\<lparr>uclamp_req := (\<lambda>i. uclamp_se_set (uclamp_none i) False (uclamp_req p i))\<rparr>)"

definition uclamp_post_fork :: "tid \<Rightarrow> 'x kstate \<Rightarrow> 'x kstate" where
  "uclamp_post_fork p s = uclamp_update_util_min_rt_default p s"

definition init_uclamp_rq :: "rq \<Rightarrow> rq" where
  "init_uclamp_rq r =
     r\<lparr>rq_uclamp := (\<lambda>i. \<lparr>ucr_value = uclamp_none i, bucket = (\<lambda>_. \<lparr>bk_value = 0, bk_tasks = 0\<rparr>)\<rparr>),
       uclamp_flags := UCLAMP_FLAG_IDLE\<rparr>"

text \<open>\<open>init\<close> is \<open>init_task\<close>.\<close>

definition init_uclamp :: "tid \<Rightarrow> 'x kstate \<Rightarrow> 'x kstate" where
  "init_uclamp init s =
     (let s = s\<lparr>rqs := (\<lambda>c. if c < nr_cpu_ids s then init_uclamp_rq (rqs s c) else rqs s c)\<rparr>;
          s = upd_task init (\<lambda>p. p\<lparr>uclamp_req :=
                (\<lambda>i. uclamp_se_set (uclamp_none i) False (uclamp_req p i))\<rparr>) s;
          uc_max = uclamp_se_set (uclamp_none UCLAMP_MAX) False
            \<lparr>uc_value = 0, uc_bucket_id = 0, uc_active = False, uc_user_defined = False\<rparr>
      in s\<lparr>uclamp_default := (\<lambda>_. uc_max)\<rparr>)"

section \<open>Clamps in the attributes of a task\<close>

text \<open>
  \<open>util_min\<close> and \<open>util_max\<close> are \<open>int\<close>s loaded from unsigned fields, and
  \<open>SCHED_CAPACITY_SCALE\<close> is a \<open>long\<close>, so the range checks are signed.
\<close>

definition uclamp_validate :: "task_struct \<Rightarrow> sched_attr \<Rightarrow> 'x kstate \<Rightarrow> int \<times> 'x kstate" where
  "uclamp_validate p attr s =
     (let set_min = (sa_flags attr AND SCHED_FLAG_UTIL_CLAMP_MIN \<noteq> 0);
          set_max = (sa_flags attr AND SCHED_FLAG_UTIL_CLAMP_MAX \<noteq> 0);
          util_min = (if set_min then s32 (sa_util_min attr) else uc_value (uclamp_req p UCLAMP_MIN));
          util_max = (if set_max then s32 (sa_util_max attr) else uc_value (uclamp_req p UCLAMP_MAX))
      in if set_min \<and> s32 (util_min + 1) > SCHED_CAPACITY_SCALE + 1 then (- EINVAL, s)
         else if set_max \<and> s32 (util_max + 1) > SCHED_CAPACITY_SCALE + 1 then (- EINVAL, s)
         else if util_min \<noteq> - 1 \<and> util_max \<noteq> - 1 \<and> util_min > util_max then (- EINVAL, s)
         else (0, s\<lparr>sched_uclamp_used := True\<rparr>))"

definition uclamp_reset :: "sched_attr \<Rightarrow> uclamp_id \<Rightarrow> uclamp_se \<Rightarrow> bool" where
  "uclamp_reset attr clamp_id uc_se \<longleftrightarrow>
     sa_flags attr AND SCHED_FLAG_UTIL_CLAMP = 0 \<and> \<not> uc_user_defined uc_se \<or>
     clamp_id = UCLAMP_MIN \<and> sa_flags attr AND SCHED_FLAG_UTIL_CLAMP_MIN \<noteq> 0 \<and>
       sa_util_min attr = 0xffffffff \<or>
     clamp_id = UCLAMP_MAX \<and> sa_flags attr AND SCHED_FLAG_UTIL_CLAMP_MAX \<noteq> 0 \<and>
       sa_util_max attr = 0xffffffff"

definition setscheduler_uclamp :: "int \<Rightarrow> sched_attr \<Rightarrow> task_struct \<Rightarrow> task_struct" where
  "setscheduler_uclamp rt_default attr p =
     (let reset = (\<lambda>i uc_se.
            if \<not> uclamp_reset attr i uc_se then uc_se
            else uclamp_se_set
                   (if rt_task p \<and> i = UCLAMP_MIN then rt_default else uclamp_none i) False uc_se);
          p = p\<lparr>uclamp_req := (\<lambda>i. reset i (uclamp_req p i))\<rparr>
      in if sa_flags attr AND SCHED_FLAG_UTIL_CLAMP = 0 then p
         else
           let p = (if sa_flags attr AND SCHED_FLAG_UTIL_CLAMP_MIN \<noteq> 0 \<and> sa_util_min attr \<noteq> 0xffffffff
                    then p\<lparr>uclamp_req := (uclamp_req p)(UCLAMP_MIN :=
                           uclamp_se_set (sa_util_min attr) True (uclamp_req p UCLAMP_MIN))\<rparr>
                    else p)
           in if sa_flags attr AND SCHED_FLAG_UTIL_CLAMP_MAX \<noteq> 0 \<and> sa_util_max attr \<noteq> 0xffffffff
              then p\<lparr>uclamp_req := (uclamp_req p)(UCLAMP_MAX :=
                     uclamp_se_set (sa_util_max attr) True (uclamp_req p UCLAMP_MAX))\<rparr>
              else p)"

section \<open>Buckets partition the clamp values in order\<close>

lemma uclamp_bucket_id_lt: "uclamp_bucket_id v < 5"
  by (simp add: uclamp_bucket_id_def UCLAMP_BUCKET_DELTA_def)

lemma uclamp_bucket_id_mono: "v \<le> w \<Longrightarrow> uclamp_bucket_id v \<le> uclamp_bucket_id w"
  unfolding uclamp_bucket_id_def UCLAMP_BUCKET_DELTA_def
  by (intro nat_mono min.mono zdiv_mono1) simp_all

lemma uclamp_bucket_id_less: "uclamp_bucket_id v < uclamp_bucket_id w \<Longrightarrow> v < w"
  using uclamp_bucket_id_mono [of w v] by (meson leD not_le)

lemma top_bucket_Some:
  "top_bucket bk n = Some b \<longleftrightarrow>
     b < n \<and> bk_tasks (bk b) \<noteq> 0 \<and> (\<forall>k. b < k \<longrightarrow> k < n \<longrightarrow> bk_tasks (bk k) = 0)"
  by (induction n) (auto simp: less_Suc_eq)

lemma top_bucket_None: "top_bucket bk n = None \<longleftrightarrow> (\<forall>b < n. bk_tasks (bk b) = 0)"
  by (induction n) (auto simp: less_Suc_eq)

section \<open>A run queue's clamp is the aggregate of its tasks' clamps\<close>

text \<open>
  \<open>clamp_abs i r M\<close>: the buckets of clamp \<open>i\<close> count the clamp values \<open>M\<close> of the
  refcounted tasks, each bucket's value lies in the bucket and bounds its tasks' values, and the
  cached value is that of the topmost used bucket.
\<close>

definition bucket_count :: "int multiset \<Rightarrow> nat \<Rightarrow> nat" where
  "bucket_count M b = size (filter_mset (\<lambda>v. uclamp_bucket_id v = b) M)"

definition buckets_abs :: "(nat \<Rightarrow> uclamp_bucket) \<Rightarrow> int multiset \<Rightarrow> bool" where
  "buckets_abs bk M \<longleftrightarrow>
     (\<forall>b. bk_tasks (bk b) = int (bucket_count M b)) \<and>
     (\<forall>b. bk_tasks (bk b) \<noteq> 0 \<longrightarrow> uclamp_bucket_id (bk_value (bk b)) = b \<and> bk_value (bk b) \<le> 1024) \<and>
     (\<forall>v \<in># M. 0 \<le> v \<and> v \<le> bk_value (bk (uclamp_bucket_id v)))"

definition clamp_abs :: "uclamp_id \<Rightarrow> rq \<Rightarrow> int multiset \<Rightarrow> bool" where
  "clamp_abs i r M \<longleftrightarrow>
     buckets_abs (bucket (rq_uclamp r i)) M \<and>
     (case top_bucket (bucket (rq_uclamp r i)) UCLAMP_BUCKETS of
        Some b \<Rightarrow> ucr_value (rq_uclamp r i) = bk_value (bucket (rq_uclamp r i) b)
      | None \<Rightarrow> uclamp_rq_is_idle r \<or> ucr_value (rq_uclamp r i) = 0)"

lemma bucket_count_add:
  "bucket_count (add_mset v M) b = bucket_count M b + (if uclamp_bucket_id v = b then 1 else 0)"
  by (simp add: bucket_count_def)

lemma bucket_count_0: "bucket_count M b = 0 \<longleftrightarrow> (\<forall>v \<in># M. uclamp_bucket_id v \<noteq> b)"
  by (induction M) (auto simp: bucket_count_add bucket_count_def)

lemma bucket_count_pos: "v \<in># M \<Longrightarrow> 0 < bucket_count M (uclamp_bucket_id v)"
  using bucket_count_0 [of M "uclamp_bucket_id v"] by auto

lemma bucket_count_ge: "5 \<le> b \<Longrightarrow> bucket_count M b = 0"
  using uclamp_bucket_id_lt by (auto simp: bucket_count_0 not_le [symmetric])

lemma bucket_count_le: "bucket_count M b \<le> size M"
  by (simp add: bucket_count_def size_filter_mset_lesseq)

lemma top_bucket_empty:
  assumes "buckets_abs bk M"
  shows "top_bucket bk UCLAMP_BUCKETS = None \<longleftrightarrow> M = {#}"
proof
  assume "top_bucket bk UCLAMP_BUCKETS = None"
  then have z: "bk_tasks (bk b) = 0" if "b < 5" for b using that by (simp add: top_bucket_None)
  show "M = {#}"
  proof (rule ccontr)
    assume "M \<noteq> {#}"
    then obtain v where "v \<in># M" by blast
    with bucket_count_pos [OF this] z [OF uclamp_bucket_id_lt [of v]] assms
    show False by (simp add: buckets_abs_def)
  qed
next
  assume "M = {#}"
  then show "top_bucket bk UCLAMP_BUCKETS = None"
    using assms by (simp add: top_bucket_None buckets_abs_def bucket_count_def)
qed

text \<open>Every refcounted clamp is below the value of the topmost bucket, in an earlier or the same bucket.\<close>

lemma buckets_abs_top:
  assumes a: "buckets_abs bk M" and t: "top_bucket bk UCLAMP_BUCKETS = Some b" and v: "v \<in># M"
  shows "v \<le> bk_value (bk b)" "uclamp_bucket_id v \<le> b"
proof -
  let ?k = "uclamp_bucket_id v"
  have k: "bk_tasks (bk ?k) \<noteq> 0" "v \<le> bk_value (bk ?k)" "uclamp_bucket_id (bk_value (bk ?k)) = ?k"
    using a v bucket_count_pos [OF v] by (auto simp: buckets_abs_def)
  show kb: "?k \<le> b"
    using t k(1) uclamp_bucket_id_lt [of v] by (auto simp: top_bucket_Some not_less [symmetric])
  have b: "uclamp_bucket_id (bk_value (bk b)) = b"
    using a t by (auto simp: buckets_abs_def top_bucket_Some)
  show "v \<le> bk_value (bk b)"
  proof (cases "?k = b")
    case True
    then show ?thesis using k(2) by simp
  next
    case False
    then have "uclamp_bucket_id (bk_value (bk ?k)) < uclamp_bucket_id (bk_value (bk b))"
      using k(3) b kb by simp
    then show ?thesis using uclamp_bucket_id_less k(2) by fastforce
  qed
qed

lemma clamp_abs_max:
  assumes "clamp_abs i r M" "v \<in># M"
  shows "v \<le> uclamp_rq_get i r" "uclamp_rq_get i r \<le> 1024"
    and "\<exists>w \<in># M. uclamp_bucket_id w = uclamp_bucket_id (uclamp_rq_get i r)"
proof -
  let ?bk = "bucket (rq_uclamp r i)"
  have a: "buckets_abs ?bk M" using assms(1) by (simp add: clamp_abs_def)
  then have "top_bucket ?bk UCLAMP_BUCKETS \<noteq> None" using assms(2) top_bucket_empty by fastforce
  then obtain b where t: "top_bucket ?bk UCLAMP_BUCKETS = Some b" by blast
  then have g: "uclamp_rq_get i r = bk_value (?bk b)"
    using assms(1) by (simp add: clamp_abs_def uclamp_rq_get_def)
  have b: "bk_tasks (?bk b) \<noteq> 0" using t by (simp add: top_bucket_Some)
  show "v \<le> uclamp_rq_get i r" using buckets_abs_top(1) [OF a t assms(2)] g by simp
  show "uclamp_rq_get i r \<le> 1024" using a b g by (simp add: buckets_abs_def)
  have "bucket_count M b \<noteq> 0" "uclamp_bucket_id (bk_value (?bk b)) = b"
    using a b by (simp_all add: buckets_abs_def)
  then show "\<exists>w \<in># M. uclamp_bucket_id w = uclamp_bucket_id (uclamp_rq_get i r)"
    by (auto simp: g bucket_count_0)
qed

definition se_ok :: "uclamp_se \<Rightarrow> bool" where
  "se_ok u \<longleftrightarrow> 0 \<le> uc_value u \<and> uc_value u \<le> 1024 \<and> uc_bucket_id u = uclamp_bucket_id (uc_value u)"

lemma uclamp_se_set_ok: "0 \<le> v \<Longrightarrow> v \<le> 1024 \<Longrightarrow> se_ok (uclamp_se_set v d u)"
  by (simp add: se_ok_def uclamp_se_set_def)

lemma uclamp_eff_get_ok:
  assumes "se_ok (uclamp_req p i)" "se_ok (dflt i)"
  shows "se_ok (uclamp_eff_get dflt p i)"
    and "uc_value (uclamp_eff_get dflt p i) = min (uc_value (uclamp_req p i)) (uc_value (dflt i))"
  using assms by (simp_all add: uclamp_eff_get_def uclamp_tg_restrict_def Let_def)

text \<open>The buckets and the value after a reference is taken.\<close>

definition inc_bucket :: "int \<Rightarrow> uclamp_bucket \<Rightarrow> uclamp_bucket" where
  "inc_bucket v k =
     (let k = k\<lparr>bk_tasks := bk_tasks k + 1\<rparr>
      in if bk_tasks k = 1 \<or> v > bk_value k then k\<lparr>bk_value := v\<rparr> else k)"

lemma uclamp_rq_inc_id_sel:
  assumes e: "e = uclamp_eff_get dflt p i" and k: "k = bucket (rq_uclamp r i) (uc_bucket_id e)"
    and t: "0 \<le> bk_tasks k" "bk_tasks k < 2 ^ 52"
    and r': "uclamp_rq_inc_id dflt i (r, p) = (r', p')"
  shows "bucket (rq_uclamp r' i) = (bucket (rq_uclamp r i))(uc_bucket_id e := inc_bucket (uc_value e) k)"
    and "ucr_value (rq_uclamp r' i) =
      max (if uclamp_rq_is_idle r then uc_value e else ucr_value (rq_uclamp r i)) (uc_value e)"
    and "j \<noteq> i \<Longrightarrow> rq_uclamp r' j = rq_uclamp r j"
    and "uclamp_flags r' = uclamp_flags r"
    and "uclamp p' = (uclamp p)(i := e\<lparr>uc_active := True\<rparr>)"
proof -
  have m: "(bk_tasks k + 1) mod 9007199254740992 = bk_tasks k + 1" using t by simp
  have idle: "uclamp_rq_is_idle (r\<lparr>rq_uclamp := x\<rparr>) = uclamp_rq_is_idle r" for x
    by (simp add: uclamp_rq_is_idle_def)
  note d = r' [symmetric, unfolded uclamp_rq_inc_id_def prod.case Let_def e [symmetric]]
  note simps = uclamp_idle_reset_def idle uclamp_rq_set_def uclamp_rq_get_def k [symmetric] m
    inc_bucket_def max_def Let_def
  show "bucket (rq_uclamp r' i) = (bucket (rq_uclamp r i))(uc_bucket_id e := inc_bucket (uc_value e) k)"
    and "ucr_value (rq_uclamp r' i) =
      max (if uclamp_rq_is_idle r then uc_value e else ucr_value (rq_uclamp r i)) (uc_value e)"
    and "j \<noteq> i \<Longrightarrow> rq_uclamp r' j = rq_uclamp r j"
    and "uclamp_flags r' = uclamp_flags r"
    and "uclamp p' = (uclamp p)(i := e\<lparr>uc_active := True\<rparr>)"
    using d by (simp_all add: simps)
qed

lemma inc_bucket_abs:
  assumes a: "buckets_abs bk M" and v: "0 \<le> v" "v \<le> 1024"
  shows "buckets_abs (bk(uclamp_bucket_id v := inc_bucket v (bk (uclamp_bucket_id v)))) (add_mset v M)"
proof -
  have "w \<le> v" if "bucket_count M (uclamp_bucket_id v) = 0" "w \<in># M"
    "uclamp_bucket_id w = uclamp_bucket_id v" for w
    using that by (auto simp: bucket_count_0)
  then show ?thesis
    using a v unfolding buckets_abs_def
    by (auto simp: inc_bucket_def bucket_count_add Let_def)
qed

lemma buckets_abs_tasks:
  assumes "buckets_abs bk M"
  shows "0 \<le> bk_tasks (bk b)" "bk_tasks (bk b) \<le> int (size M)"
  using assms bucket_count_le [of M b] by (simp_all add: buckets_abs_def)

text \<open>Where the topmost used bucket is after a reference to the bucket of \<open>v\<close> is taken.\<close>

lemma inc_bucket_top:
  assumes a: "buckets_abs bk M"
  shows "top_bucket (bk(uclamp_bucket_id v := inc_bucket v (bk (uclamp_bucket_id v)))) UCLAMP_BUCKETS =
    Some (case top_bucket bk UCLAMP_BUCKETS of None \<Rightarrow> uclamp_bucket_id v
          | Some b \<Rightarrow> max b (uclamp_bucket_id v))"
proof -
  have nz: "bk_tasks (inc_bucket v (bk b)) \<noteq> 0" for b
    using buckets_abs_tasks(1) [OF a, of b] by (simp add: inc_bucket_def Let_def)
  show ?thesis
  proof (cases "top_bucket bk UCLAMP_BUCKETS")
    case None
    then have "\<forall>b < 5. bk_tasks (bk b) = 0" by (simp add: top_bucket_None)
    then show ?thesis
      unfolding None option.case top_bucket_Some using nz uclamp_bucket_id_lt [of v] by auto
  next
    case (Some b)
    then have "b < 5 \<and> bk_tasks (bk b) \<noteq> 0 \<and> (\<forall>k. b < k \<longrightarrow> k < 5 \<longrightarrow> bk_tasks (bk k) = 0)"
      by (simp add: top_bucket_Some)
    then show ?thesis
      unfolding Some option.case top_bucket_Some
      using nz uclamp_bucket_id_lt [of v] by (auto simp: max_def)
  qed
qed

lemma uclamp_rq_inc_id_abs:
  assumes a: "clamp_abs i r M" and e: "e = uclamp_eff_get dflt p i" "se_ok e"
    and sz: "size M < 2 ^ 52" and idle: "M = {#} \<or> \<not> uclamp_rq_is_idle r"
    and r': "uclamp_rq_inc_id dflt i (r, p) = (r', p')"
  shows "clamp_abs i r' (add_mset (uc_value e) M)"
proof -
  let ?bk = "bucket (rq_uclamp r i)" and ?v = "uc_value e"
  let ?b = "uclamp_bucket_id ?v"
  have ba: "buckets_abs ?bk M" using a by (simp add: clamp_abs_def)
  have eb: "uc_bucket_id e = ?b" and v: "0 \<le> ?v" "?v \<le> 1024" using e(2) by (simp_all add: se_ok_def)
  have t: "0 \<le> bk_tasks (?bk (uc_bucket_id e))" "bk_tasks (?bk (uc_bucket_id e)) < 2 ^ 52"
    using buckets_abs_tasks [OF ba, of "uc_bucket_id e"] sz by simp_all
  note sel = uclamp_rq_inc_id_sel [OF e(1) refl t r', unfolded eb]
  have val: "ucr_value (rq_uclamp r' i) = bk_value (bucket (rq_uclamp r' i)
      (case top_bucket ?bk UCLAMP_BUCKETS of None \<Rightarrow> ?b | Some b \<Rightarrow> max b ?b))"
  proof (cases "top_bucket ?bk UCLAMP_BUCKETS")
    case None
    then have "bk_tasks (?bk ?b) = 0" using uclamp_bucket_id_lt [of ?v] by (simp add: top_bucket_None)
    then show ?thesis
      using a None v by (auto simp: sel(1,2) clamp_abs_def inc_bucket_def Let_def)
  next
    case (Some b)
    then have ne: "M \<noteq> {#}" using top_bucket_empty [OF ba] by auto
    then have cur: "ucr_value (rq_uclamp r i) = bk_value (?bk b)" "\<not> uclamp_rq_is_idle r"
      using a Some idle by (simp_all add: clamp_abs_def)
    have b: "uclamp_bucket_id (bk_value (?bk b)) = b" "bk_tasks (?bk b) \<noteq> 0"
      using ba Some by (auto simp: buckets_abs_def top_bucket_Some)
    consider "b < ?b" | "b = ?b" | "?b < b" by linarith
    then show ?thesis
    proof cases
      case 1
      then have "bk_tasks (?bk ?b) = 0" "bk_value (?bk b) < ?v"
        using Some uclamp_bucket_id_lt [of ?v] uclamp_bucket_id_less [of "bk_value (?bk b)" ?v] b
        by (simp_all add: top_bucket_Some)
      then show ?thesis using 1 Some cur by (simp add: sel(1,2) inc_bucket_def Let_def max_def)
    next
      case 2
      then show ?thesis using Some cur b by (simp add: sel(1,2) inc_bucket_def Let_def max_def)
    next
      case 3
      then have "?v < bk_value (?bk b)" using uclamp_bucket_id_less [of ?v "bk_value (?bk b)"] b by simp
      then show ?thesis using 3 Some cur by (simp add: sel(1,2) max_def)
    qed
  qed
  show ?thesis
    using inc_bucket_abs [OF ba v] inc_bucket_top [OF ba, of ?v] val
    by (simp add: clamp_abs_def sel(1))
qed

section \<open>Releasing a reference\<close>

lemma bucket_count_remove:
  "v \<in># M \<Longrightarrow> bucket_count (M - {#v#}) b = bucket_count M b - (if uclamp_bucket_id v = b then 1 else 0)"
  by (auto simp: bucket_count_def size_Diff_singleton)

definition dec_bucket :: "uclamp_bucket \<Rightarrow> uclamp_bucket" where
  "dec_bucket k = k\<lparr>bk_tasks := bk_tasks k - 1\<rparr>"

lemma dec_bucket_abs:
  assumes a: "buckets_abs bk M" and v: "v \<in># M"
  shows "buckets_abs (bk(uclamp_bucket_id v := dec_bucket (bk (uclamp_bucket_id v)))) (M - {#v#})"
proof -
  have "w \<in># M" if "w \<in># M - {#v#}" for w using that by (rule in_diffD)
  then show ?thesis
    using a bucket_count_pos [OF v] unfolding buckets_abs_def
    by (auto simp: dec_bucket_def bucket_count_remove [OF v] of_nat_diff) metis
qed

lemma or_flag_and: "(x OR 1) AND 1 = (1 :: flags)"
  by (simp add: bit_eq_iff bit_and_iff bit_or_iff)

lemma recompute_abs:
  assumes "buckets_abs (bucket (rq_uclamp r i)) M" "(w, r2) = uclamp_rq_max_value i v r"
  shows "clamp_abs i (uclamp_rq_set i w r2) M"
proof (cases "top_bucket (bucket (rq_uclamp r i)) UCLAMP_BUCKETS")
  case None
  then have "(w, r2) = uclamp_idle_value i v r" using assms(2) by (simp add: uclamp_rq_max_value_def)
  then show ?thesis
    using assms(1) None
    by (cases i) (simp_all add: clamp_abs_def uclamp_idle_value_def uclamp_rq_set_def
      uclamp_rq_is_idle_def uclamp_none_def or_flag_and)
next
  case (Some b)
  then show ?thesis
    using assms by (simp add: clamp_abs_def uclamp_rq_max_value_def uclamp_rq_set_def)
qed

text \<open>
  A bucket that stays used, or one below the topmost, does not move the topmost; when the
  topmost itself is emptied the cached value equals its value and is recomputed.
\<close>

lemma uclamp_rq_dec_id_abs:
  assumes a: "clamp_abs i r M" and act: "uc_active (uclamp p i)" and se: "se_ok (uclamp p i)"
    and v: "uc_value (uclamp p i) \<in># M" and r': "uclamp_rq_dec_id i (r, p) = (r', p')"
  shows "clamp_abs i r' (M - {#uc_value (uclamp p i)#})" "\<not> uc_active (uclamp p' i)"
proof -
  let ?bk = "bucket (rq_uclamp r i)" and ?v = "uc_value (uclamp p i)"
  let ?b = "uclamp_bucket_id ?v"
  let ?bk' = "?bk(?b := dec_bucket (?bk ?b))"
  have ba: "buckets_abs ?bk M" using a by (simp add: clamp_abs_def)
  have ba': "buckets_abs ?bk' (M - {#?v#})" by (rule dec_bucket_abs [OF ba v])
  have eb: "uc_bucket_id (uclamp p i) = ?b" using se by (simp add: se_ok_def)
  have pos: "0 < bk_tasks (?bk ?b)" using ba bucket_count_pos [OF v] by (simp add: buckets_abs_def)
  define r1 where "r1 = set_bucket i ?b dec_bucket r"
  have r1: "bucket (rq_uclamp r1 i) = ?bk'" "ucr_value (rq_uclamp r1 i) = ucr_value (rq_uclamp r i)"
    "uclamp_rq_is_idle r1 = uclamp_rq_is_idle r"
    by (simp_all add: r1_def uclamp_rq_is_idle_def)
  have dec: "uclamp_rq_dec_id i (r, p) =
      (if bk_tasks (?bk' ?b) \<noteq> 0 \<or> bk_value (?bk ?b) < ucr_value (rq_uclamp r i) then r1
       else (let (w, r2) = uclamp_rq_max_value i ?v r1 in uclamp_rq_set i w r2),
       p\<lparr>uclamp := (uclamp p)(i := (uclamp p i)\<lparr>uc_active := False\<rparr>)\<rparr>)"
    using act pos unfolding r1_def
    by (simp add: uclamp_rq_dec_id_def Let_def eb uclamp_rq_get_def dec_bucket_def not_less split: prod.split)
  show "\<not> uc_active (uclamp p' i)" using dec r' by auto
  obtain b where t: "top_bucket ?bk UCLAMP_BUCKETS = Some b" using top_bucket_empty [OF ba] v by fastforce
  have cur: "ucr_value (rq_uclamp r i) = bk_value (?bk b)" using a t by (simp add: clamp_abs_def)
  have b: "uclamp_bucket_id (bk_value (?bk b)) = b" "uclamp_bucket_id (bk_value (?bk ?b)) = ?b"
    using ba t pos by (auto simp: buckets_abs_def top_bucket_Some)
  show "clamp_abs i r' (M - {#?v#})"
  proof (cases "bk_tasks (?bk' ?b) \<noteq> 0 \<or> bk_value (?bk ?b) < ucr_value (rq_uclamp r i)")
    case True
    then have "top_bucket ?bk' UCLAMP_BUCKETS = Some b"
      using t pos cur unfolding top_bucket_Some by (auto simp: dec_bucket_def)
    moreover have "bk_value (?bk' b) = bk_value (?bk b)" by (simp add: dec_bucket_def)
    ultimately show ?thesis
      using True dec r' ba' cur r1 by (auto simp: clamp_abs_def)
  next
    case False
    have "r' = (let (w, r2) = uclamp_rq_max_value i ?v r1 in uclamp_rq_set i w r2)"
      using False dec r' by simp
    then obtain w r2 where w: "(w, r2) = uclamp_rq_max_value i ?v r1" "r' = uclamp_rq_set i w r2"
      by (cases "uclamp_rq_max_value i ?v r1") simp
    then show ?thesis using recompute_abs [OF _ w(1)] ba' r1(1) by simp
  qed
qed

end
