(* ===== verification/Load_Weight.thy ===== *)
theory Load_Weight
  imports Sched_Types
begin

text \<open>
  The weight of a nice level: the two tables at the end of \<^verbatim>\<open>kernel/sched/core.c\<close> and the
  conversions of \<^verbatim>\<open>kernel/sched/sched.h\<close> between a load, a weight and a cgroup weight.
\<close>

section \<open>Definitions\<close>

definition sched_prio_to_weight :: "int list" where
  "sched_prio_to_weight =
     [88761, 71755, 56483, 46273, 36291,
      29154, 23254, 18705, 14949, 11916,
      9548, 7620, 6100, 4904, 3906,
      3121, 2501, 1991, 1586, 1277,
      1024, 820, 655, 526, 423,
      335, 272, 215, 172, 137,
      110, 87, 70, 56, 45,
      36, 29, 23, 18, 15]"

definition sched_prio_to_wmult :: "int list" where
  "sched_prio_to_wmult =
     [48388, 59856, 76040, 92818, 118348,
      147320, 184698, 229616, 287308, 360437,
      449829, 563644, 704093, 875809, 1099582,
      1376151, 1717300, 2157191, 2708050, 3363326,
      4194304, 5237765, 6557202, 8165337, 10153587,
      12820798, 15790321, 19976592, 24970740, 31350126,
      39045157, 49367440, 61356676, 76695844, 95443717,
      119304647, 148102320, 186737708, 238609294, 286331153]"

abbreviation (input) SCHED_FIXEDPOINT_SHIFT :: nat where "SCHED_FIXEDPOINT_SHIFT \<equiv> 10"
abbreviation (input) WEIGHT_IDLEPRIO :: int where "WEIGHT_IDLEPRIO \<equiv> 3"
abbreviation (input) WMULT_IDLEPRIO :: int where "WMULT_IDLEPRIO \<equiv> 1431655765"
abbreviation (input) CGROUP_WEIGHT_DFL :: int where "CGROUP_WEIGHT_DFL \<equiv> 100"
abbreviation (input) CGROUP_WEIGHT_MIN :: int where "CGROUP_WEIGHT_MIN \<equiv> 1"
abbreviation (input) CGROUP_WEIGHT_MAX :: int where "CGROUP_WEIGHT_MAX \<equiv> 10000"

definition scale_load :: "int \<Rightarrow> int" where
  "scale_load w = w * 2 ^ SCHED_FIXEDPOINT_SHIFT"

definition scale_load_down :: "int \<Rightarrow> int" where
  "scale_load_down w = (if w \<noteq> 0 then max 2 (w div 2 ^ SCHED_FIXEDPOINT_SHIFT) else w)"

text \<open>\<open>DIV_ROUND_CLOSEST\<close> of unsigned operands: the quotient rounded to the nearest integer.\<close>

definition div_round_closest :: "int \<Rightarrow> int \<Rightarrow> int" where
  "div_round_closest x d = (x + d div 2) div d"

definition sched_weight_from_cgroup :: "int \<Rightarrow> int" where
  "sched_weight_from_cgroup cgrp_weight = div_round_closest (u64 (cgrp_weight * 1024)) CGROUP_WEIGHT_DFL"

definition sched_weight_to_cgroup :: "int \<Rightarrow> int" where
  "sched_weight_to_cgroup w =
     max CGROUP_WEIGHT_MIN
       (min CGROUP_WEIGHT_MAX (div_round_closest (u64 (w * CGROUP_WEIGHT_DFL)) 1024))"

section \<open>The tables\<close>

lemma length_weights [simp]:
  "length sched_prio_to_weight = 40" "length sched_prio_to_wmult = 40"
  by (simp_all add: sched_prio_to_weight_def sched_prio_to_wmult_def)

text \<open>The second table holds the inverses of the first: weight times inverse is \<open>2 ^ 32\<close> up to one weight.\<close>

lemma wmult_inverse:
  "list_all2 (\<lambda>w m. \<bar>m * w - 2 ^ 32\<bar> \<le> w) sched_prio_to_weight sched_prio_to_wmult"
  by (simp add: sched_prio_to_weight_def sched_prio_to_wmult_def)

lemma weights_descend: "sorted_wrt (>) sched_prio_to_weight"
  by (simp add: sched_prio_to_weight_def)

text \<open>One nice level is a ratio of about 1.25: every two consecutive weights are between 1.15 and 1.35.\<close>

lemma weights_ratio:
  "list_all2 (\<lambda>a b. 115 * b \<le> 100 * a \<and> 100 * a \<le> 135 * b)
     (take 39 sched_prio_to_weight) (drop 1 sched_prio_to_weight)"
  by (simp add: sched_prio_to_weight_def)

section \<open>Round trips\<close>

lemma scale_load_round_trip: "2 \<le> w \<Longrightarrow> scale_load_down (scale_load w) = w"
  by (simp add: scale_load_def scale_load_down_def)

lemma cgroup_weight_round_trip:
  assumes "1 \<le> w" "w \<le> 10000"
  shows "sched_weight_to_cgroup (sched_weight_from_cgroup w) = w"
proof -
  define x where "x = sched_weight_from_cgroup w"
  have "u64 (w * 1024) = w * 1024" using assms by (intro u64_id) simp_all
  then have x: "x = (w * 1024 + 50) div 100"
    by (simp add: x_def sched_weight_from_cgroup_def div_round_closest_def)
  have lo: "100 * x \<le> w * 1024 + 50" and hi: "w * 1024 + 50 < 100 * x + 100" by (simp_all add: x)
  have xb: "0 \<le> x" "x \<le> 102401" using lo hi assms by linarith+
  then have "u64 (x * 100) = x * 100" by (intro u64_id) simp_all
  moreover have "(x * 100 + 512) div 1024 = w"
    using lo hi by (intro int_div_pos_eq [of _ _ _ "x * 100 + 512 - 1024 * w"]) linarith+
  ultimately show ?thesis
    using assms by (simp add: sched_weight_to_cgroup_def div_round_closest_def flip: x_def)
qed

end
