(* ===== verification/Core_Env.thy ===== *)
theory Core_Env
  imports Hvf_Balance Uclamp Load_Weight
begin

text \<open>
  What the core scheduler (\<^verbatim>\<open>kernel/sched/core.c\<close>) calls outside this repository, as one record
  of functions, the class table that joins \<open>hvf_sched_class\<close> with the other classes, the
  run-queue clock, and the small predicates of \<^verbatim>\<open>kernel/sched/sched.h\<close>.

  A function of the environment that only keeps private accounts (pressure stall, sched info,
  per-entity load tracking) acts on the field \<open>ext\<close>; the methods of the other scheduling
  classes act on the whole state.
\<close>

section \<open>The environment\<close>

text \<open>What \<open>pick_next_task_fair\<close> answers: \<open>RETRY_TASK\<close>, or a task or null.\<close>

datatype fair_pick = Retry_task | Fair_picked "tid option"

record 'x kenv =
  env_lib :: rb_lib
  tick_nsec :: int
  env_sort :: sort_lib
  env_alloc :: "nat \<Rightarrow> cpu_load list option"
  other_class :: "sclass \<Rightarrow> 'x kstate sched_class_ops"
  sched_clock_cpu :: "cpu \<Rightarrow> 'x \<Rightarrow> int"
  update_rq_clock_pelt :: "cpu \<Rightarrow> int \<Rightarrow> 'x \<Rightarrow> 'x"
  psi_enqueue :: "tid \<Rightarrow> flags \<Rightarrow> 'x \<Rightarrow> 'x"
  psi_dequeue :: "tid \<Rightarrow> flags \<Rightarrow> 'x \<Rightarrow> 'x"
  sched_info_enqueue :: "cpu \<Rightarrow> tid \<Rightarrow> 'x \<Rightarrow> 'x"
  sched_info_dequeue :: "cpu \<Rightarrow> tid \<Rightarrow> 'x \<Rightarrow> 'x"
  rb_add :: "(tid \<Rightarrow> tid \<Rightarrow> bool) \<Rightarrow> tid \<Rightarrow> tid tree \<Rightarrow> tid tree"
  rb_find_first :: "(tid \<Rightarrow> int) \<Rightarrow> tid tree \<Rightarrow> tid option"
  cfs_prio_less :: "'x kstate \<Rightarrow> tid \<Rightarrow> tid \<Rightarrow> bool \<Rightarrow> bool"
  dl_time_before :: "int \<Rightarrow> int \<Rightarrow> bool"
  delayacct_blkio_start :: "'x \<Rightarrow> 'x"
  delayacct_blkio_end :: "tid \<Rightarrow> 'x \<Rightarrow> 'x"
  signal_pending_state :: "32 word \<Rightarrow> tid \<Rightarrow> 'x \<Rightarrow> bool"
  pick_next_task_fair :: "cpu \<Rightarrow> tid \<Rightarrow> 'x kstate \<Rightarrow> (fair_pick \<times> 'x kstate) res"
  pick_task_idle :: "cpu \<Rightarrow> 'x kstate \<Rightarrow> tid \<times> 'x kstate"
  task_vruntime_update :: "cpu \<Rightarrow> tid \<Rightarrow> bool \<Rightarrow> 'x \<Rightarrow> 'x"
  sched_core_account_forceidle :: "cpu \<Rightarrow> 'x \<Rightarrow> 'x"
  schedstat_enabled :: bool
  domain_spans :: "cpu \<Rightarrow> 'x \<Rightarrow> cpumask list"
  psi_account_irqtime :: "cpu \<Rightarrow> tid \<Rightarrow> tid option \<Rightarrow> 'x \<Rightarrow> 'x"
  psi_sched_switch :: "tid \<Rightarrow> tid \<Rightarrow> bool \<Rightarrow> 'x \<Rightarrow> 'x"
  prepare_switch_accounts :: "cpu \<Rightarrow> tid \<Rightarrow> tid \<Rightarrow> 'x \<Rightarrow> 'x"
  enter_lazy_tlb :: "nat option \<Rightarrow> tid \<Rightarrow> 'x \<Rightarrow> 'x"
  mmgrab_lazy_tlb :: "nat option \<Rightarrow> 'x \<Rightarrow> 'x"
  mmdrop_lazy_tlb :: "nat \<Rightarrow> 'x \<Rightarrow> 'x"
  membarrier_state :: "nat \<Rightarrow> 'x \<Rightarrow> int"
  switch_mm_irqs_off :: "nat option \<Rightarrow> nat \<Rightarrow> tid \<Rightarrow> 'x \<Rightarrow> 'x"
  jiffies :: "'x \<Rightarrow> int"
  msecs_to_jiffies :: "int \<Rightarrow> int"
  rseq_set_notify_resume :: "tid \<Rightarrow> 'x \<Rightarrow> 'x"
  worker_sleeping :: "tid \<Rightarrow> 'x kstate \<Rightarrow> 'x kstate"
  io_worker_sleeping :: "tid \<Rightarrow> 'x kstate \<Rightarrow> 'x kstate"
  worker_running :: "tid \<Rightarrow> 'x kstate \<Rightarrow> 'x kstate"
  io_worker_running :: "tid \<Rightarrow> 'x kstate \<Rightarrow> 'x kstate"
  blk_flush_plug :: "tid \<Rightarrow> 'x kstate \<Rightarrow> 'x kstate"
  blk_plug_invalidate_ts :: "tid \<Rightarrow> 'x \<Rightarrow> 'x"
  put_dead_task :: "tid \<Rightarrow> 'x \<Rightarrow> 'x"
  tick_accounting :: "cpu \<Rightarrow> tid \<Rightarrow> 'x \<Rightarrow> 'x"
  class_callback :: "nat \<Rightarrow> cpu \<Rightarrow> 'x kstate \<Rightarrow> 'x kstate res"
  rcuwait_active :: "cpu \<Rightarrow> 'x \<Rightarrow> bool"
  rcuwait_wake_up :: "cpu \<Rightarrow> 'x kstate \<Rightarrow> 'x kstate res"
  preempt_lazy :: bool
  sched_rr_timeslice :: int
  sched_base_slice :: int
  init_dl_entity :: "tid \<Rightarrow> sched_dl_entity \<Rightarrow> sched_dl_entity"
  fork_accounts :: "tid \<Rightarrow> 'x \<Rightarrow> 'x"
  task_cpu_possible :: "cpu \<Rightarrow> tid \<Rightarrow> bool"
  kthread_is_per_cpu :: "tid \<Rightarrow> bool"
  cpu_dying :: "cpu \<Rightarrow> 'x \<Rightarrow> bool"
  node_cpus :: "cpu \<Rightarrow> cpumask option"
  cpuset_cpus_allowed_fallback :: "tid \<Rightarrow> 'x kstate \<Rightarrow> bool \<times> 'x kstate"
  task_cpu_fallback_mask :: "tid \<Rightarrow> cpumask"
  cpumask_any :: "cpumask \<Rightarrow> 'x \<Rightarrow> cpu"
  cpumask_any_distribute :: "cpumask \<Rightarrow> 'x \<Rightarrow> cpu"
  wait_pending_refs :: "nat \<Rightarrow> 'x kstate \<Rightarrow> 'x kstate res"
  sd_llc_id :: "cpu \<Rightarrow> nat"
  ttwu_queue_feat :: bool
  psi_ttwu_dequeue :: "tid \<Rightarrow> 'x \<Rightarrow> 'x"
  migrate_accounts :: "tid \<Rightarrow> 'x \<Rightarrow> 'x"
  cpuset_cpus_allowed :: "tid \<Rightarrow> 'x \<Rightarrow> cpumask"
  task_cpu_possible_mask :: "tid \<Rightarrow> cpumask"
  sysctl_sched_rt_runtime :: int
  alloc_cpumask :: "nat \<Rightarrow> 'x \<Rightarrow> bool"
  wait_for_completion :: "nat \<Rightarrow> 'x kstate \<Rightarrow> 'x kstate res"
  stop_one_cpu :: "cpu \<Rightarrow> stop_work \<Rightarrow> 'x kstate \<Rightarrow> 'x kstate res"
  get_task_struct :: "tid \<Rightarrow> 'x \<Rightarrow> 'x"
  put_task_struct :: "tid \<Rightarrow> 'x \<Rightarrow> 'x"
  cpu_smt_mask :: "cpu \<Rightarrow> cpumask"
  set_task_rq_fair :: "tid \<Rightarrow> cpu \<Rightarrow> 'x \<Rightarrow> 'x"
  task_css_tg :: "tid \<Rightarrow> 'x \<Rightarrow> nat"
  fork_css_tg :: "tid \<Rightarrow> 'x \<Rightarrow> nat"
  autogroup_task_group :: "tid \<Rightarrow> nat \<Rightarrow> 'x \<Rightarrow> nat"
  mm_set_cpus_allowed :: "cpumask \<Rightarrow> mm_struct \<Rightarrow> mm_struct"

abbreviation upd_ext :: "('x \<Rightarrow> 'x) \<Rightarrow> 'x kstate \<Rightarrow> 'x kstate" where
  "upd_ext f s \<equiv> s\<lparr>ext := f (ext s)\<rparr>"

section \<open>The class table\<close>

definition hvf_sched_class :: "'x kenv \<Rightarrow> 'x kstate sched_class_ops" where
  "hvf_sched_class E = \<lparr>
     uclamp_enabled = False,
     op_enqueue_task = Some (\<lambda>c p fl s. enqueue_task_hvf (env_lib E) c p fl s),
     op_dequeue_task = Some (\<lambda>c p fl s. dequeue_task_hvf (env_lib E) c p fl s),
     op_yield_task = None,
     op_yield_to_task = None,
     op_wakeup_preempt = Some (\<lambda>c p fl s. Inr (wakeup_preempt_hvf c p fl s)),
     op_balance = Some (\<lambda>c prev s. Inr (balance_hvf c prev s, s)),
     op_pick_task = Some (\<lambda>c s. pick_task_hvf c s),
     op_pick_next_task = None,
     op_put_prev_task = Some (\<lambda>c p n s. Inr (put_prev_task_hvf (env_lib E) c p n s)),
     op_set_next_task = Some (\<lambda>c p first s. Inr (set_next_task_hvf (env_lib E) c p first s)),
     op_select_task_rq = Some (\<lambda>p prev fl s. select_task_rq_hvf (env_sort E) (env_alloc E) p prev fl s),
     op_migrate_task_rq = Some (\<lambda>p new_cpu s. Inr (migrate_task_rq_hvf p new_cpu s)),
     op_task_woken = None,
     op_set_cpus_allowed = None,
     op_find_lock_rq = None,
     op_rq_online = None,
     op_rq_offline = None,
     op_task_tick = Some (\<lambda>c p queued s. Inr (task_tick_hvf (tick_nsec E) c p queued s)),
     op_task_fork = Some (\<lambda>p s. Inr (task_fork_hvf p s)),
     op_task_dead = Some (\<lambda>p s. Inr (task_dead_hvf (env_lib E) p s)),
     op_switching_to = Some (\<lambda>c p s. switching_to_hvf c p s),
     op_switched_from = Some (\<lambda>c p s. Inr (switched_from_hvf c p s)),
     op_switched_to = Some (\<lambda>c p s. Inr (switched_to_hvf c p s)),
     op_reweight_task = None,
     op_prio_changed = None,
     op_get_rr_interval = None,
     op_update_curr = None,
     op_task_change_group = None,
     op_task_is_throttled = None\<rparr>"

definition class_ops :: "'x kenv \<Rightarrow> sclass \<Rightarrow> 'x kstate sched_class_ops" where
  "class_ops E c = (if c = Hvf then hvf_sched_class E else other_class E c)"

abbreviation ops_of :: "'x kenv \<Rightarrow> tid \<Rightarrow> 'x kstate \<Rightarrow> 'x kstate sched_class_ops" where
  "ops_of E p s \<equiv> class_ops E (sched_class (tasks s p))"

lemma class_ops_hvf [simp]: "class_ops E Hvf = hvf_sched_class E"
  by (simp add: class_ops_def)

lemma class_ops_other [simp]: "c \<noteq> Hvf \<Longrightarrow> class_ops E c = other_class E c"
  by (simp add: class_ops_def)

section \<open>Predicates on tasks and run queues\<close>

definition dl_entity_is_special :: "sched_dl_entity \<Rightarrow> bool" where
  "dl_entity_is_special e \<longleftrightarrow> dl_flags e AND SCHED_FLAG_SUGOV \<noteq> 0"

definition dl_entity_preempt :: "'x kenv \<Rightarrow> sched_dl_entity \<Rightarrow> sched_dl_entity \<Rightarrow> bool" where
  "dl_entity_preempt E a b \<longleftrightarrow>
     dl_entity_is_special a \<or> dl_time_before E (dl_deadline a) (dl_deadline b)"

definition dl_bandwidth_enabled :: "'x kenv \<Rightarrow> bool" where
  "dl_bandwidth_enabled E \<longleftrightarrow> sysctl_sched_rt_runtime E \<ge> 0"

definition task_current :: "cpu \<Rightarrow> tid \<Rightarrow> 'x kstate \<Rightarrow> bool" where
  "task_current c p s \<longleftrightarrow> rq_curr (rqs s c) = p"

definition task_current_donor :: "cpu \<Rightarrow> tid \<Rightarrow> 'x kstate \<Rightarrow> bool" where
  "task_current_donor c p s \<longleftrightarrow> rq_curr (rqs s c) = p"

definition task_on_cpu :: "tid \<Rightarrow> 'x kstate \<Rightarrow> bool" where
  "task_on_cpu p s = on_cpu (tasks s p)"

definition task_on_rq_queued :: "tid \<Rightarrow> 'x kstate \<Rightarrow> bool" where
  "task_on_rq_queued p s \<longleftrightarrow> on_rq (tasks s p) = TASK_ON_RQ_QUEUED"

definition task_on_rq_migrating :: "tid \<Rightarrow> 'x kstate \<Rightarrow> bool" where
  "task_on_rq_migrating p s \<longleftrightarrow> on_rq (tasks s p) = TASK_ON_RQ_MIGRATING"

definition task_has_idle_policy :: "task_struct \<Rightarrow> bool" where
  "task_has_idle_policy p = idle_policy (policy p)"

definition task_has_rt_policy :: "task_struct \<Rightarrow> bool" where
  "task_has_rt_policy p = rt_policy (policy p)"

definition task_has_dl_policy :: "task_struct \<Rightarrow> bool" where
  "task_has_dl_policy p = dl_policy (policy p)"

definition next_active_class :: "sclass \<Rightarrow> sclass option" where
  "next_active_class c =
     (case drop (Suc (class_index c)) sched_classes of [] \<Rightarrow> None | d # _ \<Rightarrow> Some d)"

section \<open>The run-queue clock\<close>

abbreviation (input) RQCF_REQ_SKIP :: flags where "RQCF_REQ_SKIP \<equiv> 0x01"
abbreviation (input) RQCF_ACT_SKIP :: flags where "RQCF_ACT_SKIP \<equiv> 0x02"
abbreviation (input) RQCF_UPDATED :: flags where "RQCF_UPDATED \<equiv> 0x04"

text \<open>Interrupt and steal time accounting are configured out, so the whole delta is task time.\<close>

definition update_rq_clock_task :: "'x kenv \<Rightarrow> cpu \<Rightarrow> int \<Rightarrow> 'x kstate \<Rightarrow> 'x kstate" where
  "update_rq_clock_task E c delta s =
     upd_ext (update_rq_clock_pelt E c delta)
       (upd_rq c (\<lambda>r. r\<lparr>clock_task := u64 (clock_task r + delta)\<rparr>) s)"

definition update_rq_clock :: "'x kenv \<Rightarrow> cpu \<Rightarrow> 'x kstate \<Rightarrow> 'x kstate" where
  "update_rq_clock E c s =
     (if clock_update_flags (rqs s c) AND RQCF_ACT_SKIP \<noteq> 0 then s
      else
        let s = upd_rq c (\<lambda>r. r\<lparr>clock_update_flags := clock_update_flags r OR RQCF_UPDATED\<rparr>) s;
            clk = sched_clock_cpu E c (ext s);
            delta = s64 (clk - rq_clock (rqs s c))
        in if delta < 0 then s
           else update_rq_clock_task E c delta
                  (upd_rq c (\<lambda>r. r\<lparr>rq_clock := u64 (rq_clock r + delta)\<rparr>) s))"

definition rq_clock_skip_update :: "cpu \<Rightarrow> 'x kstate \<Rightarrow> 'x kstate" where
  "rq_clock_skip_update c s =
     upd_rq c (\<lambda>r. r\<lparr>clock_update_flags := clock_update_flags r OR RQCF_REQ_SKIP\<rparr>) s"

definition rq_clock_cancel_skipupdate :: "cpu \<Rightarrow> 'x kstate \<Rightarrow> 'x kstate" where
  "rq_clock_cancel_skipupdate c s =
     upd_rq c (\<lambda>r. r\<lparr>clock_update_flags := clock_update_flags r AND NOT RQCF_REQ_SKIP\<rparr>) s"

definition sched_core_enabled :: "cpu \<Rightarrow> 'x kstate \<Rightarrow> bool" where
  "sched_core_enabled c s \<longleftrightarrow> sched_core_key s \<and> core_enabled (rqs s c)"

text \<open>The clock follows the cpu's clock and never runs backwards.\<close>

lemma update_rq_clock_frame [simp]:
  "tasks (update_rq_clock E c s) = tasks s"
  "hvf_of d (update_rq_clock E c s) = hvf_of d s"
  "nr_running (rqs (update_rq_clock E c s) d) = nr_running (rqs s d)"
  "rq_curr (rqs (update_rq_clock E c s) d) = rq_curr (rqs s d)"
  "rt_clock (update_rq_clock E c s) = rt_clock s"
  "rt_reads (update_rq_clock E c s) = rt_reads s"
  "current (update_rq_clock E c s) = current s"
  "this_cpu (update_rq_clock E c s) = this_cpu s"
  "nr_cpu_ids (update_rq_clock E c s) = nr_cpu_ids s"
  "mms (update_rq_clock E c s) = mms s"
  "rq_idle (rqs (update_rq_clock E c s) d) = rq_idle (rqs s d)"
  "rq_core (rqs (update_rq_clock E c s) d) = rq_core (rqs s d)"
  "core_tree (rqs (update_rq_clock E c s) d) = core_tree (rqs s d)"
  "core_pick (rqs (update_rq_clock E c s) d) = core_pick (rqs s d)"
  "rq_core_cookie (rqs (update_rq_clock E c s) d) = rq_core_cookie (rqs s d)"
  "balance_callback (rqs (update_rq_clock E c s) d) = balance_callback (rqs s d)"
  by (simp_all add: update_rq_clock_def update_rq_clock_task_def Let_def)

lemma update_rq_clock_monotone:
  assumes "0 \<le> rq_clock (rqs s c)" "rq_clock (rqs s c) < 2 ^ 63"
    and "0 \<le> sched_clock_cpu E c (ext s)" "sched_clock_cpu E c (ext s) < 2 ^ 63"
  shows "rq_clock (rqs s c) \<le> rq_clock (rqs (update_rq_clock E c s) c)"
    and "clock_update_flags (rqs s c) AND RQCF_ACT_SKIP = 0 \<Longrightarrow>
      rq_clock (rqs (update_rq_clock E c s) c) = max (rq_clock (rqs s c)) (sched_clock_cpu E c (ext s))"
proof -
  let ?d = "sched_clock_cpu E c (ext s) - rq_clock (rqs s c)"
  have d: "s64 ?d = ?d" using assms by (intro s64_id) simp_all
  have u: "u64 (rq_clock (rqs s c) + ?d) = sched_clock_cpu E c (ext s)"
    using assms by (simp add: u64_id)
  show "clock_update_flags (rqs s c) AND RQCF_ACT_SKIP = 0 \<Longrightarrow>
      rq_clock (rqs (update_rq_clock E c s) c) = max (rq_clock (rqs s c)) (sched_clock_cpu E c (ext s))"
    using d u by (simp add: update_rq_clock_def update_rq_clock_task_def Let_def max_def)
  then show "rq_clock (rqs s c) \<le> rq_clock (rqs (update_rq_clock E c s) c)"
    by (cases "clock_update_flags (rqs s c) AND RQCF_ACT_SKIP = 0") (simp_all add: update_rq_clock_def)
qed

end
