(* ===== verification/Core_Cookie.thy ===== *)
theory Core_Cookie
  imports Core_Env
begin

text \<open>
  Core scheduling (\<open>CONFIG_SCHED_CORE\<close> of \<^verbatim>\<open>kernel/sched/core.c\<close>): the tasks of a run queue that
  carry a cookie are kept in a tree ordered by cookie and then by priority, in which the core
  looks for a task that may share it. \<open>rb_add\<close> and \<open>rb_find_first\<close> are the generic
  tree helpers of the kernel; \<open>core_lib_ok\<close> states what they document.
\<close>

declare set_inorder [simp del] length_inorder [simp del]

section \<open>Definitions\<close>

definition core_prio :: "task_struct \<Rightarrow> int" where
  "core_prio p =
     (if sched_class p = Stop then - 2
      else if dl_server p \<noteq> None then - 1
      else if rt_or_dl_prio (prio p) then prio p
      else if sched_class p = Idle then MAX_RT_PRIO + NICE_WIDTH
      else MAX_RT_PRIO + MAX_NICE)"

definition prio_less :: "'x kenv \<Rightarrow> 'x kstate \<Rightarrow> tid \<Rightarrow> tid \<Rightarrow> bool \<Rightarrow> bool" where
  "prio_less E s a b in_fi =
     (let pa = core_prio (tasks s a); pb = core_prio (tasks s b) in
      if - pa < - pb then True
      else if - pb < - pa then False
      else if pa = - 1 then
        let dl_of = (\<lambda>t. case dl_server (tasks s t) of None \<Rightarrow> dl (tasks s t) | Some d \<Rightarrow> d)
        in \<not> dl_time_before E (dl_deadline (dl_of a)) (dl_deadline (dl_of b))
      else if pa = MAX_RT_PRIO + MAX_NICE then cfs_prio_less E s a b in_fi
      else False)"

definition sched_core_less :: "'x kenv \<Rightarrow> 'x kstate \<Rightarrow> tid \<Rightarrow> tid \<Rightarrow> bool" where
  "sched_core_less E s a b =
     (let ca = core_cookie (tasks s a); cb = core_cookie (tasks s b) in
      if ca < cb then True
      else if ca > cb then False
      else prio_less E s b a
             (core_forceidle_count (rqs s (rq_core (rqs s (task_cpu (tasks s a))))) \<noteq> 0))"

definition rb_sched_core_cmp :: "'x kstate \<Rightarrow> int \<Rightarrow> tid \<Rightarrow> int" where
  "rb_sched_core_cmp s cookie p =
     (if cookie < core_cookie (tasks s p) then - 1
      else if cookie > core_cookie (tasks s p) then 1
      else 0)"

definition bump_core_seq :: "cpu \<Rightarrow> 'x kstate \<Rightarrow> 'x kstate" where
  "bump_core_seq c s =
     upd_rq (rq_core (rqs s c)) (\<lambda>r. r\<lparr>core_task_seq := u32 (core_task_seq r + 1)\<rparr>) s"

definition sched_core_enqueue :: "'x kenv \<Rightarrow> cpu \<Rightarrow> tid \<Rightarrow> 'x kstate \<Rightarrow> 'x kstate" where
  "sched_core_enqueue E c p s =
     (if sched_delayed (se (tasks s p)) then s
      else
        let s = bump_core_seq c s in
        if core_cookie (tasks s p) = 0 then s
        else upd_rq c (\<lambda>r. r\<lparr>core_tree := rb_add E (sched_core_less E s) p (core_tree r)\<rparr>) s)"

text \<open>\<open>RB_EMPTY_NODE\<close> of the core node: the task is in no core tree.\<close>

definition sched_core_enqueued :: "tid \<Rightarrow> 'x kstate \<Rightarrow> bool" where
  "sched_core_enqueued p s \<longleftrightarrow>
     list_ex (\<lambda>c. p \<in> set (inorder (core_tree (rqs s c)))) [0..<nr_cpu_ids s]"

definition sched_core_dequeue :: "'x kenv \<Rightarrow> cpu \<Rightarrow> tid \<Rightarrow> flags \<Rightarrow> 'x kstate \<Rightarrow> 'x kstate" where
  "sched_core_dequeue E c p fl s =
     (if sched_delayed (se (tasks s p)) then s
      else
        let s = bump_core_seq c s;
            s = (if sched_core_enqueued p s
                 then upd_rq c (\<lambda>r. r\<lparr>core_tree := rb_erase (env_lib E) p (core_tree r)\<rparr>) s else s)
        in if fl AND DEQUEUE_SAVE = 0 \<and> nr_running (rqs s c) = 1 \<and>
              core_forceidle_count (rqs s (rq_core (rqs s c))) \<noteq> 0 \<and>
              rq_curr (rqs s c) = rq_idle (rqs s c)
           then resched_curr c s else s)"

definition sched_task_is_throttled :: "'x kenv \<Rightarrow> tid \<Rightarrow> cpu \<Rightarrow> 'x kstate \<Rightarrow> bool res" where
  "sched_task_is_throttled E p c s =
     (case op_task_is_throttled (ops_of E p s) of
        None \<Rightarrow> Inr False
      | Some f \<Rightarrow> f p c s)"

text \<open>
  The do-while loop of \<open>sched_core_next\<close> walks the tree with \<open>rb_next\<close>; \<open>fuel\<close> bounds
  the number of nodes it visits.
\<close>

fun core_next_loop ::
    "'x kenv \<Rightarrow> 'x kstate \<Rightarrow> tid tree \<Rightarrow> cpu \<Rightarrow> int \<Rightarrow> nat \<Rightarrow> tid \<Rightarrow> tid option res option" where
  "core_next_loop E s tr c cookie 0 node = None"
| "core_next_loop E s tr c cookie (Suc fuel) node =
     (case rb_next (env_lib E) tr node of
        None \<Rightarrow> Some (Inr None)
      | Some p \<Rightarrow>
          if core_cookie (tasks s p) \<noteq> cookie then Some (Inr None)
          else case sched_task_is_throttled E p c s of
                 Inl f \<Rightarrow> Some (Inl f)
               | Inr True \<Rightarrow> core_next_loop E s tr c cookie fuel p
               | Inr False \<Rightarrow> Some (Inr (Some p)))"

definition sched_core_next :: "'x kenv \<Rightarrow> tid \<Rightarrow> int \<Rightarrow> 'x kstate \<Rightarrow> tid option res option" where
  "sched_core_next E p cookie s =
     (let c = task_cpu (tasks s p); tr = core_tree (rqs s c)
      in core_next_loop E s tr c cookie (Suc (size tr)) p)"

definition sched_core_find :: "'x kenv \<Rightarrow> cpu \<Rightarrow> int \<Rightarrow> 'x kstate \<Rightarrow> tid option res option" where
  "sched_core_find E c cookie s =
     (case rb_find_first E (rb_sched_core_cmp s cookie) (core_tree (rqs s c)) of
        None \<Rightarrow> Some (Inr None)
      | Some p \<Rightarrow>
          (case sched_task_is_throttled E p c s of
             Inl f \<Rightarrow> Some (Inl f)
           | Inr False \<Rightarrow> Some (Inr (Some p))
           | Inr True \<Rightarrow> sched_core_next E p cookie s))"

section \<open>The order of the tree\<close>

text \<open>
  \<open>rb_add\<close> descends by the comparison and inserts a leaf: it goes between a predecessor it is not
  less than and a successor it is less than. \<open>rb_find_first\<close> returns the leftmost match of
  a search key that orders the tree.
\<close>

definition core_lib_ok :: "'x kenv \<Rightarrow> bool" where
  "core_lib_ok E \<longleftrightarrow>
     rb_lib_ok (env_lib E) \<and>
     (\<forall>less x t. \<exists>xs ys. inorder t = xs @ ys \<and> inorder (rb_add E less x t) = xs @ x # ys \<and>
        (xs \<noteq> [] \<longrightarrow> \<not> less x (last xs)) \<and> (ys \<noteq> [] \<longrightarrow> less x (hd ys))) \<and>
     (\<forall>cmp t. sorted_wrt (\<lambda>a b. cmp b \<le> cmp a) (inorder t) \<longrightarrow>
        rb_find_first E cmp t = find (\<lambda>p. cmp p = 0) (inorder t))"

definition core_sorted :: "cpu \<Rightarrow> 'x kstate \<Rightarrow> bool" where
  "core_sorted c s \<longleftrightarrow>
     distinct (inorder (core_tree (rqs s c))) \<and>
     sorted_by (\<lambda>p. core_cookie (tasks s p)) (inorder (core_tree (rqs s c)))"

lemma sorted_insert_between:
  assumes "sorted_by f (xs @ ys)" "xs \<noteq> [] \<Longrightarrow> f (last xs) \<le> f x" "ys \<noteq> [] \<Longrightarrow> f x \<le> f (hd ys)"
  shows "sorted_by f (xs @ x # ys)"
proof -
  have s: "sorted_by f xs" "sorted_by f ys" "\<forall>a \<in> set xs. \<forall>b \<in> set ys. f a \<le> f b"
    using assms(1) by (simp_all add: sorted_wrt_append)
  have "f y \<le> f x" if "y \<in> set xs" for y
    using sorted_by_last [OF s(1) that] assms(2) that by fastforce
  moreover have "f x \<le> f y" if "y \<in> set ys" for y
    using s(2) assms(3) that by (cases ys) auto
  ultimately show ?thesis using s by (simp add: sorted_wrt_append)
qed

lemma sched_core_less_cookie:
  "sched_core_less E s a b \<Longrightarrow> core_cookie (tasks s a) \<le> core_cookie (tasks s b)"
  "\<not> sched_core_less E s a b \<Longrightarrow> core_cookie (tasks s b) \<le> core_cookie (tasks s a)"
  by (auto simp: sched_core_less_def Let_def split: if_splits)

lemma bump_core_seq_frame [simp]:
  "tasks (bump_core_seq c s) = tasks s" "core_tree (rqs (bump_core_seq c s) d) = core_tree (rqs s d)"
  "nr_cpu_ids (bump_core_seq c s) = nr_cpu_ids s"
  by (simp_all add: bump_core_seq_def)

lemma sched_core_enqueue_sorted:
  assumes E: "core_lib_ok E" and s: "core_sorted c s" and p: "p \<notin> set (inorder (core_tree (rqs s c)))"
  shows "core_sorted c (sched_core_enqueue E c p s)"
    and "set (inorder (core_tree (rqs (sched_core_enqueue E c p s) c))) =
      set (inorder (core_tree (rqs s c))) \<union>
      (if sched_delayed (se (tasks s p)) \<or> core_cookie (tasks s p) = 0 then {} else {p})"
proof -
  let ?s = "bump_core_seq c s"
  obtain xs ys where t: "inorder (core_tree (rqs s c)) = xs @ ys"
      "inorder (rb_add E (sched_core_less E ?s) p (core_tree (rqs s c))) = xs @ p # ys"
      "xs \<noteq> [] \<longrightarrow> \<not> sched_core_less E ?s p (last xs)" "ys \<noteq> [] \<longrightarrow> sched_core_less E ?s p (hd ys)"
    using E unfolding core_lib_ok_def by metis
  have "sorted_by (\<lambda>q. core_cookie (tasks s q)) (xs @ p # ys)"
    using s t(1,3,4) sched_core_less_cookie [of E ?s p]
    by (intro sorted_insert_between) (simp_all add: core_sorted_def)
  moreover have "distinct (xs @ p # ys)" using s p t by (auto simp: core_sorted_def)
  ultimately show "core_sorted c (sched_core_enqueue E c p s)"
    using s t(2) by (simp add: core_sorted_def sched_core_enqueue_def Let_def)
  show "set (inorder (core_tree (rqs (sched_core_enqueue E c p s) c))) =
      set (inorder (core_tree (rqs s c))) \<union>
      (if sched_delayed (se (tasks s p)) \<or> core_cookie (tasks s p) = 0 then {} else {p})"
    using t(1,2) by (simp add: sched_core_enqueue_def Let_def)
qed

lemma sched_core_dequeue_sorted:
  assumes E: "core_lib_ok E" and s: "core_sorted c s"
    and p: "sched_core_enqueued p s \<Longrightarrow> p \<in> set (inorder (core_tree (rqs s c)))"
  shows "core_sorted c (sched_core_dequeue E c p fl s)"
proof -
  have L: "rb_lib_ok (env_lib E)" using E by (simp add: core_lib_ok_def)
  have en: "sched_core_enqueued p (bump_core_seq c s) = sched_core_enqueued p s"
    by (simp add: sched_core_enqueued_def)
  have er: "inorder (rb_erase (env_lib E) p (core_tree (rqs s c))) = remove1 p (inorder (core_tree (rqs s c)))"
    if "sched_core_enqueued p s"
    using rb_lib_okD(2) [OF L] s p [OF that] by (simp add: core_sorted_def)
  have ck: "core_cookie (tasks (resched_curr c u) t) = core_cookie (tasks u t)" for u :: "'a kstate" and t
    by (simp add: resched_curr_def resched_curr_tif_def set_nr_and_not_polling_def Let_def set_tif_def)
  define u where "u = (if sched_core_enqueued p s
    then upd_rq c (\<lambda>r. r\<lparr>core_tree := rb_erase (env_lib E) p (core_tree r)\<rparr>) (bump_core_seq c s)
    else bump_core_seq c s)"
  have u: "core_sorted c u"
    using s er by (simp add: core_sorted_def u_def sorted_wrt_remove1)
  have "core_sorted c (resched_curr c u)"
    using u ck [of u] by (simp add: core_sorted_def) (simp add: resched_curr_def)
  with s u show ?thesis
    unfolding sched_core_dequeue_def Let_def en u_def [symmetric] by (simp split: if_split)
qed

section \<open>Finding a task for a cookie\<close>

lemma find_split:
  "find P zs = Some q \<Longrightarrow> \<exists>xs ys. zs = xs @ q # ys \<and> P q \<and> (\<forall>x \<in> set xs. \<not> P x)"
proof (induction zs)
  case (Cons z zs)
  show ?case
  proof (cases "P z")
    case True
    then show ?thesis using Cons.prems by (intro exI [of _ "[]"] exI [of _ zs]) simp
  next
    case False
    then obtain xs ys where "zs = xs @ q # ys" "P q" "\<forall>x \<in> set xs. \<not> P x"
      using Cons by auto
    then show ?thesis using False by (intro exI [of _ "z # xs"] exI [of _ ys]) simp
  qed
qed simp

lemma core_next_loop_find:
  assumes L: "rb_lib_ok (env_lib E)" and d: "distinct (inorder tr)"
    and thr: "\<And>q. q \<in> set (inorder tr) \<Longrightarrow> sched_task_is_throttled E q c s = Inr (thr q)"
    and so: "sorted_by (\<lambda>p. core_cookie (tasks s p)) (inorder tr)"
  shows "inorder tr = xs @ node # ys \<Longrightarrow> core_cookie (tasks s node) = cookie \<Longrightarrow> length ys < fuel \<Longrightarrow>
    core_next_loop E s tr c cookie fuel node =
      Some (Inr (find (\<lambda>p. core_cookie (tasks s p) = cookie \<and> \<not> thr p) ys))"
proof (induction ys arbitrary: xs node fuel)
  case Nil
  then obtain f where f: "fuel = Suc f" by (cases fuel) auto
  have "rb_next (env_lib E) tr node = None"
    using rb_lib_okD(3) [OF L d, of node] Nil d next_in_mid [of node xs "[]"] by simp
  then show ?case by (simp add: f)
next
  case (Cons q ys)
  then obtain f where f: "fuel = Suc f" by (cases fuel) auto
  have nx: "rb_next (env_lib E) tr node = Some q"
    using rb_lib_okD(3) [OF L d, of node] Cons.prems(1) d next_in_mid [of node xs "q # ys"] by simp
  have q: "sched_task_is_throttled E q c s = Inr (thr q)" using thr Cons.prems(1) by simp
  have IH: "core_cookie (tasks s q) = cookie \<Longrightarrow> core_next_loop E s tr c cookie f q =
      Some (Inr (find (\<lambda>p. core_cookie (tasks s p) = cookie \<and> \<not> thr p) ys))"
    using Cons.IH [of "xs @ [node]" q f] Cons.prems(1,3) f by simp
  have "find (\<lambda>p. core_cookie (tasks s p) = cookie \<and> \<not> thr p) (q # ys) = None"
    if ne: "core_cookie (tasks s q) \<noteq> cookie"
  proof -
    have "cookie \<le> core_cookie (tasks s q)" "\<forall>y \<in> set ys. core_cookie (tasks s q) \<le> core_cookie (tasks s y)"
      using so Cons.prems(1,2) by (simp_all add: sorted_wrt_append)
    then show ?thesis using ne by (auto simp: find_None_iff)
  qed
  then show ?case using nx q IH by (cases "thr q") (auto simp: f)
qed

lemma sched_core_find_eq:
  assumes E: "core_lib_ok E" and s: "core_sorted c s"
    and on: "\<And>q. q \<in> set (inorder (core_tree (rqs s c))) \<Longrightarrow> task_cpu (tasks s q) = c"
    and thr: "\<And>q. q \<in> set (inorder (core_tree (rqs s c))) \<Longrightarrow> sched_task_is_throttled E q c s = Inr (thr q)"
  shows "sched_core_find E c cookie s =
    Some (Inr (find (\<lambda>p. core_cookie (tasks s p) = cookie \<and> \<not> thr p) (inorder (core_tree (rqs s c)))))"
proof -
  let ?t = "core_tree (rqs s c)"
  have d: "distinct (inorder ?t)" and so: "sorted_by (\<lambda>p. core_cookie (tasks s p)) (inorder ?t)"
    and L: "rb_lib_ok (env_lib E)" using s E by (simp_all add: core_sorted_def core_lib_ok_def)
  have cs: "sorted_wrt (\<lambda>a b. rb_sched_core_cmp s cookie b \<le> rb_sched_core_cmp s cookie a) (inorder ?t)"
    by (rule sorted_wrt_mono_rel [OF _ so]) (simp add: rb_sched_core_cmp_def)
  have ff: "rb_find_first E (rb_sched_core_cmp s cookie) ?t =
      find (\<lambda>p. core_cookie (tasks s p) = cookie) (inorder ?t)"
  proof -
    have "(rb_sched_core_cmp s cookie p = 0) = (core_cookie (tasks s p) = cookie)" for p
      by (auto simp: rb_sched_core_cmp_def)
    moreover have "rb_find_first E (rb_sched_core_cmp s cookie) ?t =
        find (\<lambda>p. rb_sched_core_cmp s cookie p = 0) (inorder ?t)"
      using E cs unfolding core_lib_ok_def by blast
    ultimately show ?thesis by simp
  qed
  show ?thesis
  proof (cases "find (\<lambda>p. core_cookie (tasks s p) = cookie) (inorder ?t)")
    case None
    then have "find (\<lambda>p. core_cookie (tasks s p) = cookie \<and> \<not> thr p) (inorder ?t) = None"
      by (auto simp: find_None_iff)
    then show ?thesis by (simp add: sched_core_find_def ff None)
  next
    case (Some q)
    from find_split [OF this] obtain xs ys where sp: "inorder ?t = xs @ q # ys" and q: "core_cookie (tasks s q) = cookie"
      and xs: "\<forall>x \<in> set xs. core_cookie (tasks s x) \<noteq> cookie"
      by blast
    have skip: "find P (xs @ q # ys) = (if P q then Some q else find P ys)"
      if "\<forall>x \<in> set xs. \<not> P x" for P using that by (induction xs) auto
    have "length ys < Suc (size ?t)" using sp length_inorder [of ?t] by simp
    then have "sched_core_next E q cookie s =
        Some (Inr (find (\<lambda>p. core_cookie (tasks s p) = cookie \<and> \<not> thr p) ys))"
      using core_next_loop_find [OF L d thr so sp q] on [of q] sp
      by (simp add: sched_core_next_def Let_def del: core_next_loop.simps)
    then show ?thesis
      using Some thr [of q] sp q xs by (cases "thr q") (simp_all add: sched_core_find_def ff skip)
  qed
qed

end
