(* ===== verification/Mm_Cid.thy ===== *)
theory Mm_Cid
  imports Core_Env
begin

text \<open>
  Concurrency ids (\<open>CONFIG_SCHED_MM_CID\<close>, \<^verbatim>\<open>kernel/sched/sched.h\<close> and the end of \<^verbatim>\<open>kernel/sched/core.c\<close>): every cpu
  on which a thread of an address space runs holds a small number that no other cpu holds at the
  same time. The id of a cpu outlives the switch to another task, and is cleared lazily or by a scan.

  Here every operation is one step; \<open>Mm_Cid_Race\<close> splits the scan and the switch into their atomic
  accesses. In an atomic step a compare-and-exchange succeeds if the value is the expected one.
\<close>

abbreviation (input) SCHED_MM_CID_PERIOD_NS :: int where "SCHED_MM_CID_PERIOD_NS \<equiv> 100 * 1000000"
abbreviation (input) MM_CID_SCAN_DELAY :: int where "MM_CID_SCAN_DELAY \<equiv> 100"
abbreviation (input) PF_EXITING :: "32 word" where "PF_EXITING \<equiv> 0x00000004"
abbreviation (input) PF_KTHREAD :: "32 word" where "PF_KTHREAD \<equiv> 0x00200000"

section \<open>Ids of an address space\<close>

abbreviation upd_pcpu :: "cpu \<Rightarrow> (mm_cid_pcpu \<Rightarrow> mm_cid_pcpu) \<Rightarrow> mm_struct \<Rightarrow> mm_struct" where
  "upd_pcpu c f m \<equiv> m\<lparr>pcpu_cid := (pcpu_cid m)(c := f (pcpu_cid m c))\<rparr>"

abbreviation cid_at :: "cpu \<Rightarrow> mm_struct \<Rightarrow> cid_slot" where
  "cid_at c m \<equiv> pc_cid (pcpu_cid m c)"

abbreviation set_cid :: "cpu \<Rightarrow> cid_slot \<Rightarrow> mm_struct \<Rightarrow> mm_struct" where
  "set_cid c x m \<equiv> upd_pcpu c (\<lambda>v. v\<lparr>pc_cid := x\<rparr>) m"

definition mm_cid_release :: "nat \<Rightarrow> mm_struct \<Rightarrow> mm_struct" where
  "mm_cid_release n m = m\<lparr>cidmask := cidmask m - {n}\<rparr>"

definition mm_cid_put_lazy :: "cpu \<Rightarrow> mm_struct \<Rightarrow> mm_struct" where
  "mm_cid_put_lazy c m =
     (case cid_at c m of Cid_lazy n \<Rightarrow> mm_cid_release n (set_cid c Cid_unset m) | _ \<Rightarrow> m)"

definition mm_cid_pcpu_unset :: "cpu \<Rightarrow> mm_struct \<Rightarrow> cid_slot \<times> mm_struct" where
  "mm_cid_pcpu_unset c m = (cid_at c m, if cid_at c m = Cid_unset then m else set_cid c Cid_unset m)"

definition mm_cid_put :: "cpu \<Rightarrow> mm_struct \<Rightarrow> mm_struct" where
  "mm_cid_put c m =
     (case mm_cid_pcpu_unset c m of
        (Cid_unset, m) \<Rightarrow> m
      | (Cid_valid n, m) \<Rightarrow> mm_cid_release n m
      | (Cid_lazy n, m) \<Rightarrow> mm_cid_release n m)"

definition mm_cid_snapshot_time :: "int \<Rightarrow> cpu \<Rightarrow> mm_struct \<Rightarrow> mm_struct" where
  "mm_cid_snapshot_time clk c m = upd_pcpu c (\<lambda>v. v\<lparr>pc_time := clk\<rparr>) m"

text \<open>The loop that raises \<open>max_nr_cid\<close> as long as the next id is taken.\<close>

function cid_expand :: "nat \<Rightarrow> mm_struct \<Rightarrow> nat option \<times> mm_struct" where
  "cid_expand n m =
     (if n < mm_nr_cpus_allowed m \<and> n < mm_users m then
        let m = m\<lparr>max_nr_cid := n + 1\<rparr>
        in if n \<notin> cidmask m then (Some n, m\<lparr>cidmask := insert n (cidmask m)\<rparr>) else cid_expand (Suc n) m
      else (None, m))"
  by pat_completeness auto
termination
  by (relation "measure (\<lambda>(n, m). mm_nr_cpus_allowed m - n)") (auto simp: Let_def)

declare cid_expand.simps [simp del]

definition cpumask_first_zero :: "nat \<Rightarrow> nat set \<Rightarrow> nat" where
  "cpumask_first_zero bits m = (case find (\<lambda>i. i \<notin> m) [0..<bits] of None \<Rightarrow> bits | Some i \<Rightarrow> i)"

text \<open>
  \<open>__mm_cid_try_get\<close>: the recent id of the cpu, or a new one, or the first that is free; with no free id
  below the number of allowed cpus the code spins. \<open>bits\<close> is the width of a cpu mask.
\<close>

definition mm_cid_try_get :: "nat \<Rightarrow> cpu \<Rightarrow> mm_struct \<Rightarrow> (nat option \<times> mm_struct) res" where
  "mm_cid_try_get bits c m =
     (let mx = min (max_nr_cid m) (min (mm_nr_cpus_allowed m) (mm_users m));
          m = m\<lparr>max_nr_cid := mx\<rparr>;
          reuse = (case recent_cid (pcpu_cid m c) of
                     Some r \<Rightarrow> if r < mx \<and> r \<notin> cidmask m then Some r else None
                   | None \<Rightarrow> None)
      in case reuse of
           Some r \<Rightarrow> Inr (Some r, m\<lparr>cidmask := insert r (cidmask m)\<rparr>)
         | None \<Rightarrow>
             (case cid_expand mx m of
                (Some n, m) \<Rightarrow> Inr (Some n, m)
              | (None, m) \<Rightarrow>
                  let z = cpumask_first_zero bits (cidmask m)
                  in if \<not> z < mm_nr_cpus_allowed m then Inl No_return
                     else if z \<in> cidmask m then Inr (None, m)
                     else Inr (Some z, m\<lparr>cidmask := insert z (cidmask m)\<rparr>)))"

text \<open>
  \<open>__mm_cid_get\<close>. The retry under \<open>cid_lock\<close> repeats an attempt that failed; when nothing
  changes in between it fails forever.
\<close>

definition mm_cid_alloc :: "nat \<Rightarrow> int \<Rightarrow> cpu \<Rightarrow> mm_struct \<Rightarrow> (nat \<times> mm_struct) res" where
  "mm_cid_alloc bits clk c m =
     bindr (mm_cid_try_get bits c m)
       (\<lambda>(r, m). case r of
                   Some n \<Rightarrow> Inr (n, mm_cid_snapshot_time clk c m)
                 | None \<Rightarrow> Inl No_return)"

definition mm_cid_get :: "nat \<Rightarrow> int \<Rightarrow> cpu \<Rightarrow> mm_struct \<Rightarrow> (nat \<times> mm_struct) res" where
  "mm_cid_get bits clk c m =
     (let fresh = (\<lambda>m. bindr (mm_cid_alloc bits clk c m)
                    (\<lambda>(n, m). Inr (n, upd_pcpu c (\<lambda>v. v\<lparr>pc_cid := Cid_valid n, recent_cid := Some n\<rparr>) m)))
      in case cid_at c m of
           Cid_valid n \<Rightarrow> Inr (n, mm_cid_snapshot_time clk c m)
         | Cid_lazy n \<Rightarrow> fresh (mm_cid_release n (set_cid c Cid_unset m))
         | Cid_unset \<Rightarrow> fresh m)"

section \<open>Switch, migration, scan\<close>

text \<open>A task with ids active but without an address space is a null dereference.\<close>

definition switch_mm_cid :: "cpu \<Rightarrow> tid \<Rightarrow> tid \<Rightarrow> 'x kstate \<Rightarrow> 'x kstate res" where
  "switch_mm_cid c prev next s =
     bindr
       (if mm_cid_active (tasks s prev) then
          case mm (tasks s prev) of
            None \<Rightarrow> Inl Bad_pointer
          | Some m \<Rightarrow> Inr (upd_task prev (\<lambda>v. v\<lparr>mm_cid := None\<rparr>)
              (upd_mm m (\<lambda>v. mm_cid_put_lazy c (mm_cid_snapshot_time (rq_clock (rqs s c)) c v)) s))
        else Inr s)
       (\<lambda>s. if mm_cid_active (tasks s next) then
              case mm (tasks s next) of
                None \<Rightarrow> Inl Bad_pointer
              | Some m \<Rightarrow>
                  bindr (mm_cid_get (nr_cpu_ids s) (rq_clock (rqs s c)) c (mms s m)) (\<lambda>(n, v).
                    Inr (upd_task next (\<lambda>v. v\<lparr>last_mm_cid := Some n, mm_cid := Some n\<rparr>) (upd_mm m (\<lambda>_. v) s)))
            else Inr s)"

definition sched_mm_cid_migrate_from :: "tid \<Rightarrow> 'x kstate \<Rightarrow> 'x kstate" where
  "sched_mm_cid_migrate_from t s = upd_task t (\<lambda>v. v\<lparr>migrate_from_cpu := Some (task_cpu v)\<rparr>) s"

definition runs_mm :: "cpu \<Rightarrow> nat \<Rightarrow> 'x kstate \<Rightarrow> bool" where
  "runs_mm c m s \<longleftrightarrow>
     mm_cid_active (tasks s (rq_curr (rqs s c))) \<and> mm (tasks s (rq_curr (rqs s c))) = Some m"

definition migrate_from_fetch_cid :: "cpu \<Rightarrow> tid \<Rightarrow> nat \<Rightarrow> 'x kstate \<Rightarrow> nat option \<times> 'x kstate" where
  "migrate_from_fetch_cid src t m s =
     (case last_mm_cid (tasks s t) of
        None \<Rightarrow> (None, s)
      | Some l \<Rightarrow>
          if cid_at src (mms s m) \<noteq> Cid_valid l then (None, s)
          else if runs_mm src m s then (None, upd_task t (\<lambda>v. v\<lparr>last_mm_cid := None\<rparr>) s)
          else (Some l, s))"

definition migrate_from_try_steal_cid :: "cpu \<Rightarrow> tid \<Rightarrow> nat \<Rightarrow> nat \<Rightarrow> 'x kstate \<Rightarrow> nat option \<times> 'x kstate" where
  "migrate_from_try_steal_cid src t m n s =
     (if cid_at src (mms s m) \<noteq> Cid_valid n then (None, s)
      else
        let s = upd_mm m (set_cid src (Cid_lazy n)) s in
        if runs_mm src m s then (None, upd_task t (\<lambda>v. v\<lparr>last_mm_cid := None\<rparr>) s)
        else (Some n, upd_mm m (upd_pcpu src (\<lambda>v. v\<lparr>pc_cid := Cid_unset, recent_cid := None\<rparr>)) s))"

definition sched_mm_cid_migrate_to :: "cpu \<Rightarrow> tid \<Rightarrow> 'x kstate \<Rightarrow> 'x kstate" where
  "sched_mm_cid_migrate_to c t s =
     (case mm (tasks s t) of
        None \<Rightarrow> s
      | Some m \<Rightarrow>
          (case migrate_from_cpu (tasks s t) of
             None \<Rightarrow> upd_task t (\<lambda>v. v\<lparr>last_mm_cid := None\<rparr>) s
           | Some src \<Rightarrow>
               let dst_set = (cid_at c (mms s m) \<noteq> Cid_unset \<or> recent_cid (pcpu_cid (mms s m) c) \<noteq> None) in
               if dst_set \<and> mm_users (mms s m) \<ge> mm_nr_cpus_allowed (mms s m) then s
               else
                 (case migrate_from_fetch_cid src t m s of
                    (None, s) \<Rightarrow> s
                  | (Some n, s) \<Rightarrow>
                      (case migrate_from_try_steal_cid src t m n s of
                         (None, s) \<Rightarrow> s
                       | (Some n, s) \<Rightarrow>
                           if dst_set then upd_mm m (mm_cid_release n) s
                           else upd_mm m (\<lambda>v. upd_pcpu c (\<lambda>v. v\<lparr>pc_cid := Cid_valid n, recent_cid := Some n\<rparr>)
                                  (mm_cid_snapshot_time (rq_clock (rqs s c)) c v)) s))))"

definition sched_mm_cid_remote_clear :: "nat \<Rightarrow> cpu \<Rightarrow> 'x kstate \<Rightarrow> 'x kstate" where
  "sched_mm_cid_remote_clear m c s =
     (case cid_at c (mms s m) of
        Cid_valid n \<Rightarrow>
          let s = upd_mm m (set_cid c (Cid_lazy n)) s
          in if runs_mm c m s then s else upd_mm m (\<lambda>v. mm_cid_release n (set_cid c Cid_unset v)) s
      | _ \<Rightarrow> s)"

definition sched_mm_cid_remote_clear_old :: "nat \<Rightarrow> cpu \<Rightarrow> 'x kstate \<Rightarrow> 'x kstate" where
  "sched_mm_cid_remote_clear_old m c s =
     (let clk = rq_clock (rqs s c) in
      if runs_mm c m s then upd_mm m (upd_pcpu c (\<lambda>v. v\<lparr>pc_time := clk\<rparr>)) s
      else if clk < u64 (pc_time (pcpu_cid (mms s m) c) + SCHED_MM_CID_PERIOD_NS) then s
      else sched_mm_cid_remote_clear m c s)"

definition sched_mm_cid_remote_clear_weight :: "nat \<Rightarrow> nat \<Rightarrow> cpu \<Rightarrow> 'x kstate \<Rightarrow> 'x kstate" where
  "sched_mm_cid_remote_clear_weight m wt c s =
     (case cid_at c (mms s m) of
        Cid_valid n \<Rightarrow> if n < wt then s else sched_mm_cid_remote_clear m c s
      | _ \<Rightarrow> s)"

definition time_before :: "int \<Rightarrow> int \<Rightarrow> bool" where
  "time_before a b \<longleftrightarrow> s64 (a - b) < 0"

definition task_mm_cid_work :: "'x kenv \<Rightarrow> 'x kstate \<Rightarrow> 'x kstate" where
  "task_mm_cid_work E s =
     (let t = current s;
          now = jiffies E (ext s);
          s = upd_task t (\<lambda>v. v\<lparr>cid_work_queued := False\<rparr>) s
      in if pflags (tasks s t) AND PF_EXITING \<noteq> 0 then s
         else case mm (tasks s t) of
           None \<Rightarrow> s
         | Some m \<Rightarrow>
             let next_scan = u64 (now + msecs_to_jiffies E MM_CID_SCAN_DELAY);
                 old_scan0 = mm_cid_next_scan (mms s m);
                 s = (if old_scan0 = 0 then upd_mm m (\<lambda>v. v\<lparr>mm_cid_next_scan := next_scan\<rparr>) s else s);
                 old_scan = (if old_scan0 = 0 then next_scan else old_scan0)
             in if time_before now old_scan then s
                else
                  let s = upd_mm m (\<lambda>v. v\<lparr>mm_cid_next_scan := next_scan\<rparr>) s;
                      s = fold (sched_mm_cid_remote_clear_old m) [0..<nr_cpu_ids s] s;
                      wt = card (cidmask (mms s m))
                  in fold (sched_mm_cid_remote_clear_weight m wt) [0..<nr_cpu_ids s] s)"

definition init_sched_mm_cid :: "'x kenv \<Rightarrow> tid \<Rightarrow> 'x kstate \<Rightarrow> 'x kstate" where
  "init_sched_mm_cid E t s =
     (let s = (case mm (tasks s t) of
                 None \<Rightarrow> s
               | Some m \<Rightarrow>
                   if mm_users (mms s m) = 1
                   then upd_mm m (\<lambda>v. v\<lparr>mm_cid_next_scan := u64 (jiffies E (ext s) + msecs_to_jiffies E MM_CID_SCAN_DELAY)\<rparr>) s
                   else s)
      in upd_task t (\<lambda>v. v\<lparr>cid_work_queued := False\<rparr>) s)"

text \<open>\<open>task_work_add\<close> links the work item, which then no longer points at itself.\<close>

definition task_tick_mm_cid :: "'x kenv \<Rightarrow> tid \<Rightarrow> 'x kstate \<Rightarrow> 'x kstate" where
  "task_tick_mm_cid E cur s =
     (case mm (tasks s cur) of
        None \<Rightarrow> s
      | Some m \<Rightarrow>
          if pflags (tasks s cur) AND (PF_EXITING OR PF_KTHREAD) \<noteq> 0 \<or> cid_work_queued (tasks s cur) then s
          else if time_before (jiffies E (ext s)) (mm_cid_next_scan (mms s m)) then s
          else upd_task cur (\<lambda>v. v\<lparr>cid_work_queued := True\<rparr>) s)"

definition sched_mm_cid_exit_signals :: "tid \<Rightarrow> 'x kstate \<Rightarrow> 'x kstate" where
  "sched_mm_cid_exit_signals t s =
     (case mm (tasks s t) of
        None \<Rightarrow> s
      | Some m \<Rightarrow>
          upd_task t (\<lambda>v. v\<lparr>last_mm_cid := None, mm_cid := None\<rparr>)
            (upd_mm m (mm_cid_put (this_cpu s)) (upd_task t (\<lambda>v. v\<lparr>mm_cid_active := False\<rparr>) s)))"

definition sched_mm_cid_before_execve :: "tid \<Rightarrow> 'x kstate \<Rightarrow> 'x kstate" where
  "sched_mm_cid_before_execve t s =
     (case mm (tasks s t) of
        None \<Rightarrow> s
      | Some m \<Rightarrow>
          upd_task t (\<lambda>v. v\<lparr>last_mm_cid := None, mm_cid := None\<rparr>)
            (upd_mm m (mm_cid_put (this_cpu s)) (upd_task t (\<lambda>v. v\<lparr>mm_cid_active := False\<rparr>) s)))"

definition sched_mm_cid_after_execve :: "'x kenv \<Rightarrow> tid \<Rightarrow> 'x kstate \<Rightarrow> 'x kstate res" where
  "sched_mm_cid_after_execve E t s =
     (case mm (tasks s t) of
        None \<Rightarrow> Inr s
      | Some m \<Rightarrow>
          let c = this_cpu s; s = upd_task t (\<lambda>v. v\<lparr>mm_cid_active := True\<rparr>) s in
          bindr (mm_cid_get (nr_cpu_ids s) (rq_clock (rqs s c)) c (mms s m)) (\<lambda>(n, v).
            Inr (upd_ext (rseq_set_notify_resume E t)
              (upd_task t (\<lambda>v. v\<lparr>last_mm_cid := Some n, mm_cid := Some n\<rparr>) (upd_mm m (\<lambda>_. v) s)))))"

definition sched_mm_cid_fork :: "tid \<Rightarrow> 'x kstate \<Rightarrow> 'x kstate" where
  "sched_mm_cid_fork t s = upd_task t (\<lambda>v. v\<lparr>mm_cid_active := True\<rparr>) s"

section \<open>What the operations leave alone\<close>

lemma init_sched_mm_cid_frame [simp]:
  "tasks (init_sched_mm_cid E t s) = (tasks s)(t := (tasks s t)\<lparr>cid_work_queued := False\<rparr>)"
  "rqs (init_sched_mm_cid E t s) = rqs s" "current (init_sched_mm_cid E t s) = current s"
  "this_cpu (init_sched_mm_cid E t s) = this_cpu s" "ext (init_sched_mm_cid E t s) = ext s"
  by (simp_all add: init_sched_mm_cid_def Let_def split: option.split)

end
