(* ===== verification/Core_Queue.thy ===== *)
theory Core_Queue
  imports Core_Cookie Mm_Cid
begin

text \<open>
  The queueing layer of the core scheduler (\<^verbatim>\<open>kernel/sched/core.c\<close>): \<open>enqueue_task\<close> and
  \<open>dequeue_task\<close> with their accounting around the class methods, activation and blocking, the
  change of a task's class, the wake-up preemption check, wake-ups, and the load weight.
\<close>

section \<open>Definitions\<close>

definition enqueue_task :: "'x kenv \<Rightarrow> cpu \<Rightarrow> tid \<Rightarrow> flags \<Rightarrow> 'x kstate \<Rightarrow> 'x kstate res" where
  "enqueue_task E c p fl s =
     (let s = (if fl AND ENQUEUE_NOCLOCK = 0 then update_rq_clock E c s else s) in
      bindr (call (op_enqueue_task (ops_of E p s)) (\<lambda>f. f c p fl s))
        (\<lambda>s.
          let s = uclamp_rq_inc (uclamp_enabled (ops_of E p s)) c p s;
              s = upd_ext (psi_enqueue E p fl) s;
              s = (if fl AND ENQUEUE_RESTORE = 0 then upd_ext (sched_info_enqueue E c p) s else s)
          in Inr (if sched_core_enabled c s then sched_core_enqueue E c p s else s)))"

definition dequeue_task :: "'x kenv \<Rightarrow> cpu \<Rightarrow> tid \<Rightarrow> flags \<Rightarrow> 'x kstate \<Rightarrow> (bool \<times> 'x kstate) res" where
  "dequeue_task E c p fl s =
     (let s = (if sched_core_enabled c s then sched_core_dequeue E c p fl s else s);
          s = (if fl AND DEQUEUE_NOCLOCK = 0 then update_rq_clock E c s else s);
          s = (if fl AND DEQUEUE_SAVE = 0 then upd_ext (sched_info_dequeue E c p) s else s);
          s = upd_ext (psi_dequeue E p fl) s;
          s = uclamp_rq_dec (uclamp_enabled (ops_of E p s)) c p s
      in call (op_dequeue_task (ops_of E p s)) (\<lambda>f. f c p fl s))"

definition activate_task :: "'x kenv \<Rightarrow> cpu \<Rightarrow> tid \<Rightarrow> flags \<Rightarrow> 'x kstate \<Rightarrow> 'x kstate res" where
  "activate_task E c p fl s =
     (let fl = (if task_on_rq_migrating p s then fl OR ENQUEUE_MIGRATED else fl);
          s = (if fl AND ENQUEUE_MIGRATED \<noteq> 0 then sched_mm_cid_migrate_to c p s else s)
      in bindr (enqueue_task E c p fl s)
           (\<lambda>s. Inr (upd_task p (\<lambda>v. v\<lparr>on_rq := TASK_ON_RQ_QUEUED\<rparr>) s)))"

definition deactivate_task :: "'x kenv \<Rightarrow> cpu \<Rightarrow> tid \<Rightarrow> flags \<Rightarrow> 'x kstate \<Rightarrow> 'x kstate res" where
  "deactivate_task E c p fl s =
     bindr (dequeue_task E c p fl (upd_task p (\<lambda>v. v\<lparr>on_rq := TASK_ON_RQ_MIGRATING\<rparr>) s))
       (\<lambda>(_, s). Inr s)"

text \<open>\<open>__block_task\<close>: the task leaves the run queue for good until it is woken.\<close>

definition block_task_finish :: "'x kenv \<Rightarrow> cpu \<Rightarrow> tid \<Rightarrow> 'x kstate \<Rightarrow> 'x kstate" where
  "block_task_finish E c p s =
     (let s = (if sched_contributes_to_load (tasks s p)
               then upd_rq c (\<lambda>r. r\<lparr>nr_uninterruptible := u32 (nr_uninterruptible r + 1)\<rparr>) s else s);
          s = (if in_iowait (tasks s p)
               then upd_ext (delayacct_blkio_start E)
                      (upd_rq c (\<lambda>r. r\<lparr>nr_iowait := s32 (nr_iowait r + 1)\<rparr>) s) else s)
      in upd_task p (\<lambda>v. v\<lparr>on_rq := 0\<rparr>) s)"

definition block_task :: "'x kenv \<Rightarrow> cpu \<Rightarrow> tid \<Rightarrow> flags \<Rightarrow> 'x kstate \<Rightarrow> 'x kstate res" where
  "block_task E c p fl s =
     bindr (dequeue_task E c p (DEQUEUE_SLEEP OR fl) s)
       (\<lambda>(b, s). Inr (if b then block_task_finish E c p s else s))"

definition task_curr :: "tid \<Rightarrow> 'x kstate \<Rightarrow> bool" where
  "task_curr p s \<longleftrightarrow> rq_curr (rqs s (task_cpu (tasks s p))) = p"

definition check_class_changing :: "'x kenv \<Rightarrow> cpu \<Rightarrow> tid \<Rightarrow> sclass \<Rightarrow> 'x kstate \<Rightarrow> 'x kstate res" where
  "check_class_changing E c p prev_class s =
     (if prev_class \<noteq> sched_class (tasks s p) then
        case op_switching_to (ops_of E p s) of None \<Rightarrow> Inr s | Some f \<Rightarrow> f c p s
      else Inr s)"

definition check_class_changed ::
    "'x kenv \<Rightarrow> cpu \<Rightarrow> tid \<Rightarrow> sclass \<Rightarrow> int \<Rightarrow> 'x kstate \<Rightarrow> 'x kstate res" where
  "check_class_changed E c p prev_class oldprio s =
     (if prev_class \<noteq> sched_class (tasks s p) then
        bindr (case op_switched_from (class_ops E prev_class) of None \<Rightarrow> Inr s | Some f \<Rightarrow> f c p s)
          (\<lambda>s. call (op_switched_to (ops_of E p s)) (\<lambda>f. f c p s))
      else if oldprio \<noteq> prio (tasks s p) \<or> dl_prio (prio (tasks s p)) then
        call (op_prio_changed (ops_of E p s)) (\<lambda>f. f c p oldprio s)
      else Inr s)"

definition wakeup_preempt :: "'x kenv \<Rightarrow> cpu \<Rightarrow> tid \<Rightarrow> flags \<Rightarrow> 'x kstate \<Rightarrow> 'x kstate res" where
  "wakeup_preempt E c p fl s =
     (let donor = rq_curr (rqs s c) in
      bindr
        (if sched_class (tasks s p) = sched_class (tasks s donor) then
           call (op_wakeup_preempt (ops_of E donor s)) (\<lambda>f. f c p fl s)
         else if sched_class_above (sched_class (tasks s p)) (sched_class (tasks s donor)) then
           Inr (resched_curr c s)
         else Inr s)
        (\<lambda>s. Inr (if task_on_rq_queued donor s \<and> tif_need_resched (tasks s (rq_curr (rqs s c)))
                  then rq_clock_skip_update c s else s)))"

definition put_prev_task :: "'x kenv \<Rightarrow> cpu \<Rightarrow> tid \<Rightarrow> 'x kstate \<Rightarrow> 'x kstate res" where
  "put_prev_task E c prev s = call (op_put_prev_task (ops_of E prev s)) (\<lambda>f. f c prev None s)"

definition set_next_task :: "'x kenv \<Rightarrow> cpu \<Rightarrow> tid \<Rightarrow> 'x kstate \<Rightarrow> 'x kstate res" where
  "set_next_task E c next s = call (op_set_next_task (ops_of E next s)) (\<lambda>f. f c next False s)"

definition put_prev_set_next_dl_server :: "cpu \<Rightarrow> tid \<Rightarrow> tid \<Rightarrow> 'x kstate \<Rightarrow> 'x kstate" where
  "put_prev_set_next_dl_server c prev next s =
     (let s = upd_task prev (\<lambda>v. v\<lparr>dl_server := None\<rparr>) s;
          s = upd_task next (\<lambda>v. v\<lparr>dl_server := rq_dl_server (rqs s c)\<rparr>) s
      in upd_rq c (\<lambda>r. r\<lparr>rq_dl_server := None\<rparr>) s)"

definition put_prev_set_next_task :: "'x kenv \<Rightarrow> cpu \<Rightarrow> tid \<Rightarrow> tid \<Rightarrow> 'x kstate \<Rightarrow> 'x kstate res" where
  "put_prev_set_next_task E c prev next s =
     (let s = put_prev_set_next_dl_server c prev next s in
      if next = prev then Inr s
      else bindr (call (op_put_prev_task (ops_of E prev s)) (\<lambda>f. f c prev (Some next) s))
             (\<lambda>s. call (op_set_next_task (ops_of E next s)) (\<lambda>f. f c next True s)))"

section \<open>Wake-ups\<close>

definition ttwu_do_wakeup :: "tid \<Rightarrow> 'x kstate \<Rightarrow> 'x kstate" where
  "ttwu_do_wakeup p s = upd_task p (\<lambda>v. v\<lparr>tstate := TASK_RUNNING\<rparr>) s"

text \<open>The idle-balance averages of the run queue (\<open>avg_idle\<close>, \<open>idle_stamp\<close>) are not modelled.\<close>

definition ttwu_do_activate :: "'x kenv \<Rightarrow> cpu \<Rightarrow> tid \<Rightarrow> flags \<Rightarrow> 'x kstate \<Rightarrow> 'x kstate res" where
  "ttwu_do_activate E c p wake_flags s =
     (let en_flags = ENQUEUE_WAKEUP OR ENQUEUE_NOCLOCK;
          s = (if sched_contributes_to_load (tasks s p)
               then upd_rq c (\<lambda>r. r\<lparr>nr_uninterruptible := u32 (nr_uninterruptible r - 1)\<rparr>) s else s);
          en_flags = (if wake_flags AND WF_RQ_SELECTED \<noteq> 0 then en_flags OR ENQUEUE_RQ_SELECTED else en_flags);
          migrated = (wake_flags AND WF_MIGRATED \<noteq> 0);
          en_flags = (if migrated then en_flags OR ENQUEUE_MIGRATED else en_flags);
          s = (if \<not> migrated \<and> in_iowait (tasks s p)
               then upd_rq (task_cpu (tasks s p)) (\<lambda>r. r\<lparr>nr_iowait := s32 (nr_iowait r - 1)\<rparr>)
                      (upd_ext (delayacct_blkio_end E p) s)
               else s)
      in bindr (activate_task E c p en_flags s)
           (\<lambda>s. bindr (wakeup_preempt E c p wake_flags s)
              (\<lambda>s. let s = ttwu_do_wakeup p s
                   in case op_task_woken (ops_of E p s) of None \<Rightarrow> Inr s | Some f \<Rightarrow> f c p s)))"

definition ttwu_runnable :: "'x kenv \<Rightarrow> tid \<Rightarrow> flags \<Rightarrow> 'x kstate \<Rightarrow> (bool \<times> 'x kstate) res" where
  "ttwu_runnable E p wake_flags s =
     (let c = task_cpu (tasks s p) in
      if task_on_rq_queued p s then
        let s = update_rq_clock E c s in
        bindr (if sched_delayed (se (tasks s p))
               then enqueue_task E c p (ENQUEUE_NOCLOCK OR ENQUEUE_DELAYED) s else Inr s)
          (\<lambda>s. bindr (if \<not> task_on_cpu p s then wakeup_preempt E c p wake_flags s else Inr s)
             (\<lambda>s. Inr (True, ttwu_do_wakeup p s)))
      else Inr (False, s))"

section \<open>Load weight\<close>

text \<open>The tables have 40 entries; an index outside of them is a read outside the array.\<close>

definition set_load_weight :: "'x kenv \<Rightarrow> tid \<Rightarrow> bool \<Rightarrow> 'x kstate \<Rightarrow> 'x kstate res" where
  "set_load_weight E p update_load s =
     (let i = static_prio (tasks s p) - MAX_RT_PRIO;
          store = (\<lambda>lw.
            case op_reweight_task (ops_of E p s) of
              Some f \<Rightarrow> if update_load then f (task_cpu (tasks s p)) p lw s
                        else Inr (upd_task p (\<lambda>v. v\<lparr>se := (se v)\<lparr>se_load := lw\<rparr>\<rparr>) s)
            | None \<Rightarrow> Inr (upd_task p (\<lambda>v. v\<lparr>se := (se v)\<lparr>se_load := lw\<rparr>\<rparr>) s))
      in if task_has_idle_policy (tasks s p)
         then store \<lparr>weight = scale_load WEIGHT_IDLEPRIO, inv_weight = WMULT_IDLEPRIO\<rparr>
         else if i < 0 \<or> 40 \<le> i then Inl Bad_pointer
         else store \<lparr>weight = scale_load (sched_prio_to_weight ! nat i),
                     inv_weight = sched_prio_to_wmult ! nat i\<rparr>)"

end
