(* ===== verification/Core_Affinity.thy ===== *)
theory Core_Affinity
  imports Core_Queue
begin

text \<open>
  The affinity of a task and its change (\<^verbatim>\<open>kernel/sched/core.c\<close>), with the pinning of a task
  whose migration is disabled.
\<close>

section \<open>Affinity\<close>

abbreviation (input) SCA_CHECK :: flags where "SCA_CHECK \<equiv> 0x01"
abbreviation (input) SCA_MIGRATE_DISABLE :: flags where "SCA_MIGRATE_DISABLE \<equiv> 0x02"
abbreviation (input) SCA_MIGRATE_ENABLE :: flags where "SCA_MIGRATE_ENABLE \<equiv> 0x04"
abbreviation (input) SCA_USER :: flags where "SCA_USER \<equiv> 0x08"

definition is_migration_disabled :: "task_struct \<Rightarrow> bool" where
  "is_migration_disabled p \<longleftrightarrow> migration_disabled p \<noteq> 0"

definition task_allowed_on_cpu :: "'x kenv \<Rightarrow> tid \<Rightarrow> cpu \<Rightarrow> 'x kstate \<Rightarrow> bool" where
  "task_allowed_on_cpu E p c s \<longleftrightarrow>
     c \<in> cpus_ptr (tasks s p) \<and>
     (pflags (tasks s p) AND PF_KTHREAD \<noteq> 0 \<or> task_cpu_possible E c p)"

definition is_cpu_allowed :: "'x kenv \<Rightarrow> tid \<Rightarrow> cpu \<Rightarrow> 'x kstate \<Rightarrow> bool" where
  "is_cpu_allowed E p c s =
     (if \<not> task_allowed_on_cpu E p c s then False
      else if is_migration_disabled (tasks s p) then c \<in> cpu_online_mask s
      else if pflags (tasks s p) AND PF_KTHREAD = 0 then c \<in> cpu_active_mask s
      else if kthread_is_per_cpu E p then c \<in> cpu_online_mask s
      else if cpu_dying E c (ext s) then False
      else c \<in> cpu_online_mask s)"

text \<open>
  \<open>set_cpus_allowed_common\<close>, what every \<open>set_cpus_allowed\<close> method must do. With
  \<open>SCA_MIGRATE_ENABLE\<close> the new mask is the \<open>cpus_mask\<close> of the task itself, so the pointer
  returns to it.
\<close>

definition set_cpus_allowed_common :: "affinity_context \<Rightarrow> task_struct \<Rightarrow> task_struct" where
  "set_cpus_allowed_common ctx p =
     (if ac_flags ctx AND (SCA_MIGRATE_ENABLE OR SCA_MIGRATE_DISABLE) \<noteq> 0 then
        p\<lparr>cpus_ptr_to := (if ac_flags ctx AND SCA_MIGRATE_ENABLE \<noteq> 0 then None else Some (new_mask ctx))\<rparr>
      else
        let p = p\<lparr>cpus_mask := new_mask ctx, nr_cpus_allowed := int (card (new_mask ctx))\<rparr>
        in if ac_flags ctx AND SCA_USER \<noteq> 0 then p\<lparr>user_cpus_ptr := user_mask ctx\<rparr> else p)"

definition do_set_cpus_allowed_ctx :: "'x kenv \<Rightarrow> tid \<Rightarrow> affinity_context \<Rightarrow> 'x kstate \<Rightarrow> 'x kstate res" where
  "do_set_cpus_allowed_ctx E p ctx s =
     (let c = task_cpu (tasks s p);
          queued = task_on_rq_queued p s;
          running = task_current_donor c p s
      in bindr (if queued
                then bindr (dequeue_task E c p (DEQUEUE_SAVE OR DEQUEUE_NOCLOCK) s) (\<lambda>(_, s). Inr s)
                else Inr s) (\<lambda>s.
         bindr (if running then put_prev_task E c p s else Inr s) (\<lambda>s.
         bindr (call (op_set_cpus_allowed (ops_of E p s)) (\<lambda>f. f p ctx s)) (\<lambda>s.
         let s = (case mm (tasks s p) of None \<Rightarrow> s | Some m \<Rightarrow> upd_mm m (mm_set_cpus_allowed E (new_mask ctx)) s) in
         bindr (if queued then enqueue_task E c p (ENQUEUE_RESTORE OR ENQUEUE_NOCLOCK) s else Inr s) (\<lambda>s.
         if running then set_next_task E c p s else Inr s)))))"

definition do_set_cpus_allowed :: "'x kenv \<Rightarrow> tid \<Rightarrow> cpumask \<Rightarrow> 'x kstate \<Rightarrow> 'x kstate res" where
  "do_set_cpus_allowed E p m s =
     do_set_cpus_allowed_ctx E p \<lparr>new_mask = m, user_mask = None, ac_flags = SCA_USER\<rparr> s"

section \<open>Disabled migration\<close>

definition migrate_disable_switch :: "'x kenv \<Rightarrow> cpu \<Rightarrow> tid \<Rightarrow> 'x kstate \<Rightarrow> 'x kstate res" where
  "migrate_disable_switch E c p s =
     (if migration_disabled (tasks s p) = 0 then Inr s
      else if cpus_ptr_to (tasks s p) \<noteq> None then Inr s
      else do_set_cpus_allowed_ctx E p \<lparr>new_mask = {c}, user_mask = None, ac_flags = SCA_MIGRATE_DISABLE\<rparr> s)"

definition migrate_disable :: "'x kstate \<Rightarrow> 'x kstate" where
  "migrate_disable s =
     (let p = current s in
      if migration_disabled (tasks s p) \<noteq> 0 then
        upd_task p (\<lambda>v. v\<lparr>migration_disabled := (migration_disabled v + 1) mod 2 ^ 16\<rparr>) s
      else
        upd_task p (\<lambda>v. v\<lparr>migration_disabled := 1\<rparr>)
          (upd_rq (this_cpu s) (\<lambda>r. r\<lparr>nr_pinned := u32 (nr_pinned r + 1)\<rparr>) s))"

end
