(* ===== verification/Core_Balance.thy ===== *)
theory Core_Balance
  imports Core_Affinity
begin

text \<open>
  The callbacks that a run queue runs when its lock is about to be released
  (\<^verbatim>\<open>kernel/sched/core.c\<close>, \<^verbatim>\<open>kernel/sched/sched.h\<close>): the stealing of a task with the right cookie for a
  cpu that core scheduling forces idle, and the push of every task off a cpu that goes down. Also the
  change of the cpu of a task, which both need.

  The links of the callback heads are the list \<open>balance_callback\<close>. A head is recognised as queued by
  its next pointer, which is null in the last head of the list: that head can be queued a second time, and the
  walk then meets it twice.
\<close>

section \<open>The cpu of a task\<close>

definition task_group_of :: "tid \<Rightarrow> 'x kstate \<Rightarrow> nat" where
  "task_group_of p s = sched_task_group (tasks s p)"

text \<open>The root group has no entity on any cpu.\<close>

definition set_task_rq :: "'x kenv \<Rightarrow> tid \<Rightarrow> cpu \<Rightarrow> 'x kstate \<Rightarrow> 'x kstate" where
  "set_task_rq E p c s =
     (let tg = task_group_of p s;
          s = upd_ext (set_task_rq_fair E p c) s
      in upd_task p (\<lambda>v. v\<lparr>se := (se v)\<lparr>se_cfs_rq := Some (tg, c),
           se_parent := (if tg = root_task_group then None else Some (tg, c)),
           se_depth := (if tg = root_task_group then 0 else s32 (tg_depth (tgs s tg) + 1))\<rparr>\<rparr>) s)"

definition set_task_cpu_raw :: "'x kenv \<Rightarrow> tid \<Rightarrow> cpu \<Rightarrow> 'x kstate \<Rightarrow> 'x kstate" where
  "set_task_cpu_raw E p c s = upd_task p (\<lambda>v. v\<lparr>task_cpu := c, wake_cpu := c\<rparr>) (set_task_rq E p c s)"

definition set_task_cpu :: "'x kenv \<Rightarrow> tid \<Rightarrow> cpu \<Rightarrow> 'x kstate \<Rightarrow> 'x kstate res" where
  "set_task_cpu E p new_cpu s =
     bindr
       (if task_cpu (tasks s p) \<noteq> new_cpu then
          bindr (case op_migrate_task_rq (ops_of E p s) of None \<Rightarrow> Inr s | Some f \<Rightarrow> f p new_cpu s)
            (\<lambda>s. Inr (upd_ext (migrate_accounts E p)
                 (sched_mm_cid_migrate_from p
                   (upd_task p (\<lambda>v. v\<lparr>se := (se v)\<lparr>nr_migrations := u64 (nr_migrations (se v) + 1)\<rparr>\<rparr>) s))))
        else Inr s)
       (\<lambda>s. Inr (set_task_cpu_raw E p new_cpu s))"

definition move_queued_task_locked :: "'x kenv \<Rightarrow> cpu \<Rightarrow> cpu \<Rightarrow> tid \<Rightarrow> 'x kstate \<Rightarrow> 'x kstate res" where
  "move_queued_task_locked E src dst p s =
     bindr (deactivate_task E src p 0 s) (\<lambda>s.
     bindr (set_task_cpu E p dst s) (\<lambda>s.
     activate_task E dst p 0 s))"

definition stop_one_cpu_nowait :: "cpu \<Rightarrow> stop_work \<Rightarrow> 'x kstate \<Rightarrow> 'x kstate" where
  "stop_one_cpu_nowait c w s = s\<lparr>stop_works := stop_works s @ [(c, w)]\<rparr>"

definition need_resched :: "'x kstate \<Rightarrow> bool" where
  "need_resched s = tif_need_resched (tasks s (current s))"

definition for_each_cpu_wrap :: "cpumask \<Rightarrow> cpu \<Rightarrow> 'x kstate \<Rightarrow> cpu list" where
  "for_each_cpu_wrap m start s =
     filter (\<lambda>c. start \<le> c) (for_each_cpu m s) @ filter (\<lambda>c. c < start) (for_each_cpu m s)"

section \<open>Stealing a task with the cookie of the core\<close>

abbreviation core_of :: "cpu \<Rightarrow> 'x kstate \<Rightarrow> rq" where
  "core_of c s \<equiv> rqs s (rq_core (rqs s c))"

definition core_find_res :: "'x kenv \<Rightarrow> cpu \<Rightarrow> int \<Rightarrow> 'x kstate \<Rightarrow> tid option res" where
  "core_find_res E c cookie s =
     (case sched_core_find E c cookie s of None \<Rightarrow> Inl No_return | Some r \<Rightarrow> r)"

text \<open>Whether \<open>p\<close>, queued on \<open>that\<close>, may be taken by \<open>this\<close>.\<close>

definition may_steal :: "'x kenv \<Rightarrow> cpu \<Rightarrow> cpu \<Rightarrow> tid \<Rightarrow> 'x kstate \<Rightarrow> bool res" where
  "may_steal E this that p s =
     (if core_pick (rqs s that) = Some p \<or> rq_curr (rqs s that) = p then Inr False
      else if \<not> is_cpu_allowed E p this s then Inr False
      else if core_occupation (tasks s p) > core_occupation (tasks s (rq_idle (rqs s this))) then Inr False
      else bindr (sched_task_is_throttled E p this s) (\<lambda>b. Inr (\<not> b)))"

fun steal_loop :: "'x kenv \<Rightarrow> cpu \<Rightarrow> cpu \<Rightarrow> int \<Rightarrow> nat \<Rightarrow> tid option \<Rightarrow> 'x kstate \<Rightarrow> (bool \<times> 'x kstate) res" where
  "steal_loop E this that cookie fuel None s = Inr (False, s)"
| "steal_loop E this that cookie 0 (Some p) s = Inl No_return"
| "steal_loop E this that cookie (Suc n) (Some p) s =
     bindr (may_steal E this that p s) (\<lambda>ok.
       if ok then
         bindr (move_queued_task_locked E that this p s) (\<lambda>s. Inr (True, resched_curr this s))
       else
         bindr (case sched_core_next E p cookie s of None \<Rightarrow> Inl No_return | Some r \<Rightarrow> r)
           (\<lambda>q. steal_loop E this that cookie n q s))"

definition try_steal_cookie :: "'x kenv \<Rightarrow> cpu \<Rightarrow> cpu \<Rightarrow> 'x kstate \<Rightarrow> (bool \<times> 'x kstate) res" where
  "try_steal_cookie E this that s =
     (let cookie = rq_core_cookie (core_of this s) in
      if cookie = 0 then Inr (False, s)
      else if rq_curr (rqs s this) \<noteq> rq_idle (rqs s this) then Inr (False, s)
      else bindr (core_find_res E that cookie s) (\<lambda>p.
             steal_loop E this that cookie (size (core_tree (rqs s that))) p s))"

fun steal_cookie_loop :: "'x kenv \<Rightarrow> cpu \<Rightarrow> cpu list \<Rightarrow> 'x kstate \<Rightarrow> (bool \<times> 'x kstate) res" where
  "steal_cookie_loop E c [] s = Inr (False, s)"
| "steal_cookie_loop E c (i # is) s =
     (if i = c then steal_cookie_loop E c is s
      else if need_resched s then Inr (False, s)
      else bindr (try_steal_cookie E c i s) (\<lambda>(b, s).
             if b then Inr (True, s) else steal_cookie_loop E c is s))"

definition steal_cookie_task :: "'x kenv \<Rightarrow> cpu \<Rightarrow> cpumask \<Rightarrow> 'x kstate \<Rightarrow> (bool \<times> 'x kstate) res" where
  "steal_cookie_task E c span s = steal_cookie_loop E c (for_each_cpu_wrap span (c + 1) s) s"

fun core_balance_loop :: "'x kenv \<Rightarrow> cpu \<Rightarrow> cpumask list \<Rightarrow> 'x kstate \<Rightarrow> 'x kstate res" where
  "core_balance_loop E c [] s = Inr s"
| "core_balance_loop E c (d # ds) s =
     (if need_resched s then Inr s
      else bindr (steal_cookie_task E c d s) (\<lambda>(b, s). if b then Inr s else core_balance_loop E c ds s))"

definition sched_core_balance :: "'x kenv \<Rightarrow> cpu \<Rightarrow> 'x kstate \<Rightarrow> 'x kstate res" where
  "sched_core_balance E c s = core_balance_loop E c (domain_spans E c (ext s)) s"

section \<open>The list of callbacks\<close>

definition queue_balance_callback :: "cpu \<Rightarrow> balance_cb \<Rightarrow> 'x kstate \<Rightarrow> 'x kstate" where
  "queue_balance_callback c cb s =
     (let l = balance_callback (rqs s c) in
      if cb \<in> set (butlast l) \<or> (l \<noteq> [] \<and> hd l = Cb_push) then s
      else upd_rq c (\<lambda>r. r\<lparr>balance_callback := cb # l\<rparr>) s)"

definition queue_core_balance :: "cpu \<Rightarrow> 'x kstate \<Rightarrow> 'x kstate" where
  "queue_core_balance c s =
     (if \<not> sched_core_enabled c s then s
      else if rq_core_cookie (core_of c s) = 0 then s
      else if nr_running (rqs s c) = 0 then s
      else queue_balance_callback c Cb_core s)"

definition rq_has_pinned_tasks :: "cpu \<Rightarrow> 'x kstate \<Rightarrow> bool" where
  "rq_has_pinned_tasks c s \<longleftrightarrow> nr_pinned (rqs s c) \<noteq> 0"

definition balance_push :: "'x kenv \<Rightarrow> cpu \<Rightarrow> 'x kstate \<Rightarrow> 'x kstate res" where
  "balance_push E c s =
     (let push_task = rq_curr (rqs s c);
          s = upd_rq c (\<lambda>r. r\<lparr>balance_callback := [Cb_push]\<rparr>) s
      in if \<not> cpu_dying E c (ext s) \<or> c \<noteq> this_cpu s then Inr s
         else if kthread_is_per_cpu E push_task \<or> is_migration_disabled (tasks s push_task) then
           if nr_running (rqs s c) = 0 \<and> \<not> rq_has_pinned_tasks c s \<and> rcuwait_active E c (ext s)
           then rcuwait_wake_up E c s else Inr s
         else Inr (stop_one_cpu_nowait c (Balance_push_stop push_task) (upd_ext (get_task_struct E push_task) s)))"

definition run_callback :: "'x kenv \<Rightarrow> balance_cb \<Rightarrow> cpu \<Rightarrow> 'x kstate \<Rightarrow> 'x kstate res" where
  "run_callback E cb c s =
     (case cb of
        Cb_push \<Rightarrow> balance_push E c s
      | Cb_core \<Rightarrow> sched_core_balance E c s
      | Cb_class i \<Rightarrow> class_callback E i c s)"

fun do_balance_callbacks :: "'x kenv \<Rightarrow> cpu \<Rightarrow> balance_cb list \<Rightarrow> 'x kstate \<Rightarrow> 'x kstate res" where
  "do_balance_callbacks E c [] s = Inr s"
| "do_balance_callbacks E c (cb # cbs) s =
     bindr (run_callback E cb c s) (\<lambda>s. do_balance_callbacks E c cbs s)"

text \<open>\<open>__splice_balance_callbacks\<close>.\<close>

definition splice_callbacks :: "cpu \<Rightarrow> bool \<Rightarrow> 'x kstate \<Rightarrow> balance_cb list \<times> 'x kstate" where
  "splice_callbacks c split s =
     (let l = balance_callback (rqs s c) in
      if l = [] then ([], s)
      else if split \<and> hd l = Cb_push then ([], s)
      else (l, upd_rq c (\<lambda>r. r\<lparr>balance_callback := []\<rparr>) s))"

definition splice_balance_callbacks :: "cpu \<Rightarrow> 'x kstate \<Rightarrow> balance_cb list \<times> 'x kstate" where
  "splice_balance_callbacks c s = splice_callbacks c True s"

text \<open>\<open>__balance_callbacks\<close> runs the list of the run queue, \<open>balance_callbacks\<close> one spliced before.\<close>

definition run_balance_callbacks :: "'x kenv \<Rightarrow> cpu \<Rightarrow> 'x kstate \<Rightarrow> 'x kstate res" where
  "run_balance_callbacks E c s =
     (let (l, s) = splice_callbacks c False s in do_balance_callbacks E c l s)"

definition balance_callbacks :: "'x kenv \<Rightarrow> cpu \<Rightarrow> balance_cb list \<Rightarrow> 'x kstate \<Rightarrow> 'x kstate res" where
  "balance_callbacks E c l s = (if l = [] then Inr s else do_balance_callbacks E c l s)"

section \<open>What the callbacks guarantee\<close>

lemma run_balance_callbacks_none [simp]:
  "balance_callback (rqs s c) = [] \<Longrightarrow> run_balance_callbacks E c s = Inr s"
  by (simp add: run_balance_callbacks_def splice_callbacks_def)

end
