(* ===== verification/Core_Pick.thy ===== *)
theory Core_Pick
  imports Core_Balance
begin

text \<open>
  Choosing the next task (\<^verbatim>\<open>kernel/sched/core.c\<close>): over the classes of one run queue, and, with core
  scheduling, over all hardware threads of a core, so that threads which share a core run tasks with
  the same cookie or are idle. Also the change of the leading run queue of a core when a thread comes up or goes
  down.
\<close>

section \<open>Picking the next task\<close>

text \<open>
  \<open>prev_balance\<close> calls the balance method of each class from that of \<open>prev\<close> down to, and
  without, the idle class, until one reports a runnable task.
\<close>

fun balance_classes :: "'x kenv \<Rightarrow> cpu \<Rightarrow> tid \<Rightarrow> sclass list \<Rightarrow> 'x kstate \<Rightarrow> 'x kstate res" where
  "balance_classes E c prev [] s = Inr s"
| "balance_classes E c prev (k # ks) s =
     (if k = Idle then Inr s
      else case op_balance (class_ops E k) of
             None \<Rightarrow> balance_classes E c prev ks s
           | Some f \<Rightarrow> bindr (f c prev s) (\<lambda>(b, s). if b then Inr s else balance_classes E c prev ks s))"

definition prev_balance :: "'x kenv \<Rightarrow> cpu \<Rightarrow> tid \<Rightarrow> 'x kstate \<Rightarrow> 'x kstate res" where
  "prev_balance E c prev s =
     balance_classes E c prev (drop (class_index (sched_class (tasks s prev))) sched_classes) s"

fun pick_classes :: "'x kenv \<Rightarrow> cpu \<Rightarrow> tid \<Rightarrow> sclass list \<Rightarrow> 'x kstate \<Rightarrow> (tid \<times> 'x kstate) res" where
  "pick_classes E c prev [] s = Inl Bug"
| "pick_classes E c prev (k # ks) s =
     (case op_pick_next_task (class_ops E k) of
        Some f \<Rightarrow>
          bindr (f c prev s) (\<lambda>(r, s).
            case r of Some p \<Rightarrow> Inr (p, s) | None \<Rightarrow> pick_classes E c prev ks s)
      | None \<Rightarrow>
          bindr (call (op_pick_task (class_ops E k)) (\<lambda>f. f c s)) (\<lambda>(r, s).
            case r of
              Some p \<Rightarrow> bindr (put_prev_set_next_task E c prev p s) (\<lambda>s. Inr (p, s))
            | None \<Rightarrow> pick_classes E c prev ks s))"

definition pick_restart :: "'x kenv \<Rightarrow> cpu \<Rightarrow> tid \<Rightarrow> 'x kstate \<Rightarrow> (tid \<times> 'x kstate) res" where
  "pick_restart E c prev s =
     bindr (prev_balance E c prev s) (\<lambda>s. pick_classes E c prev sched_classes s)"

definition pick_next_task_classes :: "'x kenv \<Rightarrow> cpu \<Rightarrow> tid \<Rightarrow> 'x kstate \<Rightarrow> (tid \<times> 'x kstate) res" where
  "pick_next_task_classes E c prev s =
     (let s = upd_rq c (\<lambda>r. r\<lparr>rq_dl_server := None\<rparr>) s in
      if \<not> sched_class_above (sched_class (tasks s prev)) Fair \<and>
         nr_running (rqs s c) = cfs_h_nr_queued (rqs s c) then
        bindr (pick_next_task_fair E c prev s) (\<lambda>(r, s).
          case r of
            Retry_task \<Rightarrow> pick_restart E c prev s
          | Fair_picked (Some p) \<Rightarrow> Inr (p, s)
          | Fair_picked None \<Rightarrow>
              let (p, s) = pick_task_idle E c s
              in bindr (put_prev_set_next_task E c prev p s) (\<lambda>s. Inr (p, s)))
      else pick_restart E c prev s)"

fun pick_task_loop :: "'x kenv \<Rightarrow> cpu \<Rightarrow> sclass list \<Rightarrow> 'x kstate \<Rightarrow> (tid \<times> 'x kstate) res" where
  "pick_task_loop E c [] s = Inl Bug"
| "pick_task_loop E c (k # ks) s =
     bindr (call (op_pick_task (class_ops E k)) (\<lambda>f. f c s)) (\<lambda>(r, s).
       case r of Some p \<Rightarrow> Inr (p, s) | None \<Rightarrow> pick_task_loop E c ks s)"

definition pick_task :: "'x kenv \<Rightarrow> cpu \<Rightarrow> 'x kstate \<Rightarrow> (tid \<times> 'x kstate) res" where
  "pick_task E c s = pick_task_loop E c sched_classes (upd_rq c (\<lambda>r. r\<lparr>rq_dl_server := None\<rparr>) s)"

definition is_task_rq_idle :: "tid \<Rightarrow> 'x kstate \<Rightarrow> bool" where
  "is_task_rq_idle t s \<longleftrightarrow> rq_idle (rqs s (task_cpu (tasks s t))) = t"

definition cookie_equals :: "tid \<Rightarrow> int \<Rightarrow> 'x kstate \<Rightarrow> bool" where
  "cookie_equals a cookie s \<longleftrightarrow> is_task_rq_idle a s \<or> core_cookie (tasks s a) = cookie"

definition cookie_match :: "tid \<Rightarrow> tid \<Rightarrow> 'x kstate \<Rightarrow> bool" where
  "cookie_match a b s \<longleftrightarrow>
     is_task_rq_idle a s \<or> is_task_rq_idle b s \<or> core_cookie (tasks s a) = core_cookie (tasks s b)"

section \<open>The selection of a core\<close>

abbreviation upd_core :: "cpu \<Rightarrow> (rq \<Rightarrow> rq) \<Rightarrow> 'x kstate \<Rightarrow> 'x kstate" where
  "upd_core c f s \<equiv> upd_rq (rq_core (rqs s c)) f s"

text \<open>The first loop picks for every sibling and keeps the task of the highest priority.\<close>

fun pick_siblings ::
    "'x kenv \<Rightarrow> cpu \<Rightarrow> bool \<Rightarrow> bool \<Rightarrow> cpu list \<Rightarrow> tid option \<Rightarrow> 'x kstate \<Rightarrow> (tid option \<times> 'x kstate) res" where
  "pick_siblings E c fi_before clk_updated [] mx s = Inr (mx, s)"
| "pick_siblings E c fi_before clk_updated (i # is) mx s =
     (let s = (if i \<noteq> c \<and> (i \<noteq> rq_core (rqs s c) \<or> \<not> clk_updated) then update_rq_clock E i s else s) in
      bindr (pick_task E i s) (\<lambda>(p, s).
        let s = upd_rq i (\<lambda>r. r\<lparr>core_pick := Some p, core_dl_server := rq_dl_server r\<rparr>) s;
            mx = (case mx of None \<Rightarrow> p | Some m \<Rightarrow> if prio_less E s m p fi_before then p else m)
        in pick_siblings E c fi_before clk_updated is (Some mx) s))"

text \<open>The second loop replaces a pick with another cookie, and counts the busy and the forced idle siblings.\<close>

definition match_pick :: "'x kenv \<Rightarrow> int \<Rightarrow> cpu \<Rightarrow> tid \<Rightarrow> 'x kstate \<Rightarrow> (tid option \<times> 'x kstate) res" where
  "match_pick E cookie i p s =
     (if cookie_equals p cookie s then Inr (Some p, s)
      else bindr (if cookie \<noteq> 0 then core_find_res E i cookie s else Inr None) (\<lambda>r.
             case r of
               Some q \<Rightarrow> Inr (Some q, s)
             | None \<Rightarrow> call (op_pick_task (class_ops E Idle)) (\<lambda>f. f i s)))"

fun match_siblings ::
    "'x kenv \<Rightarrow> cpu \<Rightarrow> int \<Rightarrow> bool \<Rightarrow> cpu list \<Rightarrow> int \<Rightarrow> 'x kstate \<Rightarrow> (int \<times> 'x kstate) res" where
  "match_siblings E c cookie fi_before [] occ s = Inr (occ, s)"
| "match_siblings E c cookie fi_before (i # is) occ s =
     (case core_pick (rqs s i) of
        None \<Rightarrow> Inl Bad_pointer
      | Some p \<Rightarrow>
          bindr (match_pick E cookie i p s) (\<lambda>(r, s).
            let s = upd_rq i (\<lambda>v. v\<lparr>core_pick := r, core_dl_server := None\<rparr>) s in
            if r = Some (rq_idle (rqs s i)) then
              match_siblings E c cookie fi_before is occ
                (if nr_running (rqs s i) \<noteq> 0 then
                   upd_core c (\<lambda>v. v\<lparr>core_forceidle_count := u32 (core_forceidle_count v + 1),
                     core_forceidle_seq := (if fi_before then core_forceidle_seq v
                                            else u32 (core_forceidle_seq v + 1))\<rparr>) s
                 else s)
            else match_siblings E c cookie fi_before is (occ + 1) s))"

text \<open>The third loop asks the siblings whose pick is not what they run to reschedule.\<close>

definition kick_sibling :: "'x kenv \<Rightarrow> cpu \<Rightarrow> bool \<Rightarrow> int \<Rightarrow> cpu \<Rightarrow> 'x kstate \<Rightarrow> 'x kstate" where
  "kick_sibling E c fi_before occ i s =
     (case core_pick (rqs s i) of
        None \<Rightarrow> s
      | Some p \<Rightarrow>
          let fi = (core_forceidle_count (core_of c s) \<noteq> 0);
              s = (if fi_before \<and> fi then s else upd_ext (task_vruntime_update E i p fi) s);
              s = upd_task p (\<lambda>v. v\<lparr>core_occupation := occ\<rparr>) s
          in if i = c \<or> rq_curr (rqs s i) = p
             then upd_rq i (\<lambda>v. v\<lparr>core_pick := None, core_dl_server := None\<rparr>) s
             else resched_curr i s)"

definition core_set_next :: "'x kenv \<Rightarrow> cpu \<Rightarrow> tid \<Rightarrow> tid \<Rightarrow> 'x kstate \<Rightarrow> (tid \<times> 'x kstate) res" where
  "core_set_next E c prev next s =
     bindr (put_prev_set_next_task E c prev next s) (\<lambda>s.
       Inr (next, if core_forceidle_count (core_of c s) \<noteq> 0 \<and> next = rq_idle (rqs s c)
                  then queue_core_balance c s else s))"

text \<open>
  The selection for all siblings: the cookie of the best task decides. With no sibling in the mask, or no
  pick for the own cpu, the source dereferences a null pointer.
\<close>

definition core_select :: "'x kenv \<Rightarrow> cpu \<Rightarrow> bool \<Rightarrow> bool \<Rightarrow> 'x kstate \<Rightarrow> (tid \<times> 'x kstate) res" where
  "core_select E c fi_before clk_updated s =
     (let smt = cpu_smt_mask E c in
      bindr (pick_siblings E c fi_before clk_updated (for_each_cpu_wrap smt c s) None s) (\<lambda>(mx, s).
      case mx of
        None \<Rightarrow> Inl Bad_pointer
      | Some m \<Rightarrow>
          let cookie = core_cookie (tasks s m);
              s = upd_core c (\<lambda>v. v\<lparr>rq_core_cookie := cookie\<rparr>) s
          in bindr (match_siblings E c cookie fi_before (for_each_cpu smt s) 0 s) (\<lambda>(occ, s).
             let s = (if schedstat_enabled E \<and> core_forceidle_count (core_of c s) \<noteq> 0
                      then upd_core c (\<lambda>v. v\<lparr>core_forceidle_start := rq_clock v, core_forceidle_occupation := occ\<rparr>) s
                      else s);
                 s = upd_core c (\<lambda>v. v\<lparr>core_pick_seq := core_task_seq v\<rparr>) s;
                 next = core_pick (rqs s c);
                 s = upd_rq c (\<lambda>v. v\<lparr>core_sched_seq := core_pick_seq (core_of c s)\<rparr>) s;
                 s = fold (kick_sibling E c fi_before occ) (for_each_cpu smt s) s
             in case next of None \<Rightarrow> Inl Bad_pointer | Some n \<Rightarrow> Inr (n, s))))"

text \<open>The forced idle time so far is accounted for, and the count starts anew.\<close>

definition core_reset :: "'x kenv \<Rightarrow> cpu \<Rightarrow> 'x kstate \<Rightarrow> 'x kstate" where
  "core_reset E c s =
     (let s = upd_core c (\<lambda>v. v\<lparr>rq_core_cookie := 0\<rparr>) s in
      if core_forceidle_count (core_of c s) \<noteq> 0 then
        let s = (if rq_core (rqs s c) = c then s else update_rq_clock E (rq_core (rqs s c)) s)
        in upd_core c (\<lambda>v. v\<lparr>core_forceidle_start := 0, core_forceidle_count := 0, core_forceidle_occupation := 0\<rparr>)
             (upd_ext (sched_core_account_forceidle E c) s)
      else s)"

definition core_pick_next :: "'x kenv \<Rightarrow> cpu \<Rightarrow> tid \<Rightarrow> 'x kstate \<Rightarrow> (tid \<times> 'x kstate) res" where
  "core_pick_next E c prev s =
     bindr (prev_balance E c prev s) (\<lambda>s.
     let fi_before = (core_forceidle_count (core_of c s) \<noteq> 0);
         need_sync = (rq_core_cookie (core_of c s) \<noteq> 0 \<or> fi_before);
         clk_updated = (rq_core (rqs s c) = c \<or> fi_before);
         s = core_reset E c s;
         s = upd_core c (\<lambda>v. v\<lparr>core_task_seq := u32 (core_task_seq v + 1)\<rparr>) s;
         select = (\<lambda>s. bindr (core_select E c fi_before clk_updated s) (\<lambda>(n, s). core_set_next E c prev n s))
     in if need_sync then select s
        else bindr (pick_task E c s) (\<lambda>(n, s).
               if core_cookie (tasks s n) = 0 then
                 core_set_next E c prev n
                   (upd_ext (task_vruntime_update E c n False)
                     (upd_rq c (\<lambda>v. v\<lparr>core_pick := None, core_dl_server := None\<rparr>) s))
               else select s))"

definition pick_next_task :: "'x kenv \<Rightarrow> cpu \<Rightarrow> tid \<Rightarrow> 'x kstate \<Rightarrow> (tid \<times> 'x kstate) res" where
  "pick_next_task E c prev s =
     (if \<not> sched_core_enabled c s then pick_next_task_classes E c prev s
      else if c \<notin> cpu_online_mask s then
        pick_next_task_classes E c prev (upd_rq c (\<lambda>v. v\<lparr>core_pick := None, core_dl_server := None\<rparr>) s)
      else if core_pick_seq (core_of c s) = core_task_seq (core_of c s) \<and>
              core_pick_seq (core_of c s) \<noteq> core_sched_seq (rqs s c) \<and> core_pick (rqs s c) \<noteq> None then
        let next = the (core_pick (rqs s c))
        in core_set_next E c prev next
             (upd_rq c (\<lambda>v. v\<lparr>core_sched_seq := core_pick_seq (core_of c s), rq_dl_server := core_dl_server v,
                core_pick := None, core_dl_server := None\<rparr>) s)
      else core_pick_next E c prev s)"

section \<open>The leader of a core\<close>

definition sched_core_cpu_starting :: "'x kenv \<Rightarrow> cpu \<Rightarrow> 'x kstate \<Rightarrow> 'x kstate" where
  "sched_core_cpu_starting E c s =
     (let smt = cpu_smt_mask E c in
      if card smt = 1 then s
      else case find (\<lambda>t. t \<noteq> c \<and> rq_core (rqs s t) = t) (for_each_cpu smt s) of
             None \<Rightarrow> s
           | Some l \<Rightarrow> if c \<in> set (for_each_cpu smt s) then upd_rq c (\<lambda>v. v\<lparr>rq_core := l\<rparr>) s else s)"

definition sched_core_cpu_deactivate :: "'x kenv \<Rightarrow> cpu \<Rightarrow> 'x kstate \<Rightarrow> 'x kstate" where
  "sched_core_cpu_deactivate E c s =
     (let smt = cpu_smt_mask E c in
      if card smt = 1 then s
      else if rq_core (rqs s c) \<noteq> c then s
      else case find (\<lambda>t. t \<noteq> c) (for_each_cpu smt s) of
             None \<Rightarrow> s
           | Some l \<Rightarrow>
               let r = rqs s c;
                   s = upd_rq l (\<lambda>v. v\<lparr>core_task_seq := core_task_seq r, core_pick_seq := core_pick_seq r,
                         rq_core_cookie := rq_core_cookie r, core_forceidle_count := core_forceidle_count r,
                         core_forceidle_seq := core_forceidle_seq r,
                         core_forceidle_occupation := core_forceidle_occupation r, core_forceidle_start := 0\<rparr>) s
               in fold (\<lambda>t. upd_rq t (\<lambda>v. v\<lparr>rq_core := l\<rparr>)) (for_each_cpu smt s) s)"

definition sched_core_cpu_dying :: "cpu \<Rightarrow> 'x kstate \<Rightarrow> 'x kstate" where
  "sched_core_cpu_dying c s =
     (if rq_core (rqs s c) \<noteq> c then upd_rq c (\<lambda>v. v\<lparr>rq_core := c\<rparr>) s else s)"

section \<open>Placing a task on a core\<close>

definition sched_cpu_cookie_match :: "cpu \<Rightarrow> tid \<Rightarrow> 'x kstate \<Rightarrow> bool" where
  "sched_cpu_cookie_match c p s =
     (if \<not> sched_core_enabled c s then True else rq_core_cookie (core_of c s) = core_cookie (tasks s p))"

text \<open>\<open>avail\<close> is \<open>available_idle_cpu\<close>.\<close>

definition sched_core_cookie_match :: "'x kenv \<Rightarrow> (cpu \<Rightarrow> bool) \<Rightarrow> cpu \<Rightarrow> tid \<Rightarrow> 'x kstate \<Rightarrow> bool" where
  "sched_core_cookie_match E avail c p s =
     (if \<not> sched_core_enabled c s then True
      else list_all avail (for_each_cpu (cpu_smt_mask E c) s) \<or>
           rq_core_cookie (core_of c s) = core_cookie (tasks s p))"

definition sched_group_cookie_match ::
    "'x kenv \<Rightarrow> (cpu \<Rightarrow> bool) \<Rightarrow> cpu \<Rightarrow> tid \<Rightarrow> cpumask \<Rightarrow> 'x kstate \<Rightarrow> bool" where
  "sched_group_cookie_match E avail c p span s =
     (if \<not> sched_core_enabled c s then True
      else list_ex (\<lambda>d. sched_core_cookie_match E avail d p s) (for_each_cpu (span \<inter> cpus_ptr (tasks s p)) s))"

end
