(* ===== verification/Core_Sched.thy ===== *)
theory Core_Sched
  imports Core_Pick
begin

text \<open>
  The scheduler proper (\<^verbatim>\<open>kernel/sched/core.c\<close>): choosing the next task over the classes,
  \<open>__schedule\<close> with the context switch and its completion, the tick, fork, the run time of a
  task and priority inheritance. Locks, RCU, statistics and the sched_ext class are not
  modelled; a function runs under the locks its source takes and is one atomic step.
\<close>

section \<open>Switching\<close>

definition is_special_task_state :: "32 word \<Rightarrow> bool" where
  "is_special_task_state st \<longleftrightarrow>
     st AND (TASK_STOPPED_BIT OR TASK_TRACED_BIT OR TASK_PARKED OR TASK_DEAD OR TASK_FROZEN) \<noteq> 0"

definition try_to_block_task ::
    "'x kenv \<Rightarrow> cpu \<Rightarrow> tid \<Rightarrow> 32 word \<Rightarrow> 'x kstate \<Rightarrow> (bool \<times> 'x kstate) res" where
  "try_to_block_task E c p task_state s =
     (if signal_pending_state E task_state p (ext s) then
        Inr (False, upd_task p (\<lambda>v. v\<lparr>tstate := TASK_RUNNING\<rparr>) s)
      else
        let s = upd_task p (\<lambda>v. v\<lparr>sched_contributes_to_load :=
                  task_state AND TASK_UNINTERRUPTIBLE \<noteq> 0 \<and> task_state AND TASK_NOLOAD = 0 \<and>
                  task_state AND TASK_FROZEN = 0\<rparr>) s;
            fl = (if is_special_task_state task_state
                  then DEQUEUE_NOCLOCK OR DEQUEUE_SPECIAL else DEQUEUE_NOCLOCK)
        in bindr (block_task E c p fl s) (\<lambda>s. Inr (True, s)))"

definition clear_tsk_need_resched :: "tid \<Rightarrow> 'x kstate \<Rightarrow> 'x kstate" where
  "clear_tsk_need_resched p s =
     upd_task p (\<lambda>v. v\<lparr>tif_need_resched := False, tif_need_resched_lazy := False\<rparr>) s"

text \<open>
  \<open>finish_task_switch\<close> runs as the new task, after \<open>prev\<close> has left the cpu. The balance
  callbacks run when the lock is released; a kernel thread gives back the address space it borrowed.
\<close>

definition finish_task_switch :: "'x kenv \<Rightarrow> tid \<Rightarrow> 'x kstate \<Rightarrow> 'x kstate res" where
  "finish_task_switch E prev s =
     (let c = this_cpu s;
          m = prev_mm (rqs s c);
          s = upd_rq c (\<lambda>r. r\<lparr>prev_mm := None\<rparr>) s;
          prev_state = tstate (tasks s prev);
          s = upd_task prev (\<lambda>v. v\<lparr>on_cpu := False\<rparr>) s
      in bindr (run_balance_callbacks E c s) (\<lambda>s.
         let s = (case m of None \<Rightarrow> s | Some m \<Rightarrow> upd_ext (mmdrop_lazy_tlb E m) s) in
         if prev_state = TASK_DEAD then
           bindr (case op_task_dead (ops_of E prev s) of None \<Rightarrow> Inr s | Some f \<Rightarrow> f prev s)
             (\<lambda>s. Inr (upd_ext (put_dead_task E prev) s))
         else Inr s))"

definition membarrier_switch_mm :: "'x kenv \<Rightarrow> cpu \<Rightarrow> nat option \<Rightarrow> nat \<Rightarrow> 'x kstate \<Rightarrow> 'x kstate" where
  "membarrier_switch_mm E c pm nm s =
     (if pm = Some nm then s
      else if rq_membarrier_state (rqs s c) = membarrier_state E nm (ext s) then s
      else upd_rq c (\<lambda>r. r\<lparr>rq_membarrier_state := membarrier_state E nm (ext s)\<rparr>) s)"

text \<open>The address spaces: a kernel thread borrows the active one of its predecessor.\<close>

definition switch_active_mm :: "'x kenv \<Rightarrow> cpu \<Rightarrow> tid \<Rightarrow> tid \<Rightarrow> 'x kstate \<Rightarrow> 'x kstate" where
  "switch_active_mm E c prev next s =
     (let a = active_mm (tasks s prev) in
      case mm (tasks s next) of
        None \<Rightarrow>
          let s = upd_task next (\<lambda>v. v\<lparr>active_mm := a\<rparr>) (upd_ext (enter_lazy_tlb E a next) s)
          in if mm (tasks s prev) \<noteq> None then upd_ext (mmgrab_lazy_tlb E a) s
             else upd_task prev (\<lambda>v. v\<lparr>active_mm := None\<rparr>) s
      | Some m \<Rightarrow>
          let s = upd_ext (switch_mm_irqs_off E a m next) (membarrier_switch_mm E c a m s)
          in if mm (tasks s prev) = None
             then upd_task prev (\<lambda>v. v\<lparr>active_mm := None\<rparr>) (upd_rq c (\<lambda>r. r\<lparr>prev_mm := a\<rparr>) s)
             else s)"

definition context_switch :: "'x kenv \<Rightarrow> cpu \<Rightarrow> tid \<Rightarrow> tid \<Rightarrow> 'x kstate \<Rightarrow> 'x kstate res" where
  "context_switch E c prev next s =
     (let s = upd_ext (prepare_switch_accounts E c prev next) s;
          s = upd_task next (\<lambda>v. v\<lparr>on_cpu := True\<rparr>) s;
          s = switch_active_mm E c prev next s
      in bindr (switch_mm_cid c prev next s) (\<lambda>s. finish_task_switch E prev (s\<lparr>current := next\<rparr>)))"

abbreviation (input) SM_IDLE :: int where "SM_IDLE \<equiv> - 1"
abbreviation (input) SM_NONE :: int where "SM_NONE \<equiv> 0"
abbreviation (input) SM_PREEMPT :: int where "SM_PREEMPT \<equiv> 1"

text \<open>
  \<open>__schedule\<close>, after \<open>next\<close> is known: \<open>vol\<close> says whether the switch counts as voluntary.
\<close>

definition schedule_picked :: "'x kenv \<Rightarrow> cpu \<Rightarrow> tid \<Rightarrow> tid \<Rightarrow> bool \<Rightarrow> 'x kstate \<Rightarrow> 'x kstate res" where
  "schedule_picked E c prev next vol s =
     (let s = (clear_tsk_need_resched prev s)\<lparr>preempt_need_resched := False\<rparr> in
      if prev \<noteq> next then
        let s = upd_rq c (\<lambda>r. r\<lparr>nr_switches := u64 (nr_switches r + 1), rq_curr := next\<rparr>) s;
            s = upd_task prev (\<lambda>v. if vol then v\<lparr>nvcsw := u64 (nvcsw v + 1)\<rparr>
                                   else v\<lparr>nivcsw := u64 (nivcsw v + 1)\<rparr>) s
        in bindr (migrate_disable_switch E c prev s) (\<lambda>s.
           let s = upd_ext (psi_account_irqtime E c prev (Some next)) s;
               s = upd_ext (psi_sched_switch E prev next
                     (\<not> task_on_rq_queued prev s \<or> sched_delayed (se (tasks s prev)))) s
           in context_switch E c prev next s)
      else run_balance_callbacks E c s)"

definition schedule_main :: "'x kenv \<Rightarrow> int \<Rightarrow> 'x kstate \<Rightarrow> 'x kstate res" where
  "schedule_main E sched_mode s =
     (let c = this_cpu s;
          prev = rq_curr (rqs s c);
          s = upd_rq c (\<lambda>r. r\<lparr>clock_update_flags := push_bit 1 (clock_update_flags r)\<rparr>) s;
          s = update_rq_clock E c s;
          s = upd_rq c (\<lambda>r. r\<lparr>clock_update_flags := RQCF_UPDATED\<rparr>) s;
          preempt = (sched_mode = SM_PREEMPT);
          prev_state = tstate (tasks s prev)
      in if sched_mode = SM_IDLE \<and> nr_running (rqs s c) = 0 then
           schedule_picked E c prev prev False s
         else
           let blocks = (sched_mode \<noteq> SM_IDLE \<and> \<not> preempt \<and> prev_state \<noteq> TASK_RUNNING) in
           bindr (if blocks then bindr (try_to_block_task E c prev prev_state s) (\<lambda>(_, s). Inr s) else Inr s)
             (\<lambda>s. bindr (pick_next_task E c prev s)
                (\<lambda>(next, s). schedule_picked E c prev next blocks s)))"

section \<open>The tick and the run time of a task\<close>

definition sched_tick :: "'x kenv \<Rightarrow> 'x kstate \<Rightarrow> 'x kstate res" where
  "sched_tick E s =
     (let c = this_cpu s;
          donor = rq_curr (rqs s c);
          s = upd_ext (psi_account_irqtime E c donor None) s;
          s = update_rq_clock E c s;
          s = (if preempt_lazy E \<and> tif_need_resched_lazy (tasks s (current s)) then resched_curr c s else s)
      in bindr (call (op_task_tick (ops_of E donor s)) (\<lambda>f. f c donor False s))
           (\<lambda>s. Inr (upd_ext (tick_accounting E c donor) (task_tick_mm_cid E donor s))))"

definition task_sched_runtime :: "'x kenv \<Rightarrow> tid \<Rightarrow> 'x kstate \<Rightarrow> (int \<times> 'x kstate) res" where
  "task_sched_runtime E p s =
     (if \<not> on_cpu (tasks s p) \<or> \<not> task_on_rq_queued p s then Inr (sum_exec_runtime (se (tasks s p)), s)
      else
        let c = task_cpu (tasks s p) in
        bindr (if task_current_donor c p s \<and> task_on_rq_queued p s then
                 let s = update_rq_clock E c s
                 in call (op_update_curr (ops_of E p s)) (\<lambda>f. f c s)
               else Inr s)
          (\<lambda>s. Inr (sum_exec_runtime (se (tasks s p)), s)))"

section \<open>Fork\<close>

abbreviation (input) NICE_TO_PRIO :: "int \<Rightarrow> int" where "NICE_TO_PRIO n \<equiv> n + 120"
abbreviation (input) PRIO_TO_NICE :: "int \<Rightarrow> int" where "PRIO_TO_NICE p \<equiv> p - 120"

definition sched_fork_init :: "'x kenv \<Rightarrow> tid \<Rightarrow> 'x kstate \<Rightarrow> 'x kstate" where
  "sched_fork_init E p s =
     init_sched_mm_cid E p (upd_ext (fork_accounts E p)
       (upd_task p (\<lambda>v. v\<lparr>on_rq := 0, migration_pending := None,
          se := (se v)\<lparr>se_on_rq := False, exec_start := 0, sum_exec_runtime := 0,
                 prev_sum_exec_runtime := 0, nr_migrations := 0, vruntime := 0, vlag := 0\<rparr>,
          dl := init_dl_entity E p (dl v),
          rt := (rt v)\<lparr>rt_timeout := 0, rt_time_slice := sched_rr_timeslice E, rt_on_rq := False,
                 rt_on_list := False\<rparr>\<rparr>) s))"

definition sched_fork :: "'x kenv \<Rightarrow> tid \<Rightarrow> 'x kstate \<Rightarrow> (int \<times> 'x kstate) res" where
  "sched_fork E p s =
     (let s = sched_fork_init E p s;
          s = upd_task p (\<lambda>v. v\<lparr>tstate := TASK_NEW, prio := normal_prio (tasks s (current s))\<rparr>) s;
          s = upd_task p uclamp_fork s
      in bindr
           (if sched_reset_on_fork (tasks s p) then
              let s = (if task_has_dl_policy (tasks s p) \<or> task_has_rt_policy (tasks s p) then
                         upd_task p (\<lambda>v. v\<lparr>policy := SCHED_NORMAL, static_prio := NICE_TO_PRIO 0, rt_priority := 0\<rparr>) s
                       else if PRIO_TO_NICE (static_prio (tasks s p)) < 0 then
                         upd_task p (\<lambda>v. v\<lparr>static_prio := NICE_TO_PRIO 0\<rparr>) s
                       else s);
                  s = upd_task p (\<lambda>v. v\<lparr>prio := static_prio v, normal_prio := static_prio v\<rparr>) s
              in bindr (set_load_weight E p False s)
                   (\<lambda>s. Inr (upd_task p (\<lambda>v. v\<lparr>se := (se v)\<lparr>custom_slice := False, slice := sched_base_slice E\<rparr>,
                                sched_reset_on_fork := False\<rparr>) s))
            else Inr s)
           (\<lambda>s.
             if dl_prio (prio (tasks s p)) then Inr (- EAGAIN, s)
             else Inr (0, upd_task p (\<lambda>v. v\<lparr>sched_class := (if rt_prio (prio v) then Rt else Fair),
                            on_cpu := False\<rparr>) s)))"

definition sched_cgroup_fork :: "'x kenv \<Rightarrow> tid \<Rightarrow> 'x kstate \<Rightarrow> 'x kstate res" where
  "sched_cgroup_fork E p s =
     (let tg = autogroup_task_group E p (fork_css_tg E p (ext s)) (ext s);
          s = upd_task p (\<lambda>v. v\<lparr>sched_task_group := tg\<rparr>) s;
          s = set_task_cpu_raw E p (this_cpu s) s
      in case op_task_fork (ops_of E p s) of None \<Rightarrow> Inr s | Some f \<Rightarrow> f p s)"

definition sched_post_fork :: "tid \<Rightarrow> 'x kstate \<Rightarrow> 'x kstate" where
  "sched_post_fork p s = uclamp_post_fork p s"

abbreviation (input) RUNTIME_INF :: int where "RUNTIME_INF \<equiv> 2 ^ 64 - 1"
abbreviation (input) BW_SHIFT :: nat where "BW_SHIFT \<equiv> 20"

definition to_ratio :: "int \<Rightarrow> int \<Rightarrow> int" where
  "to_ratio period rtime =
     (if rtime = RUNTIME_INF then 2 ^ BW_SHIFT
      else if period = 0 then 0
      else u64 (rtime * 2 ^ BW_SHIFT) div period)"

section \<open>Class of a policy and priority inheritance\<close>

definition setscheduler_class :: "int \<Rightarrow> int \<Rightarrow> sclass" where
  "setscheduler_class pol pr =
     (if dl_prio pr then Dl
      else if rt_prio pr then Rt
      else if hvf_policy pol then Hvf
      else Fair)"

definition rt_effective_prio_of :: "'x kstate \<Rightarrow> tid option \<Rightarrow> int \<Rightarrow> int" where
  "rt_effective_prio_of s pi_task pr =
     (case pi_task of None \<Rightarrow> pr | Some t \<Rightarrow> min pr (prio (tasks s t)))"

definition rt_effective_prio :: "'x kstate \<Rightarrow> tid \<Rightarrow> int \<Rightarrow> int" where
  "rt_effective_prio s p pr = rt_effective_prio_of s (pi_top_task (tasks s p)) pr"

text \<open>The deadline entity and the queue flags of a task whose effective priority becomes \<open>pr\<close>.\<close>

definition pi_adjust :: "'x kenv \<Rightarrow> tid \<Rightarrow> tid option \<Rightarrow> int \<Rightarrow> int \<Rightarrow> flags \<Rightarrow> 'x kstate \<Rightarrow> (flags \<times> 'x kstate) res" where
  "pi_adjust E p pi_task oldprio pr fl s =
     (let self = (\<lambda>s. upd_task p (\<lambda>v. v\<lparr>dl := (dl v)\<lparr>pi_se := p\<rparr>\<rparr>) s) in
      if dl_prio pr then
        (if \<not> dl_prio (normal_prio (tasks s p)) \<or>
            (case pi_task of None \<Rightarrow> False
             | Some t \<Rightarrow> dl_prio (prio (tasks s t)) \<and> dl_entity_preempt E (dl (tasks s t)) (dl (tasks s p)))
         then case pi_task of
                None \<Rightarrow> Inl Bad_pointer
              | Some t \<Rightarrow> Inr (fl OR ENQUEUE_REPLENISH,
                  upd_task p (\<lambda>v. v\<lparr>dl := (dl v)\<lparr>pi_se := pi_se (dl (tasks s t))\<rparr>\<rparr>) s)
         else Inr (fl, self s))
      else if rt_prio pr then
        Inr (if oldprio < pr then fl OR ENQUEUE_HEAD else fl, if dl_prio oldprio then self s else s)
      else
        let s = (if dl_prio oldprio then self s else s)
        in Inr (fl, if rt_prio oldprio then upd_task p (\<lambda>v. v\<lparr>rt := (rt v)\<lparr>rt_timeout := 0\<rparr>\<rparr>) s else s))"

definition rt_mutex_setprio :: "'x kenv \<Rightarrow> tid \<Rightarrow> tid option \<Rightarrow> 'x kstate \<Rightarrow> 'x kstate res" where
  "rt_mutex_setprio E p pi_task s =
     (let pr = rt_effective_prio_of s pi_task (normal_prio (tasks s p)) in
      if pi_top_task (tasks s p) = pi_task \<and> pr = prio (tasks s p) \<and> \<not> dl_prio pr then Inr s
      else
        let c = task_cpu (tasks s p);
            s = update_rq_clock E c s;
            s = upd_task p (\<lambda>v. v\<lparr>pi_top_task := pi_task\<rparr>) s
        in if pr = prio (tasks s p) \<and> \<not> dl_prio pr \<or> p = rq_idle (rqs s c)
           then run_balance_callbacks E c s
           else
             let oldprio = prio (tasks s p);
                 fl0 = DEQUEUE_SAVE OR DEQUEUE_MOVE OR DEQUEUE_NOCLOCK;
                 fl = (if oldprio = pr then fl0 AND NOT DEQUEUE_MOVE else fl0);
                 prev_class = sched_class (tasks s p);
                 next_class = setscheduler_class (policy (tasks s p)) pr
             in bindr (if prev_class \<noteq> next_class \<and> sched_delayed (se (tasks s p))
                       then bindr (dequeue_task E c p (DEQUEUE_SLEEP OR DEQUEUE_DELAYED OR DEQUEUE_NOCLOCK) s)
                              (\<lambda>(_, s). Inr s)
                       else Inr s) (\<lambda>s.
                let queued = task_on_rq_queued p s; running = task_current_donor c p s in
                bindr (if queued then bindr (dequeue_task E c p fl s) (\<lambda>(_, s). Inr s) else Inr s) (\<lambda>s.
                bindr (if running then put_prev_task E c p s else Inr s) (\<lambda>s.
                bindr (pi_adjust E p pi_task oldprio pr fl s) (\<lambda>(fl, s).
                let s = upd_task p (\<lambda>v. v\<lparr>sched_class := next_class, prio := pr\<rparr>) s in
                bindr (check_class_changing E c p prev_class s) (\<lambda>s.
                bindr (if queued then enqueue_task E c p fl s else Inr s) (\<lambda>s.
                bindr (if running then set_next_task E c p s else Inr s) (\<lambda>s.
                bindr (check_class_changed E c p prev_class oldprio s) (\<lambda>s.
                run_balance_callbacks E c s)))))))))"

end
