(* ===== verification/Core_Wake.thy ===== *)
theory Core_Wake
  imports Core_Sched
begin

text \<open>
  Placing and waking tasks (\<^verbatim>\<open>kernel/sched/core.c\<close>): the choice of a run queue with its fallbacks, moving a queued task, the wake lists and
  \<open>try_to_wake_up\<close>, and the first wake-up of a new task.
\<close>

section \<open>Choosing a run queue\<close>

datatype fallback = Fb_cpuset | Fb_possible | Fb_fail

definition first_allowed :: "'x kenv \<Rightarrow> tid \<Rightarrow> cpumask \<Rightarrow> 'x kstate \<Rightarrow> cpu option" where
  "first_allowed E p m s = find (\<lambda>c. is_cpu_allowed E p c s) (for_each_cpu m s)"

text \<open>
  The loop of \<open>select_fallback_rq\<close>: each turn looks for an allowed cpu and, failing that, widens the
  affinity mask; the third failure is a \<open>BUG\<close>.
\<close>

fun fallback_rank :: "fallback \<Rightarrow> nat" where
  "fallback_rank Fb_cpuset = 2"
| "fallback_rank Fb_possible = 1"
| "fallback_rank Fb_fail = 0"

function fallback_loop :: "'x kenv \<Rightarrow> tid \<Rightarrow> fallback \<Rightarrow> 'x kstate \<Rightarrow> (cpu \<times> 'x kstate) res" where
  "fallback_loop E p st s =
     (case first_allowed E p (cpus_ptr (tasks s p)) s of
        Some c \<Rightarrow> Inr (c, s)
      | None \<Rightarrow>
          (case st of
             Fb_cpuset \<Rightarrow>
               (case cpuset_cpus_allowed_fallback E p s of
                  (b, s) \<Rightarrow> if b then fallback_loop E p Fb_possible s
                            else bindr (do_set_cpus_allowed E p (task_cpu_fallback_mask E p) s)
                                   (\<lambda>s. fallback_loop E p Fb_fail s))
           | Fb_possible \<Rightarrow>
               bindr (do_set_cpus_allowed E p (task_cpu_fallback_mask E p) s)
                 (\<lambda>s. fallback_loop E p Fb_fail s)
           | Fb_fail \<Rightarrow> Inl Bug))"
  by pat_completeness auto
termination
  by (relation "measure (\<lambda>(E, p, st, s). fallback_rank st)") auto

declare fallback_loop.simps [simp del]

definition select_fallback_rq :: "'x kenv \<Rightarrow> cpu \<Rightarrow> tid \<Rightarrow> 'x kstate \<Rightarrow> (cpu \<times> 'x kstate) res" where
  "select_fallback_rq E c p s =
     (case (case node_cpus E c of None \<Rightarrow> None | Some m \<Rightarrow> first_allowed E p m s) of
        Some d \<Rightarrow> Inr (d, s)
      | None \<Rightarrow> fallback_loop E p Fb_cpuset s)"

definition select_task_rq ::
    "'x kenv \<Rightarrow> tid \<Rightarrow> cpu \<Rightarrow> flags \<Rightarrow> 'x kstate \<Rightarrow> (cpu \<times> flags \<times> 'x kstate) res" where
  "select_task_rq E p c wake_flags s =
     bindr
       (if nr_cpus_allowed (tasks s p) > 1 \<and> \<not> is_migration_disabled (tasks s p) then
          bindr (call (op_select_task_rq (ops_of E p s)) (\<lambda>f. f p c wake_flags s))
            (\<lambda>(c, s). Inr (c, wake_flags OR WF_RQ_SELECTED, s))
        else Inr (cpumask_any E (cpus_ptr (tasks s p)) (ext s), wake_flags, s))
       (\<lambda>(c, wake_flags, s).
          if \<not> is_cpu_allowed E p c s then
            bindr (select_fallback_rq E (task_cpu (tasks s p)) p s) (\<lambda>(c, s). Inr (c, wake_flags, s))
          else Inr (c, wake_flags, s))"

definition move_queued_task :: "'x kenv \<Rightarrow> cpu \<Rightarrow> tid \<Rightarrow> cpu \<Rightarrow> 'x kstate \<Rightarrow> 'x kstate res" where
  "move_queued_task E c p new_cpu s =
     bindr (deactivate_task E c p DEQUEUE_NOCLOCK s) (\<lambda>s.
     bindr (set_task_cpu E p new_cpu s) (\<lambda>s.
     bindr (activate_task E new_cpu p 0 s) (\<lambda>s.
     wakeup_preempt E new_cpu p 0 s)))"

section \<open>Waking up\<close>

definition task_state_match :: "task_struct \<Rightarrow> 32 word \<Rightarrow> int" where
  "task_state_match p st =
     (if tstate p AND st \<noteq> 0 then 1 else if saved_state p AND st \<noteq> 0 then - 1 else 0)"

text \<open>The answer: whether to wake the task, whether the wake-up succeeds, and the task.\<close>

definition ttwu_state_match :: "tid \<Rightarrow> 32 word \<Rightarrow> 'x kstate \<Rightarrow> bool \<times> bool \<times> 'x kstate" where
  "ttwu_state_match p st s =
     (let m = task_state_match (tasks s p) st;
          s = (if m < 0 then upd_task p (\<lambda>v. v\<lparr>saved_state := TASK_RUNNING\<rparr>) s else s)
      in (m > 0, m \<noteq> 0, s))"

definition cpus_share_cache :: "'x kenv \<Rightarrow> cpu \<Rightarrow> cpu \<Rightarrow> bool" where
  "cpus_share_cache E a b \<longleftrightarrow> a = b \<or> sd_llc_id E a = sd_llc_id E b"

definition ttwu_queue_cond :: "'x kenv \<Rightarrow> tid \<Rightarrow> cpu \<Rightarrow> 'x kstate \<Rightarrow> bool" where
  "ttwu_queue_cond E p c s =
     (if c \<notin> cpu_active_mask s then False
      else if c \<notin> cpus_ptr (tasks s p) then False
      else if \<not> cpus_share_cache E (this_cpu s) c then True
      else if c = this_cpu s then False
      else nr_running (rqs s c) = 0)"

definition ttwu_queue_wakelist :: "'x kenv \<Rightarrow> tid \<Rightarrow> cpu \<Rightarrow> flags \<Rightarrow> 'x kstate \<Rightarrow> bool \<times> 'x kstate" where
  "ttwu_queue_wakelist E p c wake_flags s =
     (if ttwu_queue_feat E \<and> ttwu_queue_cond E p c s then
        (True,
         let s = upd_task p (\<lambda>v. v\<lparr>sched_remote_wakeup := (wake_flags AND WF_MIGRATED \<noteq> 0)\<rparr>) s;
             s = upd_rq c (\<lambda>r. r\<lparr>ttwu_pending := True\<rparr>) s
         in s\<lparr>wake_list := (wake_list s)(c := wake_list s c @ [p])\<rparr>)
      else (False, s))"

definition ttwu_queue :: "'x kenv \<Rightarrow> tid \<Rightarrow> cpu \<Rightarrow> flags \<Rightarrow> 'x kstate \<Rightarrow> 'x kstate res" where
  "ttwu_queue E p c wake_flags s =
     (case ttwu_queue_wakelist E p c wake_flags s of
        (True, s) \<Rightarrow> Inr s
      | (False, s) \<Rightarrow> ttwu_do_activate E c p wake_flags (update_rq_clock E c s))"

text \<open>The wake list of a cpu is served by that cpu, in the order of the list.\<close>

fun ttwu_pending_loop :: "'x kenv \<Rightarrow> cpu \<Rightarrow> tid list \<Rightarrow> 'x kstate \<Rightarrow> 'x kstate res" where
  "ttwu_pending_loop E c [] s = Inr s"
| "ttwu_pending_loop E c (p # ps) s =
     bindr (if task_cpu (tasks s p) \<noteq> c then set_task_cpu E p c s else Inr s) (\<lambda>s.
     bindr (ttwu_do_activate E c p (if sched_remote_wakeup (tasks s p) then WF_MIGRATED else 0) s)
       (\<lambda>s. ttwu_pending_loop E c ps s))"

definition sched_ttwu_pending :: "'x kenv \<Rightarrow> 'x kstate \<Rightarrow> 'x kstate res" where
  "sched_ttwu_pending E s =
     (let c = this_cpu s; l = wake_list s c in
      if l = [] then Inr s
      else
        let s = update_rq_clock E c (s\<lparr>wake_list := (wake_list s)(c := [])\<rparr>) in
        bindr (ttwu_pending_loop E c l s) (\<lambda>s. Inr (upd_rq c (\<lambda>r. r\<lparr>ttwu_pending := False\<rparr>) s)))"

text \<open>
  The wait for \<open>p->on_cpu\<close> to clear is a spin on another cpu; in an atomic step the flag is
  already clear, so a task that is still on its cpu cannot proceed here.
\<close>

definition try_to_wake_up :: "'x kenv \<Rightarrow> tid \<Rightarrow> 32 word \<Rightarrow> flags \<Rightarrow> 'x kstate \<Rightarrow> (bool \<times> 'x kstate) res" where
  "try_to_wake_up E p st wake_flags s =
     (let wake_flags = wake_flags OR WF_TTWU;
          (wake, success, s) = ttwu_state_match p st s
      in if \<not> wake then Inr (success, s)
         else if p = current s then Inr (success, ttwu_do_wakeup p s)
         else
           bindr (if on_rq (tasks s p) \<noteq> 0 then ttwu_runnable E p wake_flags s else Inr (False, s)) (\<lambda>(b, s).
           if b then Inr (success, s)
           else
             let s = upd_task p (\<lambda>v. v\<lparr>tstate := TASK_WAKING\<rparr>) s;
                 (q, s) = (if on_cpu (tasks s p) then ttwu_queue_wakelist E p (task_cpu (tasks s p)) wake_flags s
                           else (False, s))
             in if q then Inr (success, s)
                else
                  bindr (select_task_rq E p (wake_cpu (tasks s p)) wake_flags s) (\<lambda>(c, wake_flags, s).
                  bindr
                    (if task_cpu (tasks s p) \<noteq> c then
                       let s = (if in_iowait (tasks s p) then
                                  upd_rq (task_cpu (tasks s p)) (\<lambda>r. r\<lparr>nr_iowait := s32 (nr_iowait r - 1)\<rparr>)
                                    (upd_ext (delayacct_blkio_end E p) s) else s);
                           s = upd_ext (psi_ttwu_dequeue E p) s
                       in bindr (set_task_cpu E p c s) (\<lambda>s. Inr (wake_flags OR WF_MIGRATED, s))
                     else Inr (wake_flags, s))
                    (\<lambda>(wake_flags, s). bindr (ttwu_queue E p c wake_flags s) (\<lambda>s. Inr (success, s))))))"

definition wake_up_new_task :: "'x kenv \<Rightarrow> tid \<Rightarrow> 'x kstate \<Rightarrow> 'x kstate res" where
  "wake_up_new_task E p s =
     (let s = upd_task p (\<lambda>v. v\<lparr>tstate := TASK_RUNNING\<rparr>) s in
      bindr (select_task_rq E p (task_cpu (tasks s p)) WF_FORK s) (\<lambda>(c, wake_flags, s).
      let s = set_task_cpu_raw E p c s;
          s = update_rq_clock E c s
      in bindr (activate_task E c p (ENQUEUE_NOCLOCK OR ENQUEUE_INITIAL) s) (\<lambda>s.
         bindr (wakeup_preempt E c p wake_flags s) (\<lambda>s.
         case op_task_woken (ops_of E p s) of None \<Rightarrow> Inr s | Some f \<Rightarrow> f c p s))))"

end
