(* ===== verification/Core_Migrate.thy ===== *)
theory Core_Migrate
  imports Core_Wake
begin

text \<open>
  Changing the affinity of a task and moving it to an allowed cpu (\<^verbatim>\<open>kernel/sched/core.c\<close>): the pending
  requests of \<open>affine_move_task\<close>, the work of the stopper threads, the end of disabled migration,
  the user masks, and the swap of two tasks.

  The stopper queue is the list \<open>stop_works\<close>. What other cpus do while a caller sleeps on a
  completion is a parameter, \<open>wait_for_completion\<close>.
\<close>

abbreviation (input) MDF_PUSH :: "32 word" where "MDF_PUSH \<equiv> 0x01"
abbreviation (input) PF_NO_SETAFFINITY :: "32 word" where "PF_NO_SETAFFINITY \<equiv> 0x04000000"

section \<open>Pending requests\<close>

definition upd_pending :: "nat \<Rightarrow> (set_affinity_pending \<Rightarrow> set_affinity_pending) \<Rightarrow> 'x kstate \<Rightarrow> 'x kstate" where
  "upd_pending i f s = s\<lparr>pendings := (pendings s)(i := f (pendings s i))\<rparr>"

definition complete_all :: "nat \<Rightarrow> 'x kstate \<Rightarrow> 'x kstate" where
  "complete_all i s = upd_pending i (\<lambda>d. d\<lparr>pend_done := True\<rparr>) s"

text \<open>Install a request for \<open>p\<close>, or join the one that is installed and redirect it.\<close>

definition install_pending :: "tid \<Rightarrow> cpu \<Rightarrow> 'x kstate \<Rightarrow> nat option \<times> 'x kstate" where
  "install_pending p dest_cpu s =
     (case migration_pending (tasks s p) of
        None \<Rightarrow>
          let i = nr_pendings s in
          (Some i,
           upd_task p (\<lambda>v. v\<lparr>migration_pending := Some i\<rparr>)
             (s\<lparr>nr_pendings := Suc i,
                pendings := (pendings s)(i := \<lparr>pend_refs = 1, stop_pending = False, pend_done = False,
                                               arg_task = p, arg_dest_cpu = dest_cpu\<rparr>)\<rparr>))
      | Some i \<Rightarrow>
          (None, upd_pending i (\<lambda>d. d\<lparr>pend_refs := pend_refs d + 1, arg_dest_cpu := dest_cpu\<rparr>) s))"

text \<open>The end of \<open>affine_move_task\<close>: sleep on the request \<open>i\<close>, drop it, and, if it is the caller's own,
  wait until every other waiter has dropped it.\<close>

definition affine_wait :: "'x kenv \<Rightarrow> nat option \<Rightarrow> nat \<Rightarrow> 'x kstate \<Rightarrow> (int \<times> 'x kstate) res" where
  "affine_wait E own i s =
     bindr (wait_for_completion E i s) (\<lambda>s.
     let s = upd_pending i (\<lambda>d. d\<lparr>pend_refs := pend_refs d - 1\<rparr>) s in
     bindr (case own of None \<Rightarrow> Inr s | Some j \<Rightarrow> wait_pending_refs E j s) (\<lambda>s. Inr (0, s)))"

text \<open>The task may stay where it is.\<close>

definition affine_stay :: "'x kenv \<Rightarrow> cpu \<Rightarrow> tid \<Rightarrow> flags \<Rightarrow> 'x kstate \<Rightarrow> 'x kstate" where
  "affine_stay E c p fl s =
     (let push = (fl AND SCA_MIGRATE_ENABLE \<noteq> 0 \<and> migration_flags (tasks s p) AND MDF_PUSH \<noteq> 0 \<and>
                  \<not> push_busy (rqs s c));
          s = (if push then upd_ext (get_task_struct E p) (upd_rq c (\<lambda>r. r\<lparr>push_busy := True\<rparr>) s) else s);
          pend = migration_pending (tasks s p);
          compl = (case pend of None \<Rightarrow> False | Some i \<Rightarrow> \<not> stop_pending (pendings s i));
          s = (if compl then upd_task p (\<lambda>v. v\<lparr>migration_pending := None\<rparr>) s else s);
          s = (if push then stop_one_cpu_nowait c (Push_stop p) s else s)
      in case pend of None \<Rightarrow> s | Some i \<Rightarrow> if compl then complete_all i s else s)"

text \<open>The task runs or is being woken: the stopper thread of its cpu moves it.\<close>

definition affine_stopper :: "cpu \<Rightarrow> tid \<Rightarrow> flags \<Rightarrow> nat \<Rightarrow> 'x kstate \<Rightarrow> 'x kstate" where
  "affine_stopper c p fl i s =
     (let sp = stop_pending (pendings s i);
          s = (if sp then s else upd_pending i (\<lambda>d. d\<lparr>stop_pending := True\<rparr>) s);
          s = (if fl AND SCA_MIGRATE_ENABLE \<noteq> 0
               then upd_task p (\<lambda>v. v\<lparr>migration_flags := migration_flags v AND NOT MDF_PUSH\<rparr>) s else s)
      in if sp then s else stop_one_cpu_nowait c (Migration_stop i) s)"

definition affine_move_task :: "'x kenv \<Rightarrow> cpu \<Rightarrow> tid \<Rightarrow> cpu \<Rightarrow> flags \<Rightarrow> 'x kstate \<Rightarrow> (int \<times> 'x kstate) res" where
  "affine_move_task E c p dest_cpu fl s =
     (if task_cpu (tasks s p) \<in> cpus_mask (tasks s p) then Inr (0, affine_stay E c p fl s)
      else
        let (own, s) = (if fl AND SCA_MIGRATE_ENABLE = 0 then install_pending p dest_cpu s else (None, s)) in
        case migration_pending (tasks s p) of
          None \<Rightarrow> Inr (- EINVAL, s)
        | Some i \<Rightarrow>
            if task_on_cpu p s \<or> tstate (tasks s p) = TASK_WAKING then
              let s = affine_stopper c p fl i s
              in if fl AND SCA_MIGRATE_ENABLE \<noteq> 0 then Inr (0, s) else affine_wait E own i s
            else
              bindr (if is_migration_disabled (tasks s p) then Inr s
                     else bindr (if task_on_rq_queued p s then move_queued_task E c p dest_cpu s else Inr s)
                            (\<lambda>s. Inr (if stop_pending (pendings s i) then s
                                      else complete_all i (upd_task p (\<lambda>v. v\<lparr>migration_pending := None\<rparr>) s))))
                (\<lambda>s. affine_wait E own i s))"

section \<open>The stopper threads\<close>

definition migrate_task :: "'x kenv \<Rightarrow> cpu \<Rightarrow> tid \<Rightarrow> cpu \<Rightarrow> 'x kstate \<Rightarrow> 'x kstate res" where
  "migrate_task E c p dest_cpu s =
     (if \<not> is_cpu_allowed E p dest_cpu s then Inr s else move_queued_task E c p dest_cpu s)"

text \<open>The exit of \<open>migration_cpu_stop\<close>.\<close>

definition migration_stop_out :: "nat option \<Rightarrow> bool \<Rightarrow> 'x kstate \<Rightarrow> 'x kstate" where
  "migration_stop_out pend compl s =
     (case pend of
        None \<Rightarrow> s
      | Some i \<Rightarrow>
          let s = upd_pending i (\<lambda>d. d\<lparr>stop_pending := False\<rparr>) s
          in if compl then complete_all i s else s)"

definition migration_cpu_stop ::
    "'x kenv \<Rightarrow> tid \<Rightarrow> ('x kstate \<Rightarrow> cpu) \<Rightarrow> nat option \<Rightarrow> 'x kstate \<Rightarrow> 'x kstate res" where
  "migration_cpu_stop E p dest_cpu pend s =
     bindr (sched_ttwu_pending E s) (\<lambda>s.
     let c = this_cpu s; unpend = upd_task p (\<lambda>v. v\<lparr>migration_pending := None\<rparr>) in
     if task_cpu (tasks s p) = c then
       if is_migration_disabled (tasks s p) then Inr (migration_stop_out pend False s)
       else
         let s = (if pend \<noteq> None then unpend s else s) in
         if pend \<noteq> None \<and> task_cpu (tasks s p) \<in> cpus_mask (tasks s p) then Inr (migration_stop_out pend True s)
         else
           bindr (if task_on_rq_queued p s then
                    let s = update_rq_clock E c s in migrate_task E c p (dest_cpu s) s
                  else Inr (upd_task p (\<lambda>v. v\<lparr>wake_cpu := dest_cpu s\<rparr>) s))
             (\<lambda>s. Inr (migration_stop_out pend (pend \<noteq> None) s))
     else
       case pend of
         None \<Rightarrow> Inr s
       | Some i \<Rightarrow>
           if task_cpu (tasks s p) \<in> cpus_ptr (tasks s p) then Inr (migration_stop_out pend True (unpend s))
           else Inr (stop_one_cpu_nowait (task_cpu (tasks s p)) (Migration_stop i) s))"

definition task_is_pushable :: "cpu \<Rightarrow> tid \<Rightarrow> cpu \<Rightarrow> 'x kstate \<Rightarrow> bool" where
  "task_is_pushable c p d s \<longleftrightarrow> \<not> task_on_cpu p s \<and> d \<in> cpus_mask (tasks s p)"

definition push_cpu_stop :: "'x kenv \<Rightarrow> tid \<Rightarrow> 'x kstate \<Rightarrow> 'x kstate res" where
  "push_cpu_stop E p s =
     (let c = this_cpu s in
      bindr
        (if task_cpu (tasks s p) \<noteq> c then Inr s
         else if is_migration_disabled (tasks s p) then
           Inr (upd_task p (\<lambda>v. v\<lparr>migration_flags := migration_flags v OR MDF_PUSH\<rparr>) s)
         else
           let s = upd_task p (\<lambda>v. v\<lparr>migration_flags := migration_flags v AND NOT MDF_PUSH\<rparr>) s in
           bindr (case op_find_lock_rq (ops_of E p s) of None \<Rightarrow> Inr (None, s) | Some f \<Rightarrow> f p c s)
             (\<lambda>(lowest, s).
                case lowest of
                  None \<Rightarrow> Inr s
                | Some d \<Rightarrow>
                    if task_cpu (tasks s p) = c
                    then bindr (move_queued_task_locked E c d p s) (\<lambda>s. Inr (resched_curr d s))
                    else Inr s))
        (\<lambda>s. Inr (upd_ext (put_task_struct E p) (upd_rq c (\<lambda>r. r\<lparr>push_busy := False\<rparr>) s))))"

text \<open>\<open>__balance_push_cpu_stop\<close>: push a task off a cpu that goes down.\<close>

definition balance_push_cpu_stop :: "'x kenv \<Rightarrow> tid \<Rightarrow> 'x kstate \<Rightarrow> 'x kstate res" where
  "balance_push_cpu_stop E p s =
     (let c = this_cpu s; s = update_rq_clock E c s
      in bindr
           (if task_cpu (tasks s p) = c \<and> task_on_rq_queued p s
            then bindr (select_fallback_rq E c p s) (\<lambda>(d, s). migrate_task E c p d s)
            else Inr s)
           (\<lambda>s. Inr (upd_ext (put_task_struct E p) s)))"

text \<open>A stopper thread runs one work item on its cpu.\<close>

definition run_stop_work :: "'x kenv \<Rightarrow> stop_work \<Rightarrow> 'x kstate \<Rightarrow> 'x kstate res" where
  "run_stop_work E w s =
     (case w of
        Migration_stop i \<Rightarrow>
          migration_cpu_stop E (arg_task (pendings s i)) (\<lambda>s. arg_dest_cpu (pendings s i)) (Some i) s
      | Exec_stop p d \<Rightarrow> migration_cpu_stop E p (\<lambda>_. d) None s
      | Push_stop p \<Rightarrow> push_cpu_stop E p s
      | Balance_push_stop p \<Rightarrow> balance_push_cpu_stop E p s)"

section \<open>Changing the allowed cpus\<close>

text \<open>What \<open>set_cpus_allowed_common\<close> leaves in the context: the user mask is swapped.\<close>

definition ctx_swapped :: "task_struct \<Rightarrow> affinity_context \<Rightarrow> affinity_context" where
  "ctx_swapped p ctx =
     (if ac_flags ctx AND (SCA_MIGRATE_ENABLE OR SCA_MIGRATE_DISABLE) = 0 \<and> ac_flags ctx AND SCA_USER \<noteq> 0
      then ctx\<lparr>user_mask := user_cpus_ptr p\<rparr> else ctx)"

definition set_cpus_allowed_ptr_locked ::
    "'x kenv \<Rightarrow> tid \<Rightarrow> affinity_context \<Rightarrow> 'x kstate \<Rightarrow> (int \<times> affinity_context \<times> 'x kstate) res" where
  "set_cpus_allowed_ptr_locked E p ctx s =
     (let c = task_cpu (tasks s p);
          s = update_rq_clock E c s;
          kthread = (pflags (tasks s p) AND PF_KTHREAD \<noteq> 0);
          valid = (if kthread \<or> is_migration_disabled (tasks s p) then cpu_online_mask s else cpu_active_mask s);
          enable = (ac_flags ctx AND SCA_MIGRATE_ENABLE \<noteq> 0)
      in if \<not> kthread \<and> \<not> new_mask ctx \<subseteq> task_cpu_possible_mask E p then Inr (- EINVAL, ctx, s)
         else if ac_flags ctx AND SCA_CHECK \<noteq> 0 \<and> pflags (tasks s p) AND PF_NO_SETAFFINITY \<noteq> 0
           then Inr (- EINVAL, ctx, s)
         else if \<not> enable \<and> cpus_mask (tasks s p) = new_mask ctx then
           (if ac_flags ctx AND SCA_USER \<noteq> 0
            then Inr (0, ctx\<lparr>user_mask := user_cpus_ptr (tasks s p)\<rparr>,
                      upd_task p (\<lambda>v. v\<lparr>user_cpus_ptr := user_mask ctx\<rparr>) s)
            else Inr (0, ctx, s))
         else if \<not> enable \<and> p = current s \<and> is_migration_disabled (tasks s p) \<and>
                 task_cpu (tasks s p) \<notin> new_mask ctx then Inr (- EBUSY, ctx, s)
         else if valid \<inter> new_mask ctx = {} then Inr (- EINVAL, ctx, s)
         else
           let dest_cpu = cpumask_any_distribute E (valid \<inter> new_mask ctx) (ext s);
               ctx' = ctx_swapped (tasks s p) ctx
           in bindr (do_set_cpus_allowed_ctx E p ctx s) (\<lambda>s.
              bindr (affine_move_task E c p dest_cpu (ac_flags ctx) s) (\<lambda>(r, s). Inr (r, ctx', s))))"

text \<open>Whether \<open>__set_cpus_allowed_ptr\<close> restricts the request to the mask the user has set.\<close>

definition user_restricted :: "task_struct \<Rightarrow> affinity_context \<Rightarrow> bool" where
  "user_restricted p ctx \<longleftrightarrow>
     (case user_cpus_ptr p of
        None \<Rightarrow> False
      | Some u \<Rightarrow>
          ac_flags ctx AND (SCA_USER OR SCA_MIGRATE_ENABLE OR SCA_MIGRATE_DISABLE) = 0 \<and>
          new_mask ctx \<inter> u \<noteq> {})"

definition set_cpus_allowed_ptr_ctx ::
    "'x kenv \<Rightarrow> tid \<Rightarrow> affinity_context \<Rightarrow> 'x kstate \<Rightarrow> (int \<times> affinity_context \<times> 'x kstate) res" where
  "set_cpus_allowed_ptr_ctx E p ctx s =
     set_cpus_allowed_ptr_locked E p
       (if user_restricted (tasks s p) ctx
        then ctx\<lparr>new_mask := new_mask ctx \<inter> the (user_cpus_ptr (tasks s p))\<rparr> else ctx) s"

definition set_cpus_allowed_ptr :: "'x kenv \<Rightarrow> tid \<Rightarrow> cpumask \<Rightarrow> 'x kstate \<Rightarrow> (int \<times> 'x kstate) res" where
  "set_cpus_allowed_ptr E p m s =
     bindr (set_cpus_allowed_ptr_ctx E p \<lparr>new_mask = m, user_mask = None, ac_flags = 0\<rparr> s)
       (\<lambda>(r, _, s). Inr (r, s))"

definition migrate_enable :: "'x kenv \<Rightarrow> 'x kstate \<Rightarrow> 'x kstate res" where
  "migrate_enable E s =
     (let p = current s in
      if migration_disabled (tasks s p) > 1 then
        Inr (upd_task p (\<lambda>v. v\<lparr>migration_disabled := migration_disabled v - 1\<rparr>) s)
      else
        bindr (if cpus_ptr_to (tasks s p) \<noteq> None then
                 bindr (set_cpus_allowed_ptr_ctx E p
                          \<lparr>new_mask = cpus_mask (tasks s p), user_mask = None, ac_flags = SCA_MIGRATE_ENABLE\<rparr> s)
                   (\<lambda>(_, _, s). Inr s)
               else Inr s)
          (\<lambda>s. Inr (upd_rq (this_cpu s) (\<lambda>r. r\<lparr>nr_pinned := u32 (nr_pinned r - 1)\<rparr>)
                 (upd_task p (\<lambda>v. v\<lparr>migration_disabled := 0\<rparr>) s))))"

section \<open>User masks\<close>

definition cpu_possible_mask :: "'x kstate \<Rightarrow> cpumask" where
  "cpu_possible_mask s = {..<nr_cpu_ids s}"

definition task_user_cpus :: "tid \<Rightarrow> 'x kstate \<Rightarrow> cpumask" where
  "task_user_cpus p s = (case user_cpus_ptr (tasks s p) of None \<Rightarrow> cpu_possible_mask s | Some m \<Rightarrow> m)"

definition dup_user_cpus_ptr :: "'x kenv \<Rightarrow> tid \<Rightarrow> tid \<Rightarrow> 'x kstate \<Rightarrow> int \<times> 'x kstate" where
  "dup_user_cpus_ptr E dst src s =
     (let s = upd_task dst (\<lambda>v. v\<lparr>user_cpus_ptr := None\<rparr>) s in
      case user_cpus_ptr (tasks s src) of
        None \<Rightarrow> (0, s)
      | Some m \<Rightarrow>
          if \<not> alloc_cpumask E 2 (ext s) then (- ENOMEM, s)
          else (0, upd_task dst (\<lambda>v. v\<lparr>user_cpus_ptr := Some m\<rparr>) s))"

definition release_user_cpus_ptr :: "tid \<Rightarrow> 'x kstate \<Rightarrow> 'x kstate" where
  "release_user_cpus_ptr p s = upd_task p (\<lambda>v. v\<lparr>user_cpus_ptr := None\<rparr>) s"

definition restrict_cpus_allowed_ptr :: "'x kenv \<Rightarrow> tid \<Rightarrow> cpumask \<Rightarrow> 'x kstate \<Rightarrow> (int \<times> 'x kstate) res" where
  "restrict_cpus_allowed_ptr E p subset_mask s =
     (let m = task_user_cpus p s \<inter> subset_mask in
      if task_has_dl_policy (tasks s p) \<and> dl_bandwidth_enabled E then Inr (- EPERM, s)
      else if m = {} then Inr (- EINVAL, s)
      else bindr (set_cpus_allowed_ptr_locked E p \<lparr>new_mask = m, user_mask = None, ac_flags = 0\<rparr> s)
             (\<lambda>(r, _, s). Inr (r, s)))"

definition force_compatible_cpus_allowed_ptr :: "'x kenv \<Rightarrow> tid \<Rightarrow> 'x kstate \<Rightarrow> 'x kstate res" where
  "force_compatible_cpus_allowed_ptr E p s =
     (let override = (\<lambda>m s. bindr (set_cpus_allowed_ptr E p m s) (\<lambda>(_, s). Inr s)) in
      if \<not> alloc_cpumask E 1 (ext s) then override (task_cpu_possible_mask E p) s
      else bindr (restrict_cpus_allowed_ptr E p (task_cpu_possible_mask E p) s) (\<lambda>(r, s).
             if r = 0 then Inr s else override (cpuset_cpus_allowed E p (ext s)) s))"

section \<open>Swapping two tasks, exec balancing, kicks\<close>

definition migrate_swap_task :: "'x kenv \<Rightarrow> tid \<Rightarrow> cpu \<Rightarrow> 'x kstate \<Rightarrow> 'x kstate res" where
  "migrate_swap_task E p c s =
     (if task_on_rq_queued p s then
        bindr (move_queued_task_locked E (task_cpu (tasks s p)) c p s) (\<lambda>s. wakeup_preempt E c p 0 s)
      else Inr (upd_task p (\<lambda>v. v\<lparr>wake_cpu := c\<rparr>) s))"

definition migrate_swap_stop ::
    "'x kenv \<Rightarrow> tid \<Rightarrow> tid \<Rightarrow> cpu \<Rightarrow> cpu \<Rightarrow> 'x kstate \<Rightarrow> (int \<times> 'x kstate) res" where
  "migrate_swap_stop E src_task dst_task src_cpu dst_cpu s =
     (if src_cpu \<notin> cpu_active_mask s \<or> dst_cpu \<notin> cpu_active_mask s then Inr (- EAGAIN, s)
      else if task_cpu (tasks s dst_task) \<noteq> dst_cpu then Inr (- EAGAIN, s)
      else if task_cpu (tasks s src_task) \<noteq> src_cpu then Inr (- EAGAIN, s)
      else if dst_cpu \<notin> cpus_ptr (tasks s src_task) then Inr (- EAGAIN, s)
      else if src_cpu \<notin> cpus_ptr (tasks s dst_task) then Inr (- EAGAIN, s)
      else bindr (migrate_swap_task E src_task dst_cpu s) (\<lambda>s.
           bindr (migrate_swap_task E dst_task src_cpu s) (\<lambda>s. Inr (0, s))))"

text \<open>\<open>stop_two_cpus\<close> runs the swap while both cpus are stopped.\<close>

definition migrate_swap :: "'x kenv \<Rightarrow> tid \<Rightarrow> tid \<Rightarrow> cpu \<Rightarrow> cpu \<Rightarrow> 'x kstate \<Rightarrow> (int \<times> 'x kstate) res" where
  "migrate_swap E cur p target_cpu src_cpu s =
     (if src_cpu = target_cpu then Inr (- EINVAL, s)
      else if src_cpu \<notin> cpu_active_mask s \<or> target_cpu \<notin> cpu_active_mask s then Inr (- EINVAL, s)
      else if target_cpu \<notin> cpus_ptr (tasks s cur) then Inr (- EINVAL, s)
      else if src_cpu \<notin> cpus_ptr (tasks s p) then Inr (- EINVAL, s)
      else migrate_swap_stop E cur p src_cpu target_cpu s)"

abbreviation (input) WF_EXEC :: flags where "WF_EXEC \<equiv> 0x02"

definition sched_exec :: "'x kenv \<Rightarrow> 'x kstate \<Rightarrow> 'x kstate res" where
  "sched_exec E s =
     (let p = current s in
      bindr (call (op_select_task_rq (ops_of E p s)) (\<lambda>f. f p (task_cpu (tasks s p)) WF_EXEC s))
        (\<lambda>(dest_cpu, s).
           if dest_cpu = this_cpu s then Inr s
           else if dest_cpu \<notin> cpu_active_mask s then Inr s
           else stop_one_cpu E (task_cpu (tasks s p)) (Exec_stop p dest_cpu) s))"

definition kick_process :: "tid \<Rightarrow> 'x kstate \<Rightarrow> 'x kstate" where
  "kick_process p s =
     (if task_cpu (tasks s p) \<noteq> this_cpu s \<and> task_curr p s
      then s\<lparr>resched_ipis := resched_ipis s @ [task_cpu (tasks s p)]\<rparr> else s)"

end
