(* ===== verification/Core_Loop.thy ===== *)
theory Core_Loop
  imports Core_Migrate
begin

text \<open>
  The entry points of the scheduler (\<^verbatim>\<open>kernel/sched/core.c\<close>): \<open>schedule\<close> and its variants, which
  repeat \<open>__schedule\<close> while the running task is asked to reschedule; the wake queues; the
  machine-wide sums; and the reference count of core scheduling.

  The loop has a bound \<open>n\<close> on its turns: \<open>Inr None\<close> says that it has not ended within the bound.
\<close>

section \<open>The loop\<close>

abbreviation (input) PF_WQ_WORKER :: "32 word" where "PF_WQ_WORKER \<equiv> 0x00000020"
abbreviation (input) PF_IO_WORKER :: "32 word" where "PF_IO_WORKER \<equiv> 0x00000010"
abbreviation (input) PF_NOFREEZE :: "32 word" where "PF_NOFREEZE \<equiv> 0x00008000"
abbreviation (input) PF_BLOCK_TS :: "32 word" where "PF_BLOCK_TS \<equiv> 0x20000000"

fun schedule_loop :: "'x kenv \<Rightarrow> nat \<Rightarrow> int \<Rightarrow> 'x kstate \<Rightarrow> 'x kstate option res" where
  "schedule_loop E 0 mode s = Inr None"
| "schedule_loop E (Suc n) mode s =
     bindr (schedule_main E mode s)
       (\<lambda>s. if need_resched s then schedule_loop E n mode s else Inr (Some s))"

definition sched_submit_work :: "'x kenv \<Rightarrow> tid \<Rightarrow> 'x kstate \<Rightarrow> 'x kstate" where
  "sched_submit_work E p s =
     (let fl = pflags (tasks s p);
          s = (if fl AND PF_WQ_WORKER \<noteq> 0 then worker_sleeping E p s
               else if fl AND PF_IO_WORKER \<noteq> 0 then io_worker_sleeping E p s
               else s)
      in blk_flush_plug E p s)"

definition sched_update_worker :: "'x kenv \<Rightarrow> tid \<Rightarrow> 'x kstate \<Rightarrow> 'x kstate" where
  "sched_update_worker E p s =
     (let fl = pflags (tasks s p) in
      if fl AND (PF_WQ_WORKER OR PF_IO_WORKER OR PF_BLOCK_TS) \<noteq> 0 then
        let s = (if fl AND PF_BLOCK_TS \<noteq> 0 then upd_ext (blk_plug_invalidate_ts E p) s else s)
        in if fl AND PF_WQ_WORKER \<noteq> 0 then worker_running E p s
           else if fl AND PF_IO_WORKER \<noteq> 0 then io_worker_running E p s
           else s
      else s)"

text \<open>
  \<open>schedule\<close> returns, for its caller, once the caller runs again; in the model it returns in the
  context that is then current.
\<close>

definition schedule :: "'x kenv \<Rightarrow> nat \<Rightarrow> 'x kstate \<Rightarrow> 'x kstate option res" where
  "schedule E n s =
     (let tsk = current s;
          s = (if tstate (tasks s tsk) \<noteq> TASK_RUNNING then sched_submit_work E tsk s else s)
      in bindr (schedule_loop E n SM_NONE s) (\<lambda>r. Inr (map_option (sched_update_worker E tsk) r)))"

definition schedule_idle :: "'x kenv \<Rightarrow> nat \<Rightarrow> 'x kstate \<Rightarrow> 'x kstate option res" where
  "schedule_idle E n s = schedule_loop E n SM_IDLE s"

definition preempt_schedule_common :: "'x kenv \<Rightarrow> nat \<Rightarrow> 'x kstate \<Rightarrow> 'x kstate option res" where
  "preempt_schedule_common E n s = schedule_loop E n SM_PREEMPT s"

text \<open>\<open>preemptible\<close>: no preemption count is held and interrupts are on.\<close>

definition preempt_schedule :: "'x kenv \<Rightarrow> bool \<Rightarrow> nat \<Rightarrow> 'x kstate \<Rightarrow> 'x kstate option res" where
  "preempt_schedule E preemptible n s =
     (if \<not> preemptible then Inr (Some s) else preempt_schedule_common E n s)"

definition preempt_schedule_irq :: "'x kenv \<Rightarrow> int \<Rightarrow> bool \<Rightarrow> nat \<Rightarrow> 'x kstate \<Rightarrow> 'x kstate option res" where
  "preempt_schedule_irq E preempt_count irqs_disabled n s =
     (if preempt_count \<noteq> 0 \<or> \<not> irqs_disabled then Inl Bug else schedule_loop E n SM_PREEMPT s)"

definition cond_resched_real :: "'x kenv \<Rightarrow> bool \<Rightarrow> bool \<Rightarrow> nat \<Rightarrow> 'x kstate \<Rightarrow> (int \<times> 'x kstate) option res" where
  "cond_resched_real E should_resched irqs_disabled n s =
     (if should_resched \<and> \<not> irqs_disabled
      then bindr (preempt_schedule_common E n s) (\<lambda>r. Inr (map_option (\<lambda>s. (1, s)) r))
      else Inr (Some (0, s)))"

text \<open>
  The last call of a task: \<open>__schedule\<close> is entered with the state \<open>TASK_DEAD\<close> and does not come
  back to it.
\<close>

definition do_task_dead :: "'x kenv \<Rightarrow> 'x kstate \<Rightarrow> 'x kstate res" where
  "do_task_dead E s =
     schedule_main E SM_NONE
       (upd_task (current s) (\<lambda>v. v\<lparr>tstate := TASK_DEAD, pflags := pflags v OR PF_NOFREEZE\<rparr>) s)"

definition io_schedule_prepare :: "'x kenv \<Rightarrow> 'x kstate \<Rightarrow> bool \<times> 'x kstate" where
  "io_schedule_prepare E s =
     (in_iowait (tasks s (current s)),
      blk_flush_plug E (current s) (upd_task (current s) (\<lambda>v. v\<lparr>in_iowait := True\<rparr>) s))"

text \<open>It is the task that called \<open>io_schedule\<close> that restores its own flag.\<close>

definition io_schedule_finish :: "tid \<Rightarrow> bool \<Rightarrow> 'x kstate \<Rightarrow> 'x kstate" where
  "io_schedule_finish p token s = upd_task p (\<lambda>v. v\<lparr>in_iowait := token\<rparr>) s"

section \<open>Wake queues\<close>

definition wake_up_process :: "'x kenv \<Rightarrow> tid \<Rightarrow> 'x kstate \<Rightarrow> (bool \<times> 'x kstate) res" where
  "wake_up_process E p s = try_to_wake_up E p (TASK_INTERRUPTIBLE OR TASK_UNINTERRUPTIBLE) 0 s"

definition wake_up_state :: "'x kenv \<Rightarrow> tid \<Rightarrow> 32 word \<Rightarrow> 'x kstate \<Rightarrow> (bool \<times> 'x kstate) res" where
  "wake_up_state E p st s = try_to_wake_up E p st 0 s"

definition default_wake_function :: "'x kenv \<Rightarrow> tid \<Rightarrow> 32 word \<Rightarrow> flags \<Rightarrow> 'x kstate \<Rightarrow> (bool \<times> 'x kstate) res" where
  "default_wake_function E p mode wake_flags s = try_to_wake_up E p mode wake_flags s"

text \<open>
  A wake queue is the list of its tasks, oldest first; \<open>wake_q_queued\<close> says that the node of a task
  is linked into some queue.
\<close>

definition wake_q_link :: "tid list \<Rightarrow> tid \<Rightarrow> 'x kstate \<Rightarrow> bool \<times> tid list \<times> 'x kstate" where
  "wake_q_link q p s =
     (if wake_q_queued (tasks s p) then (False, q, s)
      else (True, q @ [p], upd_task p (\<lambda>v. v\<lparr>wake_q_queued := True\<rparr>) s))"

definition wake_q_add :: "'x kenv \<Rightarrow> tid list \<Rightarrow> tid \<Rightarrow> 'x kstate \<Rightarrow> tid list \<times> 'x kstate" where
  "wake_q_add E q p s =
     (case wake_q_link q p s of
        (b, q, s) \<Rightarrow> (q, if b then upd_ext (get_task_struct E p) s else s))"

definition wake_q_add_safe :: "'x kenv \<Rightarrow> tid list \<Rightarrow> tid \<Rightarrow> 'x kstate \<Rightarrow> tid list \<times> 'x kstate" where
  "wake_q_add_safe E q p s =
     (case wake_q_link q p s of
        (b, q, s) \<Rightarrow> (q, if b then s else upd_ext (put_task_struct E p) s))"

fun wake_up_q :: "'x kenv \<Rightarrow> tid list \<Rightarrow> 'x kstate \<Rightarrow> 'x kstate res" where
  "wake_up_q E [] s = Inr s"
| "wake_up_q E (p # q) s =
     bindr (wake_up_process E p (upd_task p (\<lambda>v. v\<lparr>wake_q_queued := False\<rparr>) s))
       (\<lambda>(_, s). wake_up_q E q (upd_ext (put_task_struct E p) s))"

section \<open>Sums over the machine\<close>

definition nr_running_all :: "'x kstate \<Rightarrow> int" where
  "nr_running_all s = u32 (sum_list (map (\<lambda>c. nr_running (rqs s c)) (for_each_cpu (cpu_online_mask s) s)))"

definition single_task_running :: "'x kstate \<Rightarrow> bool" where
  "single_task_running s \<longleftrightarrow> nr_running (rqs s (this_cpu s)) = 1"

definition nr_context_switches_cpu :: "cpu \<Rightarrow> 'x kstate \<Rightarrow> int" where
  "nr_context_switches_cpu c s = nr_switches (rqs s c)"

definition nr_context_switches :: "'x kstate \<Rightarrow> int" where
  "nr_context_switches s = u64 (sum_list (map (\<lambda>c. nr_switches (rqs s c)) [0..<nr_cpu_ids s]))"

definition nr_iowait_all :: "'x kstate \<Rightarrow> int" where
  "nr_iowait_all s = u32 (sum_list (map (\<lambda>c. nr_iowait (rqs s c)) [0..<nr_cpu_ids s]))"

section \<open>The reference count of core scheduling\<close>

text \<open>
  One core after the other: the cpus of a core change together, and leave the mask of the cores that are
  still to do.
\<close>

fun flip_cores :: "'x kenv \<Rightarrow> bool \<Rightarrow> cpu list \<Rightarrow> cpumask \<Rightarrow> 'x kstate \<Rightarrow> 'x kstate" where
  "flip_cores E enabled [] todo s = s"
| "flip_cores E enabled (c # cs) todo s =
     (if c \<in> todo then
        let s = s\<lparr>rqs := (\<lambda>t. if t \<in> cpu_smt_mask E c then (rqs s t)\<lparr>core_enabled := enabled\<rparr> else rqs s t)\<rparr>;
            s = upd_rq (rq_core (rqs s c)) (\<lambda>r. r\<lparr>core_forceidle_start := 0\<rparr>) s
        in flip_cores E enabled cs (todo - cpu_smt_mask E c) s
      else flip_cores E enabled cs todo s)"

definition sched_core_flip :: "'x kenv \<Rightarrow> bool \<Rightarrow> 'x kstate \<Rightarrow> 'x kstate" where
  "sched_core_flip E enabled s =
     (let s = flip_cores E enabled (for_each_cpu (cpu_online_mask s) s) (cpu_online_mask s) s
      in s\<lparr>rqs := (\<lambda>t. if t \<in> cpu_possible_mask s - cpu_online_mask s
                       then (rqs s t)\<lparr>core_enabled := enabled\<rparr> else rqs s t)\<rparr>)"

definition sched_core_enable :: "'x kenv \<Rightarrow> 'x kstate \<Rightarrow> 'x kstate" where
  "sched_core_enable E s = sched_core_flip E True (s\<lparr>sched_core_key := True\<rparr>)"

definition sched_core_disable :: "'x kenv \<Rightarrow> 'x kstate \<Rightarrow> 'x kstate" where
  "sched_core_disable E s = (sched_core_flip E False s)\<lparr>sched_core_key := False\<rparr>"

definition sched_core_get :: "'x kenv \<Rightarrow> 'x kstate \<Rightarrow> 'x kstate" where
  "sched_core_get E s =
     (if sched_core_count s \<noteq> 0 then s\<lparr>sched_core_count := sched_core_count s + 1\<rparr>
      else (sched_core_enable E s)\<lparr>sched_core_count := sched_core_count s + 1\<rparr>)"

definition sched_core_put_work :: "'x kenv \<Rightarrow> 'x kstate \<Rightarrow> 'x kstate" where
  "sched_core_put_work E s =
     (let s = s\<lparr>sched_core_work := False, sched_core_count := sched_core_count s - 1\<rparr>
      in if sched_core_count s = 0 then sched_core_disable E s else s)"

definition sched_core_put :: "'x kstate \<Rightarrow> 'x kstate" where
  "sched_core_put s =
     (if sched_core_count s \<noteq> 1 then s\<lparr>sched_core_count := sched_core_count s - 1\<rparr>
      else s\<lparr>sched_core_work := True\<rparr>)"

end
