(* ===== verification/Sched_Policy.thy ===== *)
theory Sched_Policy
  imports Core_Loop
begin

text \<open>
  Priorities, nice values and \<open>__sched_setscheduler\<close> (\<^verbatim>\<open>kernel/sched/syscalls.c\<close>). The code that
  is not part of this repository (credentials, resource limits, security modules, deadline
  admission, the pid table) is a second record of functions around the scheduler's environment.
\<close>

section \<open>The environment of the system calls\<close>

record 'x senv =
  kern :: "'x kenv"
  rlimit_nice :: "tid \<Rightarrow> 'x \<Rightarrow> int"
  rlimit_rtprio :: "tid \<Rightarrow> 'x \<Rightarrow> int"
  capable_sys_nice :: "tid \<Rightarrow> 'x \<Rightarrow> bool"
  ns_capable_sys_nice :: "tid \<Rightarrow> tid \<Rightarrow> 'x \<Rightarrow> bool"
  euid_of :: "tid \<Rightarrow> 'x \<Rightarrow> int"
  uid_of :: "tid \<Rightarrow> 'x \<Rightarrow> int"
  security_task_setnice :: "tid \<Rightarrow> int \<Rightarrow> 'x \<Rightarrow> int"
  security_task_setscheduler :: "tid \<Rightarrow> 'x \<Rightarrow> int"
  security_task_getscheduler :: "tid \<Rightarrow> 'x \<Rightarrow> int"
  checkparam_dl :: "sched_attr \<Rightarrow> bool"
  setparam_dl :: "sched_attr \<Rightarrow> task_struct \<Rightarrow> task_struct"
  getparam_dl :: "task_struct \<Rightarrow> sched_attr \<Rightarrow> sched_attr"
  setparam_fair :: "sched_attr \<Rightarrow> task_struct \<Rightarrow> task_struct"
  dl_param_changed :: "task_struct \<Rightarrow> sched_attr \<Rightarrow> bool"
  sched_dl_overflow :: "tid \<Rightarrow> int \<Rightarrow> sched_attr \<Rightarrow> 'x \<Rightarrow> bool \<times> 'x"
  rd_span :: "cpu \<Rightarrow> 'x \<Rightarrow> cpumask"
  rd_dl_bw_zero :: "cpu \<Rightarrow> 'x \<Rightarrow> bool"
  rt_mutex_adjust_pi :: "tid \<Rightarrow> 'x kstate \<Rightarrow> 'x kstate"
  find_task_by_vpid :: "int \<Rightarrow> 'x \<Rightarrow> tid option"
  vcpu_is_preempted :: "cpu \<Rightarrow> 'x \<Rightarrow> bool"
  copy_struct_from_user :: "sched_attr \<Rightarrow> int \<Rightarrow> int + sched_attr"
  copy_struct_to_user :: "int \<Rightarrow> sched_attr \<Rightarrow> int + sched_attr"
  cpumask_size :: int
  jiffies_to_timespec64 :: "int \<Rightarrow> timespec64"

abbreviation (input) SETPARAM_POLICY :: int where "SETPARAM_POLICY \<equiv> - 1"
abbreviation (input) SCHED_RESET_ON_FORK :: int where "SCHED_RESET_ON_FORK \<equiv> 0x40000000"

section \<open>Priorities\<close>

definition normal_prio_of :: "int \<Rightarrow> int \<Rightarrow> int \<Rightarrow> int" where
  "normal_prio_of pol rtp nice =
     (if dl_policy pol then MAX_DL_PRIO - 1
      else if rt_policy pol then MAX_RT_PRIO - 1 - rtp
      else NICE_TO_PRIO nice)"

definition task_nice :: "task_struct \<Rightarrow> int" where
  "task_nice p = PRIO_TO_NICE (static_prio p)"

definition task_normal_prio :: "task_struct \<Rightarrow> int" where
  "task_normal_prio p = normal_prio_of (policy p) (rt_priority p) (PRIO_TO_NICE (static_prio p))"

definition effective_prio :: "task_struct \<Rightarrow> int \<times> task_struct" where
  "effective_prio p =
     (let p = p\<lparr>normal_prio := task_normal_prio p\<rparr>
      in (if \<not> rt_or_dl_prio (prio p) then normal_prio p else prio p, p))"

definition set_user_nice :: "'x kenv \<Rightarrow> tid \<Rightarrow> int \<Rightarrow> 'x kstate \<Rightarrow> 'x kstate res" where
  "set_user_nice E p nice s =
     (if task_nice (tasks s p) = nice \<or> nice < MIN_NICE \<or> nice > MAX_NICE then Inr s
      else
        let c = task_cpu (tasks s p); s = update_rq_clock E c s in
        if task_has_dl_policy (tasks s p) \<or> task_has_rt_policy (tasks s p) then
          Inr (upd_task p (\<lambda>v. v\<lparr>static_prio := NICE_TO_PRIO nice\<rparr>) s)
        else
          let queued = task_on_rq_queued p s; running = task_current_donor c p s in
          bindr (if queued then bindr (dequeue_task E c p (DEQUEUE_SAVE OR DEQUEUE_NOCLOCK) s) (\<lambda>(_, s). Inr s)
                 else Inr s) (\<lambda>s.
          bindr (if running then put_prev_task E c p s else Inr s) (\<lambda>s.
          bindr (set_load_weight E p True (upd_task p (\<lambda>v. v\<lparr>static_prio := NICE_TO_PRIO nice\<rparr>) s)) (\<lambda>s.
          let old_prio = prio (tasks s p);
              (ep, v) = effective_prio (tasks s p);
              s = set_task p (v\<lparr>prio := ep\<rparr>) s
          in
          bindr (if queued then enqueue_task E c p (ENQUEUE_RESTORE OR ENQUEUE_NOCLOCK) s else Inr s) (\<lambda>s.
          bindr (if running then set_next_task E c p s else Inr s) (\<lambda>s.
          call (op_prio_changed (ops_of E p s)) (\<lambda>f. f c p old_prio s)))))))"

definition is_nice_reduction :: "'x senv \<Rightarrow> tid \<Rightarrow> int \<Rightarrow> 'x kstate \<Rightarrow> bool" where
  "is_nice_reduction SE p nice s \<longleftrightarrow> u64 (MAX_NICE - nice + 1) \<le> rlimit_nice SE p (ext s)"

definition can_nice :: "'x senv \<Rightarrow> tid \<Rightarrow> int \<Rightarrow> 'x kstate \<Rightarrow> bool" where
  "can_nice SE p nice s \<longleftrightarrow>
     is_nice_reduction SE p nice s \<or> capable_sys_nice SE (current s) (ext s)"

definition clamp :: "int \<Rightarrow> int \<Rightarrow> int \<Rightarrow> int" where
  "clamp v lo hi = max lo (min hi v)"

definition sys_nice :: "'x senv \<Rightarrow> int \<Rightarrow> 'x kstate \<Rightarrow> (int \<times> 'x kstate) res" where
  "sys_nice SE increment s =
     (let increment = clamp increment (- NICE_WIDTH) NICE_WIDTH;
          nice = clamp (task_nice (tasks s (current s)) + increment) MIN_NICE MAX_NICE
      in if increment < 0 \<and> \<not> can_nice SE (current s) nice s then Inr (- EPERM, s)
         else
           let retval = security_task_setnice SE (current s) nice (ext s)
           in if retval \<noteq> 0 then Inr (retval, s)
              else bindr (set_user_nice (kern SE) (current s) nice s) (\<lambda>s. Inr (0, s)))"

definition task_prio :: "task_struct \<Rightarrow> int" where
  "task_prio p = prio p - MAX_RT_PRIO"

definition idle_cpu :: "cpu \<Rightarrow> 'x kstate \<Rightarrow> bool" where
  "idle_cpu c s \<longleftrightarrow>
     rq_curr (rqs s c) = rq_idle (rqs s c) \<and> nr_running (rqs s c) = 0 \<and> \<not> ttwu_pending (rqs s c)"

definition available_idle_cpu :: "'x senv \<Rightarrow> cpu \<Rightarrow> 'x kstate \<Rightarrow> bool" where
  "available_idle_cpu SE c s \<longleftrightarrow> idle_cpu c s \<and> \<not> vcpu_is_preempted SE c (ext s)"

definition idle_task :: "cpu \<Rightarrow> 'x kstate \<Rightarrow> tid" where
  "idle_task c s = rq_idle (rqs s c)"

definition sched_core_idle_cpu :: "cpu \<Rightarrow> 'x kstate \<Rightarrow> bool" where
  "sched_core_idle_cpu c s =
     (if sched_core_enabled c s \<and> rq_curr (rqs s c) = rq_idle (rqs s c) then True else idle_cpu c s)"

definition find_process_by_pid :: "'x senv \<Rightarrow> int \<Rightarrow> 'x kstate \<Rightarrow> tid option" where
  "find_process_by_pid SE pd s = (if pd \<noteq> 0 then find_task_by_vpid SE pd (ext s) else Some (current s))"

section \<open>Setting the parameters\<close>

text \<open>\<open>rt_or_dl_task_policy\<close>: the policy is a real-time or the deadline policy.\<close>

definition setscheduler_params :: "'x senv \<Rightarrow> tid \<Rightarrow> sched_attr \<Rightarrow> 'x kstate \<Rightarrow> 'x kstate res" where
  "setscheduler_params SE p attr s =
     (let pol = (if s32 (sa_policy attr) = SETPARAM_POLICY then policy (tasks s p) else s32 (sa_policy attr));
          s = upd_task p (\<lambda>v. v\<lparr>policy := pol\<rparr>) s;
          s = (if dl_policy pol then upd_task p (setparam_dl SE attr) s
               else if fair_policy pol then upd_task p (setparam_fair SE attr) s
               else s);
          s = (if rt_policy (policy (tasks s p)) \<or> dl_policy (policy (tasks s p)) then
                 upd_task p (\<lambda>v. v\<lparr>timer_slack_ns := 0\<rparr>) s
               else if timer_slack_ns (tasks s p) = 0 then
                 upd_task p (\<lambda>v. v\<lparr>timer_slack_ns := default_timer_slack_ns v\<rparr>) s
               else s);
          s = upd_task p (\<lambda>v. v\<lparr>rt_priority := sa_priority attr\<rparr>) s;
          s = upd_task p (\<lambda>v. v\<lparr>normal_prio := task_normal_prio v\<rparr>) s
      in set_load_weight (kern SE) p True s)"

definition check_same_owner :: "'x senv \<Rightarrow> tid \<Rightarrow> 'x kstate \<Rightarrow> bool" where
  "check_same_owner SE p s \<longleftrightarrow>
     euid_of SE (current s) (ext s) = euid_of SE p (ext s) \<or>
     euid_of SE (current s) (ext s) = uid_of SE p (ext s)"

definition needs_privilege :: "'x senv \<Rightarrow> tid \<Rightarrow> sched_attr \<Rightarrow> int \<Rightarrow> bool \<Rightarrow> 'x kstate \<Rightarrow> bool" where
  "needs_privilege SE p attr pol reset_on_fork s \<longleftrightarrow>
     (let t = tasks s p; rlim_rtprio = rlimit_rtprio SE p (ext s) in
      fair_policy pol \<and> sa_nice attr < task_nice t \<and> \<not> is_nice_reduction SE p (sa_nice attr) s \<or>
      rt_policy pol \<and>
        (pol \<noteq> policy t \<and> rlim_rtprio = 0 \<or>
         sa_priority attr > rt_priority t \<and> sa_priority attr > rlim_rtprio) \<or>
      dl_policy pol \<or>
      task_has_idle_policy t \<and> \<not> idle_policy pol \<and> \<not> is_nice_reduction SE p (task_nice t) s \<or>
      \<not> check_same_owner SE p s \<or>
      sched_reset_on_fork t \<and> \<not> reset_on_fork)"

definition user_check_sched_setscheduler ::
    "'x senv \<Rightarrow> tid \<Rightarrow> sched_attr \<Rightarrow> int \<Rightarrow> bool \<Rightarrow> 'x kstate \<Rightarrow> int" where
  "user_check_sched_setscheduler SE p attr pol reset_on_fork s =
     (if needs_privilege SE p attr pol reset_on_fork s \<and> \<not> capable_sys_nice SE (current s) (ext s)
      then - EPERM else 0)"

text \<open>
  \<open>__sched_setscheduler\<close> in three parts. The first checks the request, before the run-queue lock
  is taken: an error, or the policy and the reset flag to go on with.
\<close>

definition setsched_check ::
    "'x senv \<Rightarrow> tid \<Rightarrow> sched_attr \<Rightarrow> bool \<Rightarrow> 'x kstate \<Rightarrow> (int + int \<times> bool \<times> 'x kstate)" where
  "setsched_check SE p attr user s =
     (let pol0 = s32 (sa_policy attr);
          pol = (if pol0 < 0 then policy (tasks s p) else pol0);
          reset_on_fork = (if pol0 < 0 then sched_reset_on_fork (tasks s p)
                           else sa_flags attr AND SCHED_FLAG_RESET_ON_FORK \<noteq> 0);
          rc = (if user then user_check_sched_setscheduler SE p attr pol reset_on_fork s else 0);
          sec = (if user then security_task_setscheduler SE p (ext s) else 0);
          (uc, s') = (if sa_flags attr AND SCHED_FLAG_UTIL_CLAMP \<noteq> 0
                      then uclamp_validate (tasks s p) attr s else (0, s))
      in if pol0 \<ge> 0 \<and> \<not> valid_policy pol then Inl (- EINVAL)
         else if sa_flags attr AND NOT (SCHED_FLAG_ALL OR SCHED_FLAG_SUGOV) \<noteq> 0 then Inl (- EINVAL)
         else if sa_priority attr > MAX_RT_PRIO - 1 then Inl (- EINVAL)
         else if dl_policy pol \<and> \<not> checkparam_dl SE attr \<or> rt_policy pol \<noteq> (sa_priority attr \<noteq> 0)
           then Inl (- EINVAL)
         else if rc \<noteq> 0 then Inl rc
         else if user \<and> sa_flags attr AND SCHED_FLAG_SUGOV \<noteq> 0 then Inl (- EINVAL)
         else if sec \<noteq> 0 then Inl sec
         else if uc \<noteq> 0 then Inl uc
         else Inr (pol, reset_on_fork, s'))"

text \<open>Whether a request that keeps the policy changes anything else (the \<open>goto change\<close>s).\<close>

definition setsched_changes :: "'x senv \<Rightarrow> task_struct \<Rightarrow> sched_attr \<Rightarrow> int \<Rightarrow> bool" where
  "setsched_changes SE t attr pol \<longleftrightarrow>
     pol \<noteq> policy t \<or>
     fair_policy pol \<and> (sa_nice attr \<noteq> task_nice t \<or> sa_runtime attr \<noteq> slice (se t)) \<or>
     rt_policy pol \<and> sa_priority attr \<noteq> rt_priority t \<or>
     dl_policy pol \<and> dl_param_changed SE t attr \<or>
     sa_flags attr AND SCHED_FLAG_UTIL_CLAMP \<noteq> 0"

text \<open>The last part: dequeue, store the new parameters and class, and enqueue again.\<close>

definition setsched_apply ::
    "'x senv \<Rightarrow> tid \<Rightarrow> sched_attr \<Rightarrow> int \<Rightarrow> bool \<Rightarrow> bool \<Rightarrow> 'x kstate \<Rightarrow> 'x kstate res" where
  "setsched_apply SE p attr pol reset_on_fork pi s =
     (let E = kern SE;
          c = task_cpu (tasks s p);
          s = upd_task p (\<lambda>v. v\<lparr>sched_reset_on_fork := reset_on_fork\<rparr>) s;
          oldprio = prio (tasks s p);
          newprio0 = normal_prio_of pol (sa_priority attr) (sa_nice attr);
          newprio = (if pi then rt_effective_prio s p newprio0 else newprio0);
          fl0 = DEQUEUE_SAVE OR DEQUEUE_MOVE OR DEQUEUE_NOCLOCK;
          fl = (if pi \<and> newprio = oldprio then fl0 AND NOT DEQUEUE_MOVE else fl0);
          prev_class = sched_class (tasks s p);
          next_class = setscheduler_class pol newprio
      in bindr (if prev_class \<noteq> next_class \<and> sched_delayed (se (tasks s p))
                then bindr (dequeue_task E c p (DEQUEUE_SLEEP OR DEQUEUE_DELAYED OR DEQUEUE_NOCLOCK) s)
                       (\<lambda>(_, s). Inr s)
                else Inr s) (\<lambda>s.
         let queued = task_on_rq_queued p s; running = task_current_donor c p s in
         bindr (if queued then bindr (dequeue_task E c p fl s) (\<lambda>(_, s). Inr s) else Inr s) (\<lambda>s.
         bindr (if running then put_prev_task E c p s else Inr s) (\<lambda>s.
         let keep = (sa_flags attr AND SCHED_FLAG_KEEP_PARAMS \<noteq> 0);
             fl = (if keep then fl else fl OR ENQUEUE_CHANGED)
         in
         bindr (if keep then Inr s
                else bindr (setscheduler_params SE p attr s)
                       (\<lambda>s. Inr (upd_task p (\<lambda>v. v\<lparr>sched_class := next_class, prio := newprio\<rparr>) s))) (\<lambda>s.
         let s = upd_task p (setscheduler_uclamp (sysctl_uclamp_min_rt s) attr) s in
         bindr (check_class_changing E c p prev_class s) (\<lambda>s.
         bindr (if queued
                then enqueue_task E c p (if oldprio < prio (tasks s p) then fl OR ENQUEUE_HEAD else fl) s
                else Inr s) (\<lambda>s.
         bindr (if running then set_next_task E c p s else Inr s) (\<lambda>s.
         bindr (check_class_changed E c p prev_class oldprio s) (\<lambda>s.
         let (head, s) = splice_balance_callbacks c s;
             s = (if pi then rt_mutex_adjust_pi SE p s else s)
         in balance_callbacks E c head s)))))))))"

text \<open>
  The policy cannot change between the check and the lock in an atomic step, so the
  \<open>recheck\<close> jump is not taken. \<open>CONFIG_RT_GROUP_SCHED\<close> is off.
\<close>

definition sched_setscheduler_core ::
    "'x senv \<Rightarrow> tid \<Rightarrow> sched_attr \<Rightarrow> bool \<Rightarrow> bool \<Rightarrow> 'x kstate \<Rightarrow> (int \<times> 'x kstate) res" where
  "sched_setscheduler_core SE p attr user pi s =
     (case setsched_check SE p attr user s of
        Inl e \<Rightarrow> Inr (e, s)
      | Inr (pol, reset_on_fork, s) \<Rightarrow>
          let c = task_cpu (tasks s p); s = update_rq_clock (kern SE) c s in
          if Some p = rq_stop (rqs s c) then Inr (- EINVAL, s)
          else if \<not> setsched_changes SE (tasks s p) attr pol then
            Inr (0, upd_task p (\<lambda>v. v\<lparr>sched_reset_on_fork := reset_on_fork\<rparr>) s)
          else if user \<and> dl_bandwidth_enabled (kern SE) \<and> dl_policy pol \<and>
                  sa_flags attr AND SCHED_FLAG_SUGOV = 0 \<and>
                  (\<not> rd_span SE c (ext s) \<subseteq> cpus_ptr (tasks s p) \<or> rd_dl_bw_zero SE c (ext s)) then
            Inr (- EPERM, s)
          else
            let (busy, x) = (if dl_policy pol \<or> dl_prio (prio (tasks s p))
                             then sched_dl_overflow SE p pol attr (ext s) else (False, ext s));
                s = s\<lparr>ext := x\<rparr>
            in if busy then Inr (- EBUSY, s)
               else bindr (setsched_apply SE p attr pol reset_on_fork pi s) (\<lambda>s. Inr (0, s)))"

end
