(* ===== verification/Sched_Calls.thy ===== *)
theory Sched_Calls
  imports Sched_Policy
begin

text \<open>
  The system calls of \<^verbatim>\<open>kernel/sched/syscalls.c\<close> around \<open>__sched_setscheduler\<close>: setting and reading
  the policy, the attributes and the affinity, yielding, the priority ranges and the
  round-robin interval.

  A pointer into user space is null, faults, or holds a value; a call that writes user memory
  returns the new contents.
\<close>

datatype 'a user_ptr = User_null | User_fault | User_at 'a

definition put_user :: "'a \<Rightarrow> 'a user_ptr \<Rightarrow> int \<times> 'a user_ptr" where
  "put_user a u = (case u of User_at _ \<Rightarrow> (0, User_at a) | _ \<Rightarrow> (- EFAULT, u))"

abbreviation (input) PAGE_SIZE :: int where "PAGE_SIZE \<equiv> 4096"
abbreviation (input) SCHED_ATTR_SIZE_VER0 :: int where "SCHED_ATTR_SIZE_VER0 \<equiv> 48"
abbreviation (input) SCHED_ATTR_SIZE_VER1 :: int where "SCHED_ATTR_SIZE_VER1 \<equiv> 56"
abbreviation (input) sizeof_sched_attr :: int where "sizeof_sched_attr \<equiv> 56"

definition attr_zero :: sched_attr where
  "attr_zero = \<lparr>sa_size = 0, sa_policy = 0, sa_flags = 0, sa_nice = 0, sa_priority = 0, sa_runtime = 0,
     sa_deadline = 0, sa_period = 0, sa_util_min = 0, sa_util_max = 0\<rparr>"

section \<open>Setting the policy\<close>

definition setscheduler_attr :: "task_struct \<Rightarrow> int \<Rightarrow> int \<Rightarrow> sched_attr" where
  "setscheduler_attr t pol pr =
     (let attr = attr_zero\<lparr>sa_policy := u32 pol, sa_priority := u32 pr, sa_nice := PRIO_TO_NICE (static_prio t)\<rparr>;
          attr = (if custom_slice (se t) then attr\<lparr>sa_runtime := slice (se t)\<rparr> else attr)
      in if pol \<noteq> SETPARAM_POLICY \<and> pol AND SCHED_RESET_ON_FORK \<noteq> 0
         then attr\<lparr>sa_flags := sa_flags attr OR SCHED_FLAG_RESET_ON_FORK,
                   sa_policy := u32 (pol AND NOT SCHED_RESET_ON_FORK)\<rparr>
         else attr)"

definition setscheduler_param ::
    "'x senv \<Rightarrow> tid \<Rightarrow> int \<Rightarrow> int \<Rightarrow> bool \<Rightarrow> 'x kstate \<Rightarrow> (int \<times> 'x kstate) res" where
  "setscheduler_param SE p pol pr check s =
     sched_setscheduler_core SE p (setscheduler_attr (tasks s p) pol pr) check True s"

definition sched_setscheduler :: "'x senv \<Rightarrow> tid \<Rightarrow> int \<Rightarrow> int \<Rightarrow> 'x kstate \<Rightarrow> (int \<times> 'x kstate) res" where
  "sched_setscheduler SE p pol pr s = setscheduler_param SE p pol pr True s"

definition sched_setattr :: "'x senv \<Rightarrow> tid \<Rightarrow> sched_attr \<Rightarrow> 'x kstate \<Rightarrow> (int \<times> 'x kstate) res" where
  "sched_setattr SE p attr s = sched_setscheduler_core SE p attr True True s"

definition sched_setattr_nocheck :: "'x senv \<Rightarrow> tid \<Rightarrow> sched_attr \<Rightarrow> 'x kstate \<Rightarrow> (int \<times> 'x kstate) res" where
  "sched_setattr_nocheck SE p attr s = sched_setscheduler_core SE p attr False True s"

definition sched_setscheduler_nocheck :: "'x senv \<Rightarrow> tid \<Rightarrow> int \<Rightarrow> int \<Rightarrow> 'x kstate \<Rightarrow> (int \<times> 'x kstate) res" where
  "sched_setscheduler_nocheck SE p pol pr s = setscheduler_param SE p pol pr False s"

definition sched_set_fifo :: "'x senv \<Rightarrow> tid \<Rightarrow> 'x kstate \<Rightarrow> 'x kstate res" where
  "sched_set_fifo SE p s =
     bindr (sched_setscheduler_nocheck SE p SCHED_FIFO (MAX_RT_PRIO div 2) s) (\<lambda>(_, s). Inr s)"

definition sched_set_fifo_low :: "'x senv \<Rightarrow> tid \<Rightarrow> 'x kstate \<Rightarrow> 'x kstate res" where
  "sched_set_fifo_low SE p s = bindr (sched_setscheduler_nocheck SE p SCHED_FIFO 1 s) (\<lambda>(_, s). Inr s)"

definition sched_set_normal :: "'x senv \<Rightarrow> tid \<Rightarrow> int \<Rightarrow> 'x kstate \<Rightarrow> 'x kstate res" where
  "sched_set_normal SE p nice s =
     bindr (sched_setattr_nocheck SE p (attr_zero\<lparr>sa_policy := SCHED_NORMAL, sa_nice := nice\<rparr>) s)
       (\<lambda>(_, s). Inr s)"

definition do_sched_setscheduler ::
    "'x senv \<Rightarrow> int \<Rightarrow> int \<Rightarrow> int user_ptr \<Rightarrow> 'x kstate \<Rightarrow> (int \<times> 'x kstate) res" where
  "do_sched_setscheduler SE pd pol param s =
     (if param = User_null \<or> pd < 0 then Inr (- EINVAL, s)
      else case param of
             User_at pr \<Rightarrow>
               (case find_process_by_pid SE pd s of
                  None \<Rightarrow> Inr (- ESRCH, s)
                | Some p \<Rightarrow> sched_setscheduler SE p pol pr s)
           | _ \<Rightarrow> Inr (- EFAULT, s))"

definition sys_sched_setscheduler ::
    "'x senv \<Rightarrow> int \<Rightarrow> int \<Rightarrow> int user_ptr \<Rightarrow> 'x kstate \<Rightarrow> (int \<times> 'x kstate) res" where
  "sys_sched_setscheduler SE pd pol param s =
     (if pol < 0 then Inr (- EINVAL, s) else do_sched_setscheduler SE pd pol param s)"

definition sys_sched_setparam :: "'x senv \<Rightarrow> int \<Rightarrow> int user_ptr \<Rightarrow> 'x kstate \<Rightarrow> (int \<times> 'x kstate) res" where
  "sys_sched_setparam SE pd param s = do_sched_setscheduler SE pd SETPARAM_POLICY param s"

text \<open>
  \<open>sched_copy_attr\<close>: an error with the user structure, whose size field then holds the size the
  kernel knows, or the attributes. The user structure states its own size in \<open>sa_size\<close>.
\<close>

definition sched_copy_attr :: "'x senv \<Rightarrow> sched_attr user_ptr \<Rightarrow> (int \<times> sched_attr user_ptr) + sched_attr" where
  "sched_copy_attr SE uattr =
     (case uattr of
        User_at u \<Rightarrow>
          let sz = (if sa_size u = 0 then SCHED_ATTR_SIZE_VER0 else sa_size u);
              err_size = Inl (- E2BIG, User_at (u\<lparr>sa_size := sizeof_sched_attr\<rparr>))
          in if sz < SCHED_ATTR_SIZE_VER0 \<or> sz > PAGE_SIZE then err_size
             else case copy_struct_from_user SE u sz of
                    Inl e \<Rightarrow> if e = - E2BIG then err_size else Inl (e, uattr)
                  | Inr attr \<Rightarrow>
                      if sa_flags attr AND SCHED_FLAG_UTIL_CLAMP \<noteq> 0 \<and> sz < SCHED_ATTR_SIZE_VER1
                      then Inl (- EINVAL, uattr)
                      else Inr (attr\<lparr>sa_nice := clamp (sa_nice attr) MIN_NICE MAX_NICE\<rparr>)
      | _ \<Rightarrow> Inl (- EFAULT, uattr))"

definition get_params :: "'x senv \<Rightarrow> task_struct \<Rightarrow> sched_attr \<Rightarrow> sched_attr" where
  "get_params SE t attr =
     (if task_has_dl_policy t then getparam_dl SE t attr
      else if task_has_rt_policy t then attr\<lparr>sa_priority := rt_priority t\<rparr>
      else attr\<lparr>sa_nice := task_nice t, sa_runtime := slice (se t)\<rparr>)"

definition sys_sched_setattr ::
    "'x senv \<Rightarrow> int \<Rightarrow> sched_attr user_ptr \<Rightarrow> int \<Rightarrow> 'x kstate \<Rightarrow> (int \<times> sched_attr user_ptr \<times> 'x kstate) res" where
  "sys_sched_setattr SE pd uattr fl s =
     (if uattr = User_null \<or> pd < 0 \<or> fl \<noteq> 0 then Inr (- EINVAL, uattr, s)
      else case sched_copy_attr SE uattr of
             Inl (e, u) \<Rightarrow> Inr (e, u, s)
           | Inr attr \<Rightarrow>
               if s32 (sa_policy attr) < 0 then Inr (- EINVAL, uattr, s)
               else
                 let attr = (if sa_flags attr AND SCHED_FLAG_KEEP_POLICY \<noteq> 0
                             then attr\<lparr>sa_policy := u32 SETPARAM_POLICY\<rparr> else attr)
                 in case find_process_by_pid SE pd s of
                      None \<Rightarrow> Inr (- ESRCH, uattr, s)
                    | Some p \<Rightarrow>
                        let attr = (if sa_flags attr AND SCHED_FLAG_KEEP_PARAMS \<noteq> 0
                                    then get_params SE (tasks s p) attr else attr)
                        in bindr (sched_setattr SE p attr s) (\<lambda>(r, s). Inr (r, uattr, s)))"

section \<open>Reading the policy\<close>

definition sys_sched_getscheduler :: "'x senv \<Rightarrow> int \<Rightarrow> 'x kstate \<Rightarrow> int" where
  "sys_sched_getscheduler SE pd s =
     (if pd < 0 then - EINVAL
      else case find_process_by_pid SE pd s of
             None \<Rightarrow> - ESRCH
           | Some p \<Rightarrow>
               let retval = security_task_getscheduler SE p (ext s)
               in if retval = 0 then
                    (if sched_reset_on_fork (tasks s p) then policy (tasks s p) OR SCHED_RESET_ON_FORK
                     else policy (tasks s p))
                  else retval)"

definition sys_sched_getparam :: "'x senv \<Rightarrow> int \<Rightarrow> int user_ptr \<Rightarrow> 'x kstate \<Rightarrow> int \<times> int user_ptr" where
  "sys_sched_getparam SE pd param s =
     (if param = User_null \<or> pd < 0 then (- EINVAL, param)
      else case find_process_by_pid SE pd s of
             None \<Rightarrow> (- ESRCH, param)
           | Some p \<Rightarrow>
               let retval = security_task_getscheduler SE p (ext s)
               in if retval \<noteq> 0 then (retval, param)
                  else put_user (if task_has_rt_policy (tasks s p) then rt_priority (tasks s p) else 0) param)"

definition getattr_of :: "'x senv \<Rightarrow> task_struct \<Rightarrow> sched_attr" where
  "getattr_of SE t =
     (let k = attr_zero\<lparr>sa_policy := policy t\<rparr>;
          k = (if sched_reset_on_fork t then k\<lparr>sa_flags := sa_flags k OR SCHED_FLAG_RESET_ON_FORK\<rparr> else k);
          k = get_params SE t k;
          k = k\<lparr>sa_flags := sa_flags k AND SCHED_FLAG_ALL\<rparr>
      in k\<lparr>sa_util_min := uc_value (uclamp_req t UCLAMP_MIN), sa_util_max := uc_value (uclamp_req t UCLAMP_MAX)\<rparr>)"

definition sys_sched_getattr ::
    "'x senv \<Rightarrow> int \<Rightarrow> sched_attr user_ptr \<Rightarrow> int \<Rightarrow> int \<Rightarrow> 'x kstate \<Rightarrow> int \<times> sched_attr user_ptr" where
  "sys_sched_getattr SE pd uattr usize fl s =
     (if uattr = User_null \<or> pd < 0 \<or> usize > PAGE_SIZE \<or> usize < SCHED_ATTR_SIZE_VER0 \<or> fl \<noteq> 0
      then (- EINVAL, uattr)
      else case find_process_by_pid SE pd s of
             None \<Rightarrow> (- ESRCH, uattr)
           | Some p \<Rightarrow>
               let retval = security_task_getscheduler SE p (ext s) in
               if retval \<noteq> 0 then (retval, uattr)
               else
                 let k = (getattr_of SE (tasks s p))\<lparr>sa_size := min usize sizeof_sched_attr\<rparr>
                 in case uattr of
                      User_at _ \<Rightarrow>
                        (case copy_struct_to_user SE usize k of
                           Inl e \<Rightarrow> (e, uattr)
                         | Inr k \<Rightarrow> (0, User_at k))
                    | _ \<Rightarrow> (- EFAULT, uattr))"

section \<open>Affinity\<close>

definition dl_task_check_affinity :: "'x senv \<Rightarrow> tid \<Rightarrow> cpumask \<Rightarrow> 'x kstate \<Rightarrow> int" where
  "dl_task_check_affinity SE p m s =
     (if \<not> task_has_dl_policy (tasks s p) \<or> \<not> dl_bandwidth_enabled (kern SE) then 0
      else if dl_entity_is_special (dl (tasks s p)) then 0
      else if \<not> rd_span SE (task_cpu (tasks s p)) (ext s) \<subseteq> m then - EBUSY
      else 0)"

text \<open>
  \<open>__sched_setaffinity\<close>. After a race with a cpuset update the mask is reset; the second call sees
  the context of the first, so it restores the user mask, unless the first call had replaced the mask of
  the context by its intersection with the user mask.
\<close>

definition setaffinity_ctx ::
    "'x senv \<Rightarrow> tid \<Rightarrow> affinity_context \<Rightarrow> 'x kstate \<Rightarrow> (int \<times> affinity_context \<times> 'x kstate) res" where
  "setaffinity_ctx SE p ctx s =
     (let E = kern SE in
      if \<not> alloc_cpumask E 0 (ext s) \<or> \<not> alloc_cpumask E 1 (ext s) then Inr (- ENOMEM, ctx, s)
      else
        let m = new_mask ctx \<inter> cpuset_cpus_allowed E p (ext s);
            ctx = ctx\<lparr>new_mask := m, ac_flags := ac_flags ctx OR SCA_CHECK\<rparr>;
            retval = dl_task_check_affinity SE p m s;
            restricted = user_restricted (tasks s p) ctx
        in if retval \<noteq> 0 then Inr (retval, ctx, s)
           else bindr (set_cpus_allowed_ptr_ctx E p ctx s) (\<lambda>(retval, ctx, s).
             if retval \<noteq> 0 then Inr (retval, ctx, s)
             else
               let allowed = cpuset_cpus_allowed E p (ext s) in
               if m \<subseteq> allowed then Inr (0, ctx, s)
               else
                 let m' = (case user_mask ctx of
                             Some u \<Rightarrow> if ac_flags ctx AND SCA_USER \<noteq> 0 \<and> allowed \<inter> u \<noteq> {} then allowed \<inter> u
                                       else allowed
                           | None \<Rightarrow> allowed);
                     ctx = (if restricted then ctx else ctx\<lparr>new_mask := m'\<rparr>)
                 in bindr (set_cpus_allowed_ptr_ctx E p ctx s) (\<lambda>(_, ctx, s). Inr (- EINVAL, ctx, s))))"

definition relax_compatible_cpus_allowed_ptr :: "'x senv \<Rightarrow> tid \<Rightarrow> 'x kstate \<Rightarrow> 'x kstate res" where
  "relax_compatible_cpus_allowed_ptr SE p s =
     bindr (setaffinity_ctx SE p \<lparr>new_mask = task_user_cpus p s, user_mask = None, ac_flags = 0\<rparr> s)
       (\<lambda>(_, _, s). Inr s)"

definition sched_setaffinity :: "'x senv \<Rightarrow> int \<Rightarrow> cpumask \<Rightarrow> 'x kstate \<Rightarrow> (int \<times> 'x kstate) res" where
  "sched_setaffinity SE pd in_mask s =
     (case find_process_by_pid SE pd s of
        None \<Rightarrow> Inr (- ESRCH, s)
      | Some p \<Rightarrow>
          if pflags (tasks s p) AND PF_NO_SETAFFINITY \<noteq> 0 then Inr (- EINVAL, s)
          else if \<not> check_same_owner SE p s \<and> \<not> ns_capable_sys_nice SE (current s) p (ext s) then Inr (- EPERM, s)
          else
            let retval = security_task_setscheduler SE p (ext s) in
            if retval \<noteq> 0 then Inr (retval, s)
            else if \<not> alloc_cpumask (kern SE) 2 (ext s) then Inr (- ENOMEM, s)
            else bindr (setaffinity_ctx SE p
                          \<lparr>new_mask = in_mask, user_mask = Some in_mask, ac_flags = SCA_USER\<rparr> s)
                   (\<lambda>(r, _, s). Inr (r, s)))"

text \<open>The first \<open>len\<close> bytes of a mask hold the cpus below \<open>8 * len\<close>.\<close>

definition mask_bytes :: "int \<Rightarrow> cpumask \<Rightarrow> cpumask" where
  "mask_bytes len m = Set.filter (\<lambda>c. int c < 8 * len) m"

definition get_user_cpu_mask :: "'x senv \<Rightarrow> cpumask user_ptr \<Rightarrow> int \<Rightarrow> int + cpumask" where
  "get_user_cpu_mask SE u len =
     (let len = (if len > cpumask_size SE then cpumask_size SE else len)
      in case u of User_at m \<Rightarrow> Inr (mask_bytes len m) | _ \<Rightarrow> Inl (- EFAULT))"

definition sys_sched_setaffinity ::
    "'x senv \<Rightarrow> int \<Rightarrow> int \<Rightarrow> cpumask user_ptr \<Rightarrow> 'x kstate \<Rightarrow> (int \<times> 'x kstate) res" where
  "sys_sched_setaffinity SE pd len u s =
     (if \<not> alloc_cpumask (kern SE) 3 (ext s) then Inr (- ENOMEM, s)
      else case get_user_cpu_mask SE u len of
             Inl e \<Rightarrow> Inr (e, s)
           | Inr m \<Rightarrow> sched_setaffinity SE pd m s)"

definition sched_getaffinity :: "'x senv \<Rightarrow> int \<Rightarrow> 'x kstate \<Rightarrow> int + cpumask" where
  "sched_getaffinity SE pd s =
     (case find_process_by_pid SE pd s of
        None \<Rightarrow> Inl (- ESRCH)
      | Some p \<Rightarrow>
          let retval = security_task_getscheduler SE p (ext s)
          in if retval \<noteq> 0 then Inl retval else Inr (cpus_mask (tasks s p) \<inter> cpu_active_mask s))"

definition sys_sched_getaffinity ::
    "'x senv \<Rightarrow> int \<Rightarrow> int \<Rightarrow> cpumask user_ptr \<Rightarrow> 'x kstate \<Rightarrow> int \<times> cpumask user_ptr" where
  "sys_sched_getaffinity SE pd len u s =
     (if u32 (len * 8) < int (nr_cpu_ids s) then (- EINVAL, u)
      else if len mod 8 \<noteq> 0 then (- EINVAL, u)
      else if \<not> alloc_cpumask (kern SE) 3 (ext s) then (- ENOMEM, u)
      else case sched_getaffinity SE pd s of
             Inl e \<Rightarrow> (e, u)
           | Inr m \<Rightarrow>
               let retlen = min len (cpumask_size SE)
               in case put_user (mask_bytes retlen m) u of
                    (r, u) \<Rightarrow> if r \<noteq> 0 then (- EFAULT, u) else (retlen, u))"

section \<open>Yielding\<close>

definition do_sched_yield :: "'x senv \<Rightarrow> nat \<Rightarrow> 'x kstate \<Rightarrow> 'x kstate option res" where
  "do_sched_yield SE n s =
     bindr (call (op_yield_task (ops_of (kern SE) (current s) s)) (\<lambda>f. f (this_cpu s) s))
       (\<lambda>s. schedule (kern SE) n s)"

definition yield :: "'x senv \<Rightarrow> nat \<Rightarrow> 'x kstate \<Rightarrow> 'x kstate option res" where
  "yield SE n s = do_sched_yield SE n (upd_task (current s) (\<lambda>v. v\<lparr>tstate := TASK_RUNNING\<rparr>) s)"

definition yield_to :: "'x senv \<Rightarrow> nat \<Rightarrow> tid \<Rightarrow> bool \<Rightarrow> 'x kstate \<Rightarrow> (int \<times> 'x kstate) option res" where
  "yield_to SE n p preempt s =
     (let E = kern SE; c = this_cpu s; d = task_cpu (tasks s p); cur = current s in
      if nr_running (rqs s c) = 1 \<and> nr_running (rqs s d) = 1 then Inr (Some (- ESRCH, s))
      else case op_yield_to_task (ops_of E cur s) of
             None \<Rightarrow> Inr (Some (0, s))
           | Some f \<Rightarrow>
               if sched_class (tasks s cur) \<noteq> sched_class (tasks s p) then Inr (Some (0, s))
               else if task_on_cpu p s \<or> tstate (tasks s p) \<noteq> TASK_RUNNING then Inr (Some (0, s))
               else bindr (f c p s) (\<lambda>(yielded, s).
                 let s = (if yielded \<and> preempt \<and> c \<noteq> d then resched_curr d s else s)
                 in if yielded then bindr (schedule E n s) (\<lambda>r. Inr (map_option (\<lambda>s. (1, s)) r))
                    else Inr (Some (0, s))))"

section \<open>Priority ranges and the round-robin interval\<close>

definition sys_sched_get_priority_max :: "int \<Rightarrow> int" where
  "sys_sched_get_priority_max pol =
     (if pol = SCHED_FIFO \<or> pol = SCHED_RR then MAX_RT_PRIO - 1
      else if pol = SCHED_DEADLINE \<or> pol = SCHED_NORMAL \<or> pol = SCHED_BATCH \<or> pol = SCHED_IDLE \<or>
              pol = SCHED_EXT then 0
      else - EINVAL)"

definition sys_sched_get_priority_min :: "int \<Rightarrow> int" where
  "sys_sched_get_priority_min pol =
     (if pol = SCHED_FIFO \<or> pol = SCHED_RR then 1
      else if pol = SCHED_DEADLINE \<or> pol = SCHED_NORMAL \<or> pol = SCHED_BATCH \<or> pol = SCHED_IDLE \<or>
              pol = SCHED_EXT then 0
      else - EINVAL)"

definition sched_rr_get_interval :: "'x senv \<Rightarrow> int \<Rightarrow> 'x kstate \<Rightarrow> (int + timespec64) res" where
  "sched_rr_get_interval SE pd s =
     (if pd < 0 then Inr (Inl (- EINVAL))
      else case find_process_by_pid SE pd s of
             None \<Rightarrow> Inr (Inl (- ESRCH))
           | Some p \<Rightarrow>
               let retval = security_task_getscheduler SE p (ext s)
               in if retval \<noteq> 0 then Inr (Inl retval)
                  else bindr (case op_get_rr_interval (ops_of (kern SE) p s) of
                                None \<Rightarrow> Inr 0
                              | Some f \<Rightarrow> f (task_cpu (tasks s p)) p s)
                         (\<lambda>time_slice. Inr (Inr (jiffies_to_timespec64 SE time_slice))))"

definition sys_sched_rr_get_interval ::
    "'x senv \<Rightarrow> int \<Rightarrow> timespec64 user_ptr \<Rightarrow> 'x kstate \<Rightarrow> (int \<times> timespec64 user_ptr) res" where
  "sys_sched_rr_get_interval SE pd interval s =
     bindr (sched_rr_get_interval SE pd s)
       (\<lambda>r. Inr (case r of Inl e \<Rightarrow> (e, interval) | Inr t \<Rightarrow> put_user t interval))"

end
