(* ===== verification/Hvf_Syscalls.thy ===== *)
theory Hvf_Syscalls
  imports Hvf_Value
begin

text \<open>
  The system calls of \<^verbatim>\<open>my_sched_syscalls/sched_sys.c\<close>, which set and report the deadlines and the
  computation time of the calling task, and the end of \<open>copy_process\<close>, which clears them in a child.
\<close>

section \<open>The calls\<close>

definition set_scheduling_params :: "int \<Rightarrow> int \<Rightarrow> int \<Rightarrow> 'x kstate \<Rightarrow> int \<times> 'x kstate" where
  "set_scheduling_params d1 d2 ctime s =
     (let condition_1 = (d1 > 0 \<and> d2 > 0 \<and> d1 < d2);
          (now, s) = ktime_get_real_ts64 s;
          condition_2 = (s64 (s64 (tv_sec now * 1000) + ctime) < s64 (d2 * 1000))
      in if condition_1 \<and> condition_2 then
           (0, upd_task (current s)
                 (\<lambda>v. v\<lparr>deadline_1 := d1, deadline_2 := d2, computation_time := ctime, pars_set := True\<rparr>) s)
         else (- EINVAL, s))"

record d_params =
  dp_deadline_1 :: int
  dp_deadline_2 :: int
  dp_computation_time :: int

text \<open>
  The destination is the structure at \<open>params\<close>; \<open>valid\<close> says that the pointer is not null and passes
  \<open>access_ok\<close>, and \<open>ok i\<close> that copying to its field \<open>i\<close> succeeds. A copy that fails leaves the earlier
  fields written.
\<close>

definition get_scheduling_params ::
    "bool \<Rightarrow> (nat \<Rightarrow> bool) \<Rightarrow> d_params \<Rightarrow> 'x kstate \<Rightarrow> int \<times> d_params" where
  "get_scheduling_params valid ok params s =
     (let t = tasks s (current s) in
      if valid then
        if \<not> ok 0 then (- EFAULT, params)
        else
          let params = params\<lparr>dp_deadline_1 := deadline_1 t\<rparr> in
          if \<not> ok 1 then (- EFAULT, params)
          else
            let params = params\<lparr>dp_deadline_2 := deadline_2 t\<rparr> in
            if \<not> ok 2 then (- EFAULT, params)
            else (0, params\<lparr>dp_computation_time := computation_time t\<rparr>)
      else (- EINVAL, params))"

definition get_scheduling_score :: "'x kstate \<Rightarrow> (int \<times> 'x kstate) res" where
  "get_scheduling_score s =
     (let (now, s) = ktime_get_real_ts64 s;
          D1 = deadline_1 (tasks s (current s));
          D2 = deadline_2 (tasks s (current s));
          D3 = tv_sec now
      in if D3 < D1 then Inr (100, s)
         else if D2 < D3 then Inr (0, s)
         else bindr (cdiv (s64 (s64 (D2 - D3) * 100)) (s64 (D2 - D1))) (\<lambda>v. Inr (v, s)))"

text \<open>The parameters of a new task, at the end of \<open>copy_process\<close>.\<close>

definition copy_process_params :: "tid \<Rightarrow> 'x kstate \<Rightarrow> 'x kstate" where
  "copy_process_params p s =
     upd_task p (\<lambda>v. v\<lparr>deadline_1 := 0, deadline_2 := 0, computation_time := 0, pars_set := False\<rparr>) s"

section \<open>What they report\<close>

text \<open>
  The wall clock reads seconds of the present era, and the arguments are far from the limits of
  \<open>long\<close>, so that no product wraps.
\<close>

definition now_ok :: "'x kstate \<Rightarrow> bool" where
  "now_ok s \<longleftrightarrow> 0 \<le> tv_sec (rt_clock s (rt_reads s)) \<and> tv_sec (rt_clock s (rt_reads s)) < 2 ^ 52"

definition deadlines_ok :: "task_struct \<Rightarrow> bool" where
  "deadlines_ok t \<longleftrightarrow> 0 < deadline_1 t \<and> deadline_1 t < deadline_2 t \<and> deadline_2 t < 2 ^ 52"

lemma no_wrap_1000:
  assumes "0 \<le> x" "x < 2 ^ 52"
  shows "s64 (x * 1000) = x * 1000"
  using assms by (intro s64_id) simp_all

lemma set_scheduling_params_iff:
  assumes "now_ok s" "d2 < 2 ^ 52" "- (2 ^ 62) \<le> ct" "ct < 2 ^ 62"
  shows "fst (set_scheduling_params d1 d2 ct s) = 0 \<longleftrightarrow>
    0 < d1 \<and> d1 < d2 \<and> tv_sec (rt_clock s (rt_reads s)) * 1000 + ct < d2 * 1000"
proof (cases "0 < d1 \<and> d1 < d2")
  case True
  let ?n = "tv_sec (rt_clock s (rt_reads s))"
  have "s64 (?n * 1000) = ?n * 1000" "s64 (d2 * 1000) = d2 * 1000"
    using assms True by (simp_all add: now_ok_def no_wrap_1000)
  moreover have "s64 (?n * 1000 + ct) = ?n * 1000 + ct"
    using assms by (intro s64_id) (simp_all add: now_ok_def)
  ultimately show ?thesis using True by (simp add: set_scheduling_params_def ktime_get_real_ts64_def)
next
  case False
  then show ?thesis by (auto simp: set_scheduling_params_def ktime_get_real_ts64_def Let_def)
qed

lemma set_scheduling_params_task:
  assumes "set_scheduling_params d1 d2 ct s = (0, s')"
  shows "tasks s' (current s) = (tasks s (current s))\<lparr>deadline_1 := d1, deadline_2 := d2,
           computation_time := ct, pars_set := True\<rparr>"
    and "current s' = current s" "0 < d1" "d1 < d2"
  using assms by (auto simp: set_scheduling_params_def ktime_get_real_ts64_def Let_def split: if_splits)

text \<open>The score as a rational number, rounded down.\<close>

definition ideal_score :: "int \<Rightarrow> int \<Rightarrow> int \<Rightarrow> int" where
  "ideal_score d1 d2 now = (if now < d1 then 100 else if d2 < now then 0 else (d2 - now) * 100 div (d2 - d1))"

lemma get_scheduling_score_eq:
  assumes "now_ok s" "deadlines_ok (tasks s (current s))"
  shows "get_scheduling_score s =
    Inr (ideal_score (deadline_1 (tasks s (current s))) (deadline_2 (tasks s (current s)))
           (tv_sec (rt_clock s (rt_reads s))), s\<lparr>rt_reads := Suc (rt_reads s)\<rparr>)"
proof -
  let ?d1 = "deadline_1 (tasks s (current s))" and ?d2 = "deadline_2 (tasks s (current s))"
  let ?n = "tv_sec (rt_clock s (rt_reads s))"
  have "cdiv (s64 (s64 (?d2 - ?n) * 100)) (s64 (?d2 - ?d1)) = Inr ((?d2 - ?n) * 100 div (?d2 - ?d1))"
    if "?d1 \<le> ?n" "?n \<le> ?d2"
  proof -
    have "s64 (?d2 - ?n) = ?d2 - ?n" "s64 (?d2 - ?d1) = ?d2 - ?d1"
      using assms by (simp_all add: now_ok_def deadlines_ok_def s64_id)
    moreover have "s64 ((?d2 - ?n) * 100) = (?d2 - ?n) * 100"
      using assms that by (intro s64_id) (simp_all add: now_ok_def deadlines_ok_def)
    ultimately show ?thesis using assms that by (simp add: cdiv_nonneg deadlines_ok_def)
  qed
  then show ?thesis
    by (simp add: get_scheduling_score_def ktime_get_real_ts64_def ideal_score_def Let_def)
qed

lemma ideal_score_range:
  assumes "d1 < d2"
  shows "0 \<le> ideal_score d1 d2 t \<and> ideal_score d1 d2 t \<le> 100"
proof -
  have "(d2 - t) * 100 div (d2 - d1) \<le> 100" if "d1 \<le> t"
  proof -
    have "(d2 - t) * 100 \<le> 100 * (d2 - d1)" using that by simp
    then have "(d2 - t) * 100 div (d2 - d1) \<le> 100 * (d2 - d1) div (d2 - d1)"
      by (rule zdiv_mono1) (use assms in simp)
    also have "\<dots> = 100" using assms by (intro nonzero_mult_div_cancel_right) simp
    finally show ?thesis .
  qed
  moreover have "0 \<le> (d2 - t) * 100 div (d2 - d1)" if "t \<le> d2"
    using that assms by (simp add: pos_imp_zdiv_nonneg_iff)
  ultimately show ?thesis by (simp add: ideal_score_def)
qed

lemma ideal_score_antimono:
  assumes "d1 < d2" "t \<le> u"
  shows "ideal_score d1 d2 u \<le> ideal_score d1 d2 t"
proof -
  have "ideal_score d1 d2 u \<le> 100" "0 \<le> ideal_score d1 d2 t"
    using ideal_score_range [OF assms(1)] by blast+
  moreover have "(d2 - u) * 100 div (d2 - d1) \<le> (d2 - t) * 100 div (d2 - d1)"
    using assms by (intro zdiv_mono1) simp_all
  ultimately show ?thesis using assms(2) by (auto simp: ideal_score_def)
qed

end
