(* ===== verification/Sample_Env.thy ===== *)
theory Sample_Env
  imports Sample_Machine Sched_Calls Hvf_Syscalls
begin

text \<open>
  A concrete environment around the machine of the sample: the other scheduling classes keep no queue,
  the library functions are reference implementations of their documented behaviour, and
  the accounting does nothing. It shows that the hypotheses on the environment can hold together.
\<close>

section \<open>Library functions\<close>

fun ins_cmp :: "('a \<Rightarrow> 'a \<Rightarrow> int) \<Rightarrow> 'a \<Rightarrow> 'a list \<Rightarrow> 'a list" where
  "ins_cmp cmp x [] = [x]"
| "ins_cmp cmp x (y # ys) = (if cmp x y \<le> 0 then x # y # ys else y # ins_cmp cmp x ys)"

definition ref_sort :: sort_lib where
  "ref_sort n cmp swp xs = foldr (ins_cmp cmp) xs []"

lemma ins_cmp_mset [simp]: "mset (ins_cmp cmp x ys) = add_mset x (mset ys)"
  by (induction ys) simp_all

lemma ins_cmp_set [simp]: "set (ins_cmp cmp x ys) = insert x (set ys)"
  by (induction ys) auto

lemma ins_cmp_sorted:
  assumes "\<And>a b. cmp a b \<le> 0 \<or> cmp b a \<le> 0" "\<And>a b c. cmp a b \<le> 0 \<Longrightarrow> cmp b c \<le> 0 \<Longrightarrow> cmp a c \<le> (0 :: int)"
    and "sorted_wrt (\<lambda>a b. cmp a b \<le> 0) ys"
  shows "sorted_wrt (\<lambda>a b. cmp a b \<le> 0) (ins_cmp cmp x ys)"
  using assms(3)
proof (induction ys)
  case (Cons y ys)
  show ?case
  proof (cases "cmp x y \<le> 0")
    case True
    then show ?thesis using Cons.prems assms(2) by auto
  next
    case False
    then have "cmp y x \<le> 0" using assms(1) by blast
    then show ?thesis using False Cons by simp
  qed
qed simp

lemma ref_sort_ok: "sort_ok ref_sort"
proof -
  have "mset (foldr (ins_cmp cmp) xs []) = mset xs" for cmp :: "cpu_load \<Rightarrow> cpu_load \<Rightarrow> int" and xs
    by (induction xs) simp_all
  moreover have "sorted_wrt (\<lambda>a b. cmp a b \<le> 0) (foldr (ins_cmp cmp) xs [])"
    if "\<And>a b. cmp a b \<le> 0 \<or> cmp b a \<le> 0" "\<And>a b c. cmp a b \<le> 0 \<Longrightarrow> cmp b c \<le> 0 \<Longrightarrow> cmp a c \<le> 0"
    for cmp :: "cpu_load \<Rightarrow> cpu_load \<Rightarrow> int" and xs
    by (induction xs) (simp_all add: ins_cmp_sorted [OF that])
  ultimately show ?thesis unfolding sort_ok_def ref_sort_def by blast
qed

definition ref_alloc :: "nat \<Rightarrow> cpu_load list option" where
  "ref_alloc n = Some (replicate n \<lparr>cpu_num = 0, ld_running = 0\<rparr>)"

definition ref_rb_add :: "(tid \<Rightarrow> tid \<Rightarrow> bool) \<Rightarrow> tid \<Rightarrow> tid tree \<Rightarrow> tid tree" where
  "ref_rb_add lt x t =
     spine (takeWhile (\<lambda>y. \<not> lt x y) (inorder t) @ x # dropWhile (\<lambda>y. \<not> lt x y) (inorder t))"

section \<open>The environment\<close>

definition plain_ops :: "unit kstate sched_class_ops" where
  "plain_ops = \<lparr>
     uclamp_enabled = True,
     op_enqueue_task = Some (\<lambda>c p fl s. Inr s),
     op_dequeue_task = Some (\<lambda>c p fl s. Inr (True, s)),
     op_yield_task = Some (\<lambda>c s. Inr s),
     op_yield_to_task = Some (\<lambda>c p s. Inr (False, s)),
     op_wakeup_preempt = Some (\<lambda>c p fl s. Inr (resched_curr c s)),
     op_balance = Some (\<lambda>c prev s. Inr (False, s)),
     op_pick_task = Some (\<lambda>c s. Inr (None, s)),
     op_pick_next_task = None,
     op_put_prev_task = Some (\<lambda>c p n s. Inr s),
     op_set_next_task = Some (\<lambda>c p first s. Inr s),
     op_select_task_rq = Some (\<lambda>p prev fl s. Inr (prev, s)),
     op_migrate_task_rq = None,
     op_task_woken = None,
     op_set_cpus_allowed = Some (\<lambda>p ctx s. Inr (upd_task p (set_cpus_allowed_common ctx) s)),
     op_find_lock_rq = None,
     op_rq_online = None,
     op_rq_offline = None,
     op_task_tick = Some (\<lambda>c p queued s. Inr s),
     op_task_fork = None,
     op_task_dead = None,
     op_switching_to = None,
     op_switched_from = None,
     op_switched_to = Some (\<lambda>c p s. Inr s),
     op_reweight_task = None,
     op_prio_changed = Some (\<lambda>c p old s. Inr s),
     op_get_rr_interval = Some (\<lambda>c p s. Inr 100),
     op_update_curr = Some (\<lambda>c s. Inr s),
     op_task_change_group = None,
     op_task_is_throttled = None\<rparr>"

definition idle_ops :: "unit kstate sched_class_ops" where
  "idle_ops = plain_ops\<lparr>op_pick_task := Some (\<lambda>c s. Inr (Some (rq_idle (rqs s c)), s))\<rparr>"

definition env0 :: "unit kenv" where
  "env0 = \<lparr>
     env_lib = ref_lib, tick_nsec = 1000000, env_sort = ref_sort, env_alloc = ref_alloc,
     other_class = (\<lambda>k. if k = Idle then idle_ops else plain_ops),
     sched_clock_cpu = (\<lambda>c x. 0), update_rq_clock_pelt = (\<lambda>c d x. x),
     psi_enqueue = (\<lambda>p fl x. x), psi_dequeue = (\<lambda>p fl x. x),
     sched_info_enqueue = (\<lambda>c p x. x), sched_info_dequeue = (\<lambda>c p x. x),
     rb_add = ref_rb_add,
     rb_find_first = (\<lambda>cmp t. find (\<lambda>p. cmp p = 0) (inorder t)),
     cfs_prio_less = (\<lambda>s a b fi. False), dl_time_before = (\<lambda>a b. s64 (a - b) < 0),
     delayacct_blkio_start = (\<lambda>x. x), delayacct_blkio_end = (\<lambda>p x. x),
     signal_pending_state = (\<lambda>st p x. False),
     pick_next_task_fair = (\<lambda>c prev s. Inr (Fair_picked None, s)),
     pick_task_idle = (\<lambda>c s. (rq_idle (rqs s c), s)),
     task_vruntime_update = (\<lambda>c p b x. x), sched_core_account_forceidle = (\<lambda>c x. x),
     schedstat_enabled = False, domain_spans = (\<lambda>c x. [{0, 1}]),
     psi_account_irqtime = (\<lambda>c p n x. x), psi_sched_switch = (\<lambda>p n b x. x),
     prepare_switch_accounts = (\<lambda>c p n x. x), enter_lazy_tlb = (\<lambda>m n x. x),
     mmgrab_lazy_tlb = (\<lambda>m x. x), mmdrop_lazy_tlb = (\<lambda>m x. x), membarrier_state = (\<lambda>m x. 0),
     switch_mm_irqs_off = (\<lambda>a m n x. x), jiffies = (\<lambda>x. 0), msecs_to_jiffies = (\<lambda>n. n),
     rseq_set_notify_resume = (\<lambda>p x. x),
     worker_sleeping = (\<lambda>p s. s), io_worker_sleeping = (\<lambda>p s. s), worker_running = (\<lambda>p s. s),
     io_worker_running = (\<lambda>p s. s), blk_flush_plug = (\<lambda>p s. s), blk_plug_invalidate_ts = (\<lambda>p x. x),
     put_dead_task = (\<lambda>p x. x), tick_accounting = (\<lambda>c p x. x),
     class_callback = (\<lambda>i c s. Inr s), rcuwait_active = (\<lambda>c x. False), rcuwait_wake_up = (\<lambda>c s. Inr s),
     preempt_lazy = False, sched_rr_timeslice = 100, sched_base_slice = 2800000,
     init_dl_entity = (\<lambda>p d. d), fork_accounts = (\<lambda>p x. x), task_cpu_possible = (\<lambda>c p. True),
     kthread_is_per_cpu = (\<lambda>p. False), cpu_dying = (\<lambda>c x. False), node_cpus = (\<lambda>c. Some {0, 1}),
     cpuset_cpus_allowed_fallback = (\<lambda>p s. (False, s)), task_cpu_fallback_mask = (\<lambda>p. {0, 1}),
     cpumask_any = (\<lambda>m x. Min m), cpumask_any_distribute = (\<lambda>m x. Min m),
     wait_pending_refs = (\<lambda>i s. Inr s), sd_llc_id = (\<lambda>c. 0), ttwu_queue_feat = True,
     psi_ttwu_dequeue = (\<lambda>p x. x), migrate_accounts = (\<lambda>p x. x),
     cpuset_cpus_allowed = (\<lambda>p x. {0, 1}), task_cpu_possible_mask = (\<lambda>p. {0, 1}),
     sysctl_sched_rt_runtime = 950000, alloc_cpumask = (\<lambda>i x. True),
     wait_for_completion = (\<lambda>i s. Inr s), stop_one_cpu = (\<lambda>c w s. Inr s),
     get_task_struct = (\<lambda>p x. x), put_task_struct = (\<lambda>p x. x), cpu_smt_mask = (\<lambda>c. {c}),
     set_task_rq_fair = (\<lambda>p c x. x), task_css_tg = (\<lambda>p x. 0), fork_css_tg = (\<lambda>p x. 0),
     autogroup_task_group = (\<lambda>p g x. g),
     mm_set_cpus_allowed = (\<lambda>m v. v\<lparr>mm_nr_cpus_allowed := max (mm_nr_cpus_allowed v) (card m)\<rparr>)\<rparr>"

definition senv0 :: "unit senv" where
  "senv0 = \<lparr>
     kern = env0, rlimit_nice = (\<lambda>p x. 0), rlimit_rtprio = (\<lambda>p x. 0),
     capable_sys_nice = (\<lambda>p x. p = 1), ns_capable_sys_nice = (\<lambda>c p x. c = 1),
     euid_of = (\<lambda>p x. 1000), uid_of = (\<lambda>p x. 1000),
     security_task_setnice = (\<lambda>p n x. 0), security_task_setscheduler = (\<lambda>p x. 0),
     security_task_getscheduler = (\<lambda>p x. 0), checkparam_dl = (\<lambda>a. 0 < sa_runtime a),
     setparam_dl = (\<lambda>a v. v\<lparr>rt_priority := sa_priority a\<rparr>), getparam_dl = (\<lambda>v a. a),
     setparam_fair = (\<lambda>a v. v\<lparr>static_prio := NICE_TO_PRIO (sa_nice a)\<rparr>),
     dl_param_changed = (\<lambda>v a. True), sched_dl_overflow = (\<lambda>p pol a x. (False, x)),
     rd_span = (\<lambda>c x. {0, 1}), rd_dl_bw_zero = (\<lambda>c x. False),
     rt_mutex_adjust_pi = (\<lambda>p s. s),
     find_task_by_vpid = (\<lambda>n x. if 0 < n \<and> n < 10 then Some (nat n) else None),
     vcpu_is_preempted = (\<lambda>c x. False), copy_struct_from_user = (\<lambda>u n. Inr u),
     copy_struct_to_user = (\<lambda>n k. Inr k), cpumask_size = 8,
     jiffies_to_timespec64 = (\<lambda>j. \<lparr>tv_sec = j div 1000, tv_nsec = j mod 1000 * 1000000\<rparr>)\<rparr>"

lemma env0_core_lib_ok: "core_lib_ok env0"
proof -
  have "\<exists>xs ys. inorder t = xs @ ys \<and> inorder (ref_rb_add lt x t) = xs @ x # ys \<and>
      (xs \<noteq> [] \<longrightarrow> \<not> lt x (last xs)) \<and> (ys \<noteq> [] \<longrightarrow> lt x (hd ys))" for lt x t
  proof (intro exI conjI impI)
    let ?P = "\<lambda>y. \<not> lt x y"
    show "inorder t = takeWhile ?P (inorder t) @ dropWhile ?P (inorder t)" by simp
    show "inorder (ref_rb_add lt x t) = takeWhile ?P (inorder t) @ x # dropWhile ?P (inorder t)"
      by (simp add: ref_rb_add_def)
    show "takeWhile ?P (inorder t) \<noteq> [] \<Longrightarrow> \<not> lt x (last (takeWhile ?P (inorder t)))"
      using set_takeWhileD [of _ ?P "inorder t"] last_in_set by blast
    show "dropWhile ?P (inorder t) \<noteq> [] \<Longrightarrow> lt x (hd (dropWhile ?P (inorder t)))"
      using hd_dropWhile [of ?P "inorder t"] by blast
  qed
  then show ?thesis by (simp add: core_lib_ok_def env0_def ref_lib_ok)
qed

end
