(* ===== verification/Hvf_Theorems.thy ===== *)
theory Hvf_Theorems
  imports Sample_Env
begin

text \<open>
  The properties of the HVF values, queue and cpu selection and of the system calls that feed them,
  each with a witness on the sample machine.
\<close>

section \<open>Values\<close>



text \<open>
  Of two tasks with the same deadlines, the one that expects to complete later does not get the
  higher value.
\<close>

theorem compute_value_antimono:
  assumes "hvf_params_ok p" "hvf_times_ok p" "hvf_times_ok r"
    and "deadline_1 r = deadline_1 p" "deadline_2 r = deadline_2 p"
    and "first_time (hvf p) + computation_time p \<le> first_time (hvf r) + computation_time r"
    and "compute_init_sched_value p = Inr (V, p')" "compute_init_sched_value r = Inr (W, r')"
  shows "W \<le> V"
proof -
  have "hvf_params_ok r" using assms(1,4,5) by (simp add: hvf_params_ok_def)
  then have "V = ideal_value (deadline_1 p) (deadline_2 p) (first_time (hvf p) + computation_time p)"
    "W = ideal_value (deadline_1 p) (deadline_2 p) (first_time (hvf r) + computation_time r)"
    using assms compute_init_sched_value_ideal [of p] compute_init_sched_value_ideal [of r]
    by (simp_all add: Let_def)
  then show ?thesis
    using assms(1,6) ideal_value_antimono by (simp add: hvf_params_ok_def)
qed

theorem compute_value_antimono_witness:
  "\<exists>V p' W r'. compute_init_sched_value ((tasks demo0 2)\<lparr>computation_time := 1700000003000\<rparr>) = Inr (V, p') \<and>
     compute_init_sched_value ((tasks demo0 2)\<lparr>computation_time := 1700000008000\<rparr>) = Inr (W, r') \<and> W \<le> V"
proof -
  let ?p = "(tasks demo0 2)\<lparr>computation_time := 1700000003000\<rparr>"
  let ?r = "(tasks demo0 2)\<lparr>computation_time := 1700000008000\<rparr>"
  have h: "hvf_params_ok ?p" "hvf_times_ok ?p" "hvf_times_ok ?r" "deadline_1 ?r = deadline_1 ?p"
      "deadline_2 ?r = deadline_2 ?p"
      "first_time (hvf ?p) + computation_time ?p \<le> first_time (hvf ?r) + computation_time ?r"
    by (simp_all add: hvf_params_ok_def hvf_times_ok_def demo0_def sample_defs)
  have "hvf_params_ok ?r" by (simp add: hvf_params_ok_def demo0_def sample_defs)
  then obtain V p' W r' where c: "compute_init_sched_value ?p = Inr (V, p')"
      "compute_init_sched_value ?r = Inr (W, r')"
    using compute_init_sched_value_ideal [of ?p] compute_init_sched_value_ideal [of ?r] h
    by (simp add: Let_def)
  from compute_value_antimono [OF h c] c show ?thesis by blast
qed

text \<open>
  A time slice lies between 10 and 1000 milliseconds for every value and grows with the value;
  on the values the class assigns, \<open>0..100\<close>, it never exceeds 109 milliseconds.
\<close>

theorem time_slice_bounds:
  "10 \<le> time_slice v \<and> time_slice v \<le> 1000 \<and> (v \<le> w \<longrightarrow> time_slice v \<le> time_slice w) \<and>
   (v \<le> 100 \<longrightarrow> time_slice v \<le> 109)"
proof -
  have "time_slice v \<le> time_slice 1000" if "v \<le> 1000" using that by (rule time_slice_mono)
  moreover have "time_slice v = time_slice 1000" if "1000 \<le> v" using that by (simp add: time_slice_eq)
  moreover have "time_slice 1 \<le> time_slice v"
    using time_slice_mono [of 1 v] by (cases "1 \<le> v") (simp_all add: time_slice_eq)
  moreover have "v \<le> 100 \<Longrightarrow> time_slice v \<le> time_slice 100" by (rule time_slice_mono)
  ultimately show ?thesis
    using time_slice_mono [of v w] by (auto simp: time_slice_eq)
qed

theorem time_slice_bounds_witness: "time_slice 20 \<le> time_slice 100 \<and> time_slice 100 \<le> 109"
  using time_slice_bounds [of 20 100] time_slice_bounds [of 100 100] by simp

text \<open>
  Decay and penalty keep a value of \<open>0..100\<close> in \<open>0..100\<close> (uses below \<open>2^56\<close> milliseconds, overruns
  up to 303700049 milliseconds) and never raise it, with one exception: a value of zero
  becomes 10.
\<close>

theorem decay_and_penalty_range:
  assumes "0 \<le> curr_sched_value e" "curr_sched_value e \<le> 100" "0 \<le> time_used e" "time_used e < 2 ^ 56"
    and "0 \<le> time_used e - ctime" "time_used e - ctime \<le> 303700049"
  shows "\<forall>v \<in> {fst (reduce_sched_value e), fst (penalty_hvf_entity e ctime)}. 0 \<le> v \<and> v \<le> 100 \<and>
     (if curr_sched_value e = 0 then v = 10 else v \<le> curr_sched_value e)"
proof -
  have z: "s64 0 = 0" "s64 10 = 10" by (simp_all add: s64_id)
  have "fst (reduce_sched_value e) = 10" "fst (penalty_hvf_entity e ctime) = 10" if "curr_sched_value e = 0"
    using that by (simp_all add: reduce_sched_value_def penalty_hvf_entity_def Let_def z)
  moreover note reduce_sched_value_range [OF assms(1-4)] penalty_hvf_entity_range [OF assms(1,2,5,6)]
  ultimately show ?thesis by simp
qed

theorem decay_and_penalty_range_witness:
  "0 \<le> fst (reduce_sched_value (hvf0\<lparr>curr_sched_value := 80, time_used := 50\<rparr>)) \<and>
   fst (penalty_hvf_entity (hvf0\<lparr>curr_sched_value := 80, time_used := 50\<rparr>) 48) \<le> 80"
  using decay_and_penalty_range [of "hvf0\<lparr>curr_sched_value := 80, time_used := 50\<rparr>" 48] by simp


section \<open>The queue\<close>

lemma remove1_ins_by: "x \<notin> set xs \<Longrightarrow> remove1 x (ins_by v x xs) = xs"
  by (induction xs) auto

text \<open>
  C5. Taking out an entity that has just been enqueued gives back the queue: the same order, the same
  cached maximum and the same count; the entity itself is off the queue.
\<close>

theorem enqueue_dequeue_round_trip:
  assumes "rb_lib_ok L" "hvf_inv ts q" "can_enq ts q x"
  shows "\<exists>q' ts'. dequeue_hvf_entity L x (enqueue_hvf_entity L x (q, ts)) = (True, (q', ts')) \<and>
    queue q' = queue q \<and> max_value_entity q' = max_value_entity q \<and> nr_hvf_queued q' = nr_hvf_queued q \<and>
    hvf_inv ts' q' \<and> \<not> hvf_on_rq (hvf (ts' x))"
proof -
  define ts1 where "ts1 = ts(x := (ts x)\<lparr>hvf := (enq_entity (ts x))\<lparr>hvf_on_rq := True\<rparr>\<rparr>)"
  obtain q1 where 1: "enqueue_hvf_entity L x (q, ts) = (q1, ts1)"
      "queue q1 = ins_by (val (ts(x := (ts x)\<lparr>hvf := enq_entity (ts x)\<rparr>))) x (queue q)" "hvf_inv ts1 q1"
    unfolding ts1_def by (rule enqueue_hvf_entity_eq [OF assms])
  then have "x \<in> set (queue q1)" by simp
  from assms(1) 1(3) this obtain q' where
    2: "dequeue_hvf_entity L x (q1, ts1) =
          (True, q', ts1(x := (ts1 x)\<lparr>hvf := (hvf (ts1 x))\<lparr>hvf_on_rq := False\<rparr>\<rparr>))"
       "queue q' = remove1 x (queue q1)"
       "hvf_inv (ts1(x := (ts1 x)\<lparr>hvf := (hvf (ts1 x))\<lparr>hvf_on_rq := False\<rparr>\<rparr>)) q'"
    by (rule dequeue_hvf_entity_eq)
  have q: "queue q' = queue q"
    using 1(2) 2(2) assms(3) by (simp add: remove1_ins_by can_enq_def)
  have "max_value_entity q' = max_value_entity q" "nr_hvf_queued q' = nr_hvf_queued q"
    unfolding hvf_invD(5,6) [OF assms(2)] hvf_invD(5,6) [OF 2(3)] q by (rule refl)+
  then show ?thesis using q 2(1,3) by (intro exI conjI) (simp_all only: 1(1), simp)
qed

definition empty_hvf :: hvf_rq where
  "empty_hvf = \<lparr>hvf_task_queue = Leaf, max_value_entity = None, hvf_curr = None, nr_hvf_queued = 0\<rparr>"

lemma empty_hvf_inv: "hvf_inv ts empty_hvf"
  using hvf_inv_init [of ts empty_hvf] by (simp add: empty_hvf_def init_hvf_rq_def)

lemma empty_hvf_can: "can_enq (tasks demo0) empty_hvf 2"
  by (simp add: can_enq_def empty_hvf_def queue_def enq_entity_def exceeded_time_def demo0_def sample_defs
    value_ok_def)

theorem enqueue_dequeue_round_trip_witness:
  "\<exists>q' ts'. dequeue_hvf_entity ref_lib 2 (enqueue_hvf_entity ref_lib 2 (empty_hvf, tasks demo0)) =
     (True, (q', ts')) \<and> queue q' = [] \<and> nr_hvf_queued q' = 0"
  using enqueue_dequeue_round_trip [OF ref_lib_ok empty_hvf_inv empty_hvf_can]
  by (auto simp: empty_hvf_def queue_def)

text \<open>
  A newly enqueued entity is the next to be picked exactly if its value, after the penalty for an
  overrun, is strictly above every queued value: among equal values the older entity wins.
\<close>

theorem enqueue_overtakes_iff:
  assumes "rb_lib_ok L" "hvf_inv ts q" "can_enq ts q x"
  shows "pick_entity_hvf (fst (enqueue_hvf_entity L x (q, ts))) = Some x \<longleftrightarrow>
    (\<forall>y \<in> set (queue q). val ts y < curr_sched_value (enq_entity (ts x)))"
proof -
  obtain q1 where "enqueue_hvf_entity L x (q, ts) =
      (q1, ts(x := (ts x)\<lparr>hvf := (enq_entity (ts x))\<lparr>hvf_on_rq := True\<rparr>\<rparr>))"
    by (rule enqueue_hvf_entity_eq [OF assms])
  then have "hvf_key (hvf_enq x (L, q, ts)) x = curr_sched_value (enq_entity (ts x))"
    by (simp add: hvf_prov_defs)
  then show ?thesis
    using hq.enq_picks_new [of "(L, q, ts)" x] assms
    by (simp add: hvf_prov_defs split_beta)
qed

theorem enqueue_overtakes_iff_witness:
  "pick_entity_hvf (fst (enqueue_hvf_entity ref_lib 2 (empty_hvf, tasks demo0))) = Some 2"
  using enqueue_overtakes_iff [OF ref_lib_ok empty_hvf_inv empty_hvf_can]
  by (simp add: empty_hvf_def queue_def)

text \<open>
  C7. Serving a queue to the end, picking the cached maximum and dequeueing it each time, serves every
  queued entity exactly once, in the order of non-increasing value.
\<close>

theorem serve_by_value:
  assumes "rb_lib_ok L" "hvf_inv ts q"
  shows "distinct (serve hvf_pick hvf_deq (length (queue q)) (L, q, ts)) \<and>
    set (serve hvf_pick hvf_deq (length (queue q)) (L, q, ts)) = set (queue q) \<and>
    sorted_wrt (\<lambda>x y. val ts y \<le> val ts x) (serve hvf_pick hvf_deq (length (queue q)) (L, q, ts))"
  using hq.serve_order [of "(L, q, ts)"] hq.serve_descending [of "(L, q, ts)"] hvf_invD(1) [OF assms(2)] assms
  by (simp add: hvf_prov_defs)

theorem serve_by_value_witness:
  "set (serve hvf_pick hvf_deq 1 (ref_lib, enqueue_hvf_entity ref_lib 2 (empty_hvf, tasks demo0))) = {2}"
proof -
  have q0: "queue empty_hvf = []" by (simp add: empty_hvf_def queue_def)
  obtain q' ts' where e: "enqueue_hvf_entity ref_lib 2 (empty_hvf, tasks demo0) = (q', ts')"
      "hvf_inv ts' q'" "queue q' = [2]"
    by (rule enqueue_hvf_entity_eq [OF ref_lib_ok empty_hvf_inv empty_hvf_can]) (simp add: q0)
  then show ?thesis using serve_by_value [OF ref_lib_ok e(2)] by simp
qed


section \<open>The choice of a cpu\<close>

lemma sorted_by_nth: "sorted_by f xs \<Longrightarrow> i \<le> j \<Longrightarrow> j < length xs \<Longrightarrow> f (xs ! i) \<le> f (xs ! j)"
  by (cases "i = j") (simp_all add: sorted_wrt_iff_nth_less)




lemma ref_alloc_ok: "alloc_ok ref_alloc"
  by (simp add: alloc_ok_def ref_alloc_def)


text \<open>
  On a machine where a task may run on more than 100 cpus the chunk size is zero: whatever its value,
  a task is always sent to a cpu with the highest load of all.
\<close>

theorem select_cpu_many:
  assumes "sort_ok S" "alloc_ok alloc" "affinity_ok s p" "fl AND (WF_TTWU OR WF_FORK) \<noteq> 0"
    and "card (cpus_ptr (tasks s p)) > 100"
  shows "\<exists>c s'. select_task_rq_hvf S alloc p prev fl s = Inr (c, s') \<and> c \<in> cpus_ptr (tasks s p) \<and>
    (\<forall>d \<in> cpus_ptr (tasks s p). nr_running (rqs s d) \<le> nr_running (rqs s c))"
proof -
  let ?l = "sorted_loads S (cpus_ptr (tasks s p)) s" and ?n = "card (cpus_ptr (tasks s p))"
  have "nr_cpus_allowed (tasks s p) \<noteq> 1" using assms(3,5) by (simp add: affinity_ok_def)
  then have sel: "\<exists>s'. select_task_rq_hvf S alloc p prev fl s = Inr (cpu_num (?l ! (?n - 1)), s')"
    using select_task_rq_hvf_eq [OF assms(1-4)] assms(5) by (simp add: get_right_cpu_many)
  note so = sorted_loads_props [OF assms(1,3)]
  have last: "?n - 1 < length ?l" using assms(5) so(1) by simp
  have "nr_running (rqs s d) \<le> nr_running (rqs s (cpu_num (?l ! (?n - 1))))" if d: "d \<in> cpus_ptr (tasks s p)" for d
  proof -
    have "d \<in> cpu_num ` set ?l" using d sorted_loads_cover [OF assms(1,3)] by simp
    then obtain j where j: "j < length ?l" "cpu_num (?l ! j) = d" by (metis image_iff in_set_conv_nth)
    then have "ld_running (?l ! j) \<le> ld_running (?l ! (?n - 1))"
      using so(1) by (intro sorted_by_nth [OF so(3) _ last]) simp
    then show ?thesis using so(2) [OF nth_mem [OF j(1)]] so(2) [OF nth_mem [OF last]] j(2) by simp
  qed
  then show ?thesis using sel so(2) [OF nth_mem [OF last]] by blast
qed

text \<open>A machine of 128 cpus where task \<open>2\<close> may run on all of them.\<close>

definition many_cpus :: "unit kstate" where
  "many_cpus = upd_task 2 (\<lambda>v. v\<lparr>cpus_mask := {..<128}, nr_cpus_allowed := 128\<rparr>) (boot0\<lparr>nr_cpu_ids := 128\<rparr>)"

theorem select_cpu_many_witness:
  "\<exists>c s'. select_task_rq_hvf ref_sort ref_alloc 2 0 WF_FORK many_cpus = Inr (c, s') \<and> c < 128 \<and>
     (\<forall>d < 128. nr_running (rqs many_cpus d) \<le> nr_running (rqs many_cpus c))"
proof -
  have "affinity_ok many_cpus 2" "(WF_FORK :: flags) AND (WF_TTWU OR WF_FORK) \<noteq> 0"
      "card (cpus_ptr (tasks many_cpus 2)) > 100"
    using lessThan_empty_iff [of "128 :: nat"]
    by (simp_all add: affinity_ok_def many_cpus_def sample_defs cpus_ptr_def)
  moreover have "cpus_ptr (tasks many_cpus 2) = {..<128}"
    by (simp add: many_cpus_def sample_defs cpus_ptr_def)
  ultimately show ?thesis using select_cpu_many [OF ref_sort_ok ref_alloc_ok, of many_cpus 2 WF_FORK 0] by auto
qed

section \<open>The system calls\<close>

text \<open>
  C25. Parameters that \<open>set_scheduling_params\<close> accepts are the ones \<open>get_scheduling_params\<close> copies
  out afterwards, through any valid pointer.
\<close>

theorem set_get_params:
  assumes "set_scheduling_params d1 d2 ct s = (0, s')"
  shows "get_scheduling_params True (\<lambda>_. True) u s' =
    (0, \<lparr>dp_deadline_1 = d1, dp_deadline_2 = d2, dp_computation_time = ct\<rparr>)"
  using set_scheduling_params_task(1,2) [OF assms] by (simp add: get_scheduling_params_def)

theorem set_get_params_witness:
  "\<exists>s'. set_scheduling_params 1700000007 1700000012 1200 boot0 = (0, s') \<and>
     get_scheduling_params True (\<lambda>_. True) \<lparr>dp_deadline_1 = 0, dp_deadline_2 = 0, dp_computation_time = 0\<rparr> s' =
       (0, \<lparr>dp_deadline_1 = 1700000007, dp_deadline_2 = 1700000012, dp_computation_time = 1200\<rparr>)"
proof -
  obtain s' where "set_scheduling_params 1700000007 1700000012 1200 boot0 = (0, s')"
    by (simp add: set_scheduling_params_def ktime_get_real_ts64_def sample_defs s64_def)
  then show ?thesis using set_get_params by blast
qed





text \<open>
  C24. Once \<open>set_scheduling_params\<close> has accepted deadlines below \<open>2^40\<close> seconds, computing the value of
  the task never traps, whatever the clock reads when it joins the class, and gives a value of \<open>0..100\<close>.
\<close>

theorem accepted_params_give_value:
  assumes "set_scheduling_params d1 d2 ct s = (0, s')" "d2 < 2 ^ 40"
  shows "\<exists>V p. compute_init_sched_value
      ((tasks s' (current s))\<lparr>hvf := init_sched_hvf_entity now (hvf (tasks s' (current s)))\<rparr>) = Inr (V, p) \<and>
    value_ok V \<and> curr_sched_value (hvf p) = V"
proof -
  let ?p = "(tasks s' (current s))\<lparr>hvf := init_sched_hvf_entity now (hvf (tasks s' (current s)))\<rparr>"
  note t = set_scheduling_params_task [OF assms(1)]
  have "hvf_params_ok ?p" using t assms(2) by (simp add: hvf_params_ok_def)
  from compute_init_sched_value_s64 [OF this] show ?thesis
    using t ideal_value_range [of d1 d2] by (simp add: Let_def value_ok_def)
qed

theorem accepted_params_give_value_witness:
  "\<exists>s' V p. set_scheduling_params 1700000007 1700000012 1200 boot0 = (0, s') \<and>
     compute_init_sched_value ((tasks s' 1)\<lparr>hvf := init_sched_hvf_entity \<lparr>tv_sec = 1700000001, tv_nsec = 0\<rparr>
       (hvf (tasks s' 1))\<rparr>) = Inr (V, p) \<and> value_ok V"
proof -
  obtain s' where e: "set_scheduling_params 1700000007 1700000012 1200 boot0 = (0, s')"
    by (simp add: set_scheduling_params_def ktime_get_real_ts64_def sample_defs s64_def)
  have "current boot0 = 1" by (simp add: sample_defs)
  then show ?thesis using e accepted_params_give_value [OF e] by simp blast
qed

text \<open>
  C31. Without that bound the products wrap: \<open>set_scheduling_params\<close> accepts deadlines \<open>2^61\<close> seconds
  apart, and the task then divides by zero in the kernel as soon as it joins the class at the
  millisecond where its expected completion meets the first deadline.
\<close>

theorem accepted_params_can_trap:
  assumes "now_ok s" "0 < d1" "d1 < 2 ^ 40"
    and "now_ms now = n" "tv_sec (rt_clock s (rt_reads s)) * 1000 < n" "n < 2 ^ 60"
  shows "\<exists>s'. set_scheduling_params d1 (d1 + 2 ^ 61) (d1 * 1000 - n) s = (0, s') \<and>
    compute_init_sched_value
      ((tasks s' (current s))\<lparr>hvf := init_sched_hvf_entity now (hvf (tasks s' (current s)))\<rparr>) = Inl Div_trap"
proof -
  let ?t = "tv_sec (rt_clock s (rt_reads s))"
  have d: "s64 (d1 * 1000) = d1 * 1000" using assms(2,3) by (simp add: no_wrap_1000)
  have "(d1 + 2 ^ 61) * 1000 = d1 * 1000 + 125 * 2 ^ 64" by simp
  then have w: "s64 ((d1 + 2 ^ 61) * 1000) = d1 * 1000" using d by (simp only: s64_period)
  have z: "s64 (s64 (d1 + 2 ^ 61 - d1) * 1000) = 0" by (simp add: s64_def)
  have "s64 (?t * 1000) = ?t * 1000" using assms(1) by (simp add: now_ok_def no_wrap_1000)
  moreover have "s64 (?t * 1000 + (d1 * 1000 - n)) = ?t * 1000 + (d1 * 1000 - n)"
    using assms by (intro s64_id) (simp_all add: now_ok_def)
  ultimately obtain s' where s': "set_scheduling_params d1 (d1 + 2 ^ 61) (d1 * 1000 - n) s = (0, s')"
    using assms(2,3,5) w unfolding set_scheduling_params_def ktime_get_real_ts64_def by simp
  let ?p = "(tasks s' (current s))\<lparr>hvf := init_sched_hvf_entity now (hvf (tasks s' (current s)))\<rparr>"
  have "s64 (first_time (hvf ?p) + computation_time ?p) = d1 * 1000" "deadline_1 ?p = d1"
      "deadline_2 ?p = d1 + 2 ^ 61"
    using set_scheduling_params_task(1) [OF s'] d assms(4) by (simp_all add: init_sched_hvf_entity_def)
  then have "compute_init_sched_value ?p = Inl Div_trap"
    unfolding compute_init_sched_value_def Let_def by (simp only: w z d cdiv_def) simp
  then show ?thesis using s' by blast
qed

theorem accepted_params_can_trap_witness:
  "\<exists>s'. set_scheduling_params 1700000007 (1700000007 + 2 ^ 61) 4000 boot0 = (0, s') \<and>
     compute_init_sched_value ((tasks s' 1)\<lparr>hvf := init_sched_hvf_entity \<lparr>tv_sec = 1700000003, tv_nsec = 0\<rparr>
       (hvf (tasks s' 1))\<rparr>) = Inl Div_trap"
proof -
  have n: "now_ms \<lparr>tv_sec = 1700000003, tv_nsec = 0\<rparr> = 1700000003000"
    by (simp add: now_ms_def s64_def sdiv_nonneg)
  have "now_ok boot0" "tv_sec (rt_clock boot0 (rt_reads boot0)) * 1000 < 1700000003000" "current boot0 = 1"
    by (simp_all add: now_ok_def sample_defs)
  then show ?thesis
    using accepted_params_can_trap [of boot0 1700000007, OF _ _ _ n] by simp
qed

end
