(* ===== verification/Core_Theorems.thy ===== *)
theory Core_Theorems
  imports Sample_Env
begin

text \<open>
  The properties of the core scheduler: utilisation clamps, weights and clock, the choice of the
  next task, affinity and migration, switches, fork and death, and the reference count of core scheduling.
\<close>

declare set_inorder [simp del] length_inorder [simp del]

section \<open>Utilisation clamps\<close>

text \<open>
  C4. The buckets of a run queue implement the multiset of the clamp values of its tasks. Taking a
  reference adds the smaller of the task's request and the system default; the cached clamp
  is then at least every value and at most 1024, in the bucket of one of the values; and
  releasing the reference takes the value out again.
\<close>

theorem uclamp_refines_multiset:
  assumes "clamp_abs i r M" "size M < 2 ^ 52" "M = {#} \<or> \<not> uclamp_rq_is_idle r"
    and "se_ok (uclamp_req p i)" "se_ok (dflt i)"
    and "uclamp_rq_inc_id dflt i (r, p) = (r1, p1)" "uclamp_rq_dec_id i (r1, p1) = (r2, p2)"
  defines "v \<equiv> min (uc_value (uclamp_req p i)) (uc_value (dflt i))"
  shows "clamp_abs i r1 (add_mset v M) \<and> clamp_abs i r2 M \<and>
    (\<forall>w \<in># add_mset v M. w \<le> uclamp_rq_get i r1) \<and> uclamp_rq_get i r1 \<le> 1024 \<and>
    (\<exists>w \<in># add_mset v M. uclamp_bucket_id w = uclamp_bucket_id (uclamp_rq_get i r1))"
proof -
  note e = uclamp_eff_get_ok [of p i dflt, OF assms(4,5)]
  have inc: "clamp_abs i r1 (add_mset v M)"
    using uclamp_rq_inc_id_abs [OF assms(1) refl e(1) assms(2,3,6)] by (simp add: e(2) v_def)
  let ?k = "bucket (rq_uclamp r i) (uc_bucket_id (uclamp_eff_get dflt p i))"
  have "buckets_abs (bucket (rq_uclamp r i)) M" using assms(1) by (simp add: clamp_abs_def)
  from buckets_abs_tasks [OF this, of "uc_bucket_id (uclamp_eff_get dflt p i)"] assms(2)
  have t: "0 \<le> bk_tasks ?k" "bk_tasks ?k < 2 ^ 52" by simp_all
  have p1: "uclamp p1 i = (uclamp_eff_get dflt p i)\<lparr>uc_active := True\<rparr>"
    using uclamp_rq_inc_id_sel(5) [OF refl refl t assms(6)] by simp
  then have "clamp_abs i r2 (add_mset v M - {#uc_value (uclamp p1 i)#})"
    using uclamp_rq_dec_id_abs(1) [OF inc _ _ _ assms(7)] e by (simp add: se_ok_def v_def)
  then have "clamp_abs i r2 M" using p1 e(2) by (simp add: v_def)
  moreover have "v \<in># add_mset v M" by simp
  ultimately show ?thesis
    using inc clamp_abs_max(1) [OF inc] clamp_abs_max(2,3) [OF inc] by blast
qed

lemma init_clamp_abs: "clamp_abs i (init_uclamp_rq r) {#}"
proof -
  have "top_bucket (\<lambda>_. \<lparr>bk_value = 0, bk_tasks = 0\<rparr>) UCLAMP_BUCKETS = None"
    by (simp add: top_bucket_None)
  then show ?thesis
    by (simp add: clamp_abs_def buckets_abs_def init_uclamp_rq_def bucket_count_def uclamp_rq_is_idle_def)
qed

theorem uclamp_refines_multiset_witness:
  "uclamp_rq_get UCLAMP_MAX (fst (uclamp_rq_inc_id uclamp0 UCLAMP_MAX (init_uclamp_rq (rq0 1 100), task0 2))) \<ge> 1024"
proof -
  let ?r = "init_uclamp_rq (rq0 1 100)"
  obtain r1 p1 where 1: "uclamp_rq_inc_id uclamp0 UCLAMP_MAX (?r, task0 2) = (r1, p1)" by fastforce
  obtain r2 p2 where 2: "uclamp_rq_dec_id UCLAMP_MAX (r1, p1) = (r2, p2)" by fastforce
  have "se_ok (uclamp0 UCLAMP_MAX)"
    by (simp add: se_ok_def sample_defs uclamp_bucket_id_def UCLAMP_BUCKET_DELTA_def)
  then show ?thesis
    using uclamp_refines_multiset [OF init_clamp_abs [of UCLAMP_MAX "rq0 1 100"] _ _ _ _ 1 2] 1
    by (simp add: task0_def) (simp add: sample_defs)
qed

text \<open>
  \<open>uclamp_validate\<close> with the same value as both clamps accepts the values up to 1024, and rejects
  larger ones, but accepts again everything from \<open>2^31 - 1\<close> on: the range check is signed and its increment
  wraps.
\<close>

theorem uclamp_validate_same_iff:
  assumes "sa_flags attr AND SCHED_FLAG_UTIL_CLAMP_MIN \<noteq> 0" "sa_flags attr AND SCHED_FLAG_UTIL_CLAMP_MAX \<noteq> 0"
    and "0 \<le> sa_util_min attr" "sa_util_min attr < 2 ^ 32" "sa_util_max attr = sa_util_min attr"
  shows "fst (uclamp_validate p attr s) = 0 \<longleftrightarrow> sa_util_min attr \<le> 1024 \<or> 2 ^ 31 - 1 \<le> sa_util_min attr"
proof -
  let ?u = "sa_util_min attr"
  consider "?u < 2 ^ 31 - 1" | "?u = 2 ^ 31 - 1" | "2 ^ 31 \<le> ?u" by linarith
  then show ?thesis
  proof cases
    case 1
    then have "s32 ?u = ?u" "s32 (?u + 1) = ?u + 1" using assms(3) by (simp_all add: s32_def)
    then show ?thesis using assms 1 by (simp add: uclamp_validate_def Let_def)
  next
    case 2
    have "s32 (2 ^ 31 - 1) = 2 ^ 31 - 1" "s32 (2 ^ 31) = - (2 ^ 31)" by (simp_all add: s32_def)
    then show ?thesis using assms 2 by (simp add: uclamp_validate_def Let_def)
  next
    case 3
    then have "s32 ?u = ?u - 2 ^ 32"
      using assms(4) mod_add_self2 [of "?u - 2 ^ 31" "2 ^ 32"] by (simp add: s32_def add.commute)
    moreover have "s32 (?u - 2 ^ 32 + 1) = ?u - 2 ^ 32 + 1" using assms(4) 3 by (simp add: s32_def)
    ultimately show ?thesis using assms 3 by (simp add: uclamp_validate_def Let_def)
  qed
qed

theorem uclamp_validate_same_iff_witness:
  "fst (uclamp_validate (task0 2) (attr_zero\<lparr>sa_flags := 0x60, sa_util_min := 4294967291, sa_util_max := 4294967291\<rparr>)
     boot0) = 0"
  using uclamp_validate_same_iff [of "attr_zero\<lparr>sa_flags := 0x60, sa_util_min := 4294967291,
    sa_util_max := 4294967291\<rparr>" "task0 2" boot0] by (simp add: attr_zero_def)

text \<open>The system defaults follow the knobs, which are ordered and within the scale.\<close>

definition knobs_ok :: "'x kstate \<Rightarrow> bool" where
  "knobs_ok s \<longleftrightarrow>
     sysctl_uclamp_util_min s \<le> sysctl_uclamp_util_max s \<and> sysctl_uclamp_util_max s \<le> 1024 \<and>
     sysctl_uclamp_min_rt s \<le> 1024 \<and>
     uc_value (uclamp_default s UCLAMP_MIN) = sysctl_uclamp_util_min s \<and>
     uc_value (uclamp_default s UCLAMP_MAX) = sysctl_uclamp_util_max s \<and>
     se_ok (uclamp_default s UCLAMP_MIN) \<and> se_ok (uclamp_default s UCLAMP_MAX)"

lemma sync_rt_frame [simp]:
  "sysctl_uclamp_util_min (uclamp_sync_util_min_rt_default ps s) = sysctl_uclamp_util_min s"
  "sysctl_uclamp_util_max (uclamp_sync_util_min_rt_default ps s) = sysctl_uclamp_util_max s"
  "sysctl_uclamp_min_rt (uclamp_sync_util_min_rt_default ps s) = sysctl_uclamp_min_rt s"
  "uclamp_default (uclamp_sync_util_min_rt_default ps s) = uclamp_default s"
  unfolding uclamp_sync_util_min_rt_default_def
  by (induction ps arbitrary: s) (simp_all add: uclamp_update_util_min_rt_default_def)

lemma uclamp_se_set_sel [simp]: "uc_value (uclamp_se_set v d u) = v mod 2 ^ 11"
  by (simp add: uclamp_se_set_def)

text \<open>
  The handler of the clamp knobs keeps the system defaults equal to the knobs, ordered and at most 1024,
  whatever \<open>proc_dointvec\<close> stores in the (unsigned) knobs; a write it rejects, or a failed
  transfer, leaves the whole state as it was.
\<close>

theorem uclamp_handler_invariant:
  assumes "knobs_ok s" "proc s = (result, mn, mx, mrt)" "0 \<le> mn" "0 \<le> mx"
    and "\<not> write \<Longrightarrow> mn = sysctl_uclamp_util_min s \<and> mx = sysctl_uclamp_util_max s \<and> mrt = sysctl_uclamp_min_rt s"
    and "sysctl_sched_uclamp_handler proc threads write s = (r, s')"
  shows "knobs_ok s' \<and> (r \<noteq> 0 \<longrightarrow> s' = s)"
proof -
  have "knobs_ok s'" if g: "result = 0" "write" "mn \<le> mx" "mx \<le> 1024" "mrt \<le> 1024"
  proof -
    have m: "mn mod 2048 = mn" "mx mod 2048 = mx" using assms(3,4) g by simp_all
    have "se_ok (uclamp_se_set mn False u)" "se_ok (uclamp_se_set mx False u)" for u
      using assms(3,4) g by (simp_all add: uclamp_se_set_ok)
    then show ?thesis
      using assms(1,2,6) g m by (auto simp: sysctl_sched_uclamp_handler_def knobs_ok_def Let_def)
  qed
  then show ?thesis
    using assms by (auto simp: sysctl_sched_uclamp_handler_def knobs_ok_def Let_def split: if_splits)
qed

theorem uclamp_handler_invariant_witness:
  "knobs_ok (init_uclamp 0 boot0) \<and>
   knobs_ok (snd (sysctl_sched_uclamp_handler (\<lambda>s. (0, 512, 1024, 1024)) [2] True (init_uclamp 0 boot0)))"
proof -
  have k: "knobs_ok (init_uclamp 0 boot0)"
    by (simp add: knobs_ok_def init_uclamp_def Let_def uclamp_se_set_ok uclamp_none_def)
      (simp add: sample_defs)
  obtain r s' where h: "sysctl_sched_uclamp_handler (\<lambda>s. (0, 512, 1024, 1024)) [2] True (init_uclamp 0 boot0) = (r, s')"
    by fastforce
  from uclamp_handler_invariant [OF k refl _ _ _ h] k show ?thesis by (simp add: h)
qed

section \<open>Weights and clock\<close>

text \<open>
  Every nice level from -20 to 19 gets a load weight and its inverse: weight times inverse is \<open>2^32\<close>
  up to one weight, and each level has between 1.15 and 1.35 times the weight of the next.
\<close>

theorem weights_of_nice:
  assumes "i < 40"
  shows "\<bar>sched_prio_to_wmult ! i * sched_prio_to_weight ! i - 2 ^ 32\<bar> \<le> sched_prio_to_weight ! i \<and>
    (i < 39 \<longrightarrow> 115 * sched_prio_to_weight ! Suc i \<le> 100 * sched_prio_to_weight ! i \<and>
      100 * sched_prio_to_weight ! i \<le> 135 * sched_prio_to_weight ! Suc i)"
  using list_all2_nthD [OF wmult_inverse, of i] list_all2_nthD [OF weights_ratio, of i] assms by simp

theorem weights_of_nice_witness: "100 * sched_prio_to_weight ! 20 \<le> 135 * sched_prio_to_weight ! 21"
  using weights_of_nice [of 20] by simp

text \<open>
  The clock of a run queue never runs backwards, and unless skipping is active it is the later of its
  last value and the clock of the cpu (both below \<open>2^63\<close> nanoseconds).
\<close>

theorem rq_clock_monotone:
  assumes "0 \<le> rq_clock (rqs s c)" "rq_clock (rqs s c) < 2 ^ 63"
    and "0 \<le> sched_clock_cpu E c (ext s)" "sched_clock_cpu E c (ext s) < 2 ^ 63"
  shows "rq_clock (rqs s c) \<le> rq_clock (rqs (update_rq_clock E c s) c) \<and>
    (clock_update_flags (rqs s c) AND RQCF_ACT_SKIP = 0 \<longrightarrow>
      rq_clock (rqs (update_rq_clock E c s) c) = max (rq_clock (rqs s c)) (sched_clock_cpu E c (ext s)))"
  using update_rq_clock_monotone [OF assms] by blast

theorem rq_clock_monotone_witness:
  "rq_clock (rqs (update_rq_clock (env0\<lparr>sched_clock_cpu := (\<lambda>_ _. 5)\<rparr>) 0 boot0) 0) = 5"
  using rq_clock_monotone [of boot0 0 "env0\<lparr>sched_clock_cpu := (\<lambda>_ _. 5)\<rparr>"] by (simp add: sample_defs)

section \<open>Core scheduling: the tree of cookies\<close>

text \<open>
  A task put into the tree of its run queue keeps the tree ordered by cookie, and a search for its
  cookie ends within the bound on its walk and returns the first unthrottled task with that cookie;
  there is one if the task itself is not throttled.
\<close>

theorem core_find_after_enqueue:
  assumes "core_lib_ok E" "core_sorted c s" "p \<notin> set (inorder (core_tree (rqs s c)))"
    and "\<forall>q \<in> insert p (set (inorder (core_tree (rqs s c)))). task_cpu (tasks s q) = c \<and>
      sched_task_is_throttled E q c (sched_core_enqueue E c p s) = Inr (thr q)"
    and "core_cookie (tasks s p) \<noteq> 0" "\<not> sched_delayed (se (tasks s p))" "\<not> thr p"
  shows "core_sorted c (sched_core_enqueue E c p s) \<and>
    (\<exists>q. sched_core_find E c (core_cookie (tasks s p)) (sched_core_enqueue E c p s) = Some (Inr (Some q)) \<and>
       core_cookie (tasks s q) = core_cookie (tasks s p) \<and> \<not> thr q \<and>
       (q = p \<or> q \<in> set (inorder (core_tree (rqs s c)))))"
proof -
  let ?s = "sched_core_enqueue E c p s" and ?P = "\<lambda>q. core_cookie (tasks s q) = core_cookie (tasks s p) \<and> \<not> thr q"
  note e = sched_core_enqueue_sorted [OF assms(1-3)]
  have set: "set (inorder (core_tree (rqs ?s c))) = insert p (set (inorder (core_tree (rqs s c))))"
    using e(2) assms(5,6) by simp
  have t: "tasks ?s = tasks s" by (simp add: sched_core_enqueue_def Let_def)
  have "sched_core_find E c (core_cookie (tasks s p)) ?s = Some (Inr (find ?P (inorder (core_tree (rqs ?s c)))))"
    using sched_core_find_eq [OF assms(1) e(1), of thr] assms(4) set t by simp
  moreover have "find ?P (inorder (core_tree (rqs ?s c))) \<noteq> None"
    using set assms(7) by (auto simp: find_None_iff)
  then obtain q where q: "find ?P (inorder (core_tree (rqs ?s c))) = Some q" by blast
  moreover have "?P q" "q \<in> set (inorder (core_tree (rqs ?s c)))" using find_split [OF q] by auto
  ultimately show ?thesis using e(1) set by simp
qed

definition cookie_boot :: "unit kstate" where
  "cookie_boot = upd_task 2 (\<lambda>v. v\<lparr>core_cookie := 7\<rparr>) boot0"

lemma cookie_boot_sel:
  "core_tree (rqs cookie_boot 0) = Leaf" "tasks cookie_boot 2 = (task0 2)\<lparr>core_cookie := 7\<rparr>"
  by (simp_all add: cookie_boot_def sample_defs)

theorem core_find_after_enqueue_witness:
  "\<exists>q. sched_core_find env0 0 7 (sched_core_enqueue env0 0 2 cookie_boot) = Some (Inr (Some q))"
proof -
  have "tasks (sched_core_enqueue env0 0 2 cookie_boot) = tasks cookie_boot" by (simp add: sched_core_enqueue_def Let_def)
  then have "sched_task_is_throttled env0 2 0 (sched_core_enqueue env0 0 2 cookie_boot) = Inr False"
    by (simp add: sched_task_is_throttled_def env0_def plain_ops_def cookie_boot_sel task0_def)
  moreover have "task_cpu (tasks cookie_boot 2) = 0" "core_cookie (tasks cookie_boot 2) = 7"
      "\<not> sched_delayed (se (tasks cookie_boot 2))" "core_sorted 0 cookie_boot"
    by (simp_all add: cookie_boot_sel task0_def se0_def core_sorted_def)
  ultimately show ?thesis
    using core_find_after_enqueue [OF env0_core_lib_ok, of 0 cookie_boot 2 "\<lambda>_. False"] cookie_boot_sel(1) by simp
qed

section \<open>Choosing the next task\<close>

text \<open>A class that has nothing to offer and leaves the state alone.\<close>

definition no_offer :: "'x kenv \<Rightarrow> cpu \<Rightarrow> tid \<Rightarrow> 'x kstate \<Rightarrow> sclass \<Rightarrow> bool" where
  "no_offer E c prev s k \<longleftrightarrow>
     (case op_pick_next_task (class_ops E k) of
        Some f \<Rightarrow> f c prev s = Inr (None, s)
      | None \<Rightarrow> (case op_pick_task (class_ops E k) of None \<Rightarrow> False | Some g \<Rightarrow> g c s = Inr (None, s)))"

lemma pick_classes_skip:
  "\<forall>k \<in> set ks. no_offer E c prev s k \<Longrightarrow> pick_classes E c prev (ks @ ks') s = pick_classes E c prev ks' s"
  by (induction ks) (auto simp: no_offer_def split: option.splits)

abbreviation without_server :: "cpu \<Rightarrow> 'x kstate \<Rightarrow> 'x kstate" where
  "without_server c s \<equiv> upd_rq c (\<lambda>r. r\<lparr>rq_dl_server := None\<rparr>) s"

lemma pick_below_fair:
  assumes "sched_class (tasks s prev) = Hvf" "nr_running (rqs s c) \<noteq> cfs_h_nr_queued (rqs s c)"
    and "\<forall>k \<in> {Stop, Dl, Rt, Fair}. no_offer E c prev (without_server c s) k"
  shows "pick_next_task_classes E c prev s = pick_classes E c prev [Hvf, Idle] (without_server c s)"
proof -
  have "prev_balance E c prev (without_server c s) = Inr (without_server c s)"
    using assms(1) by (simp add: prev_balance_def sched_classes_def hvf_sched_class_def)
  then show ?thesis
    using assms(2) pick_classes_skip [of "[Stop, Dl, Rt, Fair]" E c prev _ "[Hvf, Idle]"] assms(3)
    by (simp add: pick_next_task_classes_def pick_restart_def Let_def sched_classes_def)
qed

lemma put_prev_task_hvf_frame:
  assumes "s' = put_prev_task_hvf L c p nx s"
  shows "t \<noteq> p \<Longrightarrow> tasks s' t = tasks s t" "rq_idle (rqs s' d) = rq_idle (rqs s d)"
  unfolding assms put_prev_task_hvf_def hvf_put_def hvf_get_def put_prev_hvf_entity_def enqueue_hvf_entity_def
  by (simp_all add: Let_def ktime_get_real_ts64_def split: prod.split)

text \<open>The running task goes back to its queue before the next one is taken out.\<close>

lemma put_prev_set_next_hvf:
  assumes L: "rb_lib_ok (env_lib E)" and ok: "hvf_ok T0 s" and cu: "hvf_curr (hvf_of c s) = Some prev"
    and run: "task_is_running (tasks s prev)" and ne: "n \<noteq> prev"
  obtains s2 where "hvf_sys T0 s2" "set (queue (hvf_of c s2)) = insert prev (set (queue (hvf_of c s)))"
    "sched_class (tasks s2 n) = sched_class (tasks s n)" "rq_idle (rqs s2 c) = rq_idle (rqs s c)"
    "put_prev_set_next_task E c prev n (without_server c s) =
       call (op_set_next_task (class_ops E (sched_class (tasks s n)))) (\<lambda>f. f c n True s2)"
proof -
  define s1 where "s1 = put_prev_set_next_dl_server c prev n (without_server c s)"
  define s2 where "s2 = put_prev_task_hvf (env_lib E) c prev (Some n) s1"
  have i: "hvf_sys T0 s" and u: "curr_unique s" using ok by (simp_all add: hvf_ok_def)
  have t: "tstate (tasks s1 t) = tstate (tasks s t)" "sched_class (tasks s1 t) = sched_class (tasks s t)"
      "hvf_of d s1 = hvf_of d s" "rq_idle (rqs s1 d) = rq_idle (rqs s d)" for t d
    by (simp_all add: s1_def put_prev_set_next_dl_server_def Let_def)
  have i1: "hvf_sys T0 s1"
    by (rule hvf_sys_frame [OF i]) (simp_all add: s1_def put_prev_set_next_dl_server_def Let_def)
  have cl: "sched_class (tasks s prev) = Hvf" using hvf_sysD(7) [OF i cu] by simp
  have "hvf_curr (hvf_of d s1) \<noteq> Some prev" if "d \<noteq> c" for d
    using u cu that t(3) unfolding curr_unique_def by metis
  moreover have "task_is_running (tasks s1 prev)" using run t(1) by (simp add: task_is_running_def)
  ultimately have p: "hvf_sys T0 s2" "set (queue (hvf_of c s2)) = insert prev (set (queue (hvf_of c s)))"
    using put_prev_task_hvf_sys(1,3) [OF L i1 _ _ _ s2_def] cu t(3) by simp_all
  have n: "tasks s2 n = tasks s1 n" "rq_idle (rqs s2 c) = rq_idle (rqs s c)"
    using put_prev_task_hvf_frame [OF s2_def] ne t(4) by simp_all
  show thesis
    by (rule that [of s2]) (use p n ne cl t(2) in \<open>simp_all add: put_prev_set_next_task_def Let_def
      hvf_sched_class_def s2_def flip: s1_def\<close>)
qed


text \<open>
  C32. The pick comes before the running task is put back, so a preempted HVF task never competes with
  the queue: if it is the only one, the cpu switches to its idle task and the runnable HVF task is left behind in
  the queue.
\<close>

theorem lone_task_goes_idle:
  assumes "rb_lib_ok (env_lib E)" "hvf_ok T0 s" "hvf_curr (hvf_of c s) = Some prev"
    and "task_is_running (tasks s prev)" "queue (hvf_of c s) = []"
    and "nr_running (rqs s c) \<noteq> cfs_h_nr_queued (rqs s c)" "\<not> sched_core_enabled c s"
    and "\<forall>k \<in> {Stop, Dl, Rt, Fair}. no_offer E c prev (without_server c s) k"
    and "rq_idle (rqs s c) \<noteq> prev" "sched_class (tasks s (rq_idle (rqs s c))) = Idle"
    and "op_set_next_task (other_class E Idle) = Some f"
    and "\<And>t. \<exists>t'. f c (rq_idle (rqs s c)) True t = Inr t' \<and> hvf_of c t' = hvf_of c t"
  shows "\<exists>s'. pick_next_task E c prev s = Inr (rq_idle (rqs s c), s') \<and> set (queue (hvf_of c s')) = {prev}"
proof -
  let ?n = "rq_idle (rqs s c)"
  have i: "hvf_sys T0 s" using assms(2) by (simp add: hvf_ok_def)
  obtain s2 where s2: "set (queue (hvf_of c s2)) = insert prev (set (queue (hvf_of c s)))"
    "put_prev_set_next_task E c prev ?n (without_server c s) =
       call (op_set_next_task (class_ops E (sched_class (tasks s ?n)))) (\<lambda>f. f c ?n True s2)"
    by (rule put_prev_set_next_hvf [OF assms(1-4,9)]) blast
  obtain s' where s': "f c ?n True s2 = Inr s'" "hvf_of c s' = hvf_of c s2" using assms(12) by blast
  have "pick_task_hvf c (without_server c s) = Inr (Some ?n, without_server c s)"
    using assms(5) by (simp add: pick_task_hvf_def hvf_rq_empty_iff Let_def)
  then have "pick_next_task E c prev s = Inr (?n, s')"
    using pick_below_fair [OF _ assms(6,8)] hvf_sysD(7) [OF i assms(3)] s2(2) s'(1) assms(7,10,11)
    by (simp add: pick_next_task_def hvf_sched_class_def)
  then show ?thesis using s'(2) s2(1) assms(5) by simp
qed

text \<open>A machine where task \<open>2\<close> runs on cpu \<open>0\<close> and the tasks \<open>q\<close> (none, or task \<open>3\<close>) are queued.\<close>

definition hvf_task :: "tid \<Rightarrow> bool \<Rightarrow> task_struct" where
  "hvf_task t b = (task0 t)\<lparr>sched_class := Hvf, policy := SCHED_HVF, tstate := 0, on_rq := 1,
     deadline_1 := 1700000001, deadline_2 := 1700000011, computation_time := 6000, pars_set := True,
     hvf := hvf0\<lparr>curr_sched_value := 50, first_time := 1700000000000, latest_time := 1700000000000,
       hvf_on_rq := b\<rparr>\<rparr>"

definition hvf_machine :: "bool \<Rightarrow> unit kstate" where
  "hvf_machine b = boot0\<lparr>current := 2,
     tasks := (tasks boot0)(2 := hvf_task 2 False, 3 := if b then hvf_task 3 True else task0 3,
       100 := (task0 100)\<lparr>sched_class := Idle\<rparr>),
     rqs := (rqs boot0)(0 := (rq0 2 100)\<lparr>nr_running := (if b then 2 else 1),
       rq_hvf := (if b then \<lparr>hvf_task_queue = Node Leaf 3 Leaf, max_value_entity = Some 3, hvf_curr = Some 2,
                              nr_hvf_queued = 1\<rparr>
                  else \<lparr>hvf_task_queue = Leaf, max_value_entity = None, hvf_curr = Some 2, nr_hvf_queued = 0\<rparr>)\<rparr>)\<rparr>"

lemma hvf_machine_sel:
  "hvf_of 0 (hvf_machine True) =
     \<lparr>hvf_task_queue = Node Leaf 3 Leaf, max_value_entity = Some 3, hvf_curr = Some 2, nr_hvf_queued = 1\<rparr>"
  "hvf_of 0 (hvf_machine False) =
     \<lparr>hvf_task_queue = Leaf, max_value_entity = None, hvf_curr = Some 2, nr_hvf_queued = 0\<rparr>"
  "d \<noteq> 0 \<Longrightarrow> hvf_of d (hvf_machine b) =
     \<lparr>hvf_task_queue = Leaf, max_value_entity = None, hvf_curr = None, nr_hvf_queued = 0\<rparr>"
  "tasks (hvf_machine b) 2 = hvf_task 2 False" "tasks (hvf_machine True) 3 = hvf_task 3 True"
  "rt_clock (hvf_machine b) i = \<lparr>tv_sec = 1700000000, tv_nsec = 0\<rparr>"
  "rq_idle (rqs (hvf_machine b) 0) = 100" "sched_class (tasks (hvf_machine b) 100) = Idle"
  "nr_running (rqs (hvf_machine b) 0) \<noteq> cfs_h_nr_queued (rqs (hvf_machine b) 0)"
  "\<not> sched_core_enabled 0 (hvf_machine b)" "current (hvf_machine b) = 2" "this_cpu (hvf_machine b) = 0"
  by (simp_all add: hvf_machine_def boot0_def rq0_def task0_def sched_core_enabled_def)

lemma hvf_machine_class:
  "sched_class (tasks (hvf_machine b) t) = Hvf \<longleftrightarrow> t = 2 \<or> b \<and> t = 3"
  "hvf_on_rq (hvf (tasks (hvf_machine b) t)) \<longleftrightarrow> b \<and> t = 3"
  by (simp_all add: hvf_machine_def boot0_def task0_def hvf_task_def hvf0_def)

lemma hvf_task_ok:
  "ent_ok 1700000000000 1700000000000 (hvf_task t b)" "task_is_running (hvf_task t b)"
  "sched_class (hvf_task t b) = Hvf"
  by (simp_all add: ent_ok_def hvf_params_ok_def hvf_task_def task0_def hvf0_def value_ok_def task_is_running_def)

lemma hvf_machine_ok: "hvf_ok 1700000000000 (hvf_machine b)"
proof -
  have now: "now_ms \<lparr>tv_sec = 1700000000, tv_nsec = 0\<rparr> = 1700000000000"
    by (simp add: now_ms_def s64_def sdiv_nonneg)
  have cl: "clock_ok 1700000000000 (hvf_machine b)"
    by (simp add: clock_ok_def hvf_machine_sel now)
  have q: "queue (hvf_of d (hvf_machine b)) = (if d = 0 \<and> b then [3] else [])" for d
    by (cases b; cases "d = 0") (simp_all add: hvf_machine_sel queue_def)
  have cu: "hvf_curr (hvf_of d (hvf_machine b)) = (if d = 0 then Some 2 else None)" for d
    by (cases b; cases "d = 0") (simp_all add: hvf_machine_sel)
  have inv: "hvf_inv (tasks (hvf_machine b)) (hvf_of d (hvf_machine b))" for d
    unfolding hvf_inv_def q
    by (cases b; cases "d = 0") (simp_all add: hvf_machine_sel hvf_task_def hvf0_def value_ok_def)
  have e: "ent_ok 1700000000000 1700000000000 (tasks (hvf_machine b) t)"
    if "sched_class (tasks (hvf_machine b) t) = Hvf" for t
    using that by (cases b) (auto simp: hvf_machine_class hvf_machine_sel hvf_task_ok)
  have tu: "time_used (hvf (hvf_task 2 False)) \<le> latest_time (hvf (hvf_task 2 False)) - 1700000000000"
    by (simp add: hvf_task_def hvf0_def)
  show ?thesis
    unfolding hvf_ok_def hvf_sys_def curr_unique_def q cu
    using cl inv e tu by (auto simp: hvf_machine_class hvf_machine_sel hvf_task_ok now split: if_splits)
qed

lemma env0_no_offer: "k \<in> {Stop, Dl, Rt, Fair} \<Longrightarrow> no_offer env0 c p s k"
  by (auto simp: no_offer_def env0_def plain_ops_def)

lemma env0_lib_ok: "rb_lib_ok (env_lib env0)"
  by (simp add: env0_def ref_lib_ok)


theorem lone_task_goes_idle_witness:
  "\<exists>s'. pick_next_task env0 0 2 (hvf_machine False) = Inr (100, s') \<and> set (queue (hvf_of 0 s')) = {2}"
proof -
  have q: "queue (hvf_of 0 (hvf_machine False)) = []" "hvf_curr (hvf_of 0 (hvf_machine False)) = Some 2"
    by (simp_all add: hvf_machine_sel queue_def)
  have r: "task_is_running (tasks (hvf_machine False) 2)" by (simp add: hvf_machine_sel hvf_task_ok)
  have i: "op_set_next_task (other_class env0 Idle) = Some (\<lambda>c p first s. Inr s)"
    by (simp add: env0_def idle_ops_def plain_ops_def)
  from lone_task_goes_idle [OF env0_lib_ok hvf_machine_ok q(2) r q(1) hvf_machine_sel(9,10) _ _ _ i] env0_no_offer
  show ?thesis by (simp add: hvf_machine_sel(7,8))
qed

section \<open>Death and fork\<close>

text \<open>Around the method of the class, \<open>dequeue_task\<close> touches the clock and the accounts only.\<close>

lemma dequeue_task_hvf_via:
  assumes "sched_class (tasks s p) = Hvf" "\<not> sched_core_enabled c s"
  obtains t where "dequeue_task E c p fl s = dequeue_task_hvf (env_lib E) c p fl t" "tasks t = tasks s"
    "\<And>d. hvf_of d t = hvf_of d s" "\<And>d. nr_running (rqs t d) = nr_running (rqs s d)"
proof -
  define s1 where "s1 = (if fl AND DEQUEUE_NOCLOCK = 0 then update_rq_clock E c s else s)"
  define s2 where "s2 = (if fl AND DEQUEUE_SAVE = 0 then upd_ext (sched_info_dequeue E c p) s1 else s1)"
  define t where "t = upd_ext (psi_dequeue E p fl) s2"
  have f: "tasks t = tasks s" "hvf_of d t = hvf_of d s" "nr_running (rqs t d) = nr_running (rqs s d)" for d
    by (simp_all add: t_def s2_def s1_def)
  then have cl: "sched_class (tasks t p) = Hvf" using assms(1) by simp
  have "dequeue_task E c p fl s =
      (let u = uclamp_rq_dec (uclamp_enabled (ops_of E p t)) c p t
       in call (op_dequeue_task (ops_of E p u)) (\<lambda>f. f c p fl u))"
    using assms(2) by (simp add: dequeue_task_def Let_def s1_def s2_def t_def)
  also have "\<dots> = dequeue_task_hvf (env_lib E) c p fl t"
    using cl by (simp add: uclamp_rq_dec_def hvf_sched_class_def)
  finally show thesis using that f by blast
qed

text \<open>
  C34. \<open>task_dead_hvf\<close> runs after the switch and clears the current task of the queue, although that
  is by then the successor. Before the call the successor can block; after it the dequeue finds
  the successor neither queued nor current, so that \<open>block_task\<close> leaves it marked as on the run queue
  and counted, in no queue, and a later wake-up does not enqueue it.
\<close>

theorem successor_of_dead_task_is_lost:
  assumes "hvf_sys T0 s" "hvf_curr (hvf_of c s) = Some n" "n \<noteq> p" "task_cpu (tasks s p) = c"
    and "\<not> hvf_on_rq (hvf (tasks s p))" "task_on_rq_queued n s" "\<not> sched_core_enabled c s" "st \<noteq> TASK_RUNNING"
  shows "(\<exists>s'. block_task E c n fl (upd_task n (\<lambda>v. v\<lparr>tstate := st\<rparr>) s) = Inr s' \<and>
      on_rq (tasks s' n) = 0 \<and> nr_running (rqs s' c) = u32 (nr_running (rqs s c) - 1)) \<and>
    (\<exists>s'. block_task E c n fl (upd_task n (\<lambda>v. v\<lparr>tstate := st\<rparr>) (task_dead_hvf L p s)) = Inr s' \<and>
      task_on_rq_queued n s' \<and> \<not> hvf_on_rq (hvf (tasks s' n)) \<and> n \<notin> set (queue (hvf_of c s')) \<and>
      nr_running (rqs s' c) = nr_running (rqs s c))"
proof -
  note cu = hvf_sysD(7) [OF assms(1,2)]
  have nq: "n \<notin> set (queue (hvf_of c s))" using hvf_sys_on_rq_iff [OF assms(1)] cu by blast
  let ?b = "upd_task n (\<lambda>v. v\<lparr>tstate := st\<rparr>) s"
  obtain t where t: "dequeue_task E c n (DEQUEUE_SLEEP OR fl) ?b = dequeue_task_hvf (env_lib E) c n (DEQUEUE_SLEEP OR fl) t"
    "tasks t = tasks ?b" "\<And>d. hvf_of d t = hvf_of d ?b" "\<And>d. nr_running (rqs t d) = nr_running (rqs ?b d)"
    using dequeue_task_hvf_via [of ?b n c E] cu assms(7) by (auto simp: sched_core_enabled_def)
  have 1: "\<exists>s'. block_task E c n fl ?b = Inr s' \<and> on_rq (tasks s' n) = 0 \<and>
      nr_running (rqs s' c) = u32 (nr_running (rqs s c) - 1)"
    using assms(2,8) cu t
    by (simp add: block_task_def dequeue_task_hvf_def task_is_running_def hvf_put_def hvf_get_def
      add_rq_running_def block_task_finish_def Let_def)
  define u where "u = upd_task n (\<lambda>v. v\<lparr>tstate := st\<rparr>) (task_dead_hvf L p s)"
  have d: "tasks u n = (tasks s n)\<lparr>tstate := st\<rparr>" "hvf_curr (hvf_of c u) = None"
      "queue (hvf_of c u) = queue (hvf_of c s)" "nr_running (rqs u c) = nr_running (rqs s c)"
      "sched_core_enabled c u = sched_core_enabled c s"
    using assms(4,5)
    by (simp_all add: u_def task_dead_hvf_def register_entity_info_def ktime_get_real_ts64_def Let_def
      sched_core_enabled_def)
  obtain t where t: "dequeue_task E c n (DEQUEUE_SLEEP OR fl) u = dequeue_task_hvf (env_lib E) c n (DEQUEUE_SLEEP OR fl) t"
    "tasks t = tasks u" "\<And>d. hvf_of d t = hvf_of d u" "\<And>d. nr_running (rqs t d) = nr_running (rqs u d)"
    using dequeue_task_hvf_via [of u n c E] cu assms(7) d(1,5) by auto
  have "block_task E c n fl u = Inr t"
    using d t cu by (simp add: block_task_def dequeue_task_hvf_def)
  then show ?thesis
    using 1 d t cu nq assms(6) by (simp add: task_on_rq_queued_def flip: u_def)
qed

theorem successor_of_dead_task_is_lost_witness:
  "\<exists>s'. block_task env0 0 2 0 (upd_task 2 (\<lambda>v. v\<lparr>tstate := 1\<rparr>) (task_dead_hvf ref_lib 5 (hvf_machine False))) = Inr s' \<and>
     task_on_rq_queued 2 s' \<and> 2 \<notin> set (queue (hvf_of 0 s'))"
proof -
  have "hvf_sys 1700000000000 (hvf_machine False)" using hvf_machine_ok by (simp add: hvf_ok_def)
  moreover have "hvf_curr (hvf_of 0 (hvf_machine False)) = Some 2" by (simp add: hvf_machine_sel)
  moreover have "task_cpu (tasks (hvf_machine False) 5) = 0" "task_on_rq_queued 2 (hvf_machine False)"
    by (simp_all add: hvf_machine_def boot0_def task0_def task_on_rq_queued_def hvf_task_def)
  ultimately show ?thesis
    using successor_of_dead_task_is_lost [of 1700000000000 "hvf_machine False" 0 2 5 1 env0 0 ref_lib]
      hvf_machine_class(2) [of False 5] hvf_machine_sel(10) by auto
qed



section \<open>Affinity and migration\<close>

lemma env0_class: "k \<noteq> Hvf \<Longrightarrow> k \<noteq> Idle \<Longrightarrow> other_class env0 k = plain_ops"
  by (simp add: env0_def)

lemma first_allowed_ok: "first_allowed E p m s = Some c \<Longrightarrow> is_cpu_allowed E p c s"
  by (auto simp: first_allowed_def find_Some_iff)

lemma fallback_loop_allowed: "fallback_loop E p st s = Inr (c, s') \<Longrightarrow> is_cpu_allowed E p c s'"
proof (induction E p st s rule: fallback_loop.induct)
  case (1 E p st s)
  note e = "1.prems" [unfolded fallback_loop.simps [of E p st s]]
  show ?case
    using e "1.IH"
    by (auto split: option.splits fallback.splits prod.splits if_splits sum.splits simp: bindr_def dest: first_allowed_ok)
qed

lemma select_fallback_rq_allowed:
  "select_fallback_rq E c p s = Inr (d, s') \<Longrightarrow> is_cpu_allowed E p d s'"
  by (auto simp: select_fallback_rq_def split: option.splits dest: first_allowed_ok fallback_loop_allowed)

text \<open>
  C15. Whatever cpu the class of a task proposes, and however the fallback has to widen the affinity, the cpu
  that \<open>select_task_rq\<close> returns is in the affinity mask of the task; for a user task whose migration is
  not disabled it is active.
\<close>

theorem select_task_rq_allowed:
  assumes "select_task_rq E p c fl s = Inr (d, fl', s')"
  shows "d \<in> cpus_ptr (tasks s' p) \<and>
    (pflags (tasks s' p) AND PF_KTHREAD = 0 \<and> \<not> is_migration_disabled (tasks s' p) \<longrightarrow> d \<in> cpu_active_mask s')"
proof -
  have "is_cpu_allowed E p d s'"
    using assms unfolding select_task_rq_def
    by (auto simp: bindr_def split: sum.splits if_splits prod.splits dest: select_fallback_rq_allowed)
  then show ?thesis by (auto simp: is_cpu_allowed_def task_allowed_on_cpu_def split: if_splits)
qed

theorem select_task_rq_allowed_witness:
  "\<exists>d fl' s'. select_task_rq env0 2 1 WF_TTWU boot0 = Inr (d, fl', s') \<and> d \<in> cpus_ptr (tasks s' 2)"
proof -
  have "is_cpu_allowed env0 2 1 boot0"
    by (simp add: is_cpu_allowed_def task_allowed_on_cpu_def cpus_ptr_def env0_def sample_defs is_migration_disabled_def)
  then have "select_task_rq env0 2 1 WF_TTWU boot0 = Inr (1, WF_TTWU OR WF_RQ_SELECTED, boot0)"
    using env0_class [of Fair]
    by (simp add: select_task_rq_def boot0_def task0_def is_migration_disabled_def plain_ops_def)
  from select_task_rq_allowed [OF this] this show ?thesis by blast
qed

text \<open>
  \<open>migrate_enable\<close> undoes \<open>migrate_disable\<close>, at every depth of nesting below the limit of the 16-bit
  counter, as long as the task has not been switched out in between.
\<close>

theorem migrate_disable_enable:
  assumes "0 \<le> migration_disabled (tasks s (current s))" "migration_disabled (tasks s (current s)) < 2 ^ 16 - 1"
    and "cpus_ptr_to (tasks s (current s)) = None"
    and "0 \<le> nr_pinned (rqs s (this_cpu s))" "nr_pinned (rqs s (this_cpu s)) < 2 ^ 32 - 1"
  shows "migrate_enable E (migrate_disable s) = Inr s"
proof (cases "migration_disabled (tasks s (current s)) = 0")
  case True
  have p: "u32 (nr_pinned (rqs s (this_cpu s)) + 1) = nr_pinned (rqs s (this_cpu s)) + 1"
      "u32 (nr_pinned (rqs s (this_cpu s))) = nr_pinned (rqs s (this_cpu s))"
    using assms(4,5) by (simp_all add: u32_def)
  let ?p = "current s" and ?c = "this_cpu s"
  have "upd_task ?p (\<lambda>v. v\<lparr>migration_disabled := 0\<rparr>) s = s" using True by (simp add: fun_upd_idem)
  then show ?thesis
    using True assms(3) p by (simp add: migrate_enable_def migrate_disable_def Let_def)
next
  case False
  then have "(migration_disabled (tasks s (current s)) + 1) mod 65536 = migration_disabled (tasks s (current s)) + 1"
    using assms(1,2) by simp
  then show ?thesis
    using False assms(1) by (simp add: migrate_enable_def migrate_disable_def Let_def)
qed

theorem migrate_disable_enable_witness: "migrate_enable env0 (migrate_disable boot0) = Inr boot0"
proof -
  have "migration_disabled (tasks boot0 (current boot0)) = 0" "cpus_ptr_to (tasks boot0 (current boot0)) = None"
      "nr_pinned (rqs boot0 (this_cpu boot0)) = 0"
    by (simp_all add: sample_defs)
  then show ?thesis using migrate_disable_enable [of boot0 env0] by simp
qed

text \<open>
  A change of the affinity of a sleeping task completes at once: \<open>affine_move_task\<close> returns 0 with the
  request installed, completed and dropped, and no stopper is asked. The waits return at once on a
  completed request and on a request without other waiters.
\<close>

theorem sleeping_move_completes:
  assumes "\<not> task_on_cpu p s" "tstate (tasks s p) \<noteq> TASK_WAKING" "\<not> task_on_rq_queued p s"
    and "\<not> is_migration_disabled (tasks s p)" "migration_pending (tasks s p) = None"
    and "task_cpu (tasks s p) \<notin> cpus_mask (tasks s p)" "fl AND SCA_MIGRATE_ENABLE = 0"
    and "\<And>i t. pend_done (pendings t i) \<Longrightarrow> wait_for_completion E i t = Inr t"
    and "\<And>i t. pend_refs (pendings t i) = 0 \<Longrightarrow> wait_pending_refs E i t = Inr t"
  shows "\<exists>s'. affine_move_task E c p d fl s = Inr (0, s') \<and> migration_pending (tasks s' p) = None \<and>
    pend_done (pendings s' (nr_pendings s)) \<and> pend_refs (pendings s' (nr_pendings s)) = 0 \<and>
    stop_works s' = stop_works s"
  using assms
  by (simp add: affine_move_task_def install_pending_def affine_wait_def upd_pending_def complete_all_def
    task_on_cpu_def task_on_rq_queued_def is_migration_disabled_def Let_def)

theorem sleeping_move_completes_witness:
  "\<exists>s'. affine_move_task env0 0 2 1 SCA_USER (upd_task 2 (\<lambda>v. v\<lparr>cpus_mask := {1}\<rparr>) boot0) = Inr (0, s') \<and>
     pend_done (pendings s' 0)"
proof -
  let ?s = "upd_task 2 (\<lambda>v. v\<lparr>cpus_mask := {1}\<rparr>) boot0"
  have s: "\<not> task_on_cpu 2 ?s" "tstate (tasks ?s 2) \<noteq> TASK_WAKING" "\<not> task_on_rq_queued 2 ?s"
      "\<not> is_migration_disabled (tasks ?s 2)" "migration_pending (tasks ?s 2) = None"
      "task_cpu (tasks ?s 2) \<notin> cpus_mask (tasks ?s 2)" "(SCA_USER :: flags) AND SCA_MIGRATE_ENABLE = 0"
    by (simp_all add: boot0_def task0_def task_on_cpu_def task_on_rq_queued_def is_migration_disabled_def)
  have w: "wait_for_completion env0 i t = Inr t" "wait_pending_refs env0 i t = Inr t" for i t
    by (simp_all add: env0_def)
  have "nr_pendings ?s = 0" by (simp add: boot0_def)
  then show ?thesis using sleeping_move_completes [OF s w, of 0 1] by auto
qed

text \<open>
  C23. A stopper thread that takes a migration request either completes it; or, if the task has migration
  disabled, leaves it for \<open>migrate_enable\<close>; or, if the task has moved to a cpu that is not allowed
  either, hands the request on to the stopper of that cpu.
\<close>

theorem stopper_progress:
  assumes "wake_list s (this_cpu s) = []" "run_stop_work E (Migration_stop i) s = Inr s'"
    and "p = arg_task (pendings s i)"
  shows "if task_cpu (tasks s p) = this_cpu s \<and> is_migration_disabled (tasks s p) then
      \<not> stop_pending (pendings s' i) \<and> pend_done (pendings s' i) = pend_done (pendings s i) \<and>
      migration_pending (tasks s' p) = migration_pending (tasks s p)
    else if task_cpu (tasks s p) \<noteq> this_cpu s \<and> task_cpu (tasks s p) \<notin> cpus_ptr (tasks s p) then
      stop_works s' = stop_works s @ [(task_cpu (tasks s p), Migration_stop i)]
    else pend_done (pendings s' i) \<and> \<not> stop_pending (pendings s' i)"
proof -
  have o: "pend_done (pendings (migration_stop_out (Some i) True u) i)"
      "\<not> stop_pending (pendings (migration_stop_out (Some i) True u) i)" for u :: "'a kstate"
    by (simp_all add: migration_stop_out_def upd_pending_def complete_all_def Let_def)
  have s': "migration_cpu_stop E p (\<lambda>s. arg_dest_cpu (pendings s i)) (Some i) s = Inr s'"
    using assms(2,3) by (simp add: run_stop_work_def)
  show ?thesis
  proof (cases "task_cpu (tasks s p) = this_cpu s")
    case True
    then show ?thesis
      using s' assms(1) o
      by (cases "is_migration_disabled (tasks s p)")
        (auto simp: migration_cpu_stop_def sched_ttwu_pending_def Let_def bindr_def migration_stop_out_def
          upd_pending_def complete_all_def split: if_splits sum.splits)
  next
    case False
    then show ?thesis
      using s' assms(1) o
      by (auto simp: migration_cpu_stop_def sched_ttwu_pending_def Let_def stop_one_cpu_nowait_def split: if_splits)
  qed
qed

definition pending_move :: "unit kstate" where
  "pending_move = boot0\<lparr>pendings := (\<lambda>_. \<lparr>pend_refs = 1, stop_pending = True, pend_done = False, arg_task = 2,
     arg_dest_cpu = 1\<rparr>)\<rparr>"

theorem stopper_progress_witness:
  "\<exists>s'. run_stop_work env0 (Migration_stop 0) pending_move = Inr s' \<and> pend_done (pendings s' 0)"
proof -
  have p: "wake_list pending_move (this_cpu pending_move) = []" "arg_task (pendings pending_move 0) = 2"
      "task_cpu (tasks pending_move 2) = 0" "this_cpu pending_move = 0" "\<not> is_migration_disabled (tasks pending_move 2)"
      "task_cpu (tasks pending_move 2) \<in> cpus_mask (tasks pending_move 2)"
    by (simp_all add: pending_move_def boot0_def task0_def is_migration_disabled_def)
  then obtain s' where s': "run_stop_work env0 (Migration_stop 0) pending_move = Inr s'"
    by (simp add: run_stop_work_def migration_cpu_stop_def sched_ttwu_pending_def Let_def is_migration_disabled_def)
  from stopper_progress [OF p(1) s' refl] s' p(2-5) show ?thesis by simp
qed

section \<open>Address spaces\<close>

text \<open>A task with an address space of its own has it active; a kernel thread borrows one.\<close>

definition mm_ok :: "'x kstate \<Rightarrow> bool" where
  "mm_ok s \<longleftrightarrow> (\<forall>t. mm (tasks s t) \<noteq> None \<longrightarrow> active_mm (tasks s t) = mm (tasks s t))"

text \<open>
  C35. A context switch keeps the discipline of the address spaces: a task with its own has it active; the
  task switched to has an active one; a kernel thread that is switched out gives up the one it borrowed,
  which passes to the next kernel thread or, before a user task, to the run queue, to be dropped.
\<close>

theorem switch_keeps_mm:
  assumes "mm_ok s" "active_mm (tasks s prev) \<noteq> None" "prev \<noteq> next" "s' = switch_active_mm E c prev next s"
  shows "mm_ok s' \<and> active_mm (tasks s' next) \<noteq> None \<and>
    (mm (tasks s prev) = None \<longrightarrow> active_mm (tasks s' prev) = None \<and>
      (if mm (tasks s next) = None then active_mm (tasks s' next) = active_mm (tasks s prev)
       else prev_mm (rqs s' c) = active_mm (tasks s prev)))"
proof -
  have f: "tasks (membarrier_switch_mm E c pm nm u) = tasks u" for pm nm and u :: "'a kstate"
    by (simp add: membarrier_switch_mm_def)
  show ?thesis
    using assms by (auto simp: switch_active_mm_def mm_ok_def Let_def f split: option.splits)
qed

theorem switch_keeps_mm_witness:
  "active_mm (tasks (switch_active_mm env0 0 1 2 (upd_task 2 (\<lambda>v. v\<lparr>mm := None, active_mm := None\<rparr>) boot0)) 2) \<noteq> None"
proof -
  have "mm_ok (upd_task 2 (\<lambda>v. v\<lparr>mm := None, active_mm := None\<rparr>) boot0)"
      "active_mm (tasks (upd_task 2 (\<lambda>v. v\<lparr>mm := None, active_mm := None\<rparr>) boot0) 1) \<noteq> None"
    by (simp_all add: mm_ok_def boot0_def task0_def)
  then show ?thesis using switch_keeps_mm [OF _ _ _ refl, of _ 1 2 env0 0] by simp
qed

section \<open>The reference count of core scheduling\<close>

lemma flip_cores_enabled:
  assumes "\<And>c. c \<in> cpu_smt_mask E c"
    and "\<forall>c \<in> set cs \<inter> M. c \<in> todo \<or> core_enabled (rqs s c) = b"
  shows "(c \<in> set cs \<inter> M \<or> core_enabled (rqs s c) = b) \<Longrightarrow> core_enabled (rqs (flip_cores E b cs todo s) c) = b"
  using assms(2)
proof (induction cs arbitrary: todo s)
  case (Cons x cs)
  show ?case
  proof (cases "x \<in> todo")
    case True
    let ?s1 = "s\<lparr>rqs := (\<lambda>t. if t \<in> cpu_smt_mask E x then (rqs s t)\<lparr>core_enabled := b\<rparr> else rqs s t)\<rparr>"
    let ?s2 = "upd_rq (rq_core (rqs ?s1 x)) (\<lambda>r. r\<lparr>core_forceidle_start := 0\<rparr>) ?s1"
    have e: "core_enabled (rqs ?s2 d) = (d \<in> cpu_smt_mask E x \<and> b \<or> d \<notin> cpu_smt_mask E x \<and> core_enabled (rqs s d))" for d
      by simp
    have "\<forall>d \<in> set cs \<inter> M. d \<in> todo - cpu_smt_mask E x \<or> core_enabled (rqs ?s2 d) = b"
      using Cons.prems(2) unfolding e by auto
    moreover have "c \<in> set cs \<inter> M \<or> core_enabled (rqs ?s2 c) = b"
      using Cons.prems(1) assms(1) [of x] unfolding e by auto
    ultimately have "core_enabled (rqs (flip_cores E b cs (todo - cpu_smt_mask E x) ?s2) c) = b"
      by (intro Cons.IH) blast+
    then show ?thesis using True by (simp add: Let_def)
  next
    case False
    then show ?thesis using Cons by auto
  qed
qed simp

lemma flip_cores_frame [simp]:
  "cpu_online_mask (flip_cores E b cs todo s) = cpu_online_mask s" "nr_cpu_ids (flip_cores E b cs todo s) = nr_cpu_ids s"
  "sched_core_key (flip_cores E b cs todo s) = sched_core_key s"
  "sched_core_count (flip_cores E b cs todo s) = sched_core_count s"
  "sched_core_work (flip_cores E b cs todo s) = sched_core_work s"
  by (induction cs arbitrary: todo s; simp add: Let_def)+

lemma sched_core_flip_frame [simp]:
  "nr_cpu_ids (sched_core_flip E b s) = nr_cpu_ids s" "sched_core_key (sched_core_flip E b s) = sched_core_key s"
  "sched_core_count (sched_core_flip E b s) = sched_core_count s"
  "sched_core_work (sched_core_flip E b s) = sched_core_work s"
  by (simp_all add: sched_core_flip_def Let_def)

lemma sched_core_flip_enabled:
  assumes "\<And>c. c \<in> cpu_smt_mask E c" "c < nr_cpu_ids s"
  shows "core_enabled (rqs (sched_core_flip E b s) c) = b"
proof (cases "c \<in> cpu_online_mask s")
  case True
  have "core_enabled (rqs (flip_cores E b (for_each_cpu (cpu_online_mask s) s) (cpu_online_mask s) s) c) = b"
    using True assms by (intro flip_cores_enabled [where M = UNIV]) (auto simp: for_each_cpu_def)
  then show ?thesis using True by (simp add: sched_core_flip_def Let_def cpu_possible_mask_def)
next
  case False
  then show ?thesis using assms(2) by (simp add: sched_core_flip_def Let_def cpu_possible_mask_def)
qed

text \<open>
  The runs of the interface: \<open>h\<close> references are held; a holder may put its reference; the work item runs once it
  is scheduled.
\<close>

inductive core_ref :: "'x kenv \<Rightarrow> 'x kstate \<Rightarrow> nat \<Rightarrow> 'x kstate \<Rightarrow> bool" for E s where
  Ref_start: "core_ref E s 0 s"
| Ref_get: "core_ref E s h t \<Longrightarrow> core_ref E s (Suc h) (sched_core_get E t)"
| Ref_put: "core_ref E s (Suc h) t \<Longrightarrow> core_ref E s h (sched_core_put t)"
| Ref_work: "core_ref E s h t \<Longrightarrow> sched_core_work t \<Longrightarrow> core_ref E s h (sched_core_put_work E t)"

definition all_cores :: "bool \<Rightarrow> 'x kstate \<Rightarrow> bool" where
  "all_cores b s \<longleftrightarrow> sched_core_key s = b \<and> (\<forall>c < nr_cpu_ids s. core_enabled (rqs s c) = b)"

lemma all_cores_flip:
  assumes "\<And>c. c \<in> cpu_smt_mask E c"
  shows "all_cores True (sched_core_enable E s)" "all_cores False (sched_core_disable E s)"
  using sched_core_flip_enabled [OF assms]
  by (simp_all add: all_cores_def sched_core_enable_def sched_core_disable_def)

lemma all_cores_upd [simp]:
  "all_cores b (s\<lparr>sched_core_count := n\<rparr>) = all_cores b s" "all_cores b (s\<lparr>sched_core_work := w\<rparr>) = all_cores b s"
  by (simp_all add: all_cores_def)

text \<open>
  C16. However references to core scheduling are taken and put, the count is the number of references plus
  one for a scheduled work item; core scheduling is on, on every cpu, as long as the count is positive, and
  off on every cpu when it is zero. A put never turns it off while another reference is held.
\<close>

theorem core_refcount:
  assumes "core_ref E s h t" "\<And>c. c \<in> cpu_smt_mask E c"
    and "sched_core_count s = 0" "\<not> sched_core_work s" "all_cores False s"
  shows "sched_core_count t = int h + (if sched_core_work t then 1 else 0) \<and> all_cores (sched_core_count t > 0) t"
  using assms(1)
proof induction
  case Ref_start
  then show ?case using assms(3-5) by simp
next
  case (Ref_get h t)
  have w: "sched_core_work (sched_core_enable E t) = sched_core_work t"
      "sched_core_count (sched_core_enable E t) = sched_core_count t"
    by (simp_all add: sched_core_enable_def)
  show ?case
    using Ref_get.IH w all_cores_flip(1) [OF assms(2), of t]
    by (cases "sched_core_count t = 0") (auto simp: sched_core_get_def split: if_splits)
next
  case (Ref_put h t)
  then show ?case by (auto simp: sched_core_put_def split: if_splits)
next
  case (Ref_work h t)
  have w: "sched_core_work (sched_core_disable E u) = sched_core_work u"
      "sched_core_count (sched_core_disable E u) = sched_core_count u" for u
    by (simp_all add: sched_core_disable_def)
  show ?case
    using Ref_work w all_cores_flip(2) [OF assms(2)]
    by (cases "h = 0") (auto simp: sched_core_put_work_def Let_def)
qed

theorem core_refcount_witness:
  "all_cores True (sched_core_put (sched_core_get env0 (sched_core_get env0 boot0)))"
proof -
  let ?t = "sched_core_put (sched_core_get env0 (sched_core_get env0 boot0))"
  have r: "core_ref env0 boot0 1 ?t"
    by (simp, rule core_ref.Ref_put, rule core_ref.Ref_get, rule core_ref.Ref_get, rule core_ref.Ref_start)
  have "c \<in> cpu_smt_mask env0 c" for c by (simp add: env0_def)
  moreover have "sched_core_count boot0 = 0" "\<not> sched_core_work boot0" "all_cores False boot0"
    by (simp_all add: all_cores_def boot0_def rq0_def)
  ultimately have c: "sched_core_count ?t \<ge> 1" "all_cores (sched_core_count ?t > 0) ?t"
    using core_refcount [OF r] by (auto split: if_splits)
  from c(1) have "sched_core_count ?t > 0" by linarith
  with c(2) show ?thesis by (simp only: )
qed

section \<open>Wake queues\<close>

text \<open>
  Adding tasks to a wake queue, in any order and with repetitions, gives a queue that holds each of them once
  and in which exactly the added tasks are marked as queued.
\<close>

theorem wake_q_adds:
  assumes "\<And>p. \<not> wake_q_queued (tasks s p)"
    and "foldl (\<lambda>(q, s) p. wake_q_add E q p s) ([], s) ps = (q, s')"
  shows "distinct q \<and> set q = set ps \<and> (\<forall>p. wake_q_queued (tasks s' p) \<longleftrightarrow> p \<in> set ps)"
proof -
  have "distinct q' \<and> set q' = set q0 \<union> set ps \<and> (\<forall>p. wake_q_queued (tasks s' p) \<longleftrightarrow> p \<in> set q0 \<union> set ps)"
    if "foldl (\<lambda>(q, s) p. wake_q_add E q p s) (q0, s0) ps = (q', s')"
      "distinct q0" "\<And>p. wake_q_queued (tasks s0 p) \<longleftrightarrow> p \<in> set q0" for q0 q' s0
    using that
  proof (induction ps arbitrary: q0 s0)
    case (Cons p ps)
    show ?case
    proof (cases "p \<in> set q0")
      case True
      then have "wake_q_add E q0 p s0 = (q0, s0)" using Cons.prems(3) by (simp add: wake_q_add_def wake_q_link_def)
      then show ?thesis using Cons.IH [of q0 s0] Cons.prems True by (auto simp: insert_absorb)
    next
      case False
      define s1 where "s1 = snd (wake_q_add E q0 p s0)"
      have a: "wake_q_add E q0 p s0 = (q0 @ [p], s1)" and "wake_q_queued (tasks s1 x) \<longleftrightarrow> x \<in> set (q0 @ [p])" for x
        using False Cons.prems(3) by (simp_all add: s1_def wake_q_add_def wake_q_link_def)
      then show ?thesis using Cons.IH [of "q0 @ [p]" s1] Cons.prems(1,2) False by simp
    qed
  qed auto
  from this [OF assms(2)] assms(1) show ?thesis by simp
qed

theorem wake_q_adds_witness:
  "set (fst (foldl (\<lambda>(q, s) p. wake_q_add env0 q p s) ([], boot0) [2, 3, 2])) = {2, 3}"
proof -
  obtain q s' where q: "foldl (\<lambda>(q, s) p. wake_q_add env0 q p s) ([], boot0) [2, 3, 2] = (q, s')" by fastforce
  have "\<not> wake_q_queued (tasks boot0 p)" for p by (simp add: boot0_def task0_def)
  from wake_q_adds [OF this q] q show ?thesis by auto
qed

end
