(* ===== verification/Call_Theorems.thy ===== *)
theory Call_Theorems
  imports Core_Theorems
begin

text \<open>
  The properties of the scheduling calls: \<open>__sched_setscheduler\<close> and its privileges, the class and
  priority of a policy, and the calls that reach a method which \<open>hvf_sched_class\<close> does not have.
\<close>

declare set_inorder [simp del] length_inorder [simp del]

section \<open>Setting the scheduler\<close>

lemma setsched_check_state:
  assumes "setsched_check SE p attr user s = Inr (pol, b, s1)"
  shows "tasks s1 = tasks s" "rqs s1 = rqs s" "ext s1 = ext s"
proof -
  define X where "X = (if sa_flags attr AND SCHED_FLAG_UTIL_CLAMP \<noteq> 0 then uclamp_validate (tasks s p) attr s else (0, s))"
  have "s1 = snd X"
    using assms unfolding setsched_check_def Let_def X_def [symmetric]
    by (simp only: split_beta split: if_splits) simp_all
  moreover have "tasks (snd X) = tasks s" "rqs (snd X) = rqs s" "ext (snd X) = ext s"
    by (simp_all add: X_def uclamp_validate_def Let_def)
  ultimately show "tasks s1 = tasks s" "rqs s1 = rqs s" "ext s1 = ext s" by simp_all
qed

text \<open>
  C28. A call of \<open>__sched_setscheduler\<close> that returns an error has changed no task and no HVF queue,
  whichever of its checks failed.
\<close>

theorem setscheduler_error_keeps_tasks:
  assumes "sched_setscheduler_core SE p attr user pi s = Inr (r, s')" "r \<noteq> 0"
  shows "tasks s' = tasks s \<and> hvf_of c s' = hvf_of c s"
proof (cases "setsched_check SE p attr user s")
  case (Inl e)
  then show ?thesis using assms(1) by (simp add: sched_setscheduler_core_def)
next
  case (Inr a)
  obtain pol b s1 where a: "a = (pol, b, s1)" by (cases a) auto
  note st = setsched_check_state [OF Inr [unfolded a]]
  define s2 where "s2 = update_rq_clock (kern SE) (task_cpu (tasks s1 p)) s1"
  have f: "tasks s2 = tasks s" "hvf_of c s2 = hvf_of c s" using st by (simp_all add: s2_def)
  from assms(1) show ?thesis
    unfolding sched_setscheduler_core_def Inr a sum.case prod.case Let_def s2_def [symmetric]
    using assms(2) f by (auto split: if_splits prod.splits)
qed

theorem setscheduler_error_keeps_tasks_witness:
  "\<exists>r s'. sched_setscheduler_core senv0 2 (attr_zero\<lparr>sa_policy := 99\<rparr>) True True boot0 = Inr (r, s') \<and>
     r = - 22 \<and> tasks s' = tasks boot0"
proof -
  have "s32 99 = 99" by (simp add: s32_def)
  then have "sched_setscheduler_core senv0 2 (attr_zero\<lparr>sa_policy := 99\<rparr>) True True boot0 = Inr (- 22, boot0)"
    by (simp add: sched_setscheduler_core_def setsched_check_def attr_zero_def Let_def policy_defs split_beta)
  from setscheduler_error_keeps_tasks [OF this] this show ?thesis by simp
qed

text \<open>
  C21. Without \<open>CAP_SYS_NICE\<close> a user's request succeeds only on a task of the same user; it does not
  make a task a deadline task, does not raise a real-time priority above the larger of the present
  one and the limit, does not enter a real-time policy against a zero limit, and does not lower a nice
  value below what the limit grants.
\<close>

theorem unprivileged_is_limited:
  assumes "sched_setscheduler_core SE p attr True pi s = Inr (0, s')" "\<not> capable_sys_nice SE (current s) (ext s)"
  defines "pol \<equiv> (if s32 (sa_policy attr) < 0 then policy (tasks s p) else s32 (sa_policy attr))"
  shows "check_same_owner SE p s \<and> \<not> dl_policy pol \<and>
    (rt_policy pol \<longrightarrow> sa_priority attr \<le> max (rt_priority (tasks s p)) (rlimit_rtprio SE p (ext s)) \<and>
       (pol = policy (tasks s p) \<or> rlimit_rtprio SE p (ext s) \<noteq> 0)) \<and>
    (fair_policy pol \<longrightarrow> task_nice (tasks s p) \<le> sa_nice attr \<or> is_nice_reduction SE p (sa_nice attr) s)"
proof -
  let ?rof = "if s32 (sa_policy attr) < 0 then sched_reset_on_fork (tasks s p)
    else sa_flags attr AND SCHED_FLAG_RESET_ON_FORK \<noteq> 0"
  have "\<not> needs_privilege SE p attr pol ?rof s"
  proof (rule ccontr)
    assume "\<not> ?thesis"
    then have "user_check_sched_setscheduler SE p attr pol ?rof s = - EPERM"
      using assms(2) by (simp add: user_check_sched_setscheduler_def)
    then have "\<exists>e. setsched_check SE p attr True s = Inl e \<and> e \<noteq> 0"
      by (simp add: setsched_check_def pol_def Let_def split_beta)
    then show False using assms(1) by (auto simp: sched_setscheduler_core_def)
  qed
  then show ?thesis by (auto simp: needs_privilege_def Let_def)
qed

theorem unprivileged_is_limited_witness:
  "\<not> capable_sys_nice senv0 2 () \<and>
   (\<exists>s'. sched_setscheduler_core senv0 2 (attr_zero\<lparr>sa_runtime := 2800000\<rparr>) True True (boot0\<lparr>current := 2\<rparr>) = Inr (0, s')) \<and>
   check_same_owner senv0 2 (boot0\<lparr>current := 2\<rparr>)"
proof -
  let ?s = "boot0\<lparr>current := 2\<rparr>" and ?a = "attr_zero\<lparr>sa_runtime := 2800000\<rparr>"
  have a: "sa_policy ?a = 0" "sa_flags ?a = 0" "sa_nice ?a = 0" "sa_priority ?a = 0" "sa_runtime ?a = 2800000"
    by (simp_all add: attr_zero_def)
  have t: "policy (tasks ?s 2) = 0" "task_nice (tasks ?s 2) = 0" "slice (se (tasks ?s 2)) = 2800000"
      "\<not> sched_reset_on_fork (tasks ?s 2)" "rq_stop (rqs ?s c) = None" for c
    by (simp_all add: boot0_def task0_def se0_def rq0_def task_nice_def)
  have e: "capable_sys_nice senv0 2 () = False" "security_task_setscheduler senv0 2 () = 0" "check_same_owner senv0 2 ?s"
    by (simp_all add: senv0_def check_same_owner_def)
  have "s32 0 = 0" by (simp add: s32_def)
  moreover have "\<not> needs_privilege senv0 2 ?a 0 False ?s"
    using t e(3) a by (simp add: needs_privilege_def policy_defs task_has_idle_policy_def)
  ultimately have c: "setsched_check senv0 2 ?a True ?s = Inr (0, False, ?s)"
    using a t e(1,2) by (simp add: setsched_check_def Let_def user_check_sched_setscheduler_def policy_defs)
  have "rq_stop (rqs (update_rq_clock E c s) d) = rq_stop (rqs s d)" for E :: "unit kenv" and c d s
    by (simp add: update_rq_clock_def update_rq_clock_task_def Let_def)
  then have r: "\<exists>s'. sched_setscheduler_core senv0 2 ?a True True ?s = Inr (0, s')"
    using a t c by (simp add: sched_setscheduler_core_def Let_def setsched_changes_def policy_defs)
  then obtain s' where "sched_setscheduler_core senv0 2 ?a True True ?s = Inr (0, s')" by blast
  from unprivileged_is_limited [OF this] e r show ?thesis by simp
qed

text \<open>
  C27. The priority of a valid request belongs to its policy: a deadline policy gives the priority -1 and the
  deadline class, a real-time policy a priority of \<open>0..98\<close> and the real-time class, \<open>SCHED_HVF\<close> the
  HVF class and every other policy the fair class, both with a priority of \<open>100..139\<close>.
\<close>

theorem class_of_policy:
  assumes "setsched_check SE p attr user s = Inr (pol, b, s1)" "0 \<le> sa_priority attr"
    and "MIN_NICE \<le> sa_nice attr" "sa_nice attr \<le> MAX_NICE" "valid_policy (policy (tasks s p))"
  defines "pr \<equiv> normal_prio_of pol (sa_priority attr) (sa_nice attr)"
  shows "(dl_policy pol \<longrightarrow> pr = - 1 \<and> setscheduler_class pol pr = Dl) \<and>
    (rt_policy pol \<longrightarrow> 0 \<le> pr \<and> pr \<le> 98 \<and> setscheduler_class pol pr = Rt) \<and>
    (hvf_policy pol \<longrightarrow> 100 \<le> pr \<and> pr \<le> 139 \<and> setscheduler_class pol pr = Hvf) \<and>
    (fair_policy pol \<or> idle_policy pol \<longrightarrow> 100 \<le> pr \<and> pr \<le> 139 \<and> setscheduler_class pol pr = Fair) \<and>
    valid_policy pol"
proof -
  define X where "X = (if sa_flags attr AND SCHED_FLAG_UTIL_CLAMP \<noteq> 0 then uclamp_validate (tasks s p) attr s else (0, s))"
  have c: "pol = (if s32 (sa_policy attr) < 0 then policy (tasks s p) else s32 (sa_policy attr))"
      "s32 (sa_policy attr) \<ge> 0 \<longrightarrow> valid_policy pol" "sa_priority attr \<le> 99" "rt_policy pol = (sa_priority attr \<noteq> 0)"
    using assms(1) unfolding setsched_check_def Let_def X_def [symmetric]
    by (simp_all only: split_beta split: if_splits) auto
  have "valid_policy pol" using c(1,2) assms(5) by (cases "s32 (sa_policy attr) < 0") auto
  moreover have "rt_policy pol \<Longrightarrow> 1 \<le> sa_priority attr" using c(4) assms(2) by linarith
  ultimately show ?thesis
    using c(3) assms(2-4)
    by (auto simp: pr_def normal_prio_of_def policy_defs setscheduler_class_def dl_prio_def rt_prio_def)
qed

theorem class_of_policy_witness:
  "\<exists>s1. setsched_check senv0 2 (attr_zero\<lparr>sa_policy := 1, sa_priority := 50\<rparr>) False boot0 = Inr (1, False, s1) \<and>
     setscheduler_class 1 (normal_prio_of 1 50 0) = Rt"
proof -
  let ?a = "attr_zero\<lparr>sa_policy := 1, sa_priority := 50\<rparr>"
  have a: "sa_policy ?a = 1" "sa_flags ?a = 0" "sa_nice ?a = 0" "sa_priority ?a = 50" by (simp_all add: attr_zero_def)
  have "s32 1 = 1" by (simp add: s32_def)
  then have c: "setsched_check senv0 2 ?a False boot0 = Inr (1, False, boot0)"
    using a by (simp add: setsched_check_def Let_def policy_defs)
  have "valid_policy (policy (tasks boot0 2))" by (simp add: boot0_def task0_def policy_defs)
  from class_of_policy [OF c _ _ _ this] a c show ?thesis by (simp add: policy_defs)
qed

text \<open>
  Every valid policy has a range of priorities, which \<open>sched_get_priority_min\<close> and
  \<open>sched_get_priority_max\<close> report, except \<open>SCHED_HVF\<close>, for which both return \<open>-EINVAL\<close>.
\<close>

theorem priority_range_of_policy:
  assumes "valid_policy pol"
  shows "(sys_sched_get_priority_max pol = - EINVAL \<longleftrightarrow> pol = SCHED_HVF) \<and>
    (sys_sched_get_priority_min pol = - EINVAL \<longleftrightarrow> pol = SCHED_HVF) \<and>
    (pol \<noteq> SCHED_HVF \<longrightarrow> 0 \<le> sys_sched_get_priority_min pol \<and>
       sys_sched_get_priority_min pol \<le> sys_sched_get_priority_max pol)"
  using assms by (auto simp: policy_defs sys_sched_get_priority_max_def sys_sched_get_priority_min_def)

theorem priority_range_of_policy_witness: "sys_sched_get_priority_max SCHED_HVF = - 22"
  using priority_range_of_policy [of SCHED_HVF] by (simp add: policy_defs)

section \<open>Methods the class does not have\<close>

text \<open>
  The class has no \<open>yield_task\<close> and no \<open>update_curr\<close>: \<open>sched_yield\<close> by an HVF task, and
  reading the run time of a running one, call a null pointer.
\<close>

theorem hvf_yield_and_runtime_fault:
  assumes "sched_class (tasks s (current s)) = Hvf" "on_cpu (tasks s (current s))" "task_on_rq_queued (current s) s"
    and "rq_curr (rqs s (task_cpu (tasks s (current s)))) = current s"
  shows "do_sched_yield SE n s = Inl Null_call \<and> task_sched_runtime E (current s) s = Inl Null_call"
  using assms
  by (simp add: do_sched_yield_def task_sched_runtime_def task_current_donor_def hvf_sched_class_def call_def
    task_on_rq_queued_def Let_def)

theorem hvf_yield_and_runtime_fault_witness:
  "do_sched_yield senv0 5 (upd_task 2 (\<lambda>v. v\<lparr>on_cpu := True\<rparr>) (hvf_machine False)) = Inl Null_call"
proof -
  let ?s = "upd_task 2 (\<lambda>v. v\<lparr>on_cpu := True\<rparr>) (hvf_machine False)"
  have "sched_class (tasks ?s (current ?s)) = Hvf" "on_cpu (tasks ?s (current ?s))" "task_on_rq_queued (current ?s) ?s"
      "rq_curr (rqs ?s (task_cpu (tasks ?s (current ?s)))) = current ?s"
    by (simp_all add: hvf_machine_def boot0_def rq0_def task0_def hvf_task_def task_on_rq_queued_def)
  then show ?thesis using hvf_yield_and_runtime_fault by blast
qed

text \<open>The queueing operations keep the class of an HVF task.\<close>

lemma compute_init_class: "compute_init_sched_value p = Inr (V, p') \<Longrightarrow> sched_class p' = sched_class p"
  by (auto simp: compute_init_sched_value_def Let_def split: if_splits)

lemma give_default_class: "give_default_hvf_values now p = Inr p' \<Longrightarrow> sched_class p' = sched_class p"
  by (auto simp: give_default_hvf_values_def Let_def dest!: compute_init_class split: if_splits)

lemma hvf_put_class:
  "sched_class (tasks (hvf_put c (enqueue_hvf_entity L x (hvf_get c s)) s) t) = sched_class (tasks s t)"
  "sched_class (tasks (hvf_put c (snd (dequeue_hvf_entity L x (hvf_get c s))) s) t) = sched_class (tasks s t)"
  "sched_class (tasks (hvf_put c (put_prev_hvf_entity L x (hvf_get c s)) s) t) = sched_class (tasks s t)"
  "sched_class (tasks (hvf_put c (set_next_hvf_entity L now x (hvf_get c s)) s) t) = sched_class (tasks s t)"
  by (simp_all add: hvf_put_def hvf_get_def enqueue_hvf_entity_def dequeue_hvf_entity_def put_prev_hvf_entity_def
    set_next_hvf_entity_def Let_def split: prod.split)

lemma enqueue_task_hvf_class:
  assumes "enqueue_task_hvf L c p fl s = Inr s'"
  shows "sched_class (tasks s' t) = sched_class (tasks s t)"
proof -
  have 1: "sched_class (tasks u' t) = sched_class (tasks u t)" if "hvf_compute p u = Inr u'" for u u'
    using that by (auto simp: hvf_compute_def dest!: compute_init_class)
  have 2: "sched_class (tasks u' t) = sched_class (tasks u t)" if "hvf_give_default p u = Inr u'" for u u'
    using that by (auto simp: hvf_give_default_def ktime_get_real_ts64_def dest!: give_default_class split: if_splits)
  have 3: "sched_class (tasks (hvf_init_entity p u) t) = sched_class (tasks u t)" for u
    by (simp add: hvf_init_entity_def ktime_get_real_ts64_def)
  show ?thesis
    using assms unfolding enqueue_task_hvf_def
    by (auto simp: add_rq_running_def hvf_put_class 3 dest!: 1 2 split: if_splits)
qed

lemma dequeue_task_hvf_class:
  assumes "dequeue_task_hvf L c p fl s = Inr (b, s')"
  shows "sched_class (tasks s' t) = sched_class (tasks s t)"
proof -
  have d: "sched_class (tasks (hvf_put c st s) t) = sched_class (tasks s t)"
    if "dequeue_hvf_entity L p (hvf_get c s) = (r, st)" for r st
    using hvf_put_class(2) [of c L p s t] that by simp
  have g: "tasks (hvf_put c (hvf_get c s) s) = tasks s" by (simp add: hvf_put_def hvf_get_def)
  show ?thesis
    using assms unfolding dequeue_task_hvf_def
    by (auto simp: add_rq_running_def d g split: if_splits prod.splits)
qed

lemma dequeue_task_class:
  assumes "dequeue_task E c p fl s = Inr (b, s')" "sched_class (tasks s p) = Hvf"
  shows "sched_class (tasks s' t) = sched_class (tasks s t)"
proof -
  define s1 where "s1 = (if sched_core_enabled c s then sched_core_dequeue E c p fl s else s)"
  define s2 where "s2 = (if fl AND DEQUEUE_NOCLOCK = 0 then update_rq_clock E c s1 else s1)"
  define s3 where "s3 = (if fl AND DEQUEUE_SAVE = 0 then upd_ext (sched_info_dequeue E c p) s2 else s2)"
  define u where "u = upd_ext (psi_dequeue E p fl) s3"
  have c: "sched_class (tasks u x) = sched_class (tasks s x)" for x
    by (simp add: u_def s3_def s2_def s1_def sched_core_dequeue_def resched_curr_def Let_def)
  have "dequeue_task E c p fl s =
      (let u = uclamp_rq_dec (uclamp_enabled (ops_of E p u)) c p u in call (op_dequeue_task (ops_of E p u)) (\<lambda>f. f c p fl u))"
    by (simp add: dequeue_task_def s1_def s2_def s3_def u_def Let_def)
  then have "dequeue_task_hvf (env_lib E) c p fl u = Inr (b, s')"
    using assms c [of p] by (simp add: uclamp_rq_dec_def hvf_sched_class_def)
  from dequeue_task_hvf_class [OF this] c show ?thesis by simp
qed

lemma enqueue_task_class:
  assumes "enqueue_task E c p fl s = Inr s'" "sched_class (tasks s p) = Hvf"
  shows "sched_class (tasks s' t) = sched_class (tasks s t)"
proof -
  define u where "u = (if fl AND ENQUEUE_NOCLOCK = 0 then update_rq_clock E c s else s)"
  have u: "tasks u = tasks s" by (simp add: u_def)
  have e: "tasks (sched_core_enqueue E c p w) = tasks w" for w by (simp add: sched_core_enqueue_def Let_def)
  obtain v where v: "enqueue_task_hvf (env_lib E) c p fl u = Inr v"
    using assms u by (auto simp: enqueue_task_def hvf_sched_class_def u_def [symmetric] Let_def)
  note cl = enqueue_task_hvf_class [OF v]
  have "tasks s' = tasks v"
    using assms u v cl [of p] by (auto simp: enqueue_task_def hvf_sched_class_def u_def [symmetric] Let_def
      uclamp_rq_inc_def e)
  then show ?thesis using cl u by simp
qed

lemma put_prev_task_class:
  "put_prev_task E c p s = Inr s' \<Longrightarrow> sched_class (tasks s p) = Hvf \<Longrightarrow> sched_class (tasks s' t) = sched_class (tasks s t)"
  by (auto simp: put_prev_task_def hvf_sched_class_def put_prev_task_hvf_def ktime_get_real_ts64_def hvf_put_class Let_def)

lemma set_next_task_class:
  "set_next_task E c p s = Inr s' \<Longrightarrow> sched_class (tasks s p) = Hvf \<Longrightarrow> sched_class (tasks s' t) = sched_class (tasks s t)"
  by (auto simp: set_next_task_def hvf_sched_class_def set_next_task_hvf_def)

lemma set_load_weight_class:
  "set_load_weight E p b s = Inr s' \<Longrightarrow> sched_class (tasks s p) = Hvf \<Longrightarrow> sched_class (tasks s' t) = sched_class (tasks s t)"
  by (auto simp: set_load_weight_def hvf_sched_class_def Let_def split: if_splits)

lemma effective_prio_class: "effective_prio p = (n, p') \<Longrightarrow> sched_class p' = sched_class p"
  by (auto simp: effective_prio_def Let_def)

lemma hvf_affinity_faults:
  assumes "sched_class (tasks s p) = Hvf"
  shows "do_set_cpus_allowed_ctx E p ctx s \<noteq> Inr s'"
proof
  assume r: "do_set_cpus_allowed_ctx E p ctx s = Inr s'"
  have ncall: "call (op_set_cpus_allowed (hvf_sched_class E)) f = Inl Null_call" for f :: "_ \<Rightarrow> 'a kstate res"
    by (simp add: hvf_sched_class_def)
  show False
    using r assms unfolding do_set_cpus_allowed_ctx_def Let_def
    by (auto split: if_splits simp: ncall dest!: dequeue_task_class [where t = p] put_prev_task_class [where t = p]
        enqueue_task_class [where t = p] set_next_task_class [where t = p])
qed

text \<open>
  C36. The class has no \<open>prio_changed\<close> and no \<open>set_cpus_allowed\<close> either, and these are called without
  a test: changing the nice value of a task with policy and class HVF, or its affinity, never returns,
  whether the task sleeps, is queued or runs.
\<close>

theorem hvf_nice_and_affinity_never_return:
  assumes "sched_class (tasks s p) = Hvf" "policy (tasks s p) = SCHED_HVF"
    and "MIN_NICE \<le> nice" "nice \<le> MAX_NICE" "nice \<noteq> task_nice (tasks s p)"
  shows "set_user_nice E p nice s \<noteq> Inr s' \<and> do_set_cpus_allowed_ctx E p ctx s \<noteq> Inr s'"
proof
  define c where "c = task_cpu (tasks s p)"
  have H: "sched_class (tasks u p) = Hvf" if "u = update_rq_clock E c s" for u using that assms(1) by simp
  have nopol: "\<not> task_has_dl_policy (tasks (update_rq_clock E c s) p)" "\<not> task_has_rt_policy (tasks (update_rq_clock E c s) p)"
    using assms(2) by (simp_all add: task_has_dl_policy_def task_has_rt_policy_def policy_defs)
  note cl = dequeue_task_class [where t = p] put_prev_task_class [where t = p] set_load_weight_class [where t = p]
    enqueue_task_class [where t = p] set_next_task_class [where t = p]
  show "set_user_nice E p nice s \<noteq> Inr s'"
  proof
    assume r: "set_user_nice E p nice s = Inr s'"
    have n: "\<not> (task_nice (tasks s p) = nice \<or> nice < MIN_NICE \<or> nice > MAX_NICE)" using assms(3-5) by auto
    have ncall: "call (op_prio_changed (hvf_sched_class E)) f = Inl Null_call" for f :: "_ \<Rightarrow> 'a kstate res"
      by (simp add: hvf_sched_class_def)
    show False
      using r n nopol H unfolding set_user_nice_def Let_def c_def [symmetric]
      by (auto split: if_splits prod.splits simp: ncall dest!: cl effective_prio_class)
  qed
  show "do_set_cpus_allowed_ctx E p ctx s \<noteq> Inr s'" by (rule hvf_affinity_faults [OF assms(1)])
qed

theorem hvf_nice_and_affinity_never_return_witness:
  "(\<nexists>s'. set_user_nice env0 2 5 (hvf_machine False) = Inr s') \<and>
   (\<nexists>s'. do_set_cpus_allowed env0 2 {1} (hvf_machine False) = Inr s')"
proof -
  have "sched_class (tasks (hvf_machine False) 2) = Hvf" "policy (tasks (hvf_machine False) 2) = SCHED_HVF"
      "(5 :: int) \<noteq> task_nice (tasks (hvf_machine False) 2)"
    by (simp_all add: hvf_machine_sel hvf_task_def task0_def task_nice_def)
  then show ?thesis
    using hvf_nice_and_affinity_never_return [of "hvf_machine False" 2 5] by (simp add: do_set_cpus_allowed_def)
qed

section \<open>Priority inheritance\<close>

text \<open>
  Boosting an HVF task that holds a lock, here one that is neither queued nor running, to a real-time
  priority discards the parameters the user has set: leaving the class clears them, and the task will get
  default deadlines when the boost ends.
\<close>

theorem boost_clears_params:
  assumes "sched_class (tasks s p) = Hvf" "policy (tasks s p) = SCHED_HVF" "pars_set (tasks s p)"
    and "normal_prio (tasks s p) = 120" "prio (tasks s p) = 120" "0 \<le> prio (tasks s t)" "prio (tasks s t) < 100"
    and "\<not> task_on_rq_queued p s" "\<not> task_current_donor (task_cpu (tasks s p)) p s"
    and "p \<noteq> rq_idle (rqs s (task_cpu (tasks s p)))" "\<not> sched_delayed (se (tasks s p))" "p \<noteq> t"
    and "op_switching_to (other_class E Rt) = None" "op_switched_to (other_class E Rt) = Some f"
    and "\<And>c u. f c p u = Inr u" "balance_callback (rqs s (task_cpu (tasks s p))) = []"
  shows "\<exists>s'. rt_mutex_setprio E p (Some t) s = Inr s' \<and> sched_class (tasks s' p) = Rt \<and>
    policy (tasks s' p) = SCHED_HVF \<and> \<not> pars_set (tasks s' p) \<and> deadline_1 (tasks s' p) = 0 \<and>
    deadline_2 (tasks s' p) = 0 \<and> computation_time (tasks s' p) = 0"
proof -
  have q: "min 120 (prio (tasks s t)) = prio (tasks s t)" using assms(7) by simp
  have cls: "setscheduler_class SCHED_HVF (prio (tasks s t)) = Rt" "\<not> dl_prio (prio (tasks s t))" "rt_prio (prio (tasks s t))"
      "\<not> dl_prio 120" "prio (tasks s t) \<noteq> 120"
    using assms(6,7) by (auto simp: setscheduler_class_def dl_prio_def rt_prio_def)
  show ?thesis
    using assms(1-5,8-16)
    by (simp add: rt_mutex_setprio_def rt_effective_prio_of_def q cls Let_def task_on_rq_queued_def
      task_current_donor_def pi_adjust_def check_class_changing_def check_class_changed_def hvf_sched_class_def
      switched_from_hvf_def clear_hvf_values_def)
qed

theorem boost_clears_params_witness:
  "\<exists>s'. rt_mutex_setprio env0 3 (Some 4)
     (upd_task 3 (\<lambda>_. (hvf_task 3 False)\<lparr>on_rq := 0\<rparr>) (upd_task 4 (\<lambda>v. v\<lparr>prio := 10\<rparr>) boot0)) = Inr s' \<and>
   deadline_1 (tasks s' 3) = 0"
proof -
  let ?s = "upd_task 3 (\<lambda>_. (hvf_task 3 False)\<lparr>on_rq := 0\<rparr>) (upd_task 4 (\<lambda>v. v\<lparr>prio := 10\<rparr>) boot0)"
  have s: "sched_class (tasks ?s 3) = Hvf" "policy (tasks ?s 3) = SCHED_HVF" "pars_set (tasks ?s 3)"
      "normal_prio (tasks ?s 3) = 120" "prio (tasks ?s 3) = 120" "0 \<le> prio (tasks ?s 4)" "prio (tasks ?s 4) < 100"
      "\<not> task_on_rq_queued 3 ?s" "\<not> task_current_donor (task_cpu (tasks ?s 3)) 3 ?s"
      "3 \<noteq> rq_idle (rqs ?s (task_cpu (tasks ?s 3)))" "\<not> sched_delayed (se (tasks ?s 3))" "(3 :: nat) \<noteq> 4"
      "balance_callback (rqs ?s (task_cpu (tasks ?s 3))) = []"
    by (simp_all add: hvf_task_def boot0_def rq0_def task0_def se0_def task_on_rq_queued_def task_current_donor_def)
  have e: "op_switching_to (other_class env0 Rt) = None" "op_switched_to (other_class env0 Rt) = Some (\<lambda>c p s. Inr s)"
    by (simp_all add: env0_def plain_ops_def)
  from boost_clears_params [OF s(1-12) e _ s(13)] show ?thesis by auto
qed

end
