(* ===== verification/Mm_Cid_Race.thy ===== *)
theory Mm_Cid_Race
  imports Mm_Cid
begin

text \<open>
  The lock-free part of the concurrency ids of one address space (\<^verbatim>\<open>kernel/sched/core.c\<close>,
  \<^verbatim>\<open>kernel/sched/sched.h\<close>): context switches, which run on the cpu that owns an id, interleaved with
  remote clears (a scan, or a migration that takes the id along), which run anywhere. Every rule of \<open>cid_step\<close> is
  one access to shared memory: a load or store of \<open>rq->curr\<close>, a load, store or compare-and-exchange of the
  per-cpu id, an atomic change of one bit of the mask. The barriers of the source order these accesses within a
  thread, so that the accesses of a thread happen in program order.

  When a scan decides to look at a cpu, and which free id an allocation finds, is left open: the rules allow
  what the conditions of the source allow, and more.
\<close>

section \<open>States\<close>

text \<open>
  Where a cpu is with respect to the address space: no active thread of it is current; or the way through
  \<open>mm_cid_get\<close>, running with an id, the way through \<open>mm_cid_put_lazy\<close>, and \<open>mm_cid_put\<close> of an exiting thread.
  The boolean says whether the next task is an active thread too.
\<close>

datatype cpu_pc =
    Out
  | Enter
  | Got_lazy nat
  | Alloc_free nat
  | Alloc
  | Write_cid nat
  | Run nat
  | Leave bool
  | Leave_lazy nat bool
  | Leave_free nat bool
  | Drop

text \<open>A remote clear: it has read a valid id, set the lazy flag, seen no active thread, taken the id.\<close>

datatype clear_pc = Idle_clear | Seen cpu nat | Lazied cpu nat | Checked cpu nat | Owns nat

record cid_race =
  rc_slot :: "cpu \<Rightarrow> cid_slot"
  rc_recent :: "cpu \<Rightarrow> nat option"
  rc_mask :: "nat set"
  rc_cpu :: "cpu \<Rightarrow> cpu_pc"
  rc_clear :: "nat \<Rightarrow> clear_pc"

text \<open>\<open>rq->curr\<close> is an active thread of the address space.\<close>

fun curr_active :: "cpu_pc \<Rightarrow> bool" where
  "curr_active Out = False"
| "curr_active Drop = False"
| "curr_active (Leave b) = b"
| "curr_active (Leave_lazy n b) = b"
| "curr_active (Leave_free n b) = b"
| "curr_active _ = True"

definition after_leave :: "bool \<Rightarrow> cpu_pc" where
  "after_leave b = (if b then Enter else Out)"

fun clears_on :: "cpu \<Rightarrow> clear_pc \<Rightarrow> bool" where
  "clears_on c (Lazied d n) \<longleftrightarrow> d = c"
| "clears_on c (Checked d n) \<longleftrightarrow> d = c"
| "clears_on c _ \<longleftrightarrow> False"

abbreviation to_cpu :: "cpu \<Rightarrow> cpu_pc \<Rightarrow> cid_race \<Rightarrow> cid_race" where
  "to_cpu c x s \<equiv> s\<lparr>rc_cpu := (rc_cpu s)(c := x)\<rparr>"

abbreviation to_clear :: "nat \<Rightarrow> clear_pc \<Rightarrow> cid_race \<Rightarrow> cid_race" where
  "to_clear k x s \<equiv> s\<lparr>rc_clear := (rc_clear s)(k := x)\<rparr>"

abbreviation to_slot :: "cpu \<Rightarrow> cid_slot \<Rightarrow> cid_race \<Rightarrow> cid_race" where
  "to_slot c x s \<equiv> s\<lparr>rc_slot := (rc_slot s)(c := x)\<rparr>"

section \<open>Steps\<close>

text \<open>With \<open>excl\<close>, a remote clear of a cpu does not set the lazy flag while another one of that cpu is under way.\<close>

inductive cid_step :: "bool \<Rightarrow> cid_race \<Rightarrow> cid_race \<Rightarrow> bool" for excl where
  switch_in: "rc_cpu s c = Out \<Longrightarrow> cid_step excl s (to_cpu c Enter s)"
| get_valid: "rc_cpu s c = Enter \<Longrightarrow> rc_slot s c = Cid_valid n \<Longrightarrow> cid_step excl s (to_cpu c (Run n) s)"
| get_lazy: "rc_cpu s c = Enter \<Longrightarrow> rc_slot s c = Cid_lazy n \<Longrightarrow> cid_step excl s (to_cpu c (Got_lazy n) s)"
| get_unset: "rc_cpu s c = Enter \<Longrightarrow> rc_slot s c = Cid_unset \<Longrightarrow> cid_step excl s (to_cpu c Alloc s)"
| get_cas: "rc_cpu s c = Got_lazy n \<Longrightarrow> rc_slot s c = Cid_lazy n \<Longrightarrow>
    cid_step excl s (to_slot c Cid_unset (to_cpu c (Alloc_free n) s))"
| get_cas_fail: "rc_cpu s c = Got_lazy n \<Longrightarrow> rc_slot s c \<noteq> Cid_lazy n \<Longrightarrow> cid_step excl s (to_cpu c Alloc s)"
| get_free: "rc_cpu s c = Alloc_free n \<Longrightarrow>
    cid_step excl s (to_cpu c Alloc (s\<lparr>rc_mask := rc_mask s - {n}\<rparr>))"
| alloc_recent: "rc_cpu s c = Alloc \<Longrightarrow> rc_recent s c = Some n \<Longrightarrow> n \<notin> rc_mask s \<Longrightarrow>
    cid_step excl s (to_cpu c (Write_cid n) (s\<lparr>rc_mask := insert n (rc_mask s)\<rparr>))"
| alloc_any: "rc_cpu s c = Alloc \<Longrightarrow> n \<notin> rc_mask s \<Longrightarrow>
    cid_step excl s (to_cpu c (Write_cid n) (s\<lparr>rc_mask := insert n (rc_mask s)\<rparr>))"
| write_cid: "rc_cpu s c = Write_cid n \<Longrightarrow>
    cid_step excl s (to_slot c (Cid_valid n) (to_cpu c (Run n) (s\<lparr>rc_recent := (rc_recent s)(c := Some n)\<rparr>)))"
| switch_out: "rc_cpu s c = Run n \<Longrightarrow> cid_step excl s (to_cpu c (Leave b) s)"
| leave_keep: "rc_cpu s c = Leave b \<Longrightarrow> \<forall>n. rc_slot s c \<noteq> Cid_lazy n \<Longrightarrow>
    cid_step excl s (to_cpu c (after_leave b) s)"
| leave_lazy: "rc_cpu s c = Leave b \<Longrightarrow> rc_slot s c = Cid_lazy n \<Longrightarrow> cid_step excl s (to_cpu c (Leave_lazy n b) s)"
| leave_cas: "rc_cpu s c = Leave_lazy n b \<Longrightarrow> rc_slot s c = Cid_lazy n \<Longrightarrow>
    cid_step excl s (to_slot c Cid_unset (to_cpu c (Leave_free n b) s))"
| leave_cas_fail: "rc_cpu s c = Leave_lazy n b \<Longrightarrow> rc_slot s c \<noteq> Cid_lazy n \<Longrightarrow>
    cid_step excl s (to_cpu c (after_leave b) s)"
| leave_free: "rc_cpu s c = Leave_free n b \<Longrightarrow>
    cid_step excl s (to_cpu c (after_leave b) (s\<lparr>rc_mask := rc_mask s - {n}\<rparr>))"
| deactivate: "rc_cpu s c = Run n \<Longrightarrow> cid_step excl s (to_cpu c Drop s)"
| drop_unset: "rc_cpu s c = Drop \<Longrightarrow> rc_slot s c = Cid_unset \<Longrightarrow> cid_step excl s (to_cpu c Out s)"
| drop_cas: "rc_cpu s c = Drop \<Longrightarrow> rc_slot s c = Cid_valid n \<or> rc_slot s c = Cid_lazy n \<Longrightarrow>
    cid_step excl s (to_slot c Cid_unset (to_cpu c (Leave_free n False) s))"
| clear_read: "rc_clear s k = Idle_clear \<Longrightarrow> rc_slot s c = Cid_valid n \<Longrightarrow> cid_step excl s (to_clear k (Seen c n) s)"
| clear_lazy: "rc_clear s k = Seen c n \<Longrightarrow> rc_slot s c = Cid_valid n \<Longrightarrow>
    excl \<longrightarrow> (\<forall>j. \<not> clears_on c (rc_clear s j)) \<Longrightarrow>
    cid_step excl s (to_slot c (Cid_lazy n) (to_clear k (Lazied c n) s))"
| clear_lazy_fail: "rc_clear s k = Seen c n \<Longrightarrow> rc_slot s c \<noteq> Cid_valid n \<Longrightarrow>
    cid_step excl s (to_clear k Idle_clear s)"
| clear_active: "rc_clear s k = Lazied c n \<Longrightarrow> curr_active (rc_cpu s c) \<Longrightarrow>
    cid_step excl s (to_clear k Idle_clear s)"
| clear_check: "rc_clear s k = Lazied c n \<Longrightarrow> \<not> curr_active (rc_cpu s c) \<Longrightarrow>
    cid_step excl s (to_clear k (Checked c n) s)"
| clear_cas: "rc_clear s k = Checked c n \<Longrightarrow> rc_slot s c = Cid_lazy n \<Longrightarrow>
    cid_step excl s (to_slot c Cid_unset (to_clear k (Owns n) s))"
| clear_cas_fail: "rc_clear s k = Checked c n \<Longrightarrow> rc_slot s c \<noteq> Cid_lazy n \<Longrightarrow>
    cid_step excl s (to_clear k Idle_clear s)"
| clear_put: "rc_clear s k = Owns n \<Longrightarrow>
    cid_step excl s (to_clear k Idle_clear (s\<lparr>rc_mask := rc_mask s - {n}\<rparr>))"
| clear_give: "rc_clear s k = Owns n \<Longrightarrow> rc_cpu s c = Out \<Longrightarrow> rc_slot s c = Cid_unset \<Longrightarrow>
    cid_step excl s (to_slot c (Cid_valid n) (to_clear k Idle_clear (s\<lparr>rc_recent := (rc_recent s)(c := Some n)\<rparr>)))"

definition race_boot :: cid_race where
  "race_boot = \<lparr>rc_slot = (\<lambda>_. Cid_unset), rc_recent = (\<lambda>_. None), rc_mask = {}, rc_cpu = (\<lambda>_. Out),
     rc_clear = (\<lambda>_. Idle_clear)\<rparr>"

inductive cid_reach :: "bool \<Rightarrow> cid_race \<Rightarrow> bool" for excl where
  boot: "cid_reach excl race_boot"
| step: "cid_reach excl s \<Longrightarrow> cid_step excl s s' \<Longrightarrow> cid_reach excl s'"

section \<open>Who holds an id\<close>

text \<open>An id is in the mask exactly if somebody holds it, and then one party holds it.\<close>

datatype holder = By_slot cpu | By_cpu cpu | By_clear nat

fun cid_of_slot :: "cid_slot \<Rightarrow> nat option" where
  "cid_of_slot Cid_unset = None"
| "cid_of_slot (Cid_valid n) = Some n"
| "cid_of_slot (Cid_lazy n) = Some n"

fun cid_of_cpu :: "cpu_pc \<Rightarrow> nat option" where
  "cid_of_cpu (Alloc_free n) = Some n"
| "cid_of_cpu (Write_cid n) = Some n"
| "cid_of_cpu (Leave_free n b) = Some n"
| "cid_of_cpu _ = None"

fun cid_of_clear :: "clear_pc \<Rightarrow> nat option" where
  "cid_of_clear (Owns n) = Some n"
| "cid_of_clear _ = None"

fun hold :: "(cpu \<Rightarrow> cid_slot) \<Rightarrow> (cpu \<Rightarrow> cpu_pc) \<Rightarrow> (nat \<Rightarrow> clear_pc) \<Rightarrow> holder \<Rightarrow> nat option" where
  "hold sl pc cl (By_slot c) = cid_of_slot (sl c)"
| "hold sl pc cl (By_cpu c) = cid_of_cpu (pc c)"
| "hold sl pc cl (By_clear k) = cid_of_clear (cl k)"

abbreviation held :: "cid_race \<Rightarrow> holder \<Rightarrow> nat option" where
  "held s \<equiv> hold (rc_slot s) (rc_cpu s) (rc_clear s)"

lemma hold_upd [simp]:
  "hold (sl(c := x)) pc cl = (hold sl pc cl)(By_slot c := cid_of_slot x)"
  "hold sl (pc(c := y)) cl = (hold sl pc cl)(By_cpu c := cid_of_cpu y)"
  "hold sl pc (cl(k := z)) = (hold sl pc cl)(By_clear k := cid_of_clear z)"
  by (rule ext, rename_tac w, case_tac w, simp_all)+

definition own_ok :: "('h \<Rightarrow> nat option) \<Rightarrow> nat set \<Rightarrow> bool" where
  "own_ok h M \<longleftrightarrow>
     (\<forall>x n. h x = Some n \<longrightarrow> n \<in> M) \<and> (\<forall>n \<in> M. \<exists>x. h x = Some n) \<and>
     (\<forall>x y n. h x = Some n \<longrightarrow> h y = Some n \<longrightarrow> x = y)"

lemma own_okI:
  assumes "\<And>x n. h x = Some n \<Longrightarrow> n \<in> M" "\<And>n. n \<in> M \<Longrightarrow> \<exists>x. h x = Some n"
    and "\<And>x y n. h x = Some n \<Longrightarrow> h y = Some n \<Longrightarrow> x = y"
  shows "own_ok h M"
  unfolding own_ok_def
proof (intro conjI allI ballI impI)
  show "n \<in> M" if "h x = Some n" for x n using that by (rule assms(1))
  show "\<exists>x. h x = Some n" if "n \<in> M" for n using that by (rule assms(2))
  show "x = y" if "h x = Some n" "h y = Some n" for x y n using that by (rule assms(3))
qed

lemma own_okD:
  assumes "own_ok h M"
  shows "h x = Some n \<Longrightarrow> n \<in> M" "n \<in> M \<Longrightarrow> \<exists>x. h x = Some n" "h x = Some n \<Longrightarrow> h y = Some n \<Longrightarrow> x = y"
  using assms unfolding own_ok_def by blast+

lemma own_move:
  assumes "own_ok h M" "h x = Some n" "h y = None"
  shows "own_ok (h(x := None, y := Some n)) M"
proof (rule own_okI)
  note D = own_okD [OF assms(1)]
  have xy: "x \<noteq> y" using assms by auto
  have u: "z = x" if "h z = Some n" for z using D(3) [OF that assms(2)] .
  show "m \<in> M" if z: "(h(x := None, y := Some n)) z = Some m" for z m
  proof (cases "z = y")
    case True
    then show ?thesis using z D(1) [OF assms(2)] by simp
  next
    case False
    then have "h z = Some m" using z by (cases "z = x") simp_all
    then show ?thesis by (rule D(1))
  qed
  show "\<exists>z. (h(x := None, y := Some n)) z = Some m" if m: "m \<in> M" for m
  proof (cases "m = n")
    case True
    then show ?thesis by (intro exI [of _ y]) simp
  next
    case False
    obtain z where z: "h z = Some m" using D(2) [OF m] ..
    then have "z \<noteq> x" "z \<noteq> y" using False assms by auto
    then show ?thesis using z by (intro exI [of _ z]) simp
  qed
  show "z = w" if "(h(x := None, y := Some n)) z = Some m" "(h(x := None, y := Some n)) w = Some m" for z w m
  proof (cases "m = n")
    case True
    then show ?thesis using that u [of z] u [of w] by (simp split: if_splits)
  next
    case False
    then show ?thesis using that D(3) [of z m w] by (simp split: if_splits)
  qed
qed

lemma own_free:
  assumes "own_ok h M" "h x = Some n"
  shows "own_ok (h(x := None)) (M - {n})"
proof (rule own_okI)
  note D = own_okD [OF assms(1)]
  have u: "z = x" if "h z = Some n" for z using D(3) [OF that assms(2)] .
  show "m \<in> M - {n}" if z: "(h(x := None)) z = Some m" for z m
  proof -
    have "z \<noteq> x" "h z = Some m" using z by (simp_all split: if_splits)
    then show ?thesis using D(1) u [of z] by blast
  qed
  show "\<exists>z. (h(x := None)) z = Some m" if m: "m \<in> M - {n}" for m
  proof -
    obtain z where z: "h z = Some m" using D(2) m by blast
    then have "z \<noteq> x" using m assms(2) by auto
    then show ?thesis using z by (intro exI [of _ z]) simp
  qed
  show "z = w" if "(h(x := None)) z = Some m" "(h(x := None)) w = Some m" for z w m
    using that D(3) [of z m w] by (simp split: if_splits)
qed

lemma own_take:
  assumes "own_ok h M" "h x = None" "n \<notin> M"
  shows "own_ok (h(x := Some n)) (insert n M)"
proof (rule own_okI)
  note D = own_okD [OF assms(1)]
  show "m \<in> insert n M" if "(h(x := Some n)) z = Some m" for z m
    using that D(1) [of z m] by (auto split: if_splits)
  show "\<exists>z. (h(x := Some n)) z = Some m" if m: "m \<in> insert n M" for m
  proof (cases "m = n")
    case False
    then obtain z where "h z = Some m" using D(2) m by blast
    then show ?thesis using assms(2) by (intro exI [of _ z]) auto
  qed (auto intro: exI [of _ x])
  show "z = w" if "(h(x := Some n)) z = Some m" "(h(x := Some n)) w = Some m" for z w m
    using that D(1) [of z m] D(1) [of w m] D(3) [of z m w] assms(3) by (auto split: if_splits)
qed

section \<open>The invariant\<close>

text \<open>What the slot of a cpu can be while the cpu is at a point of its program.\<close>

fun pc_ok :: "cpu_pc \<Rightarrow> cid_slot \<Rightarrow> bool" where
  "pc_ok (Run n) x \<longleftrightarrow> x = Cid_valid n \<or> x = Cid_lazy n"
| "pc_ok (Got_lazy n) x \<longleftrightarrow> x = Cid_lazy n \<or> x = Cid_unset"
| "pc_ok (Leave_lazy n b) x \<longleftrightarrow> x = Cid_lazy n \<or> x = Cid_unset"
| "pc_ok (Alloc_free n) x \<longleftrightarrow> x = Cid_unset"
| "pc_ok Alloc x \<longleftrightarrow> x = Cid_unset"
| "pc_ok (Write_cid n) x \<longleftrightarrow> x = Cid_unset"
| "pc_ok (Leave_free n b) x \<longleftrightarrow> x = Cid_unset"
| "pc_ok _ x \<longleftrightarrow> True"

definition slots_ok :: "cid_race \<Rightarrow> bool" where
  "slots_ok s \<longleftrightarrow> (\<forall>c. pc_ok (rc_cpu s c) (rc_slot s c))"

text \<open>A remote clear that has seen no active thread does not face one that runs with the lazy id.\<close>

definition clears_ok :: "cid_race \<Rightarrow> bool" where
  "clears_ok s \<longleftrightarrow>
     (\<forall>c n k. rc_cpu s c = Run n \<longrightarrow> rc_slot s c = Cid_lazy n \<longrightarrow> rc_clear s k \<noteq> Checked c n)"

lemma slots_okD: "slots_ok s \<Longrightarrow> pc_ok (rc_cpu s c) (rc_slot s c)"
  by (simp add: slots_ok_def)

lemma after_leave_ok [simp]: "pc_ok (after_leave b) x" "cid_of_cpu (after_leave b) = None" "after_leave b \<noteq> Run n"
  by (simp_all add: after_leave_def)

lemma cid_step_own:
  assumes "own_ok (held s) (rc_mask s)" "slots_ok s" "cid_step excl s s'"
  shows "own_ok (held s') (rc_mask s')"
proof -
  note move = own_move [OF assms(1)] and free = own_free [OF assms(1)] and take = own_take [OF assms(1)]
  from assms(3) show ?thesis
  proof cases
    case (get_cas c n)
    then show ?thesis using move [of "By_slot c" n "By_cpu c"] by (simp add: fun_upd_twist)
  next
    case (get_free c n)
    then show ?thesis using free [of "By_cpu c" n] by simp
  next
    case (alloc_recent c n)
    then show ?thesis using take [of "By_cpu c" n] by simp
  next
    case (alloc_any c n)
    then show ?thesis using take [of "By_cpu c" n] by simp
  next
    case (write_cid c n)
    then show ?thesis
      using move [of "By_cpu c" n "By_slot c"] slots_okD [OF assms(2), of c] by (simp add: fun_upd_twist)
  next
    case (leave_cas c n b)
    then show ?thesis using move [of "By_slot c" n "By_cpu c"] by (simp add: fun_upd_twist)
  next
    case (leave_free c n b)
    then show ?thesis using free [of "By_cpu c" n] by simp
  next
    case (drop_cas c n)
    then show ?thesis using move [of "By_slot c" n "By_cpu c"] by (auto simp: fun_upd_twist)
  next
    case (clear_cas k c n)
    then show ?thesis using move [of "By_slot c" n "By_clear k"] by (simp add: fun_upd_twist)
  next
    case (clear_put k n)
    then show ?thesis using free [of "By_clear k" n] by simp
  next
    case (clear_give k n c)
    then show ?thesis using move [of "By_clear k" n "By_slot c"] by (simp add: fun_upd_twist)
  qed (use assms(1) in \<open>auto simp: fun_upd_idem\<close>)
qed

lemma cid_step_slots:
  assumes "slots_ok s" "clears_ok s" "cid_step excl s s'"
  shows "slots_ok s'"
proof -
  note so = slots_okD [OF assms(1)]
  have nr: "pc_ok (rc_cpu s c) Cid_unset"
    if "rc_clear s k = Checked c n" "rc_slot s c = Cid_lazy n" for c k n
    using so [of c] that assms(2) by (cases "rc_cpu s c") (auto simp: clears_ok_def)
  have lz: "pc_ok (rc_cpu s c) (Cid_lazy n)" if "rc_slot s c = Cid_valid n" for c n
    using so [of c] that by (cases "rc_cpu s c") auto
  from assms(3) show ?thesis
  proof cases
    case (get_cas_fail c n)
    then show ?thesis using so [of c] assms(1) by (auto simp: slots_ok_def)
  next
    case (get_free c n)
    then show ?thesis using so [of c] assms(1) by (auto simp: slots_ok_def)
  next
    case (alloc_recent c n)
    then show ?thesis using so [of c] assms(1) by (auto simp: slots_ok_def)
  next
    case (alloc_any c n)
    then show ?thesis using so [of c] assms(1) by (auto simp: slots_ok_def)
  next
    case (clear_lazy k c n)
    then show ?thesis using lz assms(1) by (auto simp: slots_ok_def)
  next
    case (clear_cas k c n)
    then show ?thesis using nr assms(1) by (auto simp: slots_ok_def)
  qed (use assms(1) in \<open>auto simp: slots_ok_def\<close>)
qed

lemma cid_step_clears:
  assumes "slots_ok s" "clears_ok s" "cid_step True s s'"
  shows "clears_ok s'"
  using assms(3)
proof cases
  case (clear_lazy k c n)
  have "rc_clear s j \<noteq> Checked c m" for j m using clear_lazy(4) by (metis clears_on.simps(2))
  then show ?thesis using clear_lazy assms(2) by (auto simp: clears_ok_def)
qed (use assms(2) in \<open>auto simp: clears_ok_def\<close>)

lemma cid_reach_ok:
  "cid_reach True s \<Longrightarrow> own_ok (held s) (rc_mask s) \<and> slots_ok s \<and> clears_ok s"
proof (induction rule: cid_reach.induct)
  case boot
  have "hold (\<lambda>_. Cid_unset) (\<lambda>_. Out) (\<lambda>_. Idle_clear) h = None" for h by (cases h) simp_all
  then show ?case by (simp add: own_ok_def slots_ok_def clears_ok_def race_boot_def)
next
  case (step s s')
  then show ?case using cid_step_own cid_step_slots cid_step_clears by blast
qed

section \<open>Overlapping remote clears\<close>

text \<open>The state of two cpus and two remote clears.\<close>

definition race_two :: "cid_slot \<Rightarrow> cid_slot \<Rightarrow> nat option \<Rightarrow> nat option \<Rightarrow> nat set \<Rightarrow> cpu_pc \<Rightarrow> cpu_pc \<Rightarrow>
    clear_pc \<Rightarrow> clear_pc \<Rightarrow> cid_race" where
  "race_two s0 s1 r0 r1 m p0 p1 k0 k1 = \<lparr>
     rc_slot = (\<lambda>c. if c = 0 then s0 else if c = 1 then s1 else Cid_unset),
     rc_recent = (\<lambda>c. if c = 0 then r0 else if c = 1 then r1 else None), rc_mask = m,
     rc_cpu = (\<lambda>c. if c = 0 then p0 else if c = 1 then p1 else Out),
     rc_clear = (\<lambda>k. if k = 0 then k0 else if k = 1 then k1 else Idle_clear)\<rparr>"

lemma race_two_boot: "cid_reach False (race_two Cid_unset Cid_unset None None {} Out Out Idle_clear Idle_clear)"
  using cid_reach.boot [of False] by (simp add: race_boot_def race_two_def if_distrib cong: if_cong)

lemma race_to: "cid_reach excl s \<Longrightarrow> cid_step excl s t \<Longrightarrow> t = s' \<Longrightarrow> cid_reach excl s'"
  using cid_reach.step by blast

text \<open>A thread has run on cpu 0 and left; a clear has seen that it left.\<close>

lemma race_first_clear:
  "cid_reach False (race_two (Cid_lazy 0) Cid_unset (Some 0) None {0} Out Out (Checked 0 0) Idle_clear)"
proof -
  note race_two_boot
  then have "cid_reach False (race_two Cid_unset Cid_unset None None {} Enter Out Idle_clear Idle_clear)"
    by (rule race_to [OF _ switch_in [of _ 0]]) (simp_all add: race_two_def fun_eq_iff)
  then have "cid_reach False (race_two Cid_unset Cid_unset None None {} Alloc Out Idle_clear Idle_clear)"
    by (rule race_to [OF _ get_unset [of _ 0]]) (simp_all add: race_two_def fun_eq_iff)
  then have "cid_reach False (race_two Cid_unset Cid_unset None None {0} (Write_cid 0) Out Idle_clear Idle_clear)"
    by (rule race_to [OF _ alloc_any [of _ 0 0]]) (simp_all add: race_two_def fun_eq_iff)
  then have "cid_reach False (race_two (Cid_valid 0) Cid_unset (Some 0) None {0} (Run 0) Out Idle_clear Idle_clear)"
    by (rule race_to [OF _ write_cid [of _ 0 0]]) (simp_all add: race_two_def fun_eq_iff)
  then have "cid_reach False (race_two (Cid_valid 0) Cid_unset (Some 0) None {0} (Leave False) Out Idle_clear Idle_clear)"
    by (rule race_to [OF _ switch_out [of _ 0 0 _ False]]) (simp_all add: race_two_def fun_eq_iff)
  then have "cid_reach False (race_two (Cid_valid 0) Cid_unset (Some 0) None {0} Out Out Idle_clear Idle_clear)"
    by (rule race_to [OF _ leave_keep [of _ 0 False]]) (simp_all add: race_two_def after_leave_def fun_eq_iff)
  then have "cid_reach False (race_two (Cid_valid 0) Cid_unset (Some 0) None {0} Out Out (Seen 0 0) Idle_clear)"
    by (rule race_to [OF _ clear_read [of _ 0 0 0]]) (simp_all add: race_two_def fun_eq_iff)
  then have "cid_reach False (race_two (Cid_lazy 0) Cid_unset (Some 0) None {0} Out Out (Lazied 0 0) Idle_clear)"
    by (rule race_to [OF _ clear_lazy [of _ 0 0 0]]) (simp_all add: race_two_def fun_eq_iff)
  then show ?thesis
    by (rule race_to [OF _ clear_check [of _ 0 0 0]]) (simp_all add: race_two_def fun_eq_iff)
qed

text \<open>The thread comes back, gives the id up and gets it again, runs and leaves; a second clear reads the id.\<close>

lemma race_second_read:
  assumes "cid_reach False (race_two (Cid_lazy 0) Cid_unset (Some 0) None {0} Out Out (Checked 0 0) Idle_clear)"
  shows "cid_reach False (race_two (Cid_valid 0) Cid_unset (Some 0) None {0} Out Out (Checked 0 0) (Seen 0 0))"
proof -
  note assms
  then have "cid_reach False (race_two (Cid_lazy 0) Cid_unset (Some 0) None {0} Enter Out (Checked 0 0) Idle_clear)"
    by (rule race_to [OF _ switch_in [of _ 0]]) (simp_all add: race_two_def fun_eq_iff)
  then have "cid_reach False (race_two (Cid_lazy 0) Cid_unset (Some 0) None {0} (Got_lazy 0) Out (Checked 0 0) Idle_clear)"
    by (rule race_to [OF _ get_lazy [of _ 0 0]]) (simp_all add: race_two_def fun_eq_iff)
  then have "cid_reach False (race_two Cid_unset Cid_unset (Some 0) None {0} (Alloc_free 0) Out (Checked 0 0) Idle_clear)"
    by (rule race_to [OF _ get_cas [of _ 0 0]]) (simp_all add: race_two_def fun_eq_iff)
  then have "cid_reach False (race_two Cid_unset Cid_unset (Some 0) None {} Alloc Out (Checked 0 0) Idle_clear)"
    by (rule race_to [OF _ get_free [of _ 0 0]]) (simp_all add: race_two_def fun_eq_iff)
  then have "cid_reach False (race_two Cid_unset Cid_unset (Some 0) None {0} (Write_cid 0) Out (Checked 0 0) Idle_clear)"
    by (rule race_to [OF _ alloc_recent [of _ 0 0]]) (simp_all add: race_two_def fun_eq_iff)
  then have "cid_reach False (race_two (Cid_valid 0) Cid_unset (Some 0) None {0} (Run 0) Out (Checked 0 0) Idle_clear)"
    by (rule race_to [OF _ write_cid [of _ 0 0]]) (simp_all add: race_two_def fun_eq_iff)
  then have "cid_reach False (race_two (Cid_valid 0) Cid_unset (Some 0) None {0} (Leave False) Out (Checked 0 0) Idle_clear)"
    by (rule race_to [OF _ switch_out [of _ 0 0 _ False]]) (simp_all add: race_two_def fun_eq_iff)
  then have "cid_reach False (race_two (Cid_valid 0) Cid_unset (Some 0) None {0} Out Out (Checked 0 0) Idle_clear)"
    by (rule race_to [OF _ leave_keep [of _ 0 False]]) (simp_all add: race_two_def after_leave_def fun_eq_iff)
  then show ?thesis
    by (rule race_to [OF _ clear_read [of _ 1 0 0]]) (simp_all add: race_two_def fun_eq_iff)
qed

text \<open>The thread runs when the second clear sets the flag and sees it; the first clear then takes the id.\<close>

lemma race_id_lost:
  assumes "cid_reach False (race_two (Cid_valid 0) Cid_unset (Some 0) None {0} Out Out (Checked 0 0) (Seen 0 0))"
  shows "cid_reach False (race_two Cid_unset Cid_unset (Some 0) None {} (Run 0) Out Idle_clear Idle_clear)"
proof -
  note assms
  then have "cid_reach False (race_two (Cid_valid 0) Cid_unset (Some 0) None {0} Enter Out (Checked 0 0) (Seen 0 0))"
    by (rule race_to [OF _ switch_in [of _ 0]]) (simp_all add: race_two_def fun_eq_iff)
  then have "cid_reach False (race_two (Cid_valid 0) Cid_unset (Some 0) None {0} (Run 0) Out (Checked 0 0) (Seen 0 0))"
    by (rule race_to [OF _ get_valid [of _ 0 0]]) (simp_all add: race_two_def fun_eq_iff)
  then have "cid_reach False (race_two (Cid_lazy 0) Cid_unset (Some 0) None {0} (Run 0) Out (Checked 0 0) (Lazied 0 0))"
    by (rule race_to [OF _ clear_lazy [of _ 1 0 0]]) (simp_all add: race_two_def fun_eq_iff)
  then have "cid_reach False (race_two (Cid_lazy 0) Cid_unset (Some 0) None {0} (Run 0) Out (Checked 0 0) Idle_clear)"
    by (rule race_to [OF _ clear_active [of _ 1 0 0]]) (simp_all add: race_two_def fun_eq_iff)
  then have "cid_reach False (race_two Cid_unset Cid_unset (Some 0) None {0} (Run 0) Out (Owns 0) Idle_clear)"
    by (rule race_to [OF _ clear_cas [of _ 0 0 0]]) (simp_all add: race_two_def fun_eq_iff)
  then show ?thesis
    by (rule race_to [OF _ clear_put [of _ 0 0]]) (simp_all add: race_two_def fun_eq_iff)
qed

text \<open>Another cpu gets the id.\<close>

lemma race_id_again:
  assumes "cid_reach False (race_two Cid_unset Cid_unset (Some 0) None {} (Run 0) Out Idle_clear Idle_clear)"
  shows "cid_reach False (race_two Cid_unset (Cid_valid 0) (Some 0) (Some 0) {0} (Run 0) (Run 0) Idle_clear Idle_clear)"
proof -
  note assms
  then have "cid_reach False (race_two Cid_unset Cid_unset (Some 0) None {} (Run 0) Enter Idle_clear Idle_clear)"
    by (rule race_to [OF _ switch_in [of _ 1]]) (simp_all add: race_two_def fun_eq_iff)
  then have "cid_reach False (race_two Cid_unset Cid_unset (Some 0) None {} (Run 0) Alloc Idle_clear Idle_clear)"
    by (rule race_to [OF _ get_unset [of _ 1]]) (simp_all add: race_two_def fun_eq_iff)
  then have "cid_reach False (race_two Cid_unset Cid_unset (Some 0) None {0} (Run 0) (Write_cid 0) Idle_clear Idle_clear)"
    by (rule race_to [OF _ alloc_any [of _ 1 0]]) (simp_all add: race_two_def fun_eq_iff)
  then show ?thesis
    by (rule race_to [OF _ write_cid [of _ 1 0]]) (simp_all add: race_two_def fun_eq_iff)
qed

section \<open>The operations of the address space are runs of these steps\<close>

text \<open>The state of the ids of \<open>m\<close>, with the cpus at \<open>pc\<close> and the remote clears at \<open>cl\<close>.\<close>

definition race_of :: "mm_struct \<Rightarrow> (cpu \<Rightarrow> cpu_pc) \<Rightarrow> (nat \<Rightarrow> clear_pc) \<Rightarrow> cid_race" where
  "race_of m pc cl = \<lparr>rc_slot = (\<lambda>c. cid_at c m), rc_recent = (\<lambda>c. recent_cid (pcpu_cid m c)), rc_mask = cidmask m,
     rc_cpu = pc, rc_clear = cl\<rparr>"

lemma run_step: "(cid_step excl)\<^sup>*\<^sup>* s t \<Longrightarrow> cid_step excl t u \<Longrightarrow> u = v \<Longrightarrow> (cid_step excl)\<^sup>*\<^sup>* s v"
  by (simp add: rtranclp.rtrancl_into_rtrancl)

lemma cid_expand_some:
  "cid_expand n m = (Some k, m') \<Longrightarrow> k \<notin> cidmask m \<and> k < mm_nr_cpus_allowed m \<and>
     (\<exists>x. m' = m\<lparr>max_nr_cid := x, cidmask := insert k (cidmask m)\<rparr>)"
proof (induction n m arbitrary: m' rule: cid_expand.induct)
  case (1 n m)
  from 1 show ?case
    by (simp add: cid_expand.simps [of n m] Let_def split: if_splits) (cases "n \<in> cidmask m"; auto)
qed

lemma cid_expand_none:
  "cid_expand n m = (None, m') \<Longrightarrow> \<exists>x. m' = m\<lparr>max_nr_cid := x\<rparr>"
proof (induction n m arbitrary: m' rule: cid_expand.induct)
  case (1 n m)
  from 1 show ?case
    by (auto simp: cid_expand.simps [of n m] Let_def intro: exI [of _ "max_nr_cid m'"] split: if_splits)
qed

text \<open>An id that \<open>__mm_cid_try_get\<close> returns was free, and is marked.\<close>

lemma mm_cid_try_get_some:
  assumes "mm_cid_try_get bits c m = Inr (Some k, m')"
  shows "k \<notin> cidmask m" "k < mm_nr_cpus_allowed m"
    "\<exists>x. m' = m\<lparr>max_nr_cid := x, cidmask := insert k (cidmask m)\<rparr>"
  using assms
  by (auto simp: mm_cid_try_get_def Let_def split: option.splits if_splits prod.splits
      dest!: cid_expand_some cid_expand_none)

lemma mm_cid_alloc_run:
  assumes "mm_cid_alloc bits clk c m = Inr (n, m')" "pc c = Alloc"
  shows "(cid_step excl)\<^sup>*\<^sup>* (race_of m pc cl)
    (race_of (upd_pcpu c (\<lambda>v. v\<lparr>pc_cid := Cid_valid n, recent_cid := Some n\<rparr>) m') (pc(c := Run n)) cl)"
proof -
  obtain m1 where g: "mm_cid_try_get bits c m = Inr (Some n, m1)" "m' = mm_cid_snapshot_time clk c m1"
    using assms(1) by (auto simp: mm_cid_alloc_def bindr_def split: sum.splits option.splits)
  note t = mm_cid_try_get_some [OF g(1)]
  obtain x where x: "m1 = m\<lparr>max_nr_cid := x, cidmask := insert n (cidmask m)\<rparr>" using t(3) ..
  have "(cid_step excl)\<^sup>*\<^sup>* (race_of m pc cl) (race_of m1 (pc(c := Write_cid n)) cl)"
    by (rule run_step [OF rtranclp.rtrancl_refl alloc_any [of _ c n]]) (use assms(2) t(1) x in \<open>simp_all add: race_of_def\<close>)
  then show ?thesis
    by (rule run_step [OF _ write_cid [of _ c n]]) (simp_all add: g(2) race_of_def mm_cid_snapshot_time_def fun_eq_iff)
qed

lemma mm_cid_get_run:
  assumes "mm_cid_get bits clk c m = Inr (n, m')" "pc c = Enter"
  shows "(cid_step excl)\<^sup>*\<^sup>* (race_of m pc cl) (race_of m' (pc(c := Run n)) cl)"
proof (cases "cid_at c m")
  case (Cid_valid k)
  then have "n = k" "m' = mm_cid_snapshot_time clk c m" using assms(1) by (simp_all add: mm_cid_get_def)
  then show ?thesis
    by (intro run_step [OF rtranclp.rtrancl_refl get_valid [of _ c k]])
      (use Cid_valid assms(2) in \<open>simp_all add: race_of_def mm_cid_snapshot_time_def fun_eq_iff\<close>)
next
  case Cid_unset
  then obtain m1 where a: "mm_cid_alloc bits clk c m = Inr (n, m1)"
      "m' = upd_pcpu c (\<lambda>v. v\<lparr>pc_cid := Cid_valid n, recent_cid := Some n\<rparr>) m1"
    using assms(1) by (auto simp: mm_cid_get_def bindr_def split: sum.splits)
  have "cid_step excl (race_of m pc cl) (race_of m (pc(c := Alloc)) cl)"
    using get_unset [of "race_of m pc cl" c excl] Cid_unset assms(2) by (simp add: race_of_def)
  then show ?thesis
    using mm_cid_alloc_run [OF a(1), of "pc(c := Alloc)" excl cl] a(2) by (simp add: converse_rtranclp_into_rtranclp)
next
  case (Cid_lazy k)
  let ?m = "mm_cid_release k (set_cid c Cid_unset m)"
  from Cid_lazy obtain m1 where a: "mm_cid_alloc bits clk c ?m = Inr (n, m1)"
      "m' = upd_pcpu c (\<lambda>v. v\<lparr>pc_cid := Cid_valid n, recent_cid := Some n\<rparr>) m1"
    using assms(1) by (auto simp: mm_cid_get_def bindr_def split: sum.splits)
  have "(cid_step excl)\<^sup>*\<^sup>* (race_of m pc cl) (race_of m (pc(c := Got_lazy k)) cl)"
    by (rule run_step [OF rtranclp.rtrancl_refl get_lazy [of _ c k]]) (use Cid_lazy assms(2) in \<open>simp_all add: race_of_def\<close>)
  then have "(cid_step excl)\<^sup>*\<^sup>* (race_of m pc cl) (race_of (set_cid c Cid_unset m) (pc(c := Alloc_free k)) cl)"
    by (rule run_step [OF _ get_cas [of _ c k]]) (use Cid_lazy in \<open>simp_all add: race_of_def fun_eq_iff\<close>)
  then have "(cid_step excl)\<^sup>*\<^sup>* (race_of m pc cl) (race_of ?m (pc(c := Alloc)) cl)"
    by (rule run_step [OF _ get_free [of _ c k]]) (simp_all add: race_of_def mm_cid_release_def)
  then show ?thesis
    using mm_cid_alloc_run [OF a(1), of "pc(c := Alloc)" excl cl] a(2) by (simp add: rtranclp_trans)
qed

lemma mm_cid_put_lazy_run:
  assumes "pc c = Leave b"
  shows "(cid_step excl)\<^sup>*\<^sup>* (race_of m pc cl) (race_of (mm_cid_put_lazy c m) (pc(c := after_leave b)) cl)"
proof (cases "\<exists>k. cid_at c m = Cid_lazy k")
  case False
  then have "mm_cid_put_lazy c m = m" by (simp add: mm_cid_put_lazy_def split: cid_slot.split)
  then show ?thesis
    by (intro run_step [OF rtranclp.rtrancl_refl leave_keep [of _ c b]])
      (use False assms in \<open>simp_all add: race_of_def\<close>)
next
  case True
  then obtain k where k: "cid_at c m = Cid_lazy k" ..
  have "(cid_step excl)\<^sup>*\<^sup>* (race_of m pc cl) (race_of m (pc(c := Leave_lazy k b)) cl)"
    by (rule run_step [OF rtranclp.rtrancl_refl leave_lazy [of _ c b k]]) (use k assms in \<open>simp_all add: race_of_def\<close>)
  then have "(cid_step excl)\<^sup>*\<^sup>* (race_of m pc cl) (race_of (set_cid c Cid_unset m) (pc(c := Leave_free k b)) cl)"
    by (rule run_step [OF _ leave_cas [of _ c k b]]) (use k in \<open>simp_all add: race_of_def fun_eq_iff\<close>)
  then show ?thesis
    by (rule run_step [OF _ leave_free [of _ c k b]])
      (use k in \<open>simp_all add: race_of_def mm_cid_put_lazy_def mm_cid_release_def\<close>)
qed

lemma mm_cid_put_run:
  assumes "pc c = Drop"
  shows "(cid_step excl)\<^sup>*\<^sup>* (race_of m pc cl) (race_of (mm_cid_put c m) (pc(c := Out)) cl)"
proof (cases "cid_of_slot (cid_at c m)")
  case None
  then have u: "cid_at c m = Cid_unset" by (cases "cid_at c m") simp_all
  show ?thesis
    by (rule run_step [OF rtranclp.rtrancl_refl drop_unset [of _ c]])
      (use u assms in \<open>simp_all add: race_of_def mm_cid_put_def mm_cid_pcpu_unset_def\<close>)
next
  case (Some k)
  then have u: "cid_at c m = Cid_valid k \<or> cid_at c m = Cid_lazy k" by (cases "cid_at c m") simp_all
  have "(cid_step excl)\<^sup>*\<^sup>* (race_of m pc cl) (race_of (set_cid c Cid_unset m) (pc(c := Leave_free k False)) cl)"
    by (rule run_step [OF rtranclp.rtrancl_refl drop_cas [of _ c k]]) (use u assms in \<open>auto simp: race_of_def fun_eq_iff\<close>)
  then show ?thesis
    by (rule run_step [OF _ leave_free [of _ c k False]])
      (use u in \<open>auto simp: race_of_def mm_cid_put_def mm_cid_pcpu_unset_def mm_cid_release_def after_leave_def\<close>)
qed

text \<open>A remote clear \<open>k\<close> that nothing interleaves with.\<close>

lemma remote_clear_run:
  assumes "cl k = Idle_clear" "curr_active (pc c) = runs_mm c m s" "\<And>j. \<not> clears_on c (cl j)"
  shows "(cid_step excl)\<^sup>*\<^sup>* (race_of (mms s m) pc cl) (race_of (mms (sched_mm_cid_remote_clear m c s) m) pc cl)"
proof (cases "cid_at c (mms s m)")
  case (Cid_valid n)
  let ?r = "race_of (mms s m) pc cl"
  have rm: "runs_mm c m (upd_mm m f s) = runs_mm c m s" for f by (simp add: runs_mm_def)
  have "(cid_step excl)\<^sup>*\<^sup>* ?r (race_of (mms s m) pc (cl(k := Seen c n)))"
    by (rule run_step [OF rtranclp.rtrancl_refl clear_read [of _ k c n]]) (use Cid_valid assms in \<open>simp_all add: race_of_def\<close>)
  then have l: "(cid_step excl)\<^sup>*\<^sup>* ?r (race_of (set_cid c (Cid_lazy n) (mms s m)) pc (cl(k := Lazied c n)))"
    by (rule run_step [OF _ clear_lazy [of _ k c n]]) (use Cid_valid assms in \<open>simp_all add: race_of_def fun_eq_iff\<close>)
  show ?thesis
  proof (cases "runs_mm c m s")
    case True
    from l show ?thesis
      by (rule run_step [OF _ clear_active [of _ k c n]])
        (use True Cid_valid assms rm in \<open>simp_all add: race_of_def sched_mm_cid_remote_clear_def fun_upd_idem\<close>)
  next
    case False
    from l have "(cid_step excl)\<^sup>*\<^sup>* ?r (race_of (set_cid c (Cid_lazy n) (mms s m)) pc (cl(k := Checked c n)))"
      by (rule run_step [OF _ clear_check [of _ k c n]]) (use False assms in \<open>simp_all add: race_of_def\<close>)
    then have "(cid_step excl)\<^sup>*\<^sup>* ?r (race_of (set_cid c Cid_unset (mms s m)) pc (cl(k := Owns n)))"
      by (rule run_step [OF _ clear_cas [of _ k c n]]) (simp_all add: race_of_def fun_eq_iff)
    then show ?thesis
      by (rule run_step [OF _ clear_put [of _ k n]])
        (use False Cid_valid assms rm in
          \<open>simp_all add: race_of_def sched_mm_cid_remote_clear_def mm_cid_release_def fun_upd_idem Let_def\<close>)
  qed
qed (simp_all add: sched_mm_cid_remote_clear_def)

end
