(* ===== verification/Cid_Theorems.thy ===== *)
theory Cid_Theorems
  imports Mm_Cid_Race Sample_Env
begin

text \<open>
  Properties of the concurrency ids: a free id is found whenever there is one, the operations on an
  address space are runs of the interleaving model, an id in use is held by one cpu, and what overlapping remote
  clears do to that.
\<close>

section \<open>Finding a free id\<close>

definition slot_cid :: "mm_struct \<Rightarrow> cpu \<Rightarrow> nat option" where
  "slot_cid m d = cid_of_slot (cid_at d m)"

lemma slot_cid_simps [simp]:
  "cid_at d m = Cid_unset \<Longrightarrow> slot_cid m d = None" "cid_at d m = Cid_valid n \<Longrightarrow> slot_cid m d = Some n"
  "cid_at d m = Cid_lazy n \<Longrightarrow> slot_cid m d = Some n"
  by (simp_all add: slot_cid_def)

lemma own_card:
  assumes "own_ok h M" "\<And>x n. h x = Some n \<Longrightarrow> x \<in> A" "finite A"
  shows "finite M" "card M \<le> card A"
proof -
  note D = own_okD [OF assms(1)]
  have "M \<subseteq> (\<lambda>x. the (h x)) ` A"
  proof
    fix n assume "n \<in> M"
    then obtain x where "h x = Some n" using D(2) by blast
    then show "n \<in> (\<lambda>x. the (h x)) ` A" using assms(2) by (intro image_eqI [of _ _ x]) auto
  qed
  then show "finite M" "card M \<le> card A"
    using assms(3) surj_card_le by (auto intro: finite_subset)
qed

lemma cpumask_first_zero_below:
  assumes "finite M" "card M < k" "k \<le> bits"
  shows "cpumask_first_zero bits M < k" "cpumask_first_zero bits M \<notin> M"
proof -
  have "\<not> {..<k} \<subseteq> M" using assms(1,2) card_mono [of M "{..<k}"] by auto
  then obtain i where i: "i < k" "i \<notin> M" by auto
  then have "find (\<lambda>i. i \<notin> M) [0..<bits] \<noteq> None" using assms(3) by (auto simp: find_None_iff intro!: exI [of _ i])
  then obtain z where z: "find (\<lambda>i. i \<notin> M) [0..<bits] = Some z" by blast
  from this [unfolded find_Some_iff] obtain j where j: "j < bits" "j \<notin> M" "z = j" "\<forall>l<j. l \<in> M" by auto
  have "\<not> i < j" using i(2) j(4) by blast
  then show "cpumask_first_zero bits M < k" "cpumask_first_zero bits M \<notin> M"
    using z j i(1) by (simp_all add: cpumask_first_zero_def)
qed

lemma mm_cid_alloc_ok:
  assumes "finite (cidmask m)" "card (cidmask m) < mm_nr_cpus_allowed m" "mm_nr_cpus_allowed m \<le> bits"
  shows "\<exists>n x. mm_cid_alloc bits clk c m =
      Inr (n, mm_cid_snapshot_time clk c (m\<lparr>max_nr_cid := x, cidmask := insert n (cidmask m)\<rparr>)) \<and>
    n \<notin> cidmask m \<and> n < mm_nr_cpus_allowed m"
proof -
  note z = cpumask_first_zero_below [OF assms]
  have "\<exists>n m'. mm_cid_try_get bits c m = Inr (Some n, m')"
    using z by (auto simp: mm_cid_try_get_def Let_def split: option.splits prod.splits dest!: cid_expand_none)
  then obtain n m' where g: "mm_cid_try_get bits c m = Inr (Some n, m')" by blast
  from mm_cid_try_get_some [OF this] show ?thesis by (auto simp: mm_cid_alloc_def g)
qed

lemma mm_cid_fresh_ok:
  assumes own: "own_ok (slot_cid m) (cidmask m)" and c: "cid_at c m = Cid_unset"
    and A: "\<forall>d. d \<noteq> c \<longrightarrow> cid_at d m \<noteq> Cid_unset \<longrightarrow> d \<in> A" "finite A" "card A < mm_nr_cpus_allowed m"
    and b: "mm_nr_cpus_allowed m \<le> bits"
  shows "\<exists>n m'. mm_cid_alloc bits clk c m = Inr (n, m') \<and> n < mm_nr_cpus_allowed m \<and> n \<notin> cidmask m \<and>
    cidmask m' = insert n (cidmask m) \<and> (\<forall>d. cid_at d m' = cid_at d m)"
proof -
  have "d \<in> A" if "slot_cid m d = Some n" for d n
    using that A(1) c by (cases "d = c"; cases "cid_at d m") (auto simp: slot_cid_def)
  then have f: "finite (cidmask m)" "card (cidmask m) < mm_nr_cpus_allowed m"
    using own_card [OF own _ A(2)] A(3) by (blast, meson le_less_trans)
  from mm_cid_alloc_ok [OF this b, of clk c] show ?thesis by (auto simp: mm_cid_snapshot_time_def)
qed

lemma slot_cid_time [simp]: "slot_cid (upd_pcpu c (pc_time_update f) m) = slot_cid m"
  by (simp add: slot_cid_def fun_eq_iff)

lemma slot_cid_valid: "slot_cid (upd_pcpu c (\<lambda>v. v\<lparr>pc_cid := Cid_valid n, recent_cid := r\<rparr>) m) = (slot_cid m)(c := Some n)"
  by (simp add: slot_cid_def fun_eq_iff)

text \<open>
  C20. As long as fewer cpus hold an id than the threads of the address space may run on, \<open>mm_cid_get\<close> returns, with
  an id below that number; no other cpu holds it, and ids and cpus stay matched.
\<close>

theorem mm_cid_get_returns:
  assumes own: "own_ok (slot_cid m) (cidmask m)" and below: "\<forall>n \<in> cidmask m. n < mm_nr_cpus_allowed m"
    and A: "\<forall>d. d \<noteq> c \<longrightarrow> cid_at d m \<noteq> Cid_unset \<longrightarrow> d \<in> A" "finite A" "card A < mm_nr_cpus_allowed m"
    and bits: "mm_nr_cpus_allowed m \<le> bits"
  shows "\<exists>n m'. mm_cid_get bits clk c m = Inr (n, m') \<and> n < mm_nr_cpus_allowed m \<and> cid_at c m' = Cid_valid n \<and>
    (\<forall>d. d \<noteq> c \<longrightarrow> cid_at d m' = cid_at d m \<and> slot_cid m' d \<noteq> Some n) \<and> own_ok (slot_cid m') (cidmask m')"
proof -
  have fresh: "\<exists>n m'. bindr (mm_cid_alloc bits clk c v)
        (\<lambda>(n, m). Inr (n, upd_pcpu c (\<lambda>v. v\<lparr>pc_cid := Cid_valid n, recent_cid := Some n\<rparr>) m)) = Inr (n, m') \<and>
      n < mm_nr_cpus_allowed m \<and> cid_at c m' = Cid_valid n \<and>
      (\<forall>d. d \<noteq> c \<longrightarrow> cid_at d m' = cid_at d m \<and> slot_cid m' d \<noteq> Some n) \<and> own_ok (slot_cid m') (cidmask m')"
    if v: "own_ok (slot_cid v) (cidmask v)" "cid_at c v = Cid_unset" "\<And>d. d \<noteq> c \<Longrightarrow> cid_at d v = cid_at d m"
      "mm_nr_cpus_allowed v = mm_nr_cpus_allowed m" for v
  proof -
    obtain n w where w: "mm_cid_alloc bits clk c v = Inr (n, w)" "n < mm_nr_cpus_allowed v" "n \<notin> cidmask v"
        "cidmask w = insert n (cidmask v)" "\<forall>d. cid_at d w = cid_at d v"
      using mm_cid_fresh_ok [OF v(1,2) _ A(2)] A(1,3) bits v(3,4) by metis
    have "slot_cid v d \<noteq> Some n" for d using own_okD(1) [OF v(1)] w(3) by blast
    moreover have "own_ok ((slot_cid v)(c := Some n)) (insert n (cidmask v))"
      using own_take [OF v(1) _ w(3)] v(2) by simp
    moreover have sw: "slot_cid w = slot_cid v" using w(5) by (simp add: slot_cid_def fun_eq_iff)
    ultimately show ?thesis
      using w v(3,4) by (intro exI [of _ n] exI [of _ "upd_pcpu c (\<lambda>v. v\<lparr>pc_cid := Cid_valid n, recent_cid := Some n\<rparr>) w"])
        (simp add: slot_cid_valid del: fun_upd_apply, simp)
  qed
  show ?thesis
  proof (cases "cid_at c m")
    case (Cid_valid n)
    then have "n \<in> cidmask m" using own_okD(1) [OF own, of c n] by simp
    moreover have "slot_cid m d \<noteq> Some n" if "d \<noteq> c" for d using own_okD(3) [OF own, of d n c] Cid_valid that by auto
    ultimately show ?thesis using own below Cid_valid by (simp add: mm_cid_get_def mm_cid_snapshot_time_def)
  next
    case Cid_unset
    then show ?thesis using fresh [OF own] by (simp add: mm_cid_get_def)
  next
    case (Cid_lazy k)
    have "slot_cid (mm_cid_release k (set_cid c Cid_unset m)) = (slot_cid m)(c := None)"
      by (simp add: mm_cid_release_def slot_cid_def fun_eq_iff)
    then have "own_ok (slot_cid (mm_cid_release k (set_cid c Cid_unset m))) (cidmask (mm_cid_release k (set_cid c Cid_unset m)))"
      using own_free [OF own, of c k] Cid_lazy by (simp add: mm_cid_release_def)
    from fresh [OF this] show ?thesis by (simp add: mm_cid_get_def Cid_lazy) (simp add: mm_cid_release_def)
  qed
qed

text \<open>Cpus 0 and 1 hold the ids 0 and 1, cpu 1 lazily; four threads may run on three cpus.\<close>

definition mm_sample :: mm_struct where
  "mm_sample = \<lparr>
     pcpu_cid = (\<lambda>c. \<lparr>pc_cid = if c = 0 then Cid_valid 0 else if c = 1 then Cid_lazy 1 else Cid_unset,
                     pc_time = 0, recent_cid = None\<rparr>),
     cidmask = {0, 1}, max_nr_cid = 2, mm_nr_cpus_allowed = 3, mm_users = 4, mm_cid_next_scan = 0\<rparr>"

lemma mm_sample_own: "own_ok (slot_cid mm_sample) (cidmask mm_sample)"
  by (rule own_okI) (auto simp: slot_cid_def mm_sample_def split: if_splits intro: exI [of _ "0 :: nat"] exI [of _ "1 :: nat"])

theorem mm_cid_get_returns_witness:
  "\<exists>n m'. mm_cid_get 8 5 2 mm_sample = Inr (n, m') \<and> n < 3 \<and> slot_cid m' 0 \<noteq> Some n"
proof -
  have "\<forall>d. d \<noteq> 2 \<longrightarrow> cid_at d mm_sample \<noteq> Cid_unset \<longrightarrow> d \<in> {0, 1}" by (simp add: mm_sample_def)
  moreover have p: "\<forall>n \<in> cidmask mm_sample. n < mm_nr_cpus_allowed mm_sample" "card {0, 1 :: nat} < mm_nr_cpus_allowed mm_sample"
      "mm_nr_cpus_allowed mm_sample \<le> 8" "mm_nr_cpus_allowed mm_sample = 3"
    by (simp_all add: mm_sample_def)
  ultimately obtain n m' where "mm_cid_get 8 5 2 mm_sample = Inr (n, m')" "n < 3"
      "\<forall>d. d \<noteq> 2 \<longrightarrow> cid_at d m' = cid_at d mm_sample \<and> slot_cid m' d \<noteq> Some n"
    using mm_cid_get_returns [OF mm_sample_own p(1) _ _ p(2,3), of 2 5] unfolding p(4) by blast
  moreover have "(0 :: nat) \<noteq> 2" by simp
  ultimately show ?thesis by blast
qed

section \<open>Ids in use\<close>

text \<open>
  C17. The operations of an address space, which the other theories run as one step, are runs of the
  interleaving model, whatever the other cpus and remote clears are doing: getting an id, releasing a lazy one on a
  switch, dropping it on exit, and a remote clear of a cpu that no other clear works on.
\<close>

theorem cid_operations_are_runs:
  assumes "mm_cid_get bits clk c (mms s m) = Inr (n, m')"
    and "cl k = Idle_clear" "curr_active (pc d) = runs_mm d m s" "\<forall>j. \<not> clears_on d (cl j)"
  shows "(cid_step excl)\<^sup>*\<^sup>* (race_of (mms s m) (pc(c := Enter)) cl) (race_of m' (pc(c := Run n)) cl) \<and>
    (cid_step excl)\<^sup>*\<^sup>* (race_of (mms s m) (pc(c := Leave b)) cl)
      (race_of (mm_cid_put_lazy c (mms s m)) (pc(c := after_leave b)) cl) \<and>
    (cid_step excl)\<^sup>*\<^sup>* (race_of (mms s m) (pc(c := Drop)) cl) (race_of (mm_cid_put c (mms s m)) (pc(c := Out)) cl) \<and>
    (cid_step excl)\<^sup>*\<^sup>* (race_of (mms s m) pc cl) (race_of (mms (sched_mm_cid_remote_clear m d s) m) pc cl)"
  using mm_cid_get_run [OF assms(1), of "pc(c := Enter)" excl cl] remote_clear_run [of cl k pc d m s excl] assms(2-4)
    mm_cid_put_lazy_run [of "pc(c := Leave b)" c b excl] mm_cid_put_run [of "pc(c := Drop)" c excl]
  by simp

theorem cid_operations_are_runs_witness:
  "\<exists>n m'. mm_cid_get 8 5 2 mm_sample = Inr (n, m') \<and>
     (cid_step True)\<^sup>*\<^sup>* (race_of mm_sample ((\<lambda>_. Out)(2 := Enter)) (\<lambda>_. Idle_clear))
       (race_of m' ((\<lambda>_. Out)(2 := Run n)) (\<lambda>_. Idle_clear))"
proof -
  let ?s = "boot0\<lparr>mms := \<lambda>_. mm_sample\<rparr>"
  have "finite (cidmask mm_sample)" "card (cidmask mm_sample) < mm_nr_cpus_allowed mm_sample" "mm_nr_cpus_allowed mm_sample \<le> 8"
    by (simp_all add: mm_sample_def)
  from mm_cid_alloc_ok [OF this, of 5 2] obtain n m' where g: "mm_cid_get 8 5 2 mm_sample = Inr (n, m')"
    by (auto simp: mm_cid_get_def mm_sample_def)
  have r: "\<not> runs_mm 0 0 ?s" by (simp add: runs_mm_def boot0_def task0_def)
  show ?thesis
    using cid_operations_are_runs [of 8 5 2 ?s 0 n m' "\<lambda>_. Idle_clear" 0 "\<lambda>_. Out" 0 True False] g r
    by auto
qed

text \<open>
  C10. While remote clears of a cpu do not overlap, an id that a running thread uses is marked, is held by
  the slot of its cpu, is used on no other cpu, and is in nobody else's hands: property (1) of the comment in the
  source.
\<close>

theorem active_cid_is_exclusive:
  assumes "cid_reach True s" "rc_cpu s c = Run n"
  shows "n \<in> rc_mask s \<and> (rc_slot s c = Cid_valid n \<or> rc_slot s c = Cid_lazy n) \<and>
    (\<forall>d. d \<noteq> c \<longrightarrow> rc_cpu s d \<noteq> Run n \<and> cid_of_slot (rc_slot s d) \<noteq> Some n) \<and> (\<forall>k. rc_clear s k \<noteq> Owns n)"
proof -
  have own: "own_ok (held s) (rc_mask s)" and so: "slots_ok s" using cid_reach_ok [OF assms(1)] by simp_all
  note D = own_okD [OF own]
  have sl: "rc_slot s c = Cid_valid n \<or> rc_slot s c = Cid_lazy n" using slots_okD [OF so, of c] assms(2) by simp
  then have h: "held s (By_slot c) = Some n" by auto
  have oth: "cid_of_slot (rc_slot s d) \<noteq> Some n" if "d \<noteq> c" for d using D(3) [OF h, of "By_slot d"] that by auto
  have "rc_cpu s d \<noteq> Run n" if "d \<noteq> c" for d
    using slots_okD [OF so, of d] oth [OF that] by auto
  moreover have "rc_clear s k \<noteq> Owns n" for k using D(3) [OF h, of "By_clear k"] by auto
  ultimately show ?thesis using sl oth D(1) [OF h] by simp
qed

theorem active_cid_is_exclusive_witness:
  "\<exists>s. cid_reach True s \<and> rc_cpu s 0 = Run 3 \<and> 3 \<in> rc_mask s"
proof -
  have 1: "cid_reach True (to_cpu 0 Enter race_boot)"
    by (rule race_to [OF cid_reach.boot switch_in [of _ 0]]) (simp_all add: race_boot_def)
  then have 2: "cid_reach True (to_cpu 0 Alloc race_boot)"
    by (rule race_to [OF _ get_unset [of _ 0]]) (simp_all add: race_boot_def)
  then have 3: "cid_reach True ((to_cpu 0 (Write_cid 3) race_boot)\<lparr>rc_mask := {3}\<rparr>)"
    by (rule race_to [OF _ alloc_any [of _ 0 3]]) (simp_all add: race_boot_def)
  have 4: "cid_reach True (to_slot 0 (Cid_valid 3) (to_cpu 0 (Run 3) (race_boot\<lparr>rc_mask := {3}, rc_recent := (\<lambda>_. None)(0 := Some 3)\<rparr>)))"
    by (rule race_to [OF 3 write_cid [of _ 0 3]]) (simp_all add: race_boot_def)
  show ?thesis using active_cid_is_exclusive [OF 4, of 0 3] 4 by auto
qed

text \<open>
  C38. Two remote clears of one cpu that overlap break this. The first sees no active thread and pauses before its
  compare-and-exchange; the thread returns, gives the lazy id up, gets the same id again as its recent one, and leaves;
  a second clear sets the lazy flag again just after the thread is back, and rightly stops; now the exchange of
  the first succeeds although the thread runs. The id is free, and a thread on another cpu gets it.
\<close>

theorem overlapping_clears_lose_cid:
  "\<exists>s. cid_reach False s \<and> rc_cpu s 0 = Run 0 \<and> rc_slot s 0 = Cid_unset \<and> rc_cpu s 1 = Run 0"
  using race_id_again [OF race_id_lost [OF race_second_read [OF race_first_clear]]]
  by (intro exI conjI) (assumption, simp_all add: race_two_def)

end
