(* ===== verification/Pick_Theorems.thy ===== *)
theory Pick_Theorems
  imports Sample_Env
begin

text \<open>
  Properties of the core-wide pick and of the callbacks of a run queue: hardware threads that share a core are
  given tasks with one cookie, and what the stealing of tasks respects.
\<close>

declare set_inorder [simp del] length_inorder [simp del]

section \<open>What a pick leaves alone\<close>

text \<open>The cookies, the cpus of the tasks, and, of a run queue, its current and idle task, its leader and its tree.\<close>

definition core_same :: "'x kstate \<Rightarrow> 'x kstate \<Rightarrow> bool" where
  "core_same s s' \<longleftrightarrow>
     (\<forall>t. core_cookie (tasks s' t) = core_cookie (tasks s t) \<and> task_cpu (tasks s' t) = task_cpu (tasks s t)) \<and>
     (\<forall>i. rq_idle (rqs s' i) = rq_idle (rqs s i) \<and> rq_curr (rqs s' i) = rq_curr (rqs s i) \<and>
          rq_core (rqs s' i) = rq_core (rqs s i) \<and> core_tree (rqs s' i) = core_tree (rqs s i)) \<and>
     nr_cpu_ids s' = nr_cpu_ids s"

lemma core_sameD:
  assumes "core_same s s'"
  shows "core_cookie (tasks s' t) = core_cookie (tasks s t)" "task_cpu (tasks s' t) = task_cpu (tasks s t)"
    "rq_idle (rqs s' i) = rq_idle (rqs s i)" "rq_curr (rqs s' i) = rq_curr (rqs s i)"
    "rq_core (rqs s' i) = rq_core (rqs s i)" "core_tree (rqs s' i) = core_tree (rqs s i)" "nr_cpu_ids s' = nr_cpu_ids s"
  using assms by (simp_all add: core_same_def)

lemma core_same_refl [simp]: "core_same s s"
  by (simp add: core_same_def)

lemma core_same_trans: "core_same s t \<Longrightarrow> core_same t u \<Longrightarrow> core_same s u"
  by (simp add: core_same_def)

lemma core_same_cookie: "core_same s s' \<Longrightarrow> cookie_equals p k s' = cookie_equals p k s"
  by (simp add: cookie_equals_def is_task_rq_idle_def core_sameD)

lemma core_same_sorted: "core_same s s' \<Longrightarrow> core_sorted i s' = core_sorted i s"
  by (simp add: core_sorted_def core_sameD)

lemma core_same_cpus: "core_same s s' \<Longrightarrow> for_each_cpu M s' = for_each_cpu M s"
  by (simp add: for_each_cpu_def core_sameD)

lemma core_same_clock [simp]: "core_same s (update_rq_clock E c s)"
  by (simp add: core_same_def)

text \<open>
  What the pick methods of the other classes keep of the state of core scheduling: \<open>pick_task\<close> chooses, and may at
  most update the accounts of its own class. The idle class always offers the idle task.
\<close>

definition picks_keep_core :: "'x kenv \<Rightarrow> bool" where
  "picks_keep_core E \<longleftrightarrow>
     (\<forall>k f i s r s'. op_pick_task (other_class E k) = Some f \<longrightarrow> f i s = Inr (r, s') \<longrightarrow>
        core_same s s' \<and> (\<forall>j. core_pick (rqs s' j) = core_pick (rqs s j)) \<and>
        (k = Idle \<longrightarrow> r = Some (rq_idle (rqs s i))))"

lemma class_pick_same:
  assumes "picks_keep_core E" "call (op_pick_task (class_ops E k)) (\<lambda>f. f i s) = Inr (r, s')"
  shows "core_same s s'" "core_pick (rqs s' j) = core_pick (rqs s j)"
    "k = Idle \<Longrightarrow> r = Some (rq_idle (rqs s i))"
proof -
  have "core_same s s' \<and> core_pick (rqs s' j) = core_pick (rqs s j) \<and> (k = Idle \<longrightarrow> r = Some (rq_idle (rqs s i)))"
  proof (cases "k = Hvf")
    case True
    then show ?thesis
      using assms(2) by (auto simp: hvf_sched_class_def call_def pick_task_hvf_def Let_def split: if_splits option.splits)
  next
    case False
    then show ?thesis
      using assms by (auto simp: call_def picks_keep_core_def split: option.splits)
  qed
  then show "core_same s s'" "core_pick (rqs s' j) = core_pick (rqs s j)" "k = Idle \<Longrightarrow> r = Some (rq_idle (rqs s i))"
    by simp_all
qed

lemma pick_task_loop_same:
  assumes "picks_keep_core E"
  shows "pick_task_loop E i ks s = Inr (p, s') \<Longrightarrow> core_same s s' \<and> (\<forall>j. core_pick (rqs s' j) = core_pick (rqs s j))"
proof (induction ks arbitrary: s)
  case (Cons k ks)
  then obtain r t where t: "call (op_pick_task (class_ops E k)) (\<lambda>f. f i s) = Inr (r, t)"
      "(case r of Some p \<Rightarrow> Inr (p, t) | None \<Rightarrow> pick_task_loop E i ks t) = Inr (p, s')"
    by auto
  note c = class_pick_same [OF assms t(1)]
  show ?case
  proof (cases r)
    case None
    then have "core_same t s' \<and> (\<forall>j. core_pick (rqs s' j) = core_pick (rqs t j))" using Cons.IH t(2) by simp
    then show ?thesis using c core_same_trans by auto
  next
    case (Some q)
    then show ?thesis using c t(2) by auto
  qed
qed simp

lemma pick_task_same:
  assumes "picks_keep_core E" "pick_task E i s = Inr (p, s')"
  shows "core_same s s'" "core_pick (rqs s' j) = core_pick (rqs s j)"
proof -
  let ?t = "upd_rq i (\<lambda>r. r\<lparr>rq_dl_server := None\<rparr>) s"
  have "core_same ?t s' \<and> (\<forall>j. core_pick (rqs s' j) = core_pick (rqs ?t j))"
    using pick_task_loop_same [OF assms(1)] assms(2) unfolding pick_task_def by blast
  moreover have "core_same s ?t" by (simp add: core_same_def)
  ultimately show "core_same s s'" "core_pick (rqs s' j) = core_pick (rqs s j)"
    using core_same_trans by (blast, simp)
qed

section \<open>The loops of the core-wide pick\<close>

lemma pick_siblings_same:
  assumes "picks_keep_core E"
  shows "pick_siblings E c fi clk is mx s = Inr (mx', s') \<Longrightarrow> core_same s s'"
proof (induction "is" arbitrary: mx s)
  case (Cons i "is")
  define t where "t = (if i \<noteq> c \<and> (i \<noteq> rq_core (rqs s c) \<or> \<not> clk) then update_rq_clock E i s else s)"
  obtain p u mx1 where p: "pick_task E i t = Inr (p, u)"
      "pick_siblings E c fi clk is (Some mx1) (upd_rq i (\<lambda>r. r\<lparr>core_pick := Some p, core_dl_server := rq_dl_server r\<rparr>) u) = Inr (mx', s')"
    using Cons.prems unfolding pick_siblings.simps Let_def t_def [symmetric] by auto
  have "core_same s t" by (simp add: t_def)
  moreover have "core_same u (upd_rq i (\<lambda>r. r\<lparr>core_pick := Some p, core_dl_server := rq_dl_server r\<rparr>) u)"
    by (simp add: core_same_def)
  ultimately show ?case
    using pick_task_same(1) [OF assms p(1)] Cons.IH [OF p(2)] core_same_trans by blast
qed simp

lemma core_next_loop_cookie:
  "core_next_loop E s tr c cookie fuel p = Some (Inr (Some q)) \<Longrightarrow> core_cookie (tasks s q) = cookie"
  by (induction E s tr c cookie fuel p rule: core_next_loop.induct)
    (auto split: option.splits if_splits sum.splits bool.splits)

lemma core_find_cookie:
  assumes "core_lib_ok E" "core_sorted i s" "core_find_res E i cookie s = Inr (Some q)"
  shows "core_cookie (tasks s q) = cookie"
proof -
  have so: "sorted_by (\<lambda>p. core_cookie (tasks s p)) (inorder (core_tree (rqs s i)))"
    using assms(2) by (simp add: core_sorted_def)
  have "sorted_wrt (\<lambda>a b. rb_sched_core_cmp s cookie b \<le> rb_sched_core_cmp s cookie a) (inorder (core_tree (rqs s i)))"
    by (rule sorted_wrt_mono_rel [OF _ so]) (simp add: rb_sched_core_cmp_def)
  then have ff: "rb_find_first E (rb_sched_core_cmp s cookie) (core_tree (rqs s i)) =
      find (\<lambda>p. rb_sched_core_cmp s cookie p = 0) (inorder (core_tree (rqs s i)))"
    using assms(1) unfolding core_lib_ok_def by blast
  have f: "core_cookie (tasks s p) = cookie" if "find (\<lambda>p. rb_sched_core_cmp s cookie p = 0) xs = Some p" for p xs
    using find_split [OF that] by (auto simp: rb_sched_core_cmp_def split: if_splits)
  from assms(3) show ?thesis
    by (auto simp: core_find_res_def sched_core_find_def sched_core_next_def ff Let_def dest: f core_next_loop_cookie
      simp del: core_next_loop.simps split: option.splits sum.splits bool.splits)
qed

lemma match_pick_cookie:
  assumes "picks_keep_core E" "core_lib_ok E" "core_sorted i s" "task_cpu (tasks s (rq_idle (rqs s i))) = i"
    and "match_pick E cookie i p s = Inr (r, s')"
  shows "core_same s s'" "core_pick (rqs s' j) = core_pick (rqs s j)" "\<exists>q. r = Some q \<and> cookie_equals q cookie s'"
proof -
  have "core_same s s' \<and> core_pick (rqs s' j) = core_pick (rqs s j) \<and> (\<exists>q. r = Some q \<and> cookie_equals q cookie s')"
  proof (cases "cookie_equals p cookie s")
    case True
    then show ?thesis using assms(5) by (auto simp: match_pick_def)
  next
    case False
    then obtain f where f: "(if cookie \<noteq> 0 then core_find_res E i cookie s else Inr None) = Inr f"
        "(case f of Some q \<Rightarrow> Inr (Some q, s) | None \<Rightarrow> call (op_pick_task (class_ops E Idle)) (\<lambda>g. g i s)) = Inr (r, s')"
      using assms(5) by (auto simp: match_pick_def simp del: class_ops_other)
    show ?thesis
    proof (cases f)
      case None
      then have "call (op_pick_task (class_ops E Idle)) (\<lambda>g. g i s) = Inr (r, s')" using f(2) by simp
      note c = class_pick_same [OF assms(1) this]
      have "cookie_equals (rq_idle (rqs s i)) cookie s" using assms(4) by (simp add: cookie_equals_def is_task_rq_idle_def)
      then show ?thesis using c core_same_cookie [OF c(1)] by simp
    next
      case (Some q)
      then have "core_cookie (tasks s q) = cookie"
        using f(1) core_find_cookie [OF assms(2,3), of cookie q] by (simp split: if_splits)
      then show ?thesis using Some f(2) by (auto simp: cookie_equals_def)
    qed
  qed
  then show "core_same s s'" "core_pick (rqs s' j) = core_pick (rqs s j)" "\<exists>q. r = Some q \<and> cookie_equals q cookie s'"
    by simp_all
qed

text \<open>After the second loop every sibling has a pick with the cookie.\<close>

lemma match_siblings_cookie:
  assumes "picks_keep_core E" "core_lib_ok E"
  shows "match_siblings E c cookie fi is occ s = Inr (occ', s') \<Longrightarrow> distinct is \<Longrightarrow>
    \<forall>i \<in> set is. core_sorted i s \<and> task_cpu (tasks s (rq_idle (rqs s i))) = i \<Longrightarrow>
    core_same s s' \<and> (\<forall>i. i \<notin> set is \<longrightarrow> core_pick (rqs s' i) = core_pick (rqs s i)) \<and>
    (\<forall>i \<in> set is. \<exists>q. core_pick (rqs s' i) = Some q \<and> cookie_equals q cookie s')"
proof (induction "is" arbitrary: occ s)
  case (Cons i "is")
  from Cons.prems(1) obtain p where p: "core_pick (rqs s i) = Some p" by (auto split: option.splits)
  then obtain r t where t: "match_pick E cookie i p s = Inr (r, t)" using Cons.prems(1) by auto
  define u where "u = upd_rq i (\<lambda>v. v\<lparr>core_pick := r, core_dl_server := None\<rparr>) t"
  define fi_rq where "fi_rq = (\<lambda>v :: rq. v\<lparr>core_forceidle_count := u32 (core_forceidle_count v + 1),
    core_forceidle_seq := (if fi then core_forceidle_seq v else u32 (core_forceidle_seq v + 1))\<rparr>)"
  define u' where "u' = (if r = Some (rq_idle (rqs u i)) \<and> nr_running (rqs u i) \<noteq> 0 then upd_core c fi_rq u else u)"
  define occ1 where "occ1 = (if r = Some (rq_idle (rqs u i)) then occ else occ + 1)"
  have u': "match_siblings E c cookie fi is occ1 u' = Inr (occ', s')"
  proof -
    have "match_siblings E c cookie fi (i # is) occ s =
        (if r = Some (rq_idle (rqs u i))
         then match_siblings E c cookie fi is occ (if nr_running (rqs u i) \<noteq> 0 then upd_core c fi_rq u else u)
         else match_siblings E c cookie fi is (occ + 1) u)"
      unfolding match_siblings.simps p option.case t bindr_simps prod.case Let_def u_def fi_rq_def ..
    then show ?thesis using Cons.prems(1) by (auto simp: u'_def occ1_def split: if_splits)
  qed
  have uu': "core_same u u'" "\<And>j. core_pick (rqs u' j) = core_pick (rqs u j)"
    by (simp_all add: u'_def fi_rq_def core_same_def)
  note m = match_pick_cookie [OF assms _ _ t]
  have st: "core_same s t" "\<And>j. core_pick (rqs t j) = core_pick (rqs s j)"
    using m(1,2) Cons.prems(3) by simp_all
  obtain q where q: "r = Some q" "cookie_equals q cookie t" using m(3) Cons.prems(3) by auto
  have tu: "core_same t u" by (simp add: u_def core_same_def)
  have su: "core_same s u'" using st(1) tu uu'(1) core_same_trans by blast
  have "\<forall>i \<in> set is. core_sorted i u' \<and> task_cpu (tasks u' (rq_idle (rqs u' i))) = i"
    using Cons.prems(3) su by (simp add: core_same_sorted core_sameD)
  then have IH: "core_same u' s'" "\<forall>j. j \<notin> set is \<longrightarrow> core_pick (rqs s' j) = core_pick (rqs u' j)"
      "\<forall>j \<in> set is. \<exists>q. core_pick (rqs s' j) = Some q \<and> cookie_equals q cookie s'"
    using Cons.IH [OF u'] Cons.prems(2) by simp_all
  have "core_same t s'" using tu uu'(1) IH(1) core_same_trans by blast
  then have "cookie_equals q cookie s'" using q(2) by (simp add: core_same_cookie)
  moreover have "core_pick (rqs s' i) = Some q" using IH(2) uu'(2) Cons.prems(2) q(1) by (simp add: u_def)
  ultimately show ?case
    using IH core_same_trans [OF su IH(1)] uu'(2) st(2) by (simp add: u_def)
qed simp

text \<open>What the third loop leaves of a sibling: it runs a task with the cookie, or is asked to switch to one.\<close>

definition sibling_ok :: "int \<Rightarrow> 'x kstate \<Rightarrow> cpu \<Rightarrow> bool" where
  "sibling_ok cookie s i \<longleftrightarrow>
     (case core_pick (rqs s i) of
        None \<Rightarrow> cookie_equals (rq_curr (rqs s i)) cookie s
      | Some q \<Rightarrow> cookie_equals q cookie s \<and> tif_need_resched (tasks s (rq_curr (rqs s i))))"

lemma resched_same:
  shows "core_same s (resched_curr c s)" "core_pick (rqs (resched_curr c s) j) = core_pick (rqs s j)"
    and "tif_need_resched (tasks s t) \<Longrightarrow> tif_need_resched (tasks (resched_curr c s) t)"
proof -
  show "core_same s (resched_curr c s)" "core_pick (rqs (resched_curr c s) j) = core_pick (rqs s j)"
    by (simp_all add: core_same_def resched_curr_def resched_curr_tif_def set_nr_and_not_polling_def Let_def set_tif_def)
  show "tif_need_resched (tasks s t) \<Longrightarrow> tif_need_resched (tasks (resched_curr c s) t)"
  proof (cases "t = rq_curr (rqs s c)")
    case False
    assume "tif_need_resched (tasks s t)"
    then show ?thesis using False by (subst resched_curr_def, subst resched_curr_tif_task) simp
  qed (simp add: resched_curr_sets)
qed

lemma kick_sibling_ok:
  assumes "s' = kick_sibling E c fi occ i s"
  shows "core_same s s'" "j \<noteq> i \<Longrightarrow> core_pick (rqs s' j) = core_pick (rqs s j)"
    "tif_need_resched (tasks s t) \<Longrightarrow> tif_need_resched (tasks s' t)"
    "core_pick (rqs s i) = Some q \<Longrightarrow> cookie_equals q k s \<Longrightarrow> i \<noteq> c \<Longrightarrow> sibling_ok k s' i"
proof -
  have "core_same s s' \<and> (j \<noteq> i \<longrightarrow> core_pick (rqs s' j) = core_pick (rqs s j)) \<and>
      (tif_need_resched (tasks s t) \<longrightarrow> tif_need_resched (tasks s' t)) \<and>
      (core_pick (rqs s i) = Some q \<longrightarrow> cookie_equals q k s \<longrightarrow> i \<noteq> c \<longrightarrow> sibling_ok k s' i)"
  proof (cases "core_pick (rqs s i)")
    case None
    then show ?thesis using assms by (simp add: kick_sibling_def)
  next
    case (Some p)
    define u where "u = upd_task p (\<lambda>v. v\<lparr>core_occupation := occ\<rparr>)
      (if fi \<and> core_forceidle_count (core_of c s) \<noteq> 0 then s
       else upd_ext (task_vruntime_update E i p (core_forceidle_count (core_of c s) \<noteq> 0)) s)"
    have u: "core_same s u" "\<And>j. rqs u j = rqs s j" "\<And>t. tif_need_resched (tasks u t) = tif_need_resched (tasks s t)"
      by (simp_all add: u_def core_same_def)
    have s': "s' = (if i = c \<or> rq_curr (rqs u i) = p
        then upd_rq i (\<lambda>v. v\<lparr>core_pick := None, core_dl_server := None\<rparr>) u else resched_curr i u)"
      using assms Some by (simp add: kick_sibling_def Let_def u_def)
    show ?thesis
    proof (cases "i = c \<or> rq_curr (rqs u i) = p")
      case True
      then have us: "core_same u s'" by (simp add: s' core_same_def)
      note ss = core_same_trans [OF u(1) us]
      show ?thesis
        using True u Some ss core_same_cookie [OF ss] core_sameD(4) [OF us, of i]
        by (auto simp: sibling_ok_def s')
    next
      case False
      then have us: "core_same u s'" by (simp add: s' resched_same)
      note ss = core_same_trans [OF u(1) us]
      have "tif_need_resched (tasks s' (rq_curr (rqs s' i)))"
        using False resched_curr_sets [of i u] by (simp add: s' resched_curr_def)
      then show ?thesis
        using False u Some ss core_same_cookie [OF ss] resched_same(2,3) [where c = i and s = u]
        by (auto simp: sibling_ok_def s')
    qed
  qed
  then show "core_same s s'" "j \<noteq> i \<Longrightarrow> core_pick (rqs s' j) = core_pick (rqs s j)"
    "tif_need_resched (tasks s t) \<Longrightarrow> tif_need_resched (tasks s' t)"
    "core_pick (rqs s i) = Some q \<Longrightarrow> cookie_equals q k s \<Longrightarrow> i \<noteq> c \<Longrightarrow> sibling_ok k s' i"
    by simp_all
qed

lemma sibling_ok_mono:
  assumes "sibling_ok k s i" "core_same s s'" "core_pick (rqs s' i) = core_pick (rqs s i)"
    and "\<And>t. tif_need_resched (tasks s t) \<Longrightarrow> tif_need_resched (tasks s' t)"
  shows "sibling_ok k s' i"
  using assms core_same_cookie [OF assms(2)] core_sameD(4) [OF assms(2), of i]
  by (auto simp: sibling_ok_def split: option.splits)

lemma kick_siblings_ok:
  "distinct is \<Longrightarrow> \<forall>i \<in> set is. \<exists>q. core_pick (rqs s i) = Some q \<and> cookie_equals q k s \<Longrightarrow>
   s' = fold (kick_sibling E c fi occ) is s \<Longrightarrow>
   core_same s s' \<and> (\<forall>i. i \<notin> set is \<longrightarrow> core_pick (rqs s' i) = core_pick (rqs s i)) \<and>
   (\<forall>t. tif_need_resched (tasks s t) \<longrightarrow> tif_need_resched (tasks s' t)) \<and> (\<forall>i \<in> set is - {c}. sibling_ok k s' i)"
proof (induction "is" arbitrary: s)
  case (Cons i "is")
  define u where "u = kick_sibling E c fi occ i s"
  note K = kick_sibling_ok [OF u_def]
  have "\<forall>j \<in> set is. \<exists>q. core_pick (rqs u j) = Some q \<and> cookie_equals q k u"
    using Cons.prems(1,2) K(2) core_same_cookie [OF K(1)] by (metis distinct.simps(2) list.set_intros(2))
  then have IH: "core_same u s'" "\<forall>j. j \<notin> set is \<longrightarrow> core_pick (rqs s' j) = core_pick (rqs u j)"
      "\<forall>t. tif_need_resched (tasks u t) \<longrightarrow> tif_need_resched (tasks s' t)" "\<forall>j \<in> set is - {c}. sibling_ok k s' j"
    using Cons.IH [of u] Cons.prems(1,3) by (simp_all add: u_def)
  have "sibling_ok k s' i" if "i \<noteq> c"
  proof -
    obtain q where "core_pick (rqs s i) = Some q" "cookie_equals q k s" using Cons.prems(2) by auto
    from K(4) [OF this that] show ?thesis
      by (rule sibling_ok_mono) (use IH Cons.prems(1) in auto)
  qed
  then show ?case using IH core_same_trans [OF K(1) IH(1)] K(2,3) by auto
qed simp

text \<open>
  C13. After the core-wide pick, there is a cookie such that the task chosen for the own cpu has it or is idle, and every
  other thread of the core runs a task that has it or is idle, or else is asked to reschedule and has such a task
  waiting as its pick: no two threads of a core are left with tasks of different cookies.
\<close>

theorem core_select_one_cookie:
  assumes E: "picks_keep_core E" "core_lib_ok E"
    and s: "\<forall>i \<in> set (for_each_cpu (cpu_smt_mask E c) s). core_sorted i s \<and> task_cpu (tasks s (rq_idle (rqs s i))) = i"
    and c: "c \<in> set (for_each_cpu (cpu_smt_mask E c) s)"
    and sel: "core_select E c fi clk s = Inr (n, s')"
  shows "\<exists>cookie. cookie_equals n cookie s' \<and>
    (\<forall>i \<in> set (for_each_cpu (cpu_smt_mask E c) s). i \<noteq> c \<longrightarrow> sibling_ok cookie s' i)"
proof -
  let ?smt = "cpu_smt_mask E c"
  obtain m t where t: "pick_siblings E c fi clk (for_each_cpu_wrap ?smt c s) None s = Inr (Some m, t)"
    using sel by (auto simp: core_select_def Let_def split: option.splits)
  define k where "k = core_cookie (tasks t m)"
  define u where "u = upd_core c (\<lambda>v. v\<lparr>rq_core_cookie := k\<rparr>) t"
  obtain occ v where v: "match_siblings E c k fi (for_each_cpu ?smt u) 0 u = Inr (occ, v)"
    using sel t by (auto simp: core_select_def Let_def u_def k_def)
  define w0 where "w0 = (if schedstat_enabled E \<and> core_forceidle_count (core_of c v) \<noteq> 0
    then upd_core c (\<lambda>r. r\<lparr>core_forceidle_start := rq_clock r, core_forceidle_occupation := occ\<rparr>) v else v)"
  define w1 where "w1 = upd_core c (\<lambda>r. r\<lparr>core_pick_seq := core_task_seq r\<rparr>) w0"
  define w where "w = upd_rq c (\<lambda>r. r\<lparr>core_sched_seq := core_pick_seq (core_of c w1)\<rparr>) w1"
  have "core_select E c fi clk s =
      (case core_pick (rqs w1 c) of None \<Rightarrow> Inl Bad_pointer
       | Some n \<Rightarrow> Inr (n, fold (kick_sibling E c fi occ) (for_each_cpu ?smt w) w))"
    unfolding core_select_def Let_def t bindr_simps prod.case option.case k_def [symmetric] u_def [symmetric] v
      w0_def [symmetric] w1_def [symmetric] w_def [symmetric] ..
  then have n: "core_pick (rqs w1 c) = Some n" "s' = fold (kick_sibling E c fi occ) (for_each_cpu ?smt w) w"
    using sel by (auto split: option.splits)
  have su: "core_same s u"
    using pick_siblings_same [OF E(1) t] core_same_trans by (force simp: u_def core_same_def)
  have "\<forall>i \<in> set (for_each_cpu ?smt u). core_sorted i u \<and> task_cpu (tasks u (rq_idle (rqs u i))) = i"
    using s su by (simp add: core_same_sorted core_sameD core_same_cpus)
  note M = match_siblings_cookie [OF E v _ this]
  have M: "core_same u v" "\<forall>i \<in> set (for_each_cpu ?smt u). \<exists>q. core_pick (rqs v i) = Some q \<and> cookie_equals q k v"
    using M by (simp_all add: for_each_cpu_def)
  have vw: "core_same v w" "\<And>i. core_pick (rqs w i) = core_pick (rqs v i)"
    by (simp_all add: w_def w1_def w0_def core_same_def)
  have sw: "core_same s w" using su M(1) vw(1) core_same_trans by blast
  have cpus: "for_each_cpu ?smt w = for_each_cpu ?smt s" "for_each_cpu ?smt u = for_each_cpu ?smt s"
    using su sw by (simp_all add: core_same_cpus)
  have P: "\<forall>i \<in> set (for_each_cpu ?smt w). \<exists>q. core_pick (rqs w i) = Some q \<and> cookie_equals q k w"
    using M(2) vw core_same_cookie [OF vw(1)] by (simp add: cpus)
  have K: "core_same w s'" "\<forall>i \<in> set (for_each_cpu ?smt w) - {c}. sibling_ok k s' i"
    using kick_siblings_ok [OF _ P n(2)] by (simp_all add: for_each_cpu_def)
  have "core_pick (rqs w c) = Some n" using n(1) by (simp add: w_def)
  then have "cookie_equals n k w" using P c cpus(1) by force
  then have "cookie_equals n k s'" using core_same_cookie [OF K(1)] by simp
  then show ?thesis using K(2) cpus(1) by auto
qed

text \<open>
  A machine with one core of two threads: the fair class offers task 2 with the cookie 7 on cpu 0 and task 3 with
  the cookie 9 on cpu 1, which runs it.
\<close>

definition smt_env :: "unit kenv" where
  "smt_env = env0\<lparr>cpu_smt_mask := (\<lambda>_. {0, 1}),
     other_class := (\<lambda>k. if k = Idle then idle_ops
       else if k = Fair then plain_ops\<lparr>op_pick_task := Some (\<lambda>c s. Inr (Some (c + 2), s))\<rparr> else plain_ops)\<rparr>"

definition smt_machine :: "unit kstate" where
  "smt_machine = boot0\<lparr>sched_core_key := True,
     tasks := (\<lambda>t. (task0 t)\<lparr>core_cookie := (if t = 2 then 7 else if t = 3 then 9 else 0),
       task_cpu := (if 100 \<le> t then t - 100 else t - 2)\<rparr>),
     rqs := (\<lambda>c. (rq0 (c + 2) (c + 100))\<lparr>core_enabled := True\<rparr>)\<rparr>"

lemma smt_env_ok: "picks_keep_core smt_env" "core_lib_ok smt_env"
proof -
  show "picks_keep_core smt_env"
    by (simp add: picks_keep_core_def smt_env_def env0_def idle_ops_def plain_ops_def)
  show "core_lib_ok smt_env"
    using env0_core_lib_ok by (simp add: core_lib_ok_def smt_env_def)
qed

lemma smt_pick: "pick_task smt_env i s = Inr (i + 2, upd_rq i (\<lambda>r. r\<lparr>rq_dl_server := None\<rparr>) s)"
  by (simp add: pick_task_def sched_classes_def call_def smt_env_def plain_ops_def)

lemma smt_cpus: "nr_cpu_ids s = 2 \<Longrightarrow> for_each_cpu (cpu_smt_mask smt_env c) s = [0, 1]"
  by (simp add: for_each_cpu_def smt_env_def numeral_2_eq_2)

lemma smt_match:
  "match_pick smt_env k i p s = (if cookie_equals p k s then Inr (Some p, s)
     else bindr (if k \<noteq> 0 then core_find_res smt_env i k s else Inr None)
       (\<lambda>r. case r of Some q \<Rightarrow> Inr (Some q, s) | None \<Rightarrow> Inr (Some (rq_idle (rqs s i)), s)))"
  by (simp add: match_pick_def smt_env_def idle_ops_def call_def)

lemma smt_core_select: "\<exists>n s'. core_select smt_env 0 False True smt_machine = Inr (n, s')"
proof -
  have w: "for_each_cpu_wrap (cpu_smt_mask smt_env 0) 0 smt_machine = [0, 1]"
    by (simp add: for_each_cpu_wrap_def smt_cpus smt_machine_def boot0_def)
  obtain mx t where t: "pick_siblings smt_env 0 False True [0, 1] None smt_machine = Inr (Some mx, t)"
      "core_pick (rqs t 0) = Some 2" "core_pick (rqs t 1) = Some 3" "core_tree (rqs t 0) = Leaf" "core_tree (rqs t 1) = Leaf"
      "nr_cpu_ids t = 2" "rq_core (rqs t 0) = 0"
    by (simp add: smt_pick Let_def) (simp add: smt_machine_def boot0_def rq0_def)
  have e: "core_find_res smt_env i k u = Inr None" if "core_tree (rqs u i) = Leaf" for i k u
    using that by (simp add: core_find_res_def sched_core_find_def smt_env_def env0_def)
  define k where "k = core_cookie (tasks t mx)"
  define u where "u = upd_core 0 (\<lambda>v. v\<lparr>rq_core_cookie := k\<rparr>) t"
  have "\<exists>occ v. match_siblings smt_env 0 k False [0, 1] 0 u = Inr (occ, v) \<and> core_pick (rqs v 0) \<noteq> None \<and> nr_cpu_ids v = 2 \<and> rq_core (rqs v 0) = 0"
    using t by (auto simp: smt_match u_def e Let_def)
  then show ?thesis
    using t by (auto simp: core_select_def w smt_cpus Let_def k_def u_def split: option.splits)
qed

theorem core_select_one_cookie_witness:
  "\<exists>n s' cookie. core_select smt_env 0 False True smt_machine = Inr (n, s') \<and> cookie_equals n cookie s' \<and>
     sibling_ok cookie s' 1"
proof -
  have cpus: "for_each_cpu (cpu_smt_mask smt_env 0) smt_machine = [0, 1]"
    by (simp add: smt_cpus smt_machine_def boot0_def)
  have "\<forall>i \<in> set [0, 1]. core_sorted i smt_machine \<and> task_cpu (tasks smt_machine (rq_idle (rqs smt_machine i))) = i"
    by (simp add: core_sorted_def smt_machine_def rq0_def task0_def)
  moreover obtain n s' where s': "core_select smt_env 0 False True smt_machine = Inr (n, s')"
    using smt_core_select by blast
  ultimately show ?thesis
    using core_select_one_cookie [OF smt_env_ok _ _ s', unfolded cpus] by auto
qed

section \<open>Stealing\<close>

text \<open>Whether \<open>p\<close> of the cpu \<open>that\<close> may go to \<open>this\<close>, given which tasks are throttled on it.\<close>

definition stealable :: "'x kenv \<Rightarrow> cpu \<Rightarrow> cpu \<Rightarrow> (tid \<Rightarrow> bool) \<Rightarrow> 'x kstate \<Rightarrow> tid \<Rightarrow> bool" where
  "stealable E this that thr s p \<longleftrightarrow>
     core_pick (rqs s that) \<noteq> Some p \<and> rq_curr (rqs s that) \<noteq> p \<and> is_cpu_allowed E p this s \<and>
     core_occupation (tasks s p) \<le> core_occupation (tasks s (rq_idle (rqs s this))) \<and> \<not> thr p"

definition steal_result :: "'x kenv \<Rightarrow> cpu \<Rightarrow> cpu \<Rightarrow> 'x kstate \<Rightarrow> tid option \<Rightarrow> (bool \<times> 'x kstate) res" where
  "steal_result E this that s r =
     (case r of
        None \<Rightarrow> Inr (False, s)
      | Some p \<Rightarrow> bindr (move_queued_task_locked E that this p s) (\<lambda>s. Inr (True, resched_curr this s)))"

lemma may_steal_eq:
  assumes "sched_task_is_throttled E p this s = Inr (thr p)"
  shows "may_steal E this that p s = Inr (stealable E this that thr s p)"
  using assms by (auto simp: may_steal_def stealable_def)

lemma find_skip: "\<forall>x \<in> set xs. \<not> P x \<Longrightarrow> find P (xs @ ys) = find P ys"
  by (induction xs) auto

lemma steal_loop_find:
  assumes L: "rb_lib_ok (env_lib E)" and s: "core_sorted that s"
    and on: "\<And>q. q \<in> set (inorder (core_tree (rqs s that))) \<Longrightarrow> task_cpu (tasks s q) = that"
    and thr: "\<And>q. q \<in> set (inorder (core_tree (rqs s that))) \<Longrightarrow> sched_task_is_throttled E q that s = Inr (thr q)"
    and thr': "\<And>q. q \<in> set (inorder (core_tree (rqs s that))) \<Longrightarrow> sched_task_is_throttled E q this s = Inr (thr' q)"
  shows "inorder (core_tree (rqs s that)) = xs @ p # ys \<Longrightarrow> core_cookie (tasks s p) = cookie \<Longrightarrow> \<not> thr p \<Longrightarrow>
    length ys < n \<Longrightarrow> steal_loop E this that cookie n (Some p) s =
      steal_result E this that s
        (find (\<lambda>q. core_cookie (tasks s q) = cookie \<and> \<not> thr q \<and> stealable E this that thr' s q) (p # ys))"
proof (induction n arbitrary: xs p ys)
  case (Suc n)
  let ?t = "core_tree (rqs s that)"
  let ?P = "\<lambda>q. core_cookie (tasks s q) = cookie \<and> \<not> thr q"
  let ?Q = "\<lambda>q. core_cookie (tasks s q) = cookie \<and> \<not> thr q \<and> stealable E this that thr' s q"
  have p: "p \<in> set (inorder ?t)" using Suc.prems(1) by simp
  note ms = may_steal_eq [of E p this s thr' that, OF thr' [OF p]]
  show ?case
  proof (cases "stealable E this that thr' s p")
    case True
    then show ?thesis using ms Suc.prems(2,3) by (simp add: steal_result_def)
  next
    case False
    have "length ys < Suc (size ?t)" using Suc.prems(1) length_inorder [of ?t] by simp
    then have nx: "sched_core_next E p cookie s = Some (Inr (find ?P ys))"
      using core_next_loop_find [OF L _ thr _ Suc.prems(1,2)] s on [OF p]
      by (simp add: sched_core_next_def core_sorted_def Let_def del: core_next_loop.simps)
    show ?thesis
    proof (cases "find ?P ys")
      case None
      then have "find ?Q ys = None" by (auto simp: find_None_iff)
      then show ?thesis using False ms nx None by (simp add: steal_result_def)
    next
      case (Some q)
      from find_split [OF this] obtain zs ws where q: "ys = zs @ q # ws" "?P q" "\<forall>x \<in> set zs. \<not> ?P x" by blast
      have "steal_loop E this that cookie n (Some q) s = steal_result E this that s (find ?Q (q # ws))"
        using Suc.IH [of "xs @ p # zs" q ws] Suc.prems(1,4) q by simp
      moreover have "find ?Q ys = find ?Q (q # ws)" unfolding q(1) using q(3) by (intro find_skip) blast
      ultimately show ?thesis using False ms nx Some by simp
    qed
  qed
qed simp

text \<open>
  C18. For a cpu that is forced idle, \<open>try_steal_cookie\<close> comes to an end, and moves the first task in the order of
  the other cpu's tree that has the cookie of the core, is not throttled, neither runs nor is about to run, may run
  on the idle cpu by its affinity, and prefers at most as large a share of the core; if there is none,
  nothing changes.
\<close>

theorem try_steal_cookie_first:
  assumes E: "core_lib_ok E" and s: "core_sorted that s"
    and idle: "rq_curr (rqs s this) = rq_idle (rqs s this)" and cookie: "cookie = rq_core_cookie (core_of this s)" "cookie \<noteq> 0"
    and on: "\<And>q. q \<in> set (inorder (core_tree (rqs s that))) \<Longrightarrow> task_cpu (tasks s q) = that"
    and thr: "\<And>q. q \<in> set (inorder (core_tree (rqs s that))) \<Longrightarrow> sched_task_is_throttled E q that s = Inr (thr q)"
    and thr': "\<And>q. q \<in> set (inorder (core_tree (rqs s that))) \<Longrightarrow> sched_task_is_throttled E q this s = Inr (thr' q)"
  shows "try_steal_cookie E this that s =
    steal_result E this that s
      (find (\<lambda>q. core_cookie (tasks s q) = cookie \<and> \<not> thr q \<and> stealable E this that thr' s q)
        (inorder (core_tree (rqs s that))))"
proof -
  let ?t = "core_tree (rqs s that)"
  let ?P = "\<lambda>q. core_cookie (tasks s q) = cookie \<and> \<not> thr q"
  have f: "core_find_res E that cookie s = Inr (find ?P (inorder ?t))"
    using sched_core_find_eq [OF E s on thr] by (simp add: core_find_res_def)
  have st: "try_steal_cookie E this that s = steal_loop E this that cookie (size ?t) (find ?P (inorder ?t)) s"
    using idle cookie f by (simp add: try_steal_cookie_def Let_def)
  show ?thesis
  proof (cases "find ?P (inorder ?t)")
    case None
    then have "find (\<lambda>q. core_cookie (tasks s q) = cookie \<and> \<not> thr q \<and> stealable E this that thr' s q) (inorder ?t) = None"
      by (auto simp: find_None_iff)
    then show ?thesis using st None by (simp add: steal_result_def)
  next
    case (Some p)
    from find_split [OF this] obtain xs ys where p: "inorder ?t = xs @ p # ys" "?P p" "\<forall>x \<in> set xs. \<not> ?P x" by blast
    have "length ys < size ?t" using p(1) length_inorder [of ?t] by simp
    moreover have "find (\<lambda>q. core_cookie (tasks s q) = cookie \<and> \<not> thr q \<and> stealable E this that thr' s q) (inorder ?t) =
        find (\<lambda>q. core_cookie (tasks s q) = cookie \<and> \<not> thr q \<and> stealable E this that thr' s q) (p # ys)"
      unfolding p(1) using p(3) by (intro find_skip) blast
    moreover have "rb_lib_ok (env_lib E)" using E by (simp add: core_lib_ok_def)
    ultimately show ?thesis using steal_loop_find [OF _ s on thr thr' p(1)] p(2) st Some by simp
  qed
qed

text \<open>Cpu 0 is idle in a core with the cookie 7, and task 5 waits with that cookie on cpu 1.\<close>

definition steal_machine :: "unit kstate" where
  "steal_machine = smt_machine\<lparr>
     tasks := (tasks smt_machine)(5 := (task0 5)\<lparr>core_cookie := 7, task_cpu := 1, on_rq := 1\<rparr>),
     rqs := (rqs smt_machine)(0 := (rq0 100 100)\<lparr>core_enabled := True, rq_core_cookie := 7\<rparr>,
       1 := (rq0 3 101)\<lparr>core_enabled := True, core_tree := Node Leaf 5 Leaf\<rparr>)\<rparr>"

theorem try_steal_cookie_first_witness:
  "try_steal_cookie smt_env 0 1 steal_machine = steal_result smt_env 0 1 steal_machine (Some 5)"
proof -
  have s: "core_sorted 1 steal_machine" "rq_curr (rqs steal_machine 0) = rq_idle (rqs steal_machine 0)"
      "7 = rq_core_cookie (core_of 0 steal_machine)" "inorder (core_tree (rqs steal_machine 1)) = [5]"
      "task_cpu (tasks steal_machine 5) = 1" "core_cookie (tasks steal_machine 5) = 7"
    by (simp_all add: core_sorted_def steal_machine_def rq0_def)
  have t: "sched_task_is_throttled smt_env 5 c steal_machine = Inr False" for c
    by (simp add: sched_task_is_throttled_def steal_machine_def task0_def smt_env_def plain_ops_def)
  have "stealable smt_env 0 1 (\<lambda>_. False) steal_machine 5"
    by (simp add: stealable_def is_cpu_allowed_def task_allowed_on_cpu_def cpus_ptr_def is_migration_disabled_def
      steal_machine_def smt_machine_def rq0_def task0_def boot0_def smt_env_def env0_def)
  then show ?thesis
    using try_steal_cookie_first [OF smt_env_ok(2) s(1,2,3), of "\<lambda>_. False" "\<lambda>_. False"] s(4-6) t by simp
qed

end
