(* ===== verification/Core_Group.thy ===== *)
theory Core_Group
  imports Core_Loop
begin

text \<open>
  Task groups (\<open>CONFIG_CGROUP_SCHED\<close>, \<open>CONFIG_FAIR_GROUP_SCHED\<close>, \<open>CONFIG_CFS_BANDWIDTH\<close> of \<^verbatim>\<open>kernel/sched/core.c\<close>): the tree of
  groups and its walk, the life of a group, moving a task between groups, and the files of the cpu controller for
  weights and bandwidth. What the fair class keeps of a group is a parameter, \<open>genv\<close>.
\<close>

section \<open>The environment\<close>

datatype rcu_cb = Free_group nat | Unregister_group nat

record 'x genv =
  gkern :: "'x kenv"
  tg_cache_alloc :: "'x kstate \<Rightarrow> nat option"
  tg_cache_free :: "nat \<Rightarrow> 'x \<Rightarrow> 'x"
  alloc_fair_sched_group :: "nat \<Rightarrow> nat \<Rightarrow> 'x kstate \<Rightarrow> bool \<times> 'x kstate"
  alloc_rt_sched_group :: "nat \<Rightarrow> nat \<Rightarrow> 'x kstate \<Rightarrow> bool \<times> 'x kstate"
  free_fair_sched_group :: "nat \<Rightarrow> 'x \<Rightarrow> 'x"
  free_rt_sched_group :: "nat \<Rightarrow> 'x \<Rightarrow> 'x"
  autogroup_free :: "nat \<Rightarrow> 'x \<Rightarrow> 'x"
  online_fair_sched_group :: "nat \<Rightarrow> 'x \<Rightarrow> 'x"
  unregister_fair_sched_group :: "nat \<Rightarrow> 'x \<Rightarrow> 'x"
  unregister_rt_sched_group :: "nat \<Rightarrow> 'x \<Rightarrow> 'x"
  call_rcu :: "rcu_cb \<Rightarrow> 'x \<Rightarrow> 'x"
  sched_group_set_shares :: "nat \<Rightarrow> int \<Rightarrow> 'x kstate \<Rightarrow> int \<times> 'x kstate"
  sched_group_set_idle :: "nat \<Rightarrow> int \<Rightarrow> 'x kstate \<Rightarrow> int \<times> 'x kstate"
  refill_cfs_bandwidth_runtime :: "cfs_bandwidth \<Rightarrow> cfs_bandwidth"
  start_cfs_bandwidth :: "nat \<Rightarrow> 'x \<Rightarrow> 'x"
  unthrottle_cfs_rq :: "nat \<Rightarrow> cpu \<Rightarrow> 'x kstate \<Rightarrow> 'x kstate"
  cfs_bandwidth_usage_inc :: "'x \<Rightarrow> 'x"
  cfs_bandwidth_usage_dec :: "'x \<Rightarrow> 'x"
  cgroup_on_dfl :: bool
  cpu_possible_mask :: cpumask
  se_wait_sum :: "nat \<Rightarrow> cpu \<Rightarrow> 'x \<Rightarrow> int"

abbreviation (input) ENOMEM :: int where "ENOMEM \<equiv> 12"
abbreviation (input) ERANGE :: int where "ERANGE \<equiv> 34"
abbreviation (input) NSEC_PER_USEC :: int where "NSEC_PER_USEC \<equiv> 1000"
abbreviation (input) NSEC_PER_MSEC :: int where "NSEC_PER_MSEC \<equiv> 1000000"
abbreviation (input) NSEC_PER_SEC :: int where "NSEC_PER_SEC \<equiv> 1000000000"
abbreviation (input) U64_MAX :: int where "U64_MAX \<equiv> 2 ^ 64 - 1"

section \<open>The walk over the tree\<close>

type_synonym 'x tg_visitor = "nat \<Rightarrow> 'x kstate \<Rightarrow> int \<times> 'x kstate"

text \<open>
  The labels of \<open>walk_tg_tree_from\<close>: entering a group, and leaving it after its last child. \<open>fuel\<close> bounds
  the number of labels passed.
\<close>

datatype walk_label = Walk_down nat | Walk_up nat

fun walk_loop ::
    "'x tg_visitor \<Rightarrow> 'x tg_visitor \<Rightarrow> nat \<Rightarrow> nat \<Rightarrow> walk_label \<Rightarrow> 'x kstate \<Rightarrow> (int \<times> 'x kstate) res" where
  "walk_loop down up from 0 l s = Inl No_return"
| "walk_loop down up from (Suc n) (Walk_down g) s =
     (case down g s of (ret, s) \<Rightarrow>
        if ret \<noteq> 0 then Inr (ret, s)
        else case tg_children (tgs s g) of
               h # _ \<Rightarrow> walk_loop down up from n (Walk_down h) s
             | [] \<Rightarrow> walk_loop down up from n (Walk_up g) s)"
| "walk_loop down up from (Suc n) (Walk_up g) s =
     (case up g s of (ret, s) \<Rightarrow>
        if ret \<noteq> 0 \<or> g = from then Inr (ret, s)
        else case tg_parent (tgs s g) of
               None \<Rightarrow> Inr (ret, s)
             | Some p \<Rightarrow>
                 (case next_in (tg_children (tgs s p)) g of
                    Some h \<Rightarrow> walk_loop down up from n (Walk_down h) s
                  | None \<Rightarrow> walk_loop down up from n (Walk_up p) s))"

definition walk_tg_tree_from ::
    "nat \<Rightarrow> 'x tg_visitor \<Rightarrow> 'x tg_visitor \<Rightarrow> 'x kstate \<Rightarrow> (int \<times> 'x kstate) res" where
  "walk_tg_tree_from from down up s =
     walk_loop down up from (2 * length (tg_list s)) (Walk_down from) s"

definition walk_tg_tree :: "'x tg_visitor \<Rightarrow> 'x tg_visitor \<Rightarrow> 'x kstate \<Rightarrow> (int \<times> 'x kstate) res" where
  "walk_tg_tree down up s = walk_tg_tree_from root_task_group down up s"

definition tg_nop :: "'x tg_visitor" where
  "tg_nop g s = (0, s)"

section \<open>The life of a group\<close>

definition tg_zero :: task_group where
  "tg_zero = \<lparr>tg_idle = 0, tg_shares = 0, tg_depth = 0, tg_parent = None, tg_children = [],
     tg_bandwidth = \<lparr>bw_period = 0, bw_quota = 0, bw_runtime = 0, bw_burst = 0, hierarchical_quota = 0,
       bw_nr_periods = 0, bw_nr_throttled = 0, bw_nr_burst = 0, bw_throttled_time = 0, bw_burst_time = 0\<rparr>,
     tg_rq = (\<lambda>_. \<lparr>runtime_enabled = False, runtime_remaining = 0, throttled = False, throttled_clock_self_time = 0\<rparr>)\<rparr>"

definition sched_free_group :: "'x genv \<Rightarrow> nat \<Rightarrow> 'x kstate \<Rightarrow> 'x kstate" where
  "sched_free_group G g s = upd_ext (\<lambda>x. tg_cache_free G g (autogroup_free G g (free_rt_sched_group G g (free_fair_sched_group G g x)))) s"

definition sched_unregister_group :: "'x genv \<Rightarrow> nat \<Rightarrow> 'x kstate \<Rightarrow> 'x kstate" where
  "sched_unregister_group G g s = upd_ext (\<lambda>x. call_rcu G (Free_group g) (unregister_rt_sched_group G g (unregister_fair_sched_group G g x))) s"

definition sched_destroy_group :: "'x genv \<Rightarrow> nat \<Rightarrow> 'x kstate \<Rightarrow> 'x kstate" where
  "sched_destroy_group G g s = upd_ext (call_rcu G (Unregister_group g)) s"

text \<open>What runs after a grace period.\<close>

definition run_rcu_cb :: "'x genv \<Rightarrow> rcu_cb \<Rightarrow> 'x kstate \<Rightarrow> 'x kstate" where
  "run_rcu_cb G cb s = (case cb of Free_group g \<Rightarrow> sched_free_group G g s | Unregister_group g \<Rightarrow> sched_unregister_group G g s)"

definition sched_create_group :: "'x genv \<Rightarrow> nat \<Rightarrow> 'x kstate \<Rightarrow> (int + nat) \<times> 'x kstate" where
  "sched_create_group G parent s =
     (case tg_cache_alloc G s of
        None \<Rightarrow> (Inl (- ENOMEM), s)
      | Some g \<Rightarrow>
          let s = upd_tg g (\<lambda>_. tg_zero) s in
          case alloc_fair_sched_group G g parent s of
            (False, s) \<Rightarrow> (Inl (- ENOMEM), sched_free_group G g s)
          | (True, s) \<Rightarrow>
              (case alloc_rt_sched_group G g parent s of
                 (False, s) \<Rightarrow> (Inl (- ENOMEM), sched_free_group G g s)
               | (True, s) \<Rightarrow> (Inr g, s)))"

definition sched_online_group :: "'x genv \<Rightarrow> nat \<Rightarrow> nat \<Rightarrow> 'x kstate \<Rightarrow> 'x kstate" where
  "sched_online_group G g parent s =
     (let s = s\<lparr>tg_list := g # tg_list s\<rparr>;
          s = upd_tg g (\<lambda>v. v\<lparr>tg_parent := Some parent, tg_children := []\<rparr>) s;
          s = upd_tg parent (\<lambda>v. v\<lparr>tg_children := g # tg_children v\<rparr>) s
      in upd_ext (online_fair_sched_group G g) s)"

text \<open>
  The links of a group that is not on the list of groups are null (it was never brought online) or poisoned (it was
  released before). The links of the root among its siblings are a list of their own.
\<close>

definition sched_release_group :: "nat \<Rightarrow> 'x kstate \<Rightarrow> 'x kstate res" where
  "sched_release_group g s =
     (if g \<notin> set (tg_list s) then Inl Bad_pointer
      else
        let s = s\<lparr>tg_list := remove1 g (tg_list s)\<rparr> in
        Inr (case tg_parent (tgs s g) of
               None \<Rightarrow> s
             | Some p \<Rightarrow> upd_tg p (\<lambda>v. v\<lparr>tg_children := remove1 g (tg_children v)\<rparr>) s))"

definition sched_change_group :: "'x kenv \<Rightarrow> tid \<Rightarrow> 'x kstate \<Rightarrow> 'x kstate res" where
  "sched_change_group E p s =
     (let tg = autogroup_task_group E p (task_css_tg E p (ext s)) (ext s);
          s = upd_task p (\<lambda>v. v\<lparr>sched_task_group := tg\<rparr>) s
      in case op_task_change_group (ops_of E p s) of
           Some f \<Rightarrow> f p s
         | None \<Rightarrow> Inr (set_task_rq E p (task_cpu (tasks s p)) s))"

definition sched_move_task :: "'x kenv \<Rightarrow> tid \<Rightarrow> 'x kstate \<Rightarrow> 'x kstate res" where
  "sched_move_task E p s =
     (let c = task_cpu (tasks s p);
          queue_flags = DEQUEUE_SAVE OR DEQUEUE_MOVE OR DEQUEUE_NOCLOCK;
          s = update_rq_clock E c s;
          running = task_current_donor c p s;
          queued = task_on_rq_queued p s
      in bindr (if queued then bindr (dequeue_task E c p queue_flags s) (\<lambda>(_, s). Inr s) else Inr s) (\<lambda>s.
         bindr (if running then put_prev_task E c p s else Inr s) (\<lambda>s.
         bindr (sched_change_group E p s) (\<lambda>s.
         bindr (if queued then enqueue_task E c p queue_flags s else Inr s) (\<lambda>s.
         if running then bindr (set_next_task E c p s) (\<lambda>s. Inr (resched_curr c s)) else Inr s)))))"

definition cpu_cgroup_css_alloc :: "'x genv \<Rightarrow> nat option \<Rightarrow> 'x kstate \<Rightarrow> (int + nat) \<times> 'x kstate" where
  "cpu_cgroup_css_alloc G parent s =
     (case parent of
        None \<Rightarrow> (Inr root_task_group, s)
      | Some p \<Rightarrow> (case sched_create_group G p s of (Inl _, s) \<Rightarrow> (Inl (- ENOMEM), s) | (Inr g, s) \<Rightarrow> (Inr g, s)))"

definition cpu_cgroup_css_online :: "'x genv \<Rightarrow> nat \<Rightarrow> nat option \<Rightarrow> 'x kstate \<Rightarrow> int \<times> 'x kstate" where
  "cpu_cgroup_css_online G g parent s =
     (0, case parent of None \<Rightarrow> s | Some p \<Rightarrow> sched_online_group G g p s)"

definition cpu_cgroup_css_released :: "nat \<Rightarrow> 'x kstate \<Rightarrow> 'x kstate res" where
  "cpu_cgroup_css_released g s = sched_release_group g s"

definition cpu_cgroup_css_free :: "'x genv \<Rightarrow> nat \<Rightarrow> 'x kstate \<Rightarrow> 'x kstate" where
  "cpu_cgroup_css_free G g s = sched_unregister_group G g s"

fun cpu_cgroup_attach :: "'x kenv \<Rightarrow> tid list \<Rightarrow> 'x kstate \<Rightarrow> 'x kstate res" where
  "cpu_cgroup_attach E [] s = Inr s"
| "cpu_cgroup_attach E (p # ps) s = bindr (sched_move_task E p s) (\<lambda>s. cpu_cgroup_attach E ps s)"

end
