(* ===== verification/Core_Hotplug.thy ===== *)
theory Core_Hotplug
  imports Sched_Calls Core_Group
begin

text \<open>
  Boot and cpu hotplug (\<^verbatim>\<open>kernel/sched/core.c\<close>): \<open>sched_init\<close> and the idle threads, cpus that come and go, and the
  operations on tasks that go with them: the stop thread, NUMA moves, the emergency normalisation of
  real-time tasks. The services that are called without a result are named by a datatype.
\<close>

section \<open>The environment\<close>

datatype boot_service =
    Wait_bit_init | Init_defrootdomain | Autogroup_init | Set_kthread_struct | Calc_load_update
  | Idle_thread_set_boot_cpu | Init_sched_fair_class | Psi_init | Preempt_dynamic_init
  | Sched_init_numa | Sched_init_domains | Sched_init_granularity | Init_sched_rt_class | Init_sched_dl_class

datatype rq_service =
    Init_load | Init_cfs_rq | Init_rt_rq | Init_dl_rq | Init_tg_cfs_entry | Init_balance_fields
  | Init_nohz | Init_hotplug_wait | Hrtick_rq_init | Alloc_scratch_mask

datatype cpu_service =
    Update_numa bool | Numa_masks_set | Numa_masks_clear | Nohz_exit_idle | Rq_load_update | Max_interval
  | Load_migrate | Hrtick_clear

record 'x henv =
  hsenv :: "'x senv"
  hgenv :: "'x genv"
  init_task :: tid
  init_mm :: nat
  boot_call :: "boot_service \<Rightarrow> 'x \<Rightarrow> 'x"
  rq_call :: "rq_service \<Rightarrow> cpu \<Rightarrow> 'x \<Rightarrow> 'x"
  cpu_call :: "cpu_service \<Rightarrow> cpu \<Rightarrow> 'x \<Rightarrow> 'x"
  rq_attach_root :: "cpu \<Rightarrow> 'x kstate \<Rightarrow> 'x kstate"
  fair_server_init :: "cpu \<Rightarrow> 'x kstate \<Rightarrow> 'x kstate"
  init_cfs_bandwidth :: "cfs_bandwidth \<Rightarrow> cfs_bandwidth"
  sched_clock_now :: "'x \<Rightarrow> int"
  kthread_set_per_cpu :: "tid \<Rightarrow> cpu \<Rightarrow> 'x \<Rightarrow> 'x"
  init_idle_accounts :: "tid \<Rightarrow> cpu \<Rightarrow> 'x \<Rightarrow> 'x"
  housekeeping_domain :: cpumask
  has_rd :: "cpu \<Rightarrow> 'x \<Rightarrow> bool"
  rd_online :: "cpu \<Rightarrow> bool \<Rightarrow> 'x \<Rightarrow> 'x"
  dl_bw_deactivate :: "cpu \<Rightarrow> 'x \<Rightarrow> int"
  dl_cpumask_can_shrink :: "cpumask \<Rightarrow> cpumask \<Rightarrow> 'x \<Rightarrow> int"
  cpuhp_tasks_frozen :: "'x \<Rightarrow> bool"
  cpuset_reset_sched_domains :: "'x kstate \<Rightarrow> 'x kstate"
  cpuset_force_rebuild :: "'x \<Rightarrow> 'x"
  cpuset_update_active_cpus :: "'x kstate \<Rightarrow> 'x kstate"
  hotplug_wait_event :: "cpu \<Rightarrow> 'x kstate \<Rightarrow> 'x kstate res"
  stop_one_cpu_ret :: "cpu \<Rightarrow> stop_work \<Rightarrow> 'x kstate \<Rightarrow> (int \<times> 'x kstate) res"
  all_threads :: "'x \<Rightarrow> tid list"
  clear_schedstats :: "tid \<Rightarrow> 'x \<Rightarrow> 'x"

abbreviation (input) hkern :: "'x henv \<Rightarrow> 'x kenv" where "hkern B \<equiv> kern (hsenv B)"

section \<open>Tasks\<close>

definition sched_set_stop_task :: "'x henv \<Rightarrow> cpu \<Rightarrow> tid option \<Rightarrow> 'x kstate \<Rightarrow> 'x kstate res" where
  "sched_set_stop_task B c stop s =
     (let old_stop = rq_stop (rqs s c)
      in bindr
           (case stop of
              None \<Rightarrow> Inr s
            | Some p \<Rightarrow>
                bindr (sched_setscheduler_nocheck (hsenv B) p SCHED_FIFO (MAX_RT_PRIO - 1) s)
                  (\<lambda>(_, s). Inr (upd_task p (\<lambda>v. v\<lparr>sched_class := Stop\<rparr>) s)))
           (\<lambda>s. let s = upd_rq c (\<lambda>r. r\<lparr>rq_stop := stop\<rparr>) s
                in Inr (case old_stop of None \<Rightarrow> s | Some o' \<Rightarrow> upd_task o' (\<lambda>v. v\<lparr>sched_class := Rt\<rparr>) s)))"

definition init_idle :: "'x henv \<Rightarrow> tid \<Rightarrow> cpu \<Rightarrow> 'x kstate \<Rightarrow> 'x kstate" where
  "init_idle B idle c s =
     (let ac = \<lparr>new_mask = {c}, user_mask = None, ac_flags = 0\<rparr>;
          s = upd_task idle (\<lambda>v. v\<lparr>tstate := TASK_RUNNING, se := (se v)\<lparr>exec_start := sched_clock_now B (ext s)\<rparr>,
                pflags := pflags v OR (PF_KTHREAD OR PF_NO_SETAFFINITY)\<rparr>) s;
          s = upd_ext (kthread_set_per_cpu B idle c) s;
          s = upd_task idle (set_cpus_allowed_common ac) s;
          s = set_task_cpu_raw (hkern B) idle c s;
          s = upd_rq c (\<lambda>r. r\<lparr>rq_idle := idle, rq_curr := idle\<rparr>) s;
          s = upd_task idle (\<lambda>v. v\<lparr>on_rq := TASK_ON_RQ_QUEUED, on_cpu := True\<rparr>) s;
          s = upd_task idle (\<lambda>v. v\<lparr>sched_class := Idle\<rparr>) s
      in upd_ext (init_idle_accounts B idle c) s)"

definition cpuset_cpumask_can_shrink :: "'x henv \<Rightarrow> cpumask \<Rightarrow> cpumask \<Rightarrow> 'x kstate \<Rightarrow> int" where
  "cpuset_cpumask_can_shrink B cur trial s =
     (if cur = {} then 1 else dl_cpumask_can_shrink B cur trial (ext s))"

definition task_can_attach :: "tid \<Rightarrow> 'x kstate \<Rightarrow> int" where
  "task_can_attach p s = (if pflags (tasks s p) AND PF_NO_SETAFFINITY \<noteq> 0 then - EINVAL else 0)"

definition migrate_task_to :: "'x henv \<Rightarrow> tid \<Rightarrow> cpu \<Rightarrow> 'x kstate \<Rightarrow> (int \<times> 'x kstate) res" where
  "migrate_task_to B p target_cpu s =
     (let c = task_cpu (tasks s p)
      in if c = target_cpu then Inr (0, s)
         else if target_cpu \<notin> cpus_ptr (tasks s p) then Inr (- EINVAL, s)
         else stop_one_cpu_ret B c (Exec_stop p target_cpu) s)"

definition sched_setnuma :: "'x kenv \<Rightarrow> tid \<Rightarrow> int \<Rightarrow> 'x kstate \<Rightarrow> 'x kstate res" where
  "sched_setnuma E p nid s =
     (let c = task_cpu (tasks s p);
          queued = task_on_rq_queued p s;
          running = task_current_donor c p s
      in bindr (if queued then bindr (dequeue_task E c p DEQUEUE_SAVE s) (\<lambda>(_, s). Inr s) else Inr s) (\<lambda>s.
         bindr (if running then put_prev_task E c p s else Inr s) (\<lambda>s.
         let s = upd_task p (\<lambda>v. v\<lparr>numa_preferred_nid := nid\<rparr>) s in
         bindr (if queued then enqueue_task E c p (ENQUEUE_RESTORE OR ENQUEUE_NOCLOCK) s else Inr s) (\<lambda>s.
         if running then set_next_task E c p s else Inr s))))"

fun normalize_tasks :: "'x henv \<Rightarrow> tid list \<Rightarrow> 'x kstate \<Rightarrow> 'x kstate res" where
  "normalize_tasks B [] s = Inr s"
| "normalize_tasks B (p # ps) s =
     (if pflags (tasks s p) AND PF_KTHREAD \<noteq> 0 then normalize_tasks B ps s
      else
        let s = upd_task p (\<lambda>v. v\<lparr>se := (se v)\<lparr>exec_start := 0\<rparr>\<rparr>) s;
            s = (if schedstat_enabled (hkern B) then upd_ext (clear_schedstats B p) s else s)
        in bindr
             (if \<not> rt_or_dl_prio (prio (tasks s p)) then
                if task_nice (tasks s p) < 0 then set_user_nice (hkern B) p 0 s else Inr s
              else bindr (sched_setscheduler_core (hsenv B) p attr_zero False False s) (\<lambda>(_, s). Inr s))
             (\<lambda>s. normalize_tasks B ps s))"

definition normalize_rt_tasks :: "'x henv \<Rightarrow> 'x kstate \<Rightarrow> 'x kstate res" where
  "normalize_rt_tasks B s = normalize_tasks B (all_threads B (ext s)) s"

section \<open>Cpus that come and go\<close>

definition sched_force_init_mm :: "'x henv \<Rightarrow> 'x kstate \<Rightarrow> 'x kstate res" where
  "sched_force_init_mm B s =
     (let p = current s; E = hkern B; m = active_mm (tasks s p)
      in if m = Some (init_mm B) then Inr s
         else
           let s = upd_ext (mmgrab_lazy_tlb E (Some (init_mm B))) s;
               s = upd_task p (\<lambda>v. v\<lparr>active_mm := Some (init_mm B)\<rparr>) s;
               s = upd_ext (switch_mm_irqs_off E m (init_mm B) p) s
           in case m of None \<Rightarrow> Inl Bad_pointer | Some o' \<Rightarrow> Inr (upd_ext (mmdrop_lazy_tlb E o') s))"

definition balance_push_set :: "cpu \<Rightarrow> bool \<Rightarrow> 'x kstate \<Rightarrow> 'x kstate" where
  "balance_push_set c on s =
     (if on then upd_rq c (\<lambda>r. r\<lparr>balance_callback := [Cb_push]\<rparr>) s
      else case balance_callback (rqs s c) of
             Cb_push # _ \<Rightarrow> upd_rq c (\<lambda>r. r\<lparr>balance_callback := []\<rparr>) s
           | _ \<Rightarrow> s)"

definition balance_hotplug_wait :: "'x henv \<Rightarrow> 'x kstate \<Rightarrow> 'x kstate res" where
  "balance_hotplug_wait B s =
     (let c = this_cpu s
      in if nr_running (rqs s c) = 1 \<and> \<not> rq_has_pinned_tasks c s then Inr s else hotplug_wait_event B c s)"

fun rq_online_classes :: "'x kenv \<Rightarrow> cpu \<Rightarrow> sclass list \<Rightarrow> 'x kstate \<Rightarrow> 'x kstate res" where
  "rq_online_classes E c [] s = Inr s"
| "rq_online_classes E c (k # ks) s =
     bindr (case op_rq_online (class_ops E k) of None \<Rightarrow> Inr s | Some f \<Rightarrow> f c s) (\<lambda>s. rq_online_classes E c ks s)"

fun rq_offline_classes :: "'x kenv \<Rightarrow> cpu \<Rightarrow> sclass list \<Rightarrow> 'x kstate \<Rightarrow> 'x kstate res" where
  "rq_offline_classes E c [] s = Inr s"
| "rq_offline_classes E c (k # ks) s =
     bindr (case op_rq_offline (class_ops E k) of None \<Rightarrow> Inr s | Some f \<Rightarrow> f c s) (\<lambda>s. rq_offline_classes E c ks s)"

definition set_rq_online :: "'x henv \<Rightarrow> cpu \<Rightarrow> 'x kstate \<Rightarrow> 'x kstate res" where
  "set_rq_online B c s =
     (if rq_online (rqs s c) then Inr s
      else rq_online_classes (hkern B) c sched_classes
             (upd_rq c (\<lambda>r. r\<lparr>rq_online := True\<rparr>) (upd_ext (rd_online B c True) s)))"

definition set_rq_offline :: "'x henv \<Rightarrow> cpu \<Rightarrow> 'x kstate \<Rightarrow> 'x kstate res" where
  "set_rq_offline B c s =
     (if \<not> rq_online (rqs s c) then Inr s
      else bindr (rq_offline_classes (hkern B) c sched_classes (update_rq_clock (hkern B) c s))
             (\<lambda>s. Inr (upd_rq c (\<lambda>r. r\<lparr>rq_online := False\<rparr>) (upd_ext (rd_online B c False) s))))"

definition sched_set_rq_online :: "'x henv \<Rightarrow> cpu \<Rightarrow> 'x kstate \<Rightarrow> 'x kstate res" where
  "sched_set_rq_online B c s =
     (if \<not> has_rd B c (ext s) then Inr s
      else if c \<notin> rd_span (hsenv B) c (ext s) then Inl Bug
      else set_rq_online B c s)"

definition sched_set_rq_offline :: "'x henv \<Rightarrow> cpu \<Rightarrow> 'x kstate \<Rightarrow> 'x kstate res" where
  "sched_set_rq_offline B c s =
     (if \<not> has_rd B c (ext s) then Inr s
      else if c \<notin> rd_span (hsenv B) c (ext s) then Inl Bug
      else set_rq_offline B c s)"

definition cpuset_cpu_active :: "'x henv \<Rightarrow> 'x kstate \<Rightarrow> 'x kstate" where
  "cpuset_cpu_active B s =
     (if cpuhp_tasks_frozen B (ext s) then
        let s = cpuset_reset_sched_domains B s;
            s = s\<lparr>num_cpus_frozen := s32 (num_cpus_frozen s - 1)\<rparr>
        in if num_cpus_frozen s \<noteq> 0 then s
           else cpuset_update_active_cpus B (upd_ext (cpuset_force_rebuild B) s)
      else cpuset_update_active_cpus B s)"

definition cpuset_cpu_inactive :: "'x henv \<Rightarrow> cpu \<Rightarrow> 'x kstate \<Rightarrow> 'x kstate" where
  "cpuset_cpu_inactive B c s =
     (if \<not> cpuhp_tasks_frozen B (ext s) then cpuset_update_active_cpus B s
      else cpuset_reset_sched_domains B (s\<lparr>num_cpus_frozen := s32 (num_cpus_frozen s + 1)\<rparr>))"

definition sched_smt_present_inc :: "'x kenv \<Rightarrow> cpu \<Rightarrow> 'x kstate \<Rightarrow> 'x kstate" where
  "sched_smt_present_inc E c s =
     (if card (cpu_smt_mask E c) = 2 then s\<lparr>sched_smt_present := s32 (sched_smt_present s + 1)\<rparr> else s)"

definition sched_smt_present_dec :: "'x kenv \<Rightarrow> cpu \<Rightarrow> 'x kstate \<Rightarrow> 'x kstate" where
  "sched_smt_present_dec E c s =
     (if card (cpu_smt_mask E c) = 2 then s\<lparr>sched_smt_present := s32 (sched_smt_present s - 1)\<rparr> else s)"

definition sched_cpu_activate :: "'x henv \<Rightarrow> cpu \<Rightarrow> 'x kstate \<Rightarrow> (int \<times> 'x kstate) res" where
  "sched_cpu_activate B c s =
     (let s = balance_push_set c False s;
          s = sched_smt_present_inc (hkern B) c s;
          s = s\<lparr>cpu_active_mask := insert c (cpu_active_mask s)\<rparr>;
          s = (if sched_smp_initialized s
               then cpuset_cpu_active B (upd_ext (cpu_call B Numa_masks_set c) (upd_ext (cpu_call B (Update_numa True) c) s))
               else s)
      in bindr (sched_set_rq_online B c s) (\<lambda>s. Inr (0, s)))"

definition sched_cpu_deactivate :: "'x henv \<Rightarrow> cpu \<Rightarrow> 'x kstate \<Rightarrow> (int \<times> 'x kstate) res" where
  "sched_cpu_deactivate B c s =
     (let ret = dl_bw_deactivate B c (ext s)
      in if ret \<noteq> 0 then Inr (ret, s)
         else
           let s = upd_ext (cpu_call B Nohz_exit_idle c) s;
               s = s\<lparr>cpu_active_mask := cpu_active_mask s - {c}\<rparr>;
               s = balance_push_set c True s
           in bindr (sched_set_rq_offline B c s) (\<lambda>s.
                let s = sched_smt_present_dec (hkern B) c s;
                    s = sched_core_cpu_deactivate (hkern B) c s
                in Inr (0,
                     if \<not> sched_smp_initialized s then s
                     else upd_ext (cpu_call B Numa_masks_clear c)
                            (cpuset_cpu_inactive B c (upd_ext (cpu_call B (Update_numa False) c) s)))))"

definition sched_rq_cpu_starting :: "'x henv \<Rightarrow> cpu \<Rightarrow> 'x kstate \<Rightarrow> 'x kstate" where
  "sched_rq_cpu_starting B c s = upd_ext (cpu_call B Max_interval c) (upd_ext (cpu_call B Rq_load_update c) s)"

definition sched_cpu_starting :: "'x henv \<Rightarrow> cpu \<Rightarrow> 'x kstate \<Rightarrow> int \<times> 'x kstate" where
  "sched_cpu_starting B c s = (0, sched_rq_cpu_starting B c (sched_core_cpu_starting (hkern B) c s))"

definition sched_cpu_wait_empty :: "'x henv \<Rightarrow> cpu \<Rightarrow> 'x kstate \<Rightarrow> (int \<times> 'x kstate) res" where
  "sched_cpu_wait_empty B c s =
     bindr (balance_hotplug_wait B s) (\<lambda>s. bindr (sched_force_init_mm B s) (\<lambda>s. Inr (0, s)))"

definition calc_load_migrate :: "'x henv \<Rightarrow> cpu \<Rightarrow> 'x kstate \<Rightarrow> 'x kstate" where
  "calc_load_migrate B c s = upd_ext (cpu_call B Load_migrate c) s"

definition sched_cpu_dying :: "'x henv \<Rightarrow> cpu \<Rightarrow> 'x kstate \<Rightarrow> int \<times> 'x kstate" where
  "sched_cpu_dying B c s =
     (let s = calc_load_migrate B c s;
          s = upd_ext (cpu_call B Max_interval c) s;
          s = upd_ext (cpu_call B Hrtick_clear c) s
      in (0, sched_core_cpu_dying c s))"

definition migration_init :: "'x henv \<Rightarrow> 'x kstate \<Rightarrow> int \<times> 'x kstate" where
  "migration_init B s = (0, snd (sched_cpu_starting B (this_cpu s) s))"

section \<open>Boot\<close>

abbreviation (input) NICE_0_LOAD :: int where "NICE_0_LOAD \<equiv> 2 ^ 20"

definition sched_init_rq :: "'x henv \<Rightarrow> cpu \<Rightarrow> 'x kstate \<Rightarrow> 'x kstate" where
  "sched_init_rq B c s =
     (let s = upd_rq c (\<lambda>r. r\<lparr>nr_running := 0\<rparr>) s;
          s = upd_ext (rq_call B Init_load c) s;
          s = upd_ext (rq_call B Init_cfs_rq c) s;
          s = upd_ext (rq_call B Init_rt_rq c) s;
          s = upd_ext (rq_call B Init_dl_rq c) s;
          s = upd_rq c (\<lambda>r. r\<lparr>rq_hvf := init_hvf_rq (rq_hvf r)\<rparr>) s;
          s = upd_ext (rq_call B Init_tg_cfs_entry c) s;
          s = upd_rq c (\<lambda>r. r\<lparr>balance_callback := [Cb_push], rq_online := False\<rparr>) s;
          s = upd_ext (rq_call B Init_balance_fields c) s;
          s = rq_attach_root B c s;
          s = upd_ext (rq_call B Init_nohz c) s;
          s = upd_ext (rq_call B Init_hotplug_wait c) s;
          s = upd_ext (rq_call B Hrtick_rq_init c) s;
          s = upd_rq c (\<lambda>r. r\<lparr>nr_iowait := 0\<rparr>) s;
          s = fair_server_init B c s;
          s = upd_rq c (\<lambda>r. r\<lparr>rq_core := c, core_pick := None, core_dl_server := None, core_enabled := False,
                core_tree := Leaf, core_forceidle_count := 0, core_forceidle_occupation := 0,
                core_forceidle_start := 0, rq_core_cookie := 0\<rparr>) s
      in upd_ext (rq_call B Alloc_scratch_mask c) s)"

definition sched_init_root_group :: "'x henv \<Rightarrow> 'x kstate \<Rightarrow> 'x kstate" where
  "sched_init_root_group B s =
     (let s = upd_tg root_task_group (\<lambda>g. g\<lparr>tg_shares := NICE_0_LOAD,
                tg_bandwidth := init_cfs_bandwidth B (tg_bandwidth g)\<rparr>) s;
          s = upd_ext (boot_call B Init_defrootdomain) s;
          s = s\<lparr>tg_list := root_task_group # tg_list s\<rparr>;
          s = upd_tg root_task_group (\<lambda>g. g\<lparr>tg_children := []\<rparr>) s
      in upd_ext (boot_call B Autogroup_init) s)"

definition sched_init_idle :: "'x henv \<Rightarrow> 'x kstate \<Rightarrow> 'x kstate" where
  "sched_init_idle B s =
     (let s = upd_ext (mmgrab_lazy_tlb (hkern B) (Some (init_mm B))) s;
          s = upd_ext (enter_lazy_tlb (hkern B) (Some (init_mm B)) (current s)) s;
          s = upd_ext (boot_call B Set_kthread_struct) s;
          s = sched_fork_init (hkern B) (current s) s;
          s = init_idle B (current s) (this_cpu s) s;
          s = upd_ext (boot_call B Calc_load_update) s;
          s = upd_ext (boot_call B Idle_thread_set_boot_cpu) s
      in balance_push_set (this_cpu s) False s)"

definition sched_init :: "'x henv \<Rightarrow> 'x kstate \<Rightarrow> 'x kstate res" where
  "sched_init B s =
     (if \<not> (sched_class_above Stop Dl \<and> sched_class_above Dl Rt \<and> sched_class_above Rt Fair \<and>
            sched_class_above Fair Hvf \<and> sched_class_above Hvf Idle) then Inl Bug
      else
        let s = upd_ext (boot_call B Wait_bit_init) s;
            s = sched_init_root_group B s;
            s = fold (sched_init_rq B) (for_each_cpu (cpu_possible_mask (hgenv B)) s) s
        in bindr (set_load_weight (hkern B) (init_task B) False s) (\<lambda>s.
             let s = upd_task (init_task B) (\<lambda>v. v\<lparr>se := (se v)\<lparr>slice := sched_base_slice (hkern B)\<rparr>\<rparr>) s;
                 s = sched_init_idle B s;
                 s = upd_ext (boot_call B Init_sched_fair_class) s;
                 s = upd_ext (boot_call B Psi_init) s;
                 s = init_uclamp (init_task B) s;
                 s = upd_ext (boot_call B Preempt_dynamic_init) s
             in Inr (s\<lparr>scheduler_running := True\<rparr>)))"

definition sched_init_smp :: "'x henv \<Rightarrow> 'x kstate \<Rightarrow> 'x kstate res" where
  "sched_init_smp B s =
     (let s = upd_ext (boot_call B Sched_init_numa) s;
          s = upd_ext (boot_call B Sched_init_domains) s
      in bindr (set_cpus_allowed_ptr (hkern B) (current s) (housekeeping_domain B) s) (\<lambda>(ret, s).
           if ret < 0 then Inl Bug
           else
             let s = upd_task (current s) (\<lambda>v. v\<lparr>pflags := pflags v AND NOT PF_NO_SETAFFINITY\<rparr>) s;
                 s = upd_ext (boot_call B Sched_init_granularity) s;
                 s = upd_ext (boot_call B Init_sched_rt_class) s;
                 s = upd_ext (boot_call B Init_sched_dl_class) s
             in Inr (s\<lparr>sched_smp_initialized := True\<rparr>)))"

end
