(* ===== verification/Core_Bandwidth.thy ===== *)
theory Core_Bandwidth
  imports Core_Group
begin

text \<open>
  The files of the cpu controller (\<^verbatim>\<open>kernel/sched/core.c\<close>): the weight of a group as shares, as a weight from 1 to
  10000 and as a nice value; its bandwidth as quota, period and burst, as the line of \<open>cpu.max\<close>, and the
  check of a new bandwidth against the tree; the statistics. A \<open>u64\<close> is an \<^typ>\<open>int\<close> from 0 to
  \<open>2\<^sup>6\<^sup>4 - 1\<close>, so \<open>RUNTIME_INF\<close> is \<open>-1\<close> once it is stored in an \<open>s64\<close>.
\<close>

abbreviation (input) MAX_SHARES :: int where "MAX_SHARES \<equiv> 2 ^ 18"
abbreviation (input) MAX_BW :: int where "MAX_BW \<equiv> 2 ^ 44 - 1"

section \<open>Weights\<close>

definition tg_weight :: "nat \<Rightarrow> 'x kstate \<Rightarrow> int" where
  "tg_weight g s = scale_load_down (tg_shares (tgs s g))"

definition cpu_shares_write_u64 :: "'x genv \<Rightarrow> nat \<Rightarrow> int \<Rightarrow> 'x kstate \<Rightarrow> int \<times> 'x kstate" where
  "cpu_shares_write_u64 G g shareval s =
     (let shareval = (if shareval > scale_load_down U64_MAX then MAX_SHARES else shareval)
      in sched_group_set_shares G g (scale_load shareval) s)"

definition cpu_shares_read_u64 :: "nat \<Rightarrow> 'x kstate \<Rightarrow> int" where
  "cpu_shares_read_u64 g s = tg_weight g s"

definition cpu_idle_read_s64 :: "nat \<Rightarrow> 'x kstate \<Rightarrow> int" where
  "cpu_idle_read_s64 g s = tg_idle (tgs s g)"

definition cpu_idle_write_s64 :: "'x genv \<Rightarrow> nat \<Rightarrow> int \<Rightarrow> 'x kstate \<Rightarrow> int \<times> 'x kstate" where
  "cpu_idle_write_s64 G g idl s = sched_group_set_idle G g idl s"

definition cpu_weight_read_u64 :: "nat \<Rightarrow> 'x kstate \<Rightarrow> int" where
  "cpu_weight_read_u64 g s = sched_weight_to_cgroup (tg_weight g s)"

definition cpu_weight_write_u64 :: "'x genv \<Rightarrow> nat \<Rightarrow> int \<Rightarrow> 'x kstate \<Rightarrow> int \<times> 'x kstate" where
  "cpu_weight_write_u64 G g cgrp_weight s =
     (if cgrp_weight < CGROUP_WEIGHT_MIN \<or> cgrp_weight > CGROUP_WEIGHT_MAX then (- ERANGE, s)
      else sched_group_set_shares G g (scale_load (sched_weight_from_cgroup cgrp_weight)) s)"

text \<open>The loop of the reader: the index where the distance stops falling, or the end of the table.\<close>

fun closest_prio :: "int \<Rightarrow> int list \<Rightarrow> int \<Rightarrow> int \<Rightarrow> int" where
  "closest_prio w [] pr last_delta = pr"
| "closest_prio w (v # vs) pr last_delta =
     (let delta = s32 \<bar>s64 (v - w)\<bar>
      in if delta \<ge> last_delta then pr else closest_prio w vs (pr + 1) delta)"

definition cpu_weight_nice_read_s64 :: "nat \<Rightarrow> 'x kstate \<Rightarrow> int" where
  "cpu_weight_nice_read_s64 g s =
     PRIO_TO_NICE (closest_prio (tg_weight g s) sched_prio_to_weight 0 (2 ^ 31 - 1) - 1 + MAX_RT_PRIO)"

definition cpu_weight_nice_write_s64 :: "'x genv \<Rightarrow> nat \<Rightarrow> int \<Rightarrow> 'x kstate \<Rightarrow> int \<times> 'x kstate" where
  "cpu_weight_nice_write_s64 G g nice s =
     (if nice < MIN_NICE \<or> nice > MAX_NICE then (- ERANGE, s)
      else sched_group_set_shares G g
             (scale_load (sched_prio_to_weight ! nat (NICE_TO_PRIO nice - MAX_RT_PRIO))) s)"

section \<open>The check of a bandwidth\<close>

abbreviation (input) max_cfs_quota_period :: int where "max_cfs_quota_period \<equiv> 1 * NSEC_PER_SEC"
abbreviation (input) min_cfs_quota_period :: int where "min_cfs_quota_period \<equiv> 1 * NSEC_PER_MSEC"
abbreviation (input) max_cfs_runtime :: int where "max_cfs_runtime \<equiv> MAX_BW * NSEC_PER_USEC"

abbreviation (input) bw_of :: "nat \<Rightarrow> 'x kstate \<Rightarrow> cfs_bandwidth" where
  "bw_of g s \<equiv> tg_bandwidth (tgs s g)"

definition upd_bw :: "nat \<Rightarrow> (cfs_bandwidth \<Rightarrow> cfs_bandwidth) \<Rightarrow> 'x kstate \<Rightarrow> 'x kstate" where
  "upd_bw g f s = upd_tg g (\<lambda>v. v\<lparr>tg_bandwidth := f (tg_bandwidth v)\<rparr>) s"

definition tg_get_cfs_quota :: "nat \<Rightarrow> 'x kstate \<Rightarrow> int" where
  "tg_get_cfs_quota g s =
     (if bw_quota (bw_of g s) = RUNTIME_INF then - 1 else s64 (bw_quota (bw_of g s) div NSEC_PER_USEC))"

definition tg_get_cfs_period :: "nat \<Rightarrow> 'x kstate \<Rightarrow> int" where
  "tg_get_cfs_period g s = s64 (u64 (bw_period (bw_of g s)) div NSEC_PER_USEC)"

definition tg_get_cfs_burst :: "nat \<Rightarrow> 'x kstate \<Rightarrow> int" where
  "tg_get_cfs_burst g s = s64 (bw_burst (bw_of g s) div NSEC_PER_USEC)"

record cfs_schedulable_data =
  sd_tg :: nat
  sd_period :: int
  sd_quota :: int

definition normalize_cfs_quota :: "nat \<Rightarrow> cfs_schedulable_data \<Rightarrow> 'x kstate \<Rightarrow> int" where
  "normalize_cfs_quota g d s =
     (let period = (if g = sd_tg d then sd_period d else u64 (tg_get_cfs_period g s));
          quota = (if g = sd_tg d then sd_quota d else u64 (tg_get_cfs_quota g s))
      in if quota = RUNTIME_INF then RUNTIME_INF else to_ratio period quota)"

definition tg_cfs_schedulable_down :: "'x genv \<Rightarrow> cfs_schedulable_data \<Rightarrow> 'x tg_visitor" where
  "tg_cfs_schedulable_down G d g s =
     (let set_hq = (\<lambda>q. (0, upd_bw g (\<lambda>b. b\<lparr>hierarchical_quota := q\<rparr>) s))
      in case tg_parent (tgs s g) of
           None \<Rightarrow> set_hq (s64 RUNTIME_INF)
         | Some p \<Rightarrow>
             let quota = s64 (normalize_cfs_quota g d s);
                 parent_quota = hierarchical_quota (bw_of p s)
             in if quota = - 1 then set_hq parent_quota
                else if cgroup_on_dfl G
                then set_hq (if parent_quota \<noteq> - 1 then min quota parent_quota else quota)
                else if parent_quota \<noteq> - 1 \<and> quota > parent_quota then (- EINVAL, s)
                else set_hq quota)"

definition cfs_schedulable :: "'x genv \<Rightarrow> nat \<Rightarrow> int \<Rightarrow> int \<Rightarrow> 'x kstate \<Rightarrow> (int \<times> 'x kstate) res" where
  "cfs_schedulable G g period quota s =
     (let d = (if quota \<noteq> RUNTIME_INF
               then \<lparr>sd_tg = g, sd_period = period div NSEC_PER_USEC, sd_quota = quota div NSEC_PER_USEC\<rparr>
               else \<lparr>sd_tg = g, sd_period = period, sd_quota = quota\<rparr>)
      in walk_tg_tree (tg_cfs_schedulable_down G d) tg_nop s)"

section \<open>Setting a bandwidth\<close>

definition reset_cfs_rq :: "'x genv \<Rightarrow> nat \<Rightarrow> bool \<Rightarrow> cpu \<Rightarrow> 'x kstate \<Rightarrow> 'x kstate" where
  "reset_cfs_rq G g enabled c s =
     (let s = upd_tg g (\<lambda>v. v\<lparr>tg_rq := (tg_rq v)(c := (tg_rq v c)\<lparr>runtime_enabled := enabled, runtime_remaining := 0\<rparr>)\<rparr>) s
      in if throttled (tg_rq (tgs s g) c) then unthrottle_cfs_rq G g c s else s)"

definition apply_cfs_bandwidth :: "'x genv \<Rightarrow> nat \<Rightarrow> int \<Rightarrow> int \<Rightarrow> int \<Rightarrow> 'x kstate \<Rightarrow> 'x kstate" where
  "apply_cfs_bandwidth G g period quota burst s =
     (let enabled = (quota \<noteq> RUNTIME_INF);
          was_enabled = (bw_quota (bw_of g s) \<noteq> RUNTIME_INF);
          s = (if enabled \<and> \<not> was_enabled then upd_ext (cfs_bandwidth_usage_inc G) s else s);
          s = upd_bw g (\<lambda>b. refill_cfs_bandwidth_runtime G
                (b\<lparr>bw_period := s64 period, bw_quota := quota, bw_burst := burst\<rparr>)) s;
          s = (if enabled then upd_ext (start_cfs_bandwidth G g) s else s);
          s = fold (reset_cfs_rq G g enabled) (for_each_cpu (cpu_online_mask s) s) s
      in if was_enabled \<and> \<not> enabled then upd_ext (cfs_bandwidth_usage_dec G) s else s)"

definition cfs_bandwidth_valid :: "nat \<Rightarrow> int \<Rightarrow> int \<Rightarrow> int \<Rightarrow> bool" where
  "cfs_bandwidth_valid g period quota burst \<longleftrightarrow>
     \<not> (g = root_task_group \<or>
        quota < min_cfs_quota_period \<or> period < min_cfs_quota_period \<or>
        period > max_cfs_quota_period \<or>
        (quota \<noteq> RUNTIME_INF \<and> quota > max_cfs_runtime) \<or>
        (quota \<noteq> RUNTIME_INF \<and> (burst > quota \<or> u64 (burst + quota) > max_cfs_runtime)))"

definition tg_set_cfs_bandwidth ::
    "'x genv \<Rightarrow> nat \<Rightarrow> int \<Rightarrow> int \<Rightarrow> int \<Rightarrow> 'x kstate \<Rightarrow> (int \<times> 'x kstate) res" where
  "tg_set_cfs_bandwidth G g period quota burst s =
     (if \<not> cfs_bandwidth_valid g period quota burst then Inr (- EINVAL, s)
      else bindr (cfs_schedulable G g period quota s) (\<lambda>(ret, s).
             Inr (if ret \<noteq> 0 then (ret, s) else (0, apply_cfs_bandwidth G g period quota burst s))))"

definition tg_set_cfs_quota :: "'x genv \<Rightarrow> nat \<Rightarrow> int \<Rightarrow> 'x kstate \<Rightarrow> (int \<times> 'x kstate) res" where
  "tg_set_cfs_quota G g cfs_quota_us s =
     (let period = u64 (bw_period (bw_of g s)); burst = bw_burst (bw_of g s)
      in if cfs_quota_us < 0 then tg_set_cfs_bandwidth G g period RUNTIME_INF burst s
         else if cfs_quota_us \<le> U64_MAX div NSEC_PER_USEC
         then tg_set_cfs_bandwidth G g period (u64 (cfs_quota_us * NSEC_PER_USEC)) burst s
         else Inr (- EINVAL, s))"

definition tg_set_cfs_period :: "'x genv \<Rightarrow> nat \<Rightarrow> int \<Rightarrow> 'x kstate \<Rightarrow> (int \<times> 'x kstate) res" where
  "tg_set_cfs_period G g cfs_period_us s =
     (if u64 cfs_period_us > U64_MAX div NSEC_PER_USEC then Inr (- EINVAL, s)
      else tg_set_cfs_bandwidth G g (u64 (u64 cfs_period_us * NSEC_PER_USEC))
             (bw_quota (bw_of g s)) (bw_burst (bw_of g s)) s)"

definition tg_set_cfs_burst :: "'x genv \<Rightarrow> nat \<Rightarrow> int \<Rightarrow> 'x kstate \<Rightarrow> (int \<times> 'x kstate) res" where
  "tg_set_cfs_burst G g cfs_burst_us s =
     (if u64 cfs_burst_us > U64_MAX div NSEC_PER_USEC then Inr (- EINVAL, s)
      else tg_set_cfs_bandwidth G g (u64 (bw_period (bw_of g s)))
             (bw_quota (bw_of g s)) (u64 (u64 cfs_burst_us * NSEC_PER_USEC)) s)"

definition cpu_cfs_quota_read_s64 :: "nat \<Rightarrow> 'x kstate \<Rightarrow> int" where
  "cpu_cfs_quota_read_s64 g s = tg_get_cfs_quota g s"

definition cpu_cfs_quota_write_s64 :: "'x genv \<Rightarrow> nat \<Rightarrow> int \<Rightarrow> 'x kstate \<Rightarrow> (int \<times> 'x kstate) res" where
  "cpu_cfs_quota_write_s64 G g cfs_quota_us s = tg_set_cfs_quota G g cfs_quota_us s"

definition cpu_cfs_period_read_u64 :: "nat \<Rightarrow> 'x kstate \<Rightarrow> int" where
  "cpu_cfs_period_read_u64 g s = u64 (tg_get_cfs_period g s)"

definition cpu_cfs_period_write_u64 :: "'x genv \<Rightarrow> nat \<Rightarrow> int \<Rightarrow> 'x kstate \<Rightarrow> (int \<times> 'x kstate) res" where
  "cpu_cfs_period_write_u64 G g cfs_period_us s = tg_set_cfs_period G g (s64 cfs_period_us) s"

definition cpu_cfs_burst_read_u64 :: "nat \<Rightarrow> 'x kstate \<Rightarrow> int" where
  "cpu_cfs_burst_read_u64 g s = u64 (tg_get_cfs_burst g s)"

definition cpu_cfs_burst_write_u64 :: "'x genv \<Rightarrow> nat \<Rightarrow> int \<Rightarrow> 'x kstate \<Rightarrow> (int \<times> 'x kstate) res" where
  "cpu_cfs_burst_write_u64 G g cfs_burst_us s = tg_set_cfs_burst G g (s64 cfs_burst_us) s"

section \<open>The line of cpu.max\<close>

text \<open>
  The conversions of \<open>printf\<close> and \<open>sscanf\<close> that the files use. \<open>scan_word n\<close> is \<open>%ns\<close>: white space is
  skipped, then at most \<open>n\<close> characters up to the next white space are taken, at least one. \<open>scan_ull\<close> is \<open>%llu\<close>: white
  space is skipped, then the digits, at least one. Both return the rest of the input.
\<close>

definition digit_char :: "nat \<Rightarrow> char" where
  "digit_char d = char_of (48 + d)"

fun show_nat :: "nat \<Rightarrow> string" where
  "show_nat n = (if n < 10 then [digit_char n] else show_nat (n div 10) @ [digit_char (n mod 10)])"

declare show_nat.simps [simp del]

definition show_int :: "int \<Rightarrow> string" where
  "show_int i = (if i < 0 then CHR ''-'' # show_nat (nat (- i)) else show_nat (nat i))"

definition is_space :: "char \<Rightarrow> bool" where
  "is_space ch \<longleftrightarrow> of_char ch = (32 :: nat) \<or> (9 \<le> (of_char ch :: nat) \<and> (of_char ch :: nat) \<le> 13)"

definition is_digit :: "char \<Rightarrow> bool" where
  "is_digit ch \<longleftrightarrow> 48 \<le> (of_char ch :: nat) \<and> (of_char ch :: nat) \<le> 57"

definition digits_value :: "string \<Rightarrow> int" where
  "digits_value ds = foldl (\<lambda>v ch. v * 10 + (int (of_char ch) - 48)) 0 ds"

definition scan_word :: "nat \<Rightarrow> string \<Rightarrow> (string \<times> string) option" where
  "scan_word n buf =
     (let str = dropWhile is_space buf;
          tok = take n (takeWhile (\<lambda>ch. \<not> is_space ch) str)
      in if tok = [] then None else Some (tok, drop (length tok) str))"

definition scan_ull :: "string \<Rightarrow> (int \<times> string) option" where
  "scan_ull buf =
     (let str = dropWhile is_space buf;
          ds = takeWhile is_digit str
      in if ds = [] then None else Some (u64 (digits_value ds), drop (length ds) str))"

definition newline :: char where
  "newline = char_of (10 :: nat)"

definition cpu_period_quota_print :: "int \<Rightarrow> int \<Rightarrow> string" where
  "cpu_period_quota_print period quota =
     (if quota < 0 then ''max'' else show_int quota) @ '' '' @ show_int period @ [newline]"

definition cpu_period_quota_parse :: "string \<Rightarrow> int \<Rightarrow> int + int \<times> int" where
  "cpu_period_quota_parse buf period =
     (case scan_word 20 buf of
        None \<Rightarrow> Inl (- EINVAL)
      | Some (tok, rest) \<Rightarrow>
          let period = (case scan_ull rest of Some (v, _) \<Rightarrow> v | None \<Rightarrow> period);
              period = u64 (period * NSEC_PER_USEC)
          in case scan_ull tok of
               Some (v, _) \<Rightarrow> Inr (period, u64 (v * NSEC_PER_USEC))
             | None \<Rightarrow> if tok = ''max'' then Inr (period, RUNTIME_INF) else Inl (- EINVAL))"

definition cpu_max_show :: "nat \<Rightarrow> 'x kstate \<Rightarrow> string" where
  "cpu_max_show g s = cpu_period_quota_print (tg_get_cfs_period g s) (tg_get_cfs_quota g s)"

definition cpu_max_write :: "'x genv \<Rightarrow> nat \<Rightarrow> string \<Rightarrow> int \<Rightarrow> 'x kstate \<Rightarrow> (int \<times> 'x kstate) res" where
  "cpu_max_write G g buf nbytes s =
     (case cpu_period_quota_parse buf (u64 (tg_get_cfs_period g s)) of
        Inl e \<Rightarrow> Inr (e, s)
      | Inr (period, quota) \<Rightarrow>
          bindr (tg_set_cfs_bandwidth G g period quota (bw_burst (bw_of g s)) s) (\<lambda>(ret, s).
            Inr (if ret \<noteq> 0 then ret else nbytes, s)))"

section \<open>Statistics\<close>

definition stat_line :: "string \<Rightarrow> int \<Rightarrow> string" where
  "stat_line name v = name @ '' '' @ show_int v @ [newline]"

definition throttled_time_self :: "'x genv \<Rightarrow> nat \<Rightarrow> 'x kstate \<Rightarrow> int" where
  "throttled_time_self G g s =
     foldl (\<lambda>total c. u64 (total + throttled_clock_self_time (tg_rq (tgs s g) c))) 0
       (for_each_cpu (cpu_possible_mask G) s)"

definition cpu_cfs_stat_show :: "'x genv \<Rightarrow> nat \<Rightarrow> 'x kstate \<Rightarrow> string" where
  "cpu_cfs_stat_show G g s =
     stat_line ''nr_periods'' (bw_nr_periods (bw_of g s)) @
     stat_line ''nr_throttled'' (bw_nr_throttled (bw_of g s)) @
     stat_line ''throttled_time'' (bw_throttled_time (bw_of g s)) @
     (if schedstat_enabled (gkern G) \<and> g \<noteq> root_task_group
      then stat_line ''wait_sum''
             (foldl (\<lambda>ws c. u64 (ws + se_wait_sum G g c (ext s))) 0 (for_each_cpu (cpu_possible_mask G) s))
      else []) @
     stat_line ''nr_bursts'' (bw_nr_burst (bw_of g s)) @
     stat_line ''burst_time'' (bw_burst_time (bw_of g s))"

definition cpu_cfs_local_stat_show :: "'x genv \<Rightarrow> nat \<Rightarrow> 'x kstate \<Rightarrow> string" where
  "cpu_cfs_local_stat_show G g s = stat_line ''throttled_time'' (throttled_time_self G g s)"

definition cpu_extra_stat_show :: "nat \<Rightarrow> 'x kstate \<Rightarrow> string" where
  "cpu_extra_stat_show g s =
     stat_line ''nr_periods'' (bw_nr_periods (bw_of g s)) @
     stat_line ''nr_throttled'' (bw_nr_throttled (bw_of g s)) @
     stat_line ''throttled_usec'' (bw_throttled_time (bw_of g s) div NSEC_PER_USEC) @
     stat_line ''nr_bursts'' (bw_nr_burst (bw_of g s)) @
     stat_line ''burst_usec'' (bw_burst_time (bw_of g s) div NSEC_PER_USEC)"

definition cpu_local_stat_show :: "'x genv \<Rightarrow> nat \<Rightarrow> 'x kstate \<Rightarrow> string" where
  "cpu_local_stat_show G g s = stat_line ''throttled_usec'' (throttled_time_self G g s div NSEC_PER_USEC)"

end
