(* ===== verification/Group_Tree.thy ===== *)
theory Group_Tree
  imports Core_Group
begin

text \<open>
  The tree of groups as a tree: the walk of \<^verbatim>\<open>kernel/sched/core.c\<close> is a recursive visit of it, and bringing a
  group online or releasing it keeps the links of the groups a tree of exactly the listed groups.
\<close>

section \<open>The walk is a recursive visit\<close>

text \<open>
  The specification of the walk: the groups as a tree, and the visit that enters a group, visits its children in
  order and leaves it, and stops at the first visitor that fails.
\<close>

datatype gtree = Grp (groot: nat) "gtree list"

fun gnodes :: "gtree \<Rightarrow> nat list" where
  "gnodes (Grp g ts) = g # concat (map gnodes ts)"

type_synonym tg_shape = "nat \<Rightarrow> nat list \<times> nat option"

definition shape :: "'x kstate \<Rightarrow> tg_shape" where
  "shape s = (\<lambda>g. (tg_children (tgs s g), tg_parent (tgs s g)))"

fun tree_at :: "tg_shape \<Rightarrow> gtree \<Rightarrow> bool" where
  "tree_at sh (Grp g ts) \<longleftrightarrow>
     fst (sh g) = map groot ts \<and> (\<forall>t \<in> set ts. snd (sh (groot t)) = Some g \<and> tree_at sh t)"

fun visit :: "'x tg_visitor \<Rightarrow> 'x tg_visitor \<Rightarrow> gtree \<Rightarrow> 'x kstate \<Rightarrow> int \<times> 'x kstate"
  and visits :: "'x tg_visitor \<Rightarrow> 'x tg_visitor \<Rightarrow> gtree list \<Rightarrow> 'x kstate \<Rightarrow> int \<times> 'x kstate" where
  "visit down up (Grp g ts) s =
     (case down g s of (r, s) \<Rightarrow> if r \<noteq> 0 then (r, s) else
        case visits down up ts s of (r, s) \<Rightarrow> if r \<noteq> 0 then (r, s) else up g s)"
| "visits down up [] s = (0, s)"
| "visits down up (t # ts) s =
     (case visit down up t s of (r, s) \<Rightarrow> if r \<noteq> 0 then (r, s) else visits down up ts s)"

definition keeps_shape :: "'x tg_visitor \<Rightarrow> bool" where
  "keeps_shape v \<longleftrightarrow> (\<forall>g s. shape (snd (v g s)) = shape s)"

lemma keeps_shapeD: "keeps_shape v \<Longrightarrow> v g s = (r, s') \<Longrightarrow> shape s' = shape s"
  by (metis keeps_shape_def snd_conv)

lemma shape_sel: "tg_children (tgs s g) = fst (shape s g)" "tg_parent (tgs s g) = snd (shape s g)"
  by (simp_all add: shape_def)

lemma visit_shape:
  "keeps_shape down \<Longrightarrow> keeps_shape up \<Longrightarrow> visit down up t s = (r, s') \<Longrightarrow> shape s' = shape s"
  "keeps_shape down \<Longrightarrow> keeps_shape up \<Longrightarrow> visits down up ts s = (r, s') \<Longrightarrow> shape s' = shape s"
proof (induction down up t s and down up ts s arbitrary: r s' and r s' rule: visit_visits.induct)
qed (auto split: prod.splits if_splits dest!: keeps_shapeD)

text \<open>What the loop does after it left a group that is not the first one.\<close>

definition walk_after ::
    "'x tg_visitor \<Rightarrow> 'x tg_visitor \<Rightarrow> nat \<Rightarrow> nat \<Rightarrow> nat \<Rightarrow> 'x kstate \<Rightarrow> (int \<times> 'x kstate) res" where
  "walk_after down up from n g s =
     (case tg_parent (tgs s g) of
        None \<Rightarrow> Inr (0, s)
      | Some p \<Rightarrow>
          (case next_in (tg_children (tgs s p)) g of
             Some h \<Rightarrow> walk_loop down up from n (Walk_down h) s
           | None \<Rightarrow> walk_loop down up from n (Walk_up p) s))"

lemma walk_visit:
  "keeps_shape down \<Longrightarrow> keeps_shape up \<Longrightarrow> tree_at (shape s) t \<Longrightarrow> distinct (gnodes t) \<Longrightarrow>
     from \<notin> set (tl (gnodes t)) \<Longrightarrow>
     walk_loop down up from (n + 2 * length (gnodes t)) (Walk_down (groot t)) s =
       (case visit down up t s of (r, s') \<Rightarrow>
          if r \<noteq> 0 \<or> groot t = from then Inr (r, s') else walk_after down up from n (groot t) s')"
  "keeps_shape down \<Longrightarrow> keeps_shape up \<Longrightarrow> ts \<noteq> [] \<Longrightarrow> fst (shape s p) = pre @ map groot ts \<Longrightarrow>
     \<forall>t \<in> set ts. snd (shape s (groot t)) = Some p \<and> tree_at (shape s) t \<Longrightarrow>
     distinct (pre @ concat (map gnodes ts)) \<Longrightarrow> from \<notin> set (concat (map gnodes ts)) \<Longrightarrow>
     walk_loop down up from (n + 2 * length (concat (map gnodes ts))) (Walk_down (groot (hd ts))) s =
       (case visits down up ts s of (r, s') \<Rightarrow>
          if r \<noteq> 0 then Inr (r, s') else walk_loop down up from n (Walk_up p) s')"
proof (induction down up t s and down up ts s arbitrary: n and n pre p rule: visit_visits.induct)
  case (1 down up g ts s)
  obtain r1 s1 where d: "down g s = (r1, s1)" by fastforce
  have sh: "shape s1 = shape s" using keeps_shapeD [OF 1(2) d] .
  have ch: "tg_children (tgs s1 g) = map groot ts" using 1(4) by (simp add: shape_sel sh)
  have up: "walk_loop down up from (Suc n) (Walk_up g) s' =
      (case up g s' of (r, s'') \<Rightarrow> if r \<noteq> 0 \<or> g = from then Inr (r, s'') else walk_after down up from n g s'')" for s'
    by (auto simp: walk_after_def split: prod.splits)
  show ?case
  proof (cases "r1 \<noteq> 0 \<or> ts = []")
    case True
    then show ?thesis using d ch up by (auto split: prod.splits)
  next
    case False
    then obtain t0 ts' where ts: "ts = t0 # ts'" by (cases ts) auto
    have "walk_loop down up from (Suc n + 2 * length (concat (map gnodes ts))) (Walk_down (groot (hd ts))) s1 =
        (case visits down up ts s1 of (r, s') \<Rightarrow>
          if r \<noteq> 0 then Inr (r, s') else walk_loop down up from (Suc n) (Walk_up g) s')"
      by (rule 1(1) [of r1 s1 g "[]"]) (use 1(2-6) d False in \<open>auto simp: sh\<close>)
    moreover have "walk_loop down up from (n + 2 * length (gnodes (Grp g ts))) (Walk_down g) s =
        walk_loop down up from (Suc n + 2 * length (concat (map gnodes ts))) (Walk_down (groot (hd ts))) s1"
      using d ch False by (simp add: ts)
    ultimately show ?thesis using d False up
      by (simp del: walk_loop.simps gnodes.simps split: prod.splits)
  qed
next
  case (2 down up s)
  then show ?case by simp
next
  case (3 down up t ts s)
  obtain r s1 where v: "visit down up t s = (r, s1)" by fastforce
  have sh: "shape s1 = shape s" using visit_shape(1) [OF 3(3,4) v] .
  have g: "groot t \<in> set (gnodes t)" "gnodes t = groot t # tl (gnodes t)" by (cases t; simp)+
  let ?n = "n + 2 * length (concat (map gnodes ts))"
  have "walk_loop down up from (?n + 2 * length (gnodes t)) (Walk_down (groot t)) s =
      (case visit down up t s of (r, s') \<Rightarrow>
         if r \<noteq> 0 \<or> groot t = from then Inr (r, s') else walk_after down up from ?n (groot t) s')"
    by (rule 3(1)) (use 3(3-9) g in \<open>auto dest: list.set_sel(2) [rotated]\<close>)
  then have W: "walk_loop down up from (n + 2 * length (concat (map gnodes (t # ts)))) (Walk_down (groot t)) s =
      (if r \<noteq> 0 then Inr (r, s1) else walk_after down up from ?n (groot t) s1)"
    using v 3(9) g(1) by (auto simp: algebra_simps)
  have A: "walk_after down up from ?n (groot t) s1 = (case ts of
      [] \<Rightarrow> walk_loop down up from ?n (Walk_up p) s1 | u # _ \<Rightarrow> walk_loop down up from ?n (Walk_down (groot u)) s1)"
  proof -
    have "groot t \<notin> set pre" using 3(8) g(1) by auto
    then show ?thesis
      using 3(6,7) by (auto simp: walk_after_def shape_sel sh next_in_mid split: list.splits)
  qed
  show ?case
  proof (cases "r = 0 \<and> ts \<noteq> []")
    case True
    have "walk_loop down up from ?n (Walk_down (groot (hd ts))) s1 =
        (case visits down up ts s1 of (r, s') \<Rightarrow>
          if r \<noteq> 0 then Inr (r, s') else walk_loop down up from n (Walk_up p) s')"
      by (rule 3(2) [of r s1 p "pre @ [groot t]"]) (use 3(3-9) v True g(1) in \<open>auto simp: sh\<close>)
    then show ?thesis using W A v True by (auto simp: neq_Nil_conv)
  qed (use W A v in auto)
qed

text \<open>The fuel of the walk: each group is entered once and left once.\<close>

lemma walk_tg_tree_from_visit:
  assumes "keeps_shape down" "keeps_shape up" "tree_at (shape s) t"
    and "distinct (gnodes t)" "set (gnodes t) \<subseteq> set (tg_list s)"
  shows "walk_tg_tree_from (groot t) down up s = Inr (visit down up t s)"
proof -
  have "length (gnodes t) \<le> length (tg_list s)"
    using assms(4,5) by (metis card_length card_mono distinct_card finite_set order_trans)
  then obtain k where k: "2 * length (tg_list s) = k + 2 * length (gnodes t)"
    using add.commute le_Suc_ex mult_le_mono2 by metis
  have "groot t \<notin> set (tl (gnodes t))" using assms(4) by (cases t) simp
  from walk_visit(1) [OF assms(1-4) this, of k]
  show ?thesis by (simp add: walk_tg_tree_from_def k split: prod.splits)
qed

section \<open>The links stay a tree\<close>

fun ginsert :: "nat \<Rightarrow> nat \<Rightarrow> gtree \<Rightarrow> gtree" where
  "ginsert p g (Grp h ts) = Grp h ((if h = p then [Grp g []] else []) @ map (ginsert p g) ts)"

fun gremove :: "nat \<Rightarrow> gtree \<Rightarrow> gtree" where
  "gremove g (Grp h ts) = Grp h (map (gremove g) (filter (\<lambda>t. groot t \<noteq> g) ts))"

definition online_shape :: "nat \<Rightarrow> nat \<Rightarrow> tg_shape \<Rightarrow> tg_shape" where
  "online_shape g p sh = sh(g := ([], Some p), p := (g # fst (sh p), snd (sh p)))"

definition release_shape :: "nat \<Rightarrow> nat \<Rightarrow> tg_shape \<Rightarrow> tg_shape" where
  "release_shape g p sh = sh(p := (remove1 g (fst (sh p)), snd (sh p)))"

lemma online_shape_sel:
  "fst (online_shape g p sh h) = (if h = p then g # fst (sh p) else if h = g then [] else fst (sh h))"
  "snd (online_shape g p sh h) = (if h = g \<and> g \<noteq> p then Some p else snd (sh h))"
  by (simp_all add: online_shape_def)

lemma release_shape_sel:
  "fst (release_shape g p sh h) = (if h = p then remove1 g (fst (sh p)) else fst (sh h))"
  "snd (release_shape g p sh h) = snd (sh h)"
  by (simp_all add: release_shape_def)

lemma groot_ginsert [simp]: "groot (ginsert p g t) = groot t"
  by (cases t) simp

lemma groot_gremove [simp]: "groot (gremove g t) = groot t"
  by (cases t) simp

lemma groot_in_gnodes [simp, intro]: "groot t \<in> set (gnodes t)"
  by (cases t) simp

lemma mset_ginsert:
  "mset (gnodes (ginsert p g t)) = mset (gnodes t) + replicate_mset (count (mset (gnodes t)) p) g"
proof (induction t)
  case (Grp h ts)
  have "mset (concat (map gnodes (map (ginsert p g) ts))) =
      mset (concat (map gnodes ts)) + replicate_mset (count (mset (concat (map gnodes ts))) p) g"
    using Grp by (induction ts) (auto simp: multiset_eq_iff)
  then show ?case by (auto simp: ac_simps)
qed

lemma tree_at_ginsert:
  assumes "tree_at sh t" "g \<notin> set (gnodes t)" "g \<noteq> p"
  shows "tree_at (online_shape g p sh) (ginsert p g t)"
  using assms
proof (induction t)
  case (Grp h ts)
  have "tree_at (online_shape g p sh) (ginsert p g t)" if "t \<in> set ts" for t
    using Grp that by auto
  moreover have "snd (online_shape g p sh (groot t)) = Some h" if "t \<in> set ts" for t
  proof -
    have "groot t \<noteq> g" using Grp.prems(2) that by auto
    then show ?thesis using Grp.prems(1) that by (simp add: online_shape_sel)
  qed
  moreover have "map groot (map (ginsert p g) ts) = map groot ts" by simp
  ultimately show ?case using Grp.prems by (auto simp: online_shape_sel comp_def)
qed

lemma gnodes_gremove:
  "tree_at sh t \<Longrightarrow> fst (sh g) = [] \<Longrightarrow> groot t \<noteq> g \<Longrightarrow> gnodes (gremove g t) = filter (\<lambda>h. h \<noteq> g) (gnodes t)"
proof (induction t)
  case (Grp h ts)
  have leaf: "gnodes t = [g]" if "t \<in> set ts" "groot t = g" for t
    using Grp.prems that by (cases t) auto
  have "concat (map gnodes (map (gremove g) (filter (\<lambda>t. groot t \<noteq> g) us))) =
      filter (\<lambda>h. h \<noteq> g) (concat (map gnodes us))" if "set us \<subseteq> set ts" for us
    using that by (induction us) (use Grp leaf in auto)
  then show ?case using Grp.prems by simp
qed

lemma tree_at_gremove:
  "tree_at sh t \<Longrightarrow> snd (sh g) = Some p \<Longrightarrow> distinct (gnodes t) \<Longrightarrow> tree_at (release_shape g p sh) (gremove g t)"
proof (induction t)
  case (Grp h ts)
  have d: "distinct (map groot us)" if "distinct (concat (map gnodes us))" for us
    using that by (induction us) (auto, metis IntI UN_I empty_iff groot_in_gnodes)
  have "distinct (map groot ts)" using Grp.prems(3) d by simp
  then have "remove1 g (map groot ts) = map groot (filter (\<lambda>t. groot t \<noteq> g) ts)"
    by (simp add: distinct_remove1_removeAll removeAll_filter_not_eq filter_map comp_def eq_commute)
  moreover have "filter (\<lambda>t. groot t \<noteq> g) ts = ts" if "h \<noteq> p"
    using Grp.prems that by (auto simp: filter_id_conv)
  ultimately have "fst (release_shape g p sh h) = map groot (filter (\<lambda>t. groot t \<noteq> g) ts)"
    using Grp.prems(1) by (auto simp: release_shape_sel)
  moreover have "tree_at (release_shape g p sh) (gremove g t)" if "t \<in> set ts" for t
    using Grp that by (auto simp: distinct_concat_iff)
  ultimately show ?case using Grp.prems(1) by (auto simp: release_shape_sel comp_def)
qed

definition groups_tree :: "'x kstate \<Rightarrow> gtree \<Rightarrow> bool" where
  "groups_tree s t \<longleftrightarrow>
     groot t = root_task_group \<and> tree_at (shape s) t \<and> tg_parent (tgs s root_task_group) = None \<and>
     distinct (gnodes t) \<and> distinct (tg_list s) \<and> set (tg_list s) = set (gnodes t)"

lemma shape_online:
  "g \<noteq> p \<Longrightarrow> shape (sched_online_group G g p s) = online_shape g p (shape s)"
  by (auto simp: sched_online_group_def shape_def online_shape_def Let_def)

lemma list_online: "tg_list (sched_online_group G g p s) = g # tg_list s"
  by (simp add: sched_online_group_def Let_def)

lemma groups_tree_online:
  assumes "groups_tree s t" "g \<notin> set (tg_list s)" "p \<in> set (tg_list s)"
  shows "groups_tree (sched_online_group G g p s) (ginsert p g t)"
proof -
  have "root_task_group \<in> set (gnodes t)"
    using assms(1) groot_in_gnodes [of t] by (simp add: groups_tree_def)
  then have g: "g \<noteq> p" "g \<notin> set (gnodes t)" "p \<in> set (gnodes t)" "g \<noteq> root_task_group"
    using assms unfolding groups_tree_def by metis+
  have "count (mset (gnodes t)) p = 1"
    using assms(1) g(3) by (simp add: groups_tree_def distinct_count_atmost_1)
  then have m: "mset (gnodes (ginsert p g t)) = mset (g # gnodes t)" by (simp add: mset_ginsert)
  have "distinct (gnodes (ginsert p g t))"
    using mset_eq_imp_distinct_iff [OF m] assms(1) g(2) by (simp add: groups_tree_def)
  moreover have "set (gnodes (ginsert p g t)) = insert g (set (gnodes t))"
    using mset_eq_setD [OF m] by simp
  moreover have "tg_parent (tgs (sched_online_group G g p s) root_task_group) = None"
    using assms(1) g(4) by (simp add: shape_sel(2) shape_online [OF g(1)] online_shape_sel groups_tree_def)
  ultimately show ?thesis
    using assms g tree_at_ginsert [OF _ g(2,1)]
    by (simp add: groups_tree_def shape_online list_online)
qed

lemma sched_release_shape:
  assumes "sched_release_group g s = Inr s'" "tg_parent (tgs s g) = Some p"
  shows "shape s' = release_shape g p (shape s)" "tg_list s' = remove1 g (tg_list s)"
  using assms by (auto simp: sched_release_group_def shape_def release_shape_def Let_def split: if_splits)

lemma tree_parent:
  "tree_at sh t \<Longrightarrow> g \<in> set (gnodes t) \<Longrightarrow> g \<noteq> groot t \<Longrightarrow> \<exists>p. snd (sh g) = Some p"
proof (induction t)
  case (Grp h ts)
  then obtain t where "t \<in> set ts" "g \<in> set (gnodes t)" by auto
  then show ?case using Grp by (cases "g = groot t") auto
qed

lemma groups_tree_release:
  assumes "groups_tree s t" "sched_release_group g s = Inr s'" "g \<noteq> root_task_group" "tg_children (tgs s g) = []"
  shows "groups_tree s' (gremove g t)"
proof -
  have "g \<in> set (tg_list s)" using assms(2) by (auto simp: sched_release_group_def split: if_splits)
  then obtain p where p: "snd (shape s g) = Some p"
    using tree_parent [of "shape s" t g] assms(1,3) by (auto simp: groups_tree_def)
  then have p': "tg_parent (tgs s g) = Some p" by (simp add: shape_sel)
  note sh = sched_release_shape [OF assms(2) p']
  have n: "gnodes (gremove g t) = filter (\<lambda>h. h \<noteq> g) (gnodes t)"
    using gnodes_gremove [of "shape s" t g] assms by (auto simp: groups_tree_def shape_sel)
  have "tree_at (shape s') (gremove g t)"
    using tree_at_gremove [of "shape s" t g p] assms(1) p by (simp add: groups_tree_def sh)
  moreover have "tg_parent (tgs s' root_task_group) = None"
    using assms(1) by (simp add: shape_sel(2) sh release_shape_sel groups_tree_def)
  ultimately show ?thesis
    using assms(1) by (auto simp: groups_tree_def n sh)
qed

text \<open>
  The runs of the group operations. The cgroup core brings a new group online under a group that is online, and
  releases a group only when no child is left; every other operation leaves the links alone.
\<close>

inductive tg_reach :: "'x genv \<Rightarrow> 'x kstate \<Rightarrow> bool" for G where
  Boot: "tg_list s = [root_task_group] \<Longrightarrow> shape s root_task_group = ([], None) \<Longrightarrow> tg_reach G s"
| Online: "tg_reach G s \<Longrightarrow> g \<notin> set (tg_list s) \<Longrightarrow> p \<in> set (tg_list s) \<Longrightarrow>
    cpu_cgroup_css_online G g (Some p) s = (r, s') \<Longrightarrow> tg_reach G s'"
| Released: "tg_reach G s \<Longrightarrow> g \<noteq> root_task_group \<Longrightarrow> tg_children (tgs s g) = [] \<Longrightarrow>
    cpu_cgroup_css_released g s = Inr s' \<Longrightarrow> tg_reach G s'"
| Other: "tg_reach G s \<Longrightarrow> shape s' = shape s \<Longrightarrow> tg_list s' = tg_list s \<Longrightarrow> tg_reach G s'"

lemma tg_reach_tree: "tg_reach G s \<Longrightarrow> \<exists>t. groups_tree s t"
proof (induction rule: tg_reach.induct)
  case (Boot s)
  then have "groups_tree s (Grp root_task_group [])" by (simp add: groups_tree_def shape_sel)
  then show ?case ..
next
  case (Online s g p r s')
  then show ?case using groups_tree_online by (fastforce simp: cpu_cgroup_css_online_def)
next
  case (Released s g s')
  then show ?case using groups_tree_release by (fastforce simp: cpu_cgroup_css_released_def)
next
  case (Other s s')
  then show ?case by (auto simp: groups_tree_def shape_sel)
qed

lemma walk_tg_tree_visit:
  "groups_tree s t \<Longrightarrow> keeps_shape down \<Longrightarrow> keeps_shape up \<Longrightarrow> walk_tg_tree down up s = Inr (visit down up t s)"
  using walk_tg_tree_from_visit [of down up s t] by (simp add: walk_tg_tree_def groups_tree_def)

end
