(* ===== verification/Group_Quota.thy ===== *)
theory Group_Quota
  imports Core_Bandwidth Group_Tree
begin

text \<open>
  What the check of a bandwidth leaves in the tree: the quota of each group capped by the quota of its parent. Also
  the lemmas on decimal numbers for the line of \<open>cpu.max\<close>.
\<close>

section \<open>The hierarchical quotas\<close>

definition own_quota :: "cfs_schedulable_data \<Rightarrow> 'x kstate \<Rightarrow> nat \<Rightarrow> int" where
  "own_quota d s g = s64 (normalize_cfs_quota g d s)"

text \<open>The cap of a limit by the limit above it, where \<open>-1\<close> is no limit.\<close>

definition cap :: "int \<Rightarrow> int \<Rightarrow> int" where
  "cap q upper = (if q = - 1 then upper else if upper = - 1 then q else min q upper)"

definition capped :: "cfs_schedulable_data \<Rightarrow> 'x kstate \<Rightarrow> nat \<Rightarrow> bool" where
  "capped d s g \<longleftrightarrow>
     hierarchical_quota (bw_of g s) =
       (case tg_parent (tgs s g) of
          None \<Rightarrow> - 1
        | Some p \<Rightarrow> cap (own_quota d s g) (hierarchical_quota (bw_of p s)))"

definition no_hq :: "task_group \<Rightarrow> task_group" where
  "no_hq v = v\<lparr>tg_bandwidth := (tg_bandwidth v)\<lparr>hierarchical_quota := 0\<rparr>\<rparr>"

definition only_hq :: "nat set \<Rightarrow> 'x kstate \<Rightarrow> 'x kstate \<Rightarrow> bool" where
  "only_hq S s s' \<longleftrightarrow> (\<forall>h. no_hq (tgs s' h) = no_hq (tgs s h)) \<and> (\<forall>h. h \<notin> S \<longrightarrow> tgs s' h = tgs s h)"

lemma no_hq_fields:
  assumes "no_hq v = no_hq w"
  shows "tg_parent v = tg_parent w" "tg_children v = tg_children w"
    "bw_quota (tg_bandwidth v) = bw_quota (tg_bandwidth w)" "bw_period (tg_bandwidth v) = bw_period (tg_bandwidth w)"
  using arg_cong [OF assms, of tg_parent] arg_cong [OF assms, of tg_children]
    arg_cong [OF assms, of "\<lambda>v. bw_quota (tg_bandwidth v)"] arg_cong [OF assms, of "\<lambda>v. bw_period (tg_bandwidth v)"]
  by (simp_all add: no_hq_def)

lemma only_hqD:
  assumes "only_hq S s s'"
  shows "shape s' = shape s" "own_quota d s' h = own_quota d s h" "h \<notin> S \<Longrightarrow> tgs s' h = tgs s h"
proof -
  have n: "no_hq (tgs s' g) = no_hq (tgs s g)" for g using assms by (simp add: only_hq_def)
  show "shape s' = shape s" by (rule ext) (simp add: shape_def no_hq_fields [OF n])
  have "tg_get_cfs_period h s' = tg_get_cfs_period h s" "tg_get_cfs_quota h s' = tg_get_cfs_quota h s"
    by (simp_all add: tg_get_cfs_period_def tg_get_cfs_quota_def no_hq_fields [OF n])
  then show "own_quota d s' h = own_quota d s h" by (simp only: own_quota_def normalize_cfs_quota_def)
  show "h \<notin> S \<Longrightarrow> tgs s' h = tgs s h" using assms by (simp add: only_hq_def)
qed

lemma only_hq_refl [simp]: "only_hq S s s"
  by (simp add: only_hq_def)

lemma only_hq_trans: "only_hq S s s' \<Longrightarrow> only_hq T s' s'' \<Longrightarrow> only_hq (S \<union> T) s s''"
  by (simp add: only_hq_def)

lemma capped_keep:
  assumes "only_hq S s s'" "g \<notin> S" "\<And>p. tg_parent (tgs s g) = Some p \<Longrightarrow> p \<notin> S"
  shows "capped d s' g = capped d s g"
  using only_hqD(2) [OF assms(1)] only_hqD(3) [OF assms(1)] assms(2,3)
  by (auto simp: capped_def split: option.splits)

lemma schedulable_down_only: "only_hq {g} s (snd (tg_cfs_schedulable_down G d g s))"
  by (auto simp: tg_cfs_schedulable_down_def only_hq_def no_hq_def upd_bw_def Let_def split: option.splits)

lemma schedulable_down_keeps: "keeps_shape (tg_cfs_schedulable_down G d)"
  unfolding keeps_shape_def using only_hqD(1) [OF schedulable_down_only] by blast

lemma nop_keeps: "keeps_shape tg_nop"
  by (simp add: keeps_shape_def tg_nop_def)

lemma schedulable_down_capped:
  assumes "tg_cfs_schedulable_down G d g s = (0, s')" "tg_parent (tgs s g) \<noteq> Some g"
  shows "capped d s' g"
proof -
  have o: "only_hq {g} s s'" using schedulable_down_only [of g s G d] assms(1) by simp
  have "own_quota d s' g = own_quota d s g" by (rule only_hqD(2) [OF o])
  moreover have "tgs s' p = tgs s p" if "p \<noteq> g" for p using only_hqD(3) [OF o] that by simp
  moreover have "s64 RUNTIME_INF = - 1" by (simp add: s64_def)
  ultimately show ?thesis
    using assms
    by (auto simp: capped_def tg_cfs_schedulable_down_def own_quota_def [symmetric] cap_def upd_bw_def Let_def
        split: option.splits if_splits)
qed

text \<open>A visit of a tree by the check caps every group of the tree and touches no other.\<close>

lemma tree_parent_in:
  "tree_at sh t \<Longrightarrow> g \<in> set (gnodes t) \<Longrightarrow> g \<noteq> groot t \<Longrightarrow> \<exists>p \<in> set (gnodes t). snd (sh g) = Some p"
proof (induction t)
  case (Grp h ts)
  then obtain t where t: "t \<in> set ts" "g \<in> set (gnodes t)" by auto
  show ?case
  proof (cases "g = groot t")
    case True
    then show ?thesis using Grp.prems(1) t(1) by auto
  next
    case False
    then obtain p where "p \<in> set (gnodes t)" "snd (sh g) = Some p" using Grp t by auto
    then show ?thesis using t(1) by auto
  qed
qed

definition caps_tree :: "'x genv \<Rightarrow> cfs_schedulable_data \<Rightarrow> gtree \<Rightarrow> bool" where
  "caps_tree G d t \<longleftrightarrow>
     (\<forall>s s'. visit (tg_cfs_schedulable_down G d) tg_nop t s = (0, s') \<longrightarrow> tree_at (shape s) t \<longrightarrow> distinct (gnodes t) \<longrightarrow>
        (\<forall>p. snd (shape s (groot t)) = Some p \<longrightarrow> p \<notin> set (gnodes t)) \<longrightarrow>
        only_hq (set (gnodes t)) s s' \<and> (\<forall>h \<in> set (gnodes t). capped d s' h))"

lemma visits_capped:
  assumes "\<And>t. t \<in> set ts \<Longrightarrow> caps_tree G d t"
    and "visits (tg_cfs_schedulable_down G d) tg_nop ts s = (0, s')"
    and "\<And>t. t \<in> set ts \<Longrightarrow> tree_at (shape s) t \<and> snd (shape s (groot t)) = Some q"
    and "distinct (concat (map gnodes ts))" "q \<notin> set (concat (map gnodes ts))"
  shows "only_hq (set (concat (map gnodes ts))) s s' \<and> (\<forall>h \<in> set (concat (map gnodes ts)). capped d s' h)"
  using assms
proof (induction ts arbitrary: s)
  case Nil
  then show ?case by simp
next
  case (Cons t ts)
  obtain s1 where v: "visit (tg_cfs_schedulable_down G d) tg_nop t s = (0, s1)"
    and vs: "visits (tg_cfs_schedulable_down G d) tg_nop ts s1 = (0, s')"
    using Cons.prems(2) by (auto split: prod.splits if_splits)
  have t: "tree_at (shape s) t" "snd (shape s (groot t)) = Some q" using Cons.prems(3) by auto
  have 1: "only_hq (set (gnodes t)) s s1" "\<forall>h \<in> set (gnodes t). capped d s1 h"
    using Cons.prems(1) [of t] Cons.prems(4,5) v t by (auto simp: caps_tree_def)
  have sh: "shape s1 = shape s" by (rule only_hqD(1) [OF 1(1)])
  have 2: "only_hq (set (concat (map gnodes ts))) s1 s'" "\<forall>h \<in> set (concat (map gnodes ts)). capped d s' h"
    using Cons.IH [OF _ vs] Cons.prems sh by auto
  have "capped d s' h" if h: "h \<in> set (gnodes t)" for h
  proof -
    have "p \<notin> set (concat (map gnodes ts))" if "tg_parent (tgs s1 h) = Some p" for p
      using tree_parent_in [OF t(1) h] t(2) that Cons.prems(4,5) by (cases "h = groot t") (auto simp: shape_sel sh)
    moreover have "h \<notin> set (concat (map gnodes ts))" using h Cons.prems(4) by auto
    ultimately show ?thesis using capped_keep [OF 2(1)] 1(2) h by blast
  qed
  then show ?case using only_hq_trans [OF 1(1) 2(1)] 2(2) by auto
qed

lemma visit_capped: "caps_tree G d t"
proof (induction t)
  case (Grp g ts)
  show ?case
    unfolding caps_tree_def
  proof (intro allI impI)
    fix s s'
    assume v: "visit (tg_cfs_schedulable_down G d) tg_nop (Grp g ts) s = (0, s')"
      and t: "tree_at (shape s) (Grp g ts)" "distinct (gnodes (Grp g ts))"
      and p: "\<forall>p. snd (shape s (groot (Grp g ts))) = Some p \<longrightarrow> p \<notin> set (gnodes (Grp g ts))"
    obtain s1 where dn: "tg_cfs_schedulable_down G d g s = (0, s1)"
      and vs: "visits (tg_cfs_schedulable_down G d) tg_nop ts s1 = (0, s')"
      using v by (auto simp: tg_nop_def split: prod.splits if_splits)
    have 1: "only_hq {g} s s1" using schedulable_down_only [of g s G d] dn by simp
    have c: "capped d s1 g" using schedulable_down_capped [OF dn] p by (auto simp: shape_sel)
    have sh: "shape s1 = shape s" by (rule only_hqD(1) [OF 1])
    have 2: "only_hq (set (concat (map gnodes ts))) s1 s' \<and> (\<forall>h \<in> set (concat (map gnodes ts)). capped d s' h)"
      by (rule visits_capped [OF Grp vs, of g]) (use t sh in auto)
    have "capped d s' g"
      using capped_keep [OF conjunct1 [OF 2], of g d] c t(2) p by (auto simp: shape_sel sh)
    then show "only_hq (set (gnodes (Grp g ts))) s s' \<and> (\<forall>h \<in> set (gnodes (Grp g ts)). capped d s' h)"
      using only_hq_trans [OF 1 conjunct1 [OF 2]] 2 by auto
  qed
qed

lemma cfs_schedulable_capped:
  assumes "groups_tree s t" "walk_tg_tree (tg_cfs_schedulable_down G d) tg_nop s = Inr (0, s')"
  shows "only_hq (set (tg_list s)) s s' \<and> (\<forall>g \<in> set (tg_list s). capped d s' g)"
proof -
  have "visit (tg_cfs_schedulable_down G d) tg_nop t s = (0, s')"
    using assms walk_tg_tree_visit [OF assms(1) schedulable_down_keeps nop_keeps, of G d] by simp
  then show ?thesis
    using visit_capped [of G d t] assms(1) by (auto simp: caps_tree_def groups_tree_def shape_sel)
qed

section \<open>Decimal numbers\<close>

lemma of_digit_char [simp]: "d < 10 \<Longrightarrow> of_char (digit_char d) = (48 + d :: nat)"
  by (simp add: digit_char_def)

lemma digit_digit_char: "d < 10 \<Longrightarrow> is_digit (digit_char d) \<and> \<not> is_space (digit_char d)"
  by (simp add: is_digit_def is_space_def)

lemma show_nat_digits: "\<forall>ch \<in> set (show_nat n). is_digit ch \<and> \<not> is_space ch"
proof (induction n rule: show_nat.induct)
  case (1 n)
  then show ?case by (subst show_nat.simps) (use digit_digit_char in \<open>auto\<close>)
qed

lemma show_nat_not_Nil [simp]: "show_nat n \<noteq> []"
  by (subst show_nat.simps) simp

lemma digits_value_show_nat: "digits_value (show_nat n) = int n"
proof (induction n rule: show_nat.induct)
  case (1 n)
  show ?case
  proof (cases "n < 10")
    case True
    then show ?thesis by (subst show_nat.simps) (simp add: digits_value_def)
  next
    case False
    then have "digits_value (show_nat (n div 10)) = int (n div 10)" by (rule 1)
    moreover have "show_nat n = show_nat (n div 10) @ [digit_char (n mod 10)]"
      by (subst show_nat.simps) (simp add: False)
    moreover have "int (n div 10) * 10 + int (n mod 10) = int n" by presburger
    ultimately show ?thesis by (simp add: digits_value_def)
  qed
qed

lemma length_show_nat: "0 < k \<Longrightarrow> n < 10 ^ k \<Longrightarrow> length (show_nat n) \<le> k"
proof (induction n arbitrary: k rule: show_nat.induct)
  case (1 n)
  show ?case
  proof (cases "n < 10")
    case True
    then show ?thesis using 1(2) by (subst show_nat.simps) simp
  next
    case False
    then obtain j where k: "k = Suc j" "0 < j" using 1(2,3) by (cases k; cases "k = 1") auto
    then have "length (show_nat (n div 10)) \<le> j" using 1(1) [OF False, of j] 1(3) by auto
    then show ?thesis by (subst show_nat.simps) (simp add: False k)
  qed
qed

lemma drop_space_show_nat: "dropWhile is_space (show_nat n @ rest) = show_nat n @ rest"
  using show_nat_digits [of n] by (cases "show_nat n") auto

lemma scan_ull_show_nat:
  assumes "int n < 2 ^ 64" "rest = [] \<or> \<not> is_digit (hd rest)"
  shows "scan_ull (show_nat n @ rest) = Some (int n, rest)"
proof -
  have "takeWhile is_digit (show_nat n @ rest) = show_nat n"
    using show_nat_digits [of n] assms(2) by (cases rest) (auto simp: takeWhile_append)
  then show ?thesis
    using assms(1) by (simp add: scan_ull_def drop_space_show_nat digits_value_show_nat u64_id)
qed

lemma scan_word_take:
  assumes "tok \<noteq> []" "length tok \<le> n" "\<forall>ch \<in> set tok. \<not> is_space ch" "is_space sp"
  shows "scan_word n (tok @ sp # rest) = Some (tok, sp # rest)"
proof -
  have "dropWhile is_space (tok @ sp # rest) = tok @ sp # rest" using assms(1,3) by (cases tok) auto
  moreover have "takeWhile (\<lambda>ch. \<not> is_space ch) (tok @ sp # rest) = tok" using assms(3,4) by (auto simp: takeWhile_append)
  moreover have "0 < n" using assms(1,2) by (cases tok) auto
  ultimately show ?thesis using assms(1,2) by (simp add: scan_word_def)
qed

lemma space_chars: "is_space CHR '' ''" "\<not> is_digit newline"
  by (simp_all add: is_space_def is_digit_def newline_def)

lemma scan_max: "scan_ull ''max'' = None" "\<forall>ch \<in> set ''max''. \<not> is_space ch"
  by (simp_all add: scan_ull_def is_space_def is_digit_def)

lemma scan_ull_space: "scan_ull (CHR '' '' # str) = scan_ull str"
  using space_chars(1) by (simp add: scan_ull_def)

lemma quota_parse_print:
  assumes "0 \<le> period" "period \<le> U64_MAX div NSEC_PER_USEC" "quota \<le> U64_MAX div NSEC_PER_USEC"
  shows "cpu_period_quota_parse (cpu_period_quota_print period quota) period0 =
    Inr (period * NSEC_PER_USEC, if quota < 0 then RUNTIME_INF else quota * NSEC_PER_USEC)"
proof -
  have ull: "scan_ull (CHR '' '' # show_nat (nat period) @ [newline]) = Some (period, [newline])"
    using scan_ull_show_nat [of "nat period" "[newline]"] assms(1,2) space_chars(2) by (simp add: scan_ull_space)
  have u: "u64 (period * 1000) = period * 1000" using assms(1,2) by (simp add: u64_id)
  show ?thesis
  proof (cases "quota < 0")
    case True
    have "scan_word 20 (''max'' @ CHR '' '' # show_nat (nat period) @ [newline]) =
        Some (''max'', CHR '' '' # show_nat (nat period) @ [newline])"
      by (rule scan_word_take) (use scan_max(2) space_chars(1) in auto)
    then show ?thesis
      using True ull u assms(1) scan_max(1) by (simp add: cpu_period_quota_parse_def cpu_period_quota_print_def show_int_def)
  next
    case False
    have q: "nat quota < 10 ^ 20" using assms(3) by simp
    have "scan_word 20 (show_nat (nat quota) @ CHR '' '' # show_nat (nat period) @ [newline]) =
        Some (show_nat (nat quota), CHR '' '' # show_nat (nat period) @ [newline])"
      by (rule scan_word_take) (use length_show_nat [OF _ q] show_nat_digits space_chars(1) in auto)
    moreover have "scan_ull (show_nat (nat quota)) = Some (quota, [])"
      using scan_ull_show_nat [of "nat quota" "[]"] False assms(3) by simp
    moreover have "u64 (quota * 1000) = quota * 1000" using False assms(3) by (simp add: u64_id)
    ultimately show ?thesis
      using False ull u assms(1) by (simp add: cpu_period_quota_parse_def cpu_period_quota_print_def show_int_def)
  qed
qed

section \<open>The quotas after a change\<close>

text \<open>
  What the fair class promises: the refill changes the run time that is left, and the end of a throttle changes the
  queues of the group, neither the bandwidth settings nor the links of any group.
\<close>

definition bandwidth_lib_ok :: "'x genv \<Rightarrow> bool" where
  "bandwidth_lib_ok G \<longleftrightarrow>
     (\<forall>b. bw_quota (refill_cfs_bandwidth_runtime G b) = bw_quota b \<and>
          bw_period (refill_cfs_bandwidth_runtime G b) = bw_period b \<and>
          hierarchical_quota (refill_cfs_bandwidth_runtime G b) = hierarchical_quota b) \<and>
     (\<forall>g c s h. tg_bandwidth (tgs (unthrottle_cfs_rq G g c s) h) = tg_bandwidth (tgs s h) \<and>
          tg_parent (tgs (unthrottle_cfs_rq G g c s) h) = tg_parent (tgs s h))"

definition stored_quota :: "'x kstate \<Rightarrow> nat \<Rightarrow> int" where
  "stored_quota s g =
     (if u64 (tg_get_cfs_quota g s) = RUNTIME_INF then - 1
      else s64 (to_ratio (u64 (tg_get_cfs_period g s)) (u64 (tg_get_cfs_quota g s))))"

definition quota_capped :: "'x kstate \<Rightarrow> nat \<Rightarrow> bool" where
  "quota_capped s g \<longleftrightarrow>
     hierarchical_quota (bw_of g s) =
       (case tg_parent (tgs s g) of
          None \<Rightarrow> - 1
        | Some p \<Rightarrow> cap (stored_quota s g) (hierarchical_quota (bw_of p s)))"

lemma s64_INF: "s64 RUNTIME_INF = - 1"
  by (simp add: s64_def)

lemma own_stored: "h \<noteq> sd_tg d \<Longrightarrow> own_quota d s h = stored_quota s h"
  using s64_INF by (simp add: own_quota_def normalize_cfs_quota_def stored_quota_def Let_def)

lemma reset_fold_keeps:
  assumes "bandwidth_lib_ok G"
  shows "tg_bandwidth (tgs (fold (reset_cfs_rq G g b) cs s) h) = tg_bandwidth (tgs s h) \<and>
    tg_parent (tgs (fold (reset_cfs_rq G g b) cs s) h) = tg_parent (tgs s h)"
proof (induction cs arbitrary: s)
  case (Cons c cs)
  then show ?case using assms by (simp add: reset_cfs_rq_def bandwidth_lib_ok_def Let_def)
qed simp

lemma apply_keeps:
  assumes "bandwidth_lib_ok G" "s' = apply_cfs_bandwidth G g period quota burst s"
  shows "tg_parent (tgs s' h) = tg_parent (tgs s h)"
    "hierarchical_quota (bw_of h s') = hierarchical_quota (bw_of h s)"
    "bw_quota (bw_of h s') = (if h = g then quota else bw_quota (bw_of h s))"
    "bw_period (bw_of h s') = (if h = g then s64 period else bw_period (bw_of h s))"
  using assms reset_fold_keeps [OF assms(1)]
  by (auto simp: apply_cfs_bandwidth_def upd_bw_def bandwidth_lib_ok_def Let_def)

lemma apply_stored:
  assumes "bandwidth_lib_ok G" "s' = apply_cfs_bandwidth G g period quota burst s"
  shows "h \<noteq> g \<Longrightarrow> stored_quota s' h = stored_quota s h"
proof -
  assume "h \<noteq> g"
  then have "tg_get_cfs_quota h s' = tg_get_cfs_quota h s" "tg_get_cfs_period h s' = tg_get_cfs_period h s"
    using apply_keeps [OF assms, of h] by (simp_all add: tg_get_cfs_quota_def tg_get_cfs_period_def)
  then show ?thesis by (simp add: stored_quota_def)
qed

text \<open>A bandwidth that passes the range checks has an exact ratio, which is not mistaken for no limit.\<close>

lemma valid_range:
  assumes "cfs_bandwidth_valid g period quota burst" "quota \<noteq> RUNTIME_INF"
  shows "1000 \<le> period div 1000" "period div 1000 \<le> 1000000" "1000 \<le> quota div 1000" "quota div 1000 \<le> 2 ^ 44 - 1"
    "period \<le> 10 ^ 9" "10 ^ 6 \<le> period"
  using assms by (auto simp: cfs_bandwidth_valid_def)

lemma valid_ratio:
  assumes "cfs_bandwidth_valid g period quota burst" "quota \<noteq> RUNTIME_INF"
  shows "to_ratio (period div 1000) (quota div 1000) = (quota div 1000) * 2 ^ 20 div (period div 1000)"
    "0 \<le> to_ratio (period div 1000) (quota div 1000)" "to_ratio (period div 1000) (quota div 1000) < 2 ^ 55"
proof -
  note v = valid_range [OF assms]
  show e: "to_ratio (period div 1000) (quota div 1000) = (quota div 1000) * 2 ^ 20 div (period div 1000)"
    using v by (simp add: to_ratio_def u64_id)
  show "0 \<le> to_ratio (period div 1000) (quota div 1000)"
    unfolding e by (rule pos_imp_zdiv_nonneg_iff [THEN iffD2]) (use v in auto)
  have "(quota div 1000) * 2 ^ 20 div (period div 1000) \<le> (quota div 1000) * 2 ^ 20 div 1000"
    by (rule zdiv_mono2) (use v in auto)
  also have "\<dots> < 2 ^ 55" using v by simp
  finally show "to_ratio (period div 1000) (quota div 1000) < 2 ^ 55" unfolding e .
qed

definition sched_data :: "nat \<Rightarrow> int \<Rightarrow> int \<Rightarrow> cfs_schedulable_data" where
  "sched_data g period quota =
     (if quota \<noteq> RUNTIME_INF
      then \<lparr>sd_tg = g, sd_period = period div NSEC_PER_USEC, sd_quota = quota div NSEC_PER_USEC\<rparr>
      else \<lparr>sd_tg = g, sd_period = period, sd_quota = quota\<rparr>)"

lemma cfs_schedulable_walk:
  "cfs_schedulable G g period quota s = walk_tg_tree (tg_cfs_schedulable_down G (sched_data g period quota)) tg_nop s"
  by (simp add: cfs_schedulable_def sched_data_def Let_def)

lemma apply_own:
  assumes "bandwidth_lib_ok G" "s' = apply_cfs_bandwidth G g period quota burst s"
    and "cfs_bandwidth_valid g period quota burst"
  shows "stored_quota s' h = own_quota (sched_data g period quota) s h"
proof (cases "h = g")
  case False
  then show ?thesis using apply_stored [OF assms(1,2)] by (simp add: own_stored sched_data_def)
next
  case True
  note k = apply_keeps [OF assms(1,2), of g]
  show ?thesis
  proof (cases "quota = RUNTIME_INF")
    case inf: True
    have "tg_get_cfs_quota g s' = - 1" using k(3) inf by (simp add: tg_get_cfs_quota_def)
    then have "stored_quota s' g = - 1" by (simp add: stored_quota_def u64_def)
    moreover have "own_quota (sched_data g period quota) s g = - 1"
      using inf s64_INF by (simp add: own_quota_def normalize_cfs_quota_def sched_data_def)
    ultimately show ?thesis using True by simp
  next
    case fin: False
    note v = valid_range [OF assms(3) fin]
    have "tg_get_cfs_quota g s' = quota div 1000"
      using k(3) fin v by (simp add: tg_get_cfs_quota_def s64_id)
    moreover have "tg_get_cfs_period g s' = period div 1000"
      using k(4) v by (simp add: tg_get_cfs_period_def s64_id u64_id)
    ultimately have "stored_quota s' g = s64 (to_ratio (period div 1000) (quota div 1000))"
      using v by (simp add: stored_quota_def u64_id)
    moreover have "own_quota (sched_data g period quota) s g = s64 (to_ratio (period div 1000) (quota div 1000))"
      using fin v by (simp add: own_quota_def normalize_cfs_quota_def sched_data_def)
    ultimately show ?thesis using True by simp
  qed
qed

lemma set_bandwidth_capped:
  assumes "groups_tree s t" "bandwidth_lib_ok G" "tg_set_cfs_bandwidth G g period quota burst s = Inr (0, s')"
    and "h \<in> set (tg_list s)"
  shows "quota_capped s' h"
proof -
  have v: "cfs_bandwidth_valid g period quota burst"
    using assms(3) by (auto simp: tg_set_cfs_bandwidth_def split: if_splits)
  with assms(3) obtain s1 where w: "cfs_schedulable G g period quota s = Inr (0, s1)"
    and a: "s' = apply_cfs_bandwidth G g period quota burst s1"
    by (auto simp: tg_set_cfs_bandwidth_def split: if_splits)
  have "capped (sched_data g period quota) s1 h"
    using cfs_schedulable_capped [OF assms(1) w [unfolded cfs_schedulable_walk]] assms(4) by blast
  then show ?thesis
    using apply_keeps(1,2) [OF assms(2) a] apply_own [OF assms(2) a v] by (simp add: quota_capped_def capped_def split: option.splits)
qed

end
