(* ===== verification/Group_Theorems.thy ===== *)
theory Group_Theorems
  imports Group_Quota Sample_Env
begin

text \<open>
  The properties of task groups and of the files of the cpu controller. The sample tree has the root, group 1 with
  100 ms in 100 ms, and below it group 2 with 80 ms in 100 ms.
\<close>

definition genv0 :: "bool \<Rightarrow> unit genv" where
  "genv0 dfl = \<lparr>gkern = env0, tg_cache_alloc = (\<lambda>s. Some 3), tg_cache_free = (\<lambda>_ x. x),
     alloc_fair_sched_group = (\<lambda>_ _ s. (True, s)), alloc_rt_sched_group = (\<lambda>_ _ s. (True, s)),
     free_fair_sched_group = (\<lambda>_ x. x), free_rt_sched_group = (\<lambda>_ x. x), autogroup_free = (\<lambda>_ x. x),
     online_fair_sched_group = (\<lambda>_ x. x), unregister_fair_sched_group = (\<lambda>_ x. x),
     unregister_rt_sched_group = (\<lambda>_ x. x), call_rcu = (\<lambda>_ x. x),
     sched_group_set_shares = (\<lambda>g w s. (0, upd_tg g (\<lambda>v. v\<lparr>tg_shares := max (2 * 1024) (min (2 ^ 18 * 1024) w)\<rparr>) s)),
     sched_group_set_idle = (\<lambda>g i s. (0, upd_tg g (\<lambda>v. v\<lparr>tg_idle := i\<rparr>) s)),
     refill_cfs_bandwidth_runtime = (\<lambda>b. b\<lparr>bw_runtime := bw_quota b\<rparr>), start_cfs_bandwidth = (\<lambda>_ x. x),
     unthrottle_cfs_rq = (\<lambda>g c s. upd_tg g (\<lambda>v. v\<lparr>tg_rq := (tg_rq v)(c := (tg_rq v c)\<lparr>throttled := False\<rparr>)\<rparr>) s),
     cfs_bandwidth_usage_inc = (\<lambda>x. x), cfs_bandwidth_usage_dec = (\<lambda>x. x), cgroup_on_dfl = dfl,
     cpu_possible_mask = {0, 1}, se_wait_sum = (\<lambda>_ _ _. 0)\<rparr>"

definition bw_group :: "int \<Rightarrow> nat option \<Rightarrow> nat list \<Rightarrow> int \<Rightarrow> task_group" where
  "bw_group quota par ch hq = tg0\<lparr>tg_parent := par, tg_children := ch, tg_bandwidth := (tg_bandwidth tg0)
     \<lparr>bw_period := 100000000, bw_quota := quota, bw_burst := 0, hierarchical_quota := hq\<rparr>\<rparr>"

definition group_state :: "unit kstate" where
  "group_state = boot0\<lparr>tg_list := [2, 1, 0],
     tgs := (tgs boot0)(0 := bw_group (2 ^ 64 - 1) None [1] (- 1), 1 := bw_group 100000000 (Some 0) [2] 1048576,
       2 := bw_group 80000000 (Some 1) [] 838860)\<rparr>"

lemma group_state_tree: "groups_tree group_state (Grp 0 [Grp 1 [Grp 2 []]])"
  by (auto simp: groups_tree_def group_state_def shape_def bw_group_def)

lemma genv0_bandwidth_lib_ok: "bandwidth_lib_ok (genv0 dfl)"
  by (simp add: bandwidth_lib_ok_def genv0_def)

definition code_of :: "(int \<times> 'x kstate) res \<Rightarrow> int" where
  "code_of r = (case r of Inr (ret, _) \<Rightarrow> ret | Inl _ \<Rightarrow> 1)"

definition state_of :: "(int \<times> 'x kstate) res \<Rightarrow> 'x kstate \<Rightarrow> 'x kstate" where
  "state_of r s = (case r of Inr (_, s') \<Rightarrow> s' | Inl _ \<Rightarrow> s)"

lemma group_state_reach: "tg_reach G group_state"
proof -
  let ?b = "boot0\<lparr>tgs := (tgs boot0)(0 := tg0)\<rparr>"
  let ?s1 = "sched_online_group G 1 0 ?b"
  let ?s2 = "sched_online_group G 2 1 ?s1"
  have "tg_reach G ?b" by (rule tg_reach.Boot) (simp_all add: sample_defs tg0_def shape_def)
  then have "tg_reach G ?s1"
    by (rule tg_reach.Online [where g = 1 and p = 0 and r = 0]) (simp_all add: sample_defs cpu_cgroup_css_online_def)
  then have "tg_reach G ?s2"
    by (rule tg_reach.Online [where g = 2 and p = 1 and r = 0])
      (simp_all add: sample_defs cpu_cgroup_css_online_def list_online)
  then show ?thesis
    by (rule tg_reach.Other)
      (simp_all add: shape_online list_online, auto simp: group_state_def bw_group_def shape_def online_shape_def sample_defs tg0_def)
qed

lemma state_of_Inr: "code_of r = 0 \<Longrightarrow> \<exists>s'. r = Inr (0, s') \<and> state_of r s = s'"
  by (auto simp: code_of_def state_of_def split: sum.splits)

section \<open>The tree\<close>

text \<open>
  C12. After any run of bringing groups online and releasing them, the links of the groups are a tree of exactly the
  groups on the list, each once, and \<open>walk_tg_tree\<close>, a loop of jumps over parent and sibling links, ends and does what
  the recursive visit of that tree does, including where it stops when a visitor fails.
\<close>

theorem walk_is_visit:
  assumes "tg_reach G s" "keeps_shape down" "keeps_shape up"
  shows "\<exists>t. groot t = root_task_group \<and> tree_at (shape s) t \<and> distinct (gnodes t) \<and>
    set (gnodes t) = set (tg_list s) \<and> walk_tg_tree down up s = Inr (visit down up t s)"
proof -
  obtain t where t: "groups_tree s t" using tg_reach_tree [OF assms(1)] by blast
  then show ?thesis
    using walk_tg_tree_visit [OF t assms(2,3)] by (auto simp: groups_tree_def)
qed

theorem walk_is_visit_witness:
  "\<exists>t. groot t = root_task_group \<and> set (gnodes t) = {0, 1, 2} \<and>
     walk_tg_tree (tg_cfs_schedulable_down (genv0 True) (sched_data 1 0 0)) tg_nop group_state =
       Inr (visit (tg_cfs_schedulable_down (genv0 True) (sched_data 1 0 0)) tg_nop t group_state)"
proof -
  have "set (tg_list group_state) = {0, 1, 2}" by (auto simp: group_state_def)
  then show ?thesis
    using walk_is_visit [OF group_state_reach schedulable_down_keeps nop_keeps] by metis
qed

text \<open>
  C11. When \<open>tg_set_cfs_bandwidth\<close> succeeds, the hierarchical quota of every group is its own ratio of quota to
  period, as stored afterwards, capped by the hierarchical quota of its parent; the root has no limit.
\<close>

theorem quotas_are_capped:
  assumes "tg_reach G s" "bandwidth_lib_ok G"
    and "tg_set_cfs_bandwidth G g period quota burst s = Inr (0, s')" "h \<in> set (tg_list s)"
  shows "hierarchical_quota (bw_of h s') =
    (case tg_parent (tgs s' h) of
       None \<Rightarrow> - 1
     | Some p \<Rightarrow> cap (stored_quota s' h) (hierarchical_quota (bw_of p s')))"
  using tg_reach_tree [OF assms(1)] set_bandwidth_capped [OF _ assms(2-4)] by (auto simp: quota_capped_def)

theorem quotas_are_capped_witness:
  "hierarchical_quota (bw_of 2 (state_of (tg_set_cfs_bandwidth (genv0 True) 1 100000000 50000000 0 group_state) group_state)) = 524288"
proof -
  let ?r = "tg_set_cfs_bandwidth (genv0 True) 1 100000000 50000000 0 group_state"
  have "code_of ?r = 0" by code_simp
  then obtain s' where s': "?r = Inr (0, s')" "state_of ?r group_state = s'" using state_of_Inr by blast
  have "2 \<in> set (tg_list group_state)" by (simp add: group_state_def)
  note c = quotas_are_capped [OF group_state_reach genv0_bandwidth_lib_ok s'(1) this]
  have "tg_parent (tgs (state_of ?r group_state) 2) = Some 1" by code_simp
  moreover have "cap (stored_quota (state_of ?r group_state) 2) (hierarchical_quota (bw_of 1 (state_of ?r group_state))) = 524288"
    by code_simp
  ultimately show ?thesis using c s'(2) by simp
qed

text \<open>
  On the legacy hierarchy a rejected change leaves a trace: lowering group 1 to 50 ms in 100 ms is refused with
  \<open>-EINVAL\<close> because its child has 80 ms, and its quota is unchanged, but its hierarchical quota is already the half
  cpu that was refused, below the quota of the child.
\<close>

theorem rejected_quota_leaves_cap:
  "let r = cpu_cfs_quota_write_s64 (genv0 False) 1 50000 group_state; s' = state_of r group_state in
     code_of r = - EINVAL \<and> bw_quota (bw_of 1 s') = bw_quota (bw_of 1 group_state) \<and>
     hierarchical_quota (bw_of 1 s') = 524288 \<and> \<not> quota_capped s' 1 \<and>
     hierarchical_quota (bw_of 1 s') < hierarchical_quota (bw_of 2 s')"
  by code_simp

section \<open>The files\<close>

text \<open>
  Writing back the line that \<open>cpu.max\<close> shows asks for exactly the bandwidth the group has, for every group whose
  period and quota are whole microseconds, with or without a limit.
\<close>

theorem cpu_max_write_back:
  assumes "0 \<le> bw_period (bw_of g s)" "bw_period (bw_of g s) < 2 ^ 63" "bw_period (bw_of g s) mod 1000 = 0"
    and "bw_quota (bw_of g s) = RUNTIME_INF \<or>
      (0 \<le> bw_quota (bw_of g s) \<and> bw_quota (bw_of g s) < 2 ^ 63 \<and> bw_quota (bw_of g s) mod 1000 = 0)"
  shows "cpu_max_write G g (cpu_max_show g s) nbytes s =
    bindr (tg_set_cfs_bandwidth G g (bw_period (bw_of g s)) (bw_quota (bw_of g s)) (bw_burst (bw_of g s)) s)
      (\<lambda>(ret, s). Inr (if ret \<noteq> 0 then ret else nbytes, s))"
proof -
  let ?p = "bw_period (bw_of g s)" and ?q = "bw_quota (bw_of g s)"
  have p: "tg_get_cfs_period g s = ?p div 1000" "?p div 1000 * 1000 = ?p"
    using assms(1-3) by (auto simp: tg_get_cfs_period_def u64_id s64_id)
  have q: "(if tg_get_cfs_quota g s < 0 then RUNTIME_INF else tg_get_cfs_quota g s * 1000) = ?q"
    "tg_get_cfs_quota g s \<le> U64_MAX div NSEC_PER_USEC"
    using assms(4) by (auto simp: tg_get_cfs_quota_def s64_id)
  have "cpu_period_quota_parse (cpu_max_show g s) (u64 (tg_get_cfs_period g s)) = Inr (?p, ?q)"
    using quota_parse_print [of "tg_get_cfs_period g s" "tg_get_cfs_quota g s"] p q assms(1,2)
    by (simp add: cpu_max_show_def)
  then show ?thesis by (simp add: cpu_max_write_def)
qed

theorem cpu_max_write_back_witness:
  "cpu_max_show 2 group_state = ''80000 100000'' @ [newline] \<and>
   code_of (cpu_max_write (genv0 True) 2 (cpu_max_show 2 group_state) 13 group_state) = 13"
proof -
  have f: "bw_period (bw_of 2 group_state) = 100000000" "bw_quota (bw_of 2 group_state) = 80000000"
    "bw_burst (bw_of 2 group_state) = 0"
    by (simp_all add: group_state_def bw_group_def)
  have "code_of (tg_set_cfs_bandwidth (genv0 True) 2 100000000 80000000 0 group_state) = 0" by code_simp
  then obtain s' where "tg_set_cfs_bandwidth (genv0 True) 2 100000000 80000000 0 group_state = Inr (0, s')"
    using state_of_Inr by blast
  moreover have "cpu_max_show 2 group_state = ''80000 100000'' @ [newline]"
    by (simp add: cpu_max_show_def cpu_period_quota_print_def tg_get_cfs_period_def tg_get_cfs_quota_def f
        u64_def s64_def show_int_def show_nat.simps digit_char_def char_of_def bit_0)
  ultimately show ?thesis
    using cpu_max_write_back [where g = 2 and s = group_state and G = "genv0 True" and nbytes = 13] by (simp add: f code_of_def)
qed

text \<open>
  The quota on the line of \<open>cpu.max\<close> is multiplied by 1000 with no check, unlike the one of \<open>cpu.cfs_quota_us\<close>:
  a quota of 18446744073710552 microseconds wraps around to 1000384 nanoseconds and is accepted, and the
  limit then reads as 1000 microseconds. The same number written to \<open>cpu.cfs_quota_us\<close> is refused.
\<close>

theorem cpu_max_wraps:
  "let line = ''18446744073710552 100000''; r = cpu_max_write (genv0 True) 2 line 24 group_state; s' = state_of r group_state in
     code_of r = 24 \<and> bw_quota (bw_of 2 s') = 1000384 \<and> cpu_cfs_quota_read_s64 2 s' = 1000 \<and>
     code_of (cpu_cfs_quota_write_s64 (genv0 True) 2 18446744073710552 group_state) = - EINVAL"
  by code_simp

text \<open>The fair class stores the shares it is given, clamped to its limits.\<close>

definition set_shares_ok :: "'x genv \<Rightarrow> bool" where
  "set_shares_ok G \<longleftrightarrow>
     (\<forall>g w s s'. sched_group_set_shares G g w s = (0, s') \<longrightarrow>
        tg_shares (tgs s' g) = max (scale_load 2) (min (scale_load MAX_SHARES) w))"

lemma nice_weights:
  "list_all (\<lambda>i. closest_prio (sched_prio_to_weight ! i) sched_prio_to_weight 0 (2 ^ 31 - 1) = int i + 1 \<and>
     2 \<le> sched_prio_to_weight ! i \<and> sched_prio_to_weight ! i \<le> MAX_SHARES) [0..<40]"
  by code_simp

lemma set_shares_weight:
  assumes "set_shares_ok G" "sched_group_set_shares G g (scale_load w) s = (0, s')" "2 \<le> w" "w \<le> MAX_SHARES"
  shows "tg_weight g s' = w"
proof -
  have "tg_shares (tgs s' g) = scale_load w"
    using assms by (simp add: set_shares_ok_def scale_load_def)
  then show ?thesis using scale_load_round_trip assms(3) by (simp add: tg_weight_def)
qed

text \<open>
  A weight from 1 to 10000 written to \<open>cpu.weight\<close>, and a nice value written to \<open>cpu.weight.nice\<close>, is read back
  unchanged when the write succeeds; a value outside the range is refused with \<open>-ERANGE\<close>.
\<close>

theorem weight_files_round_trip:
  assumes "set_shares_ok G"
  shows "(cpu_weight_write_u64 G g w s = (0, s') \<longrightarrow> cpu_weight_read_u64 g s' = w) \<and>
    (cpu_weight_nice_write_s64 G g nice s = (0, s') \<longrightarrow> cpu_weight_nice_read_s64 g s' = nice) \<and>
    (w \<notin> {1..10000} \<longrightarrow> cpu_weight_write_u64 G g w s = (- ERANGE, s)) \<and>
    (nice \<notin> {-20..19} \<longrightarrow> cpu_weight_nice_write_s64 G g nice s = (- ERANGE, s))"
proof (intro conjI impI)
  assume W: "cpu_weight_write_u64 G g w s = (0, s')"
  then have w: "1 \<le> w" "w \<le> 10000" by (auto simp: cpu_weight_write_u64_def split: if_splits)
  have "2 \<le> sched_weight_from_cgroup w" "sched_weight_from_cgroup w \<le> MAX_SHARES"
    using w by (simp_all add: sched_weight_from_cgroup_def div_round_closest_def u64_id)
  then have "tg_weight g s' = sched_weight_from_cgroup w"
    using set_shares_weight [OF assms] W w by (auto simp: cpu_weight_write_u64_def split: if_splits)
  then show "cpu_weight_read_u64 g s' = w" using cgroup_weight_round_trip w by (simp add: cpu_weight_read_u64_def)
next
  assume N: "cpu_weight_nice_write_s64 G g nice s = (0, s')"
  then have n: "- 20 \<le> nice" "nice \<le> 19" by (auto simp: cpu_weight_nice_write_s64_def split: if_splits)
  define i where "i = nat (nice + 20)"
  have i: "i < 40" "int i = nice + 20" using n by (auto simp: i_def)
  have k: "closest_prio (sched_prio_to_weight ! i) sched_prio_to_weight 0 (2 ^ 31 - 1) = int i + 1"
    "2 \<le> sched_prio_to_weight ! i" "sched_prio_to_weight ! i \<le> MAX_SHARES"
    using nice_weights i(1) by (simp_all only: list_all_iff set_upt atLeastLessThan_iff) auto
  have "tg_weight g s' = sched_prio_to_weight ! i"
    using set_shares_weight [OF assms _ k(2,3)] N n by (auto simp: cpu_weight_nice_write_s64_def i_def add.commute split: if_splits)
  then show "cpu_weight_nice_read_s64 g s' = nice" using k(1) i(2) by (simp add: cpu_weight_nice_read_s64_def)
qed (auto simp: cpu_weight_write_u64_def cpu_weight_nice_write_s64_def)

lemma genv0_set_shares_ok: "set_shares_ok (genv0 dfl)"
  by (auto simp: set_shares_ok_def genv0_def scale_load_def)

theorem weight_files_round_trip_witness:
  "cpu_weight_read_u64 1 (snd (cpu_weight_write_u64 (genv0 True) 1 250 group_state)) = 250 \<and>
   cpu_weight_nice_read_s64 1 (snd (cpu_weight_nice_write_s64 (genv0 True) 1 (- 7) group_state)) = - 7"
proof -
  have "fst (cpu_weight_write_u64 (genv0 True) 1 250 group_state) = 0"
    "fst (cpu_weight_nice_write_s64 (genv0 True) 1 (- 7) group_state) = 0" by code_simp+
  then show ?thesis
    using weight_files_round_trip [OF genv0_set_shares_ok, of True 1] by (metis prod.collapse)
qed

text \<open>
  For every bandwidth that passes the range checks the shift in \<open>to_ratio\<close> does not overflow: the ratio is the
  exact quotient, it is below \<open>2\<^sup>5\<^sup>5\<close>, so it is not negative as an \<open>s64\<close> and never taken for no limit.
\<close>

theorem accepted_ratio_exact:
  assumes "cfs_bandwidth_valid g period quota burst" "quota \<noteq> RUNTIME_INF"
  shows "to_ratio (period div 1000) (quota div 1000) = (quota div 1000) * 2 ^ 20 div (period div 1000) \<and>
    s64 (to_ratio (period div 1000) (quota div 1000)) = to_ratio (period div 1000) (quota div 1000) \<and>
    s64 (to_ratio (period div 1000) (quota div 1000)) \<noteq> - 1"
  using valid_ratio [OF assms] by (simp add: s64_id)

theorem accepted_ratio_exact_witness:
  "to_ratio (1000000 div 1000) ((2 ^ 44 - 1) * 1000 div 1000) = (2 ^ 44 - 1) * 1000 div 1000 * 2 ^ 20 div (1000000 div 1000)"
  using accepted_ratio_exact [of 1 1000000 "(2 ^ 44 - 1) * 1000" 0] by (simp add: cfs_bandwidth_valid_def u64_def)

section \<open>Moving a running HVF task\<close>














end
