(* ===== verification/Hotplug_Theorems.thy ===== *)
theory Hotplug_Theorems
  imports Core_Hotplug Group_Theorems Call_Theorems
begin

text \<open>
  The properties of boot and hotplug: \<open>sched_init\<close> establishes the states the invariants of the class and of the
  group tree start from; a cpu that goes down and comes back; an HVF task on a cpu that goes down.
\<close>

section \<open>Boot\<close>

text \<open>
  What the services that boot calls leave alone: the tasks, the clock, the groups, and of the run queues the HVF
  queue and the callbacks.
\<close>

definition boot_frame :: "'x kstate \<Rightarrow> 'x kstate \<Rightarrow> bool" where
  "boot_frame s s' \<longleftrightarrow>
     tasks s' = tasks s \<and> rt_clock s' = rt_clock s \<and> rt_reads s' = rt_reads s \<and> tgs s' = tgs s \<and> tg_list s' = tg_list s \<and>
     current s' = current s \<and> this_cpu s' = this_cpu s \<and> nr_cpu_ids s' = nr_cpu_ids s \<and>
     (\<forall>c. rq_hvf (rqs s' c) = rq_hvf (rqs s c) \<and> balance_callback (rqs s' c) = balance_callback (rqs s c))"

definition boot_lib_ok :: "'x henv \<Rightarrow> bool" where
  "boot_lib_ok B \<longleftrightarrow> (\<forall>c s. boot_frame s (rq_attach_root B c s) \<and> boot_frame s (fair_server_init B c s))"

text \<open>The static data of the kernel image: no task is in the class, the nice value of the first task is valid, no group is listed.\<close>

definition static_data :: "'x henv \<Rightarrow> 'x kstate \<Rightarrow> bool" where
  "static_data B s \<longleftrightarrow>
     (\<forall>t. sched_class (tasks s t) \<noteq> Hvf \<and> \<not> hvf_on_rq (hvf (tasks s t))) \<and>
     (\<forall>c. c \<notin> set (for_each_cpu (cpu_possible_mask (hgenv B)) s) \<longrightarrow>
        hvf_of c s = init_hvf_rq (hvf_of c s)) \<and>
     100 \<le> static_prio (tasks s (init_task B)) \<and> static_prio (tasks s (init_task B)) < 140 \<and>
     tg_list s = [] \<and> tg_parent (tgs s root_task_group) = None \<and>
     this_cpu s \<in> set (for_each_cpu (cpu_possible_mask (hgenv B)) s)"

lemma boot_frame_rq:
  assumes "boot_lib_ok B" "s' = sched_init_rq B c s"
  shows "tasks s' = tasks s" "rt_clock s' = rt_clock s" "rt_reads s' = rt_reads s" "tgs s' = tgs s" "tg_list s' = tg_list s"
    "current s' = current s" "this_cpu s' = this_cpu s" "nr_cpu_ids s' = nr_cpu_ids s"
    "rq_hvf (rqs s' d) = (if d = c then init_hvf_rq (rq_hvf (rqs s d)) else rq_hvf (rqs s d))"
    "balance_callback (rqs s' d) = (if d = c then [Cb_push] else balance_callback (rqs s d))"
proof -
  have f: "boot_frame u (rq_attach_root B c u)" "boot_frame u (fair_server_init B c u)" for u
    using assms(1) by (simp_all add: boot_lib_ok_def)
  note F = f [unfolded boot_frame_def]
  show "tasks s' = tasks s" "rt_clock s' = rt_clock s" "rt_reads s' = rt_reads s" "tgs s' = tgs s" "tg_list s' = tg_list s"
    "current s' = current s" "this_cpu s' = this_cpu s" "nr_cpu_ids s' = nr_cpu_ids s"
    "rq_hvf (rqs s' d) = (if d = c then init_hvf_rq (rq_hvf (rqs s d)) else rq_hvf (rqs s d))"
    "balance_callback (rqs s' d) = (if d = c then [Cb_push] else balance_callback (rqs s d))"
    using F by (simp_all add: assms(2) sched_init_rq_def Let_def)
qed

lemma boot_frame_rqs:
  assumes "boot_lib_ok B"
  shows "tasks (fold (sched_init_rq B) cs s) = tasks s \<and> rt_clock (fold (sched_init_rq B) cs s) = rt_clock s \<and>
    rt_reads (fold (sched_init_rq B) cs s) = rt_reads s \<and> tgs (fold (sched_init_rq B) cs s) = tgs s \<and>
    tg_list (fold (sched_init_rq B) cs s) = tg_list s \<and> current (fold (sched_init_rq B) cs s) = current s \<and>
    this_cpu (fold (sched_init_rq B) cs s) = this_cpu s \<and>
    rq_hvf (rqs (fold (sched_init_rq B) cs s) d) = (if d \<in> set cs then init_hvf_rq (rq_hvf (rqs s d)) else rq_hvf (rqs s d)) \<and>
    balance_callback (rqs (fold (sched_init_rq B) cs s) d) = (if d \<in> set cs then [Cb_push] else balance_callback (rqs s d))"
proof (induction cs arbitrary: s)
  case (Cons c cs)
  have idem: "init_hvf_rq (init_hvf_rq q) = init_hvf_rq q" for q by (simp add: init_hvf_rq_def)
  note f = boot_frame_rq [OF assms refl, of c s]
  show ?case using Cons [of "sched_init_rq B c s"] by (simp add: f idem)
qed simp

lemma load_weight_frame:
  assumes "100 \<le> static_prio (tasks s p)" "static_prio (tasks s p) < 140"
  shows "\<exists>f. set_load_weight E p False s = Inr (upd_task p f s) \<and> (\<forall>v. sched_class (f v) = sched_class v \<and> hvf (f v) = hvf v)"
proof -
  define f where "f lw = (\<lambda>v :: task_struct. v\<lparr>se := (se v)\<lparr>se_load := lw\<rparr>\<rparr>)" for lw
  have "\<exists>lw. set_load_weight E p False s = Inr (upd_task p (f lw) s)"
    using assms by (auto simp: set_load_weight_def f_def Let_def split: option.split)
  moreover have "sched_class (f lw v) = sched_class v \<and> hvf (f lw v) = hvf v" for lw v by (simp add: f_def)
  ultimately show ?thesis by blast
qed

lemma init_idle_frame:
  assumes "s' = init_idle B p c s"
  shows "hvf (tasks s' t) = hvf (tasks s t)" "sched_class (tasks s' t) = (if t = p then Idle else sched_class (tasks s t))"
    "rt_clock s' = rt_clock s" "rt_reads s' = rt_reads s" "tgs s' = tgs s" "tg_list s' = tg_list s" "this_cpu s' = this_cpu s"
    "hvf_of d s' = hvf_of d s" "balance_callback (rqs s' d) = balance_callback (rqs s d)"
    "rq_curr (rqs s' d) = (if d = c then p else rq_curr (rqs s d))" "rq_idle (rqs s' d) = (if d = c then p else rq_idle (rqs s d))"
  by (simp_all add: assms init_idle_def set_task_cpu_raw_def set_task_rq_def set_cpus_allowed_common_def Let_def)

lemma sched_fork_init_frame:
  "hvf (tasks (sched_fork_init E p s) t) = hvf (tasks s t)" "sched_class (tasks (sched_fork_init E p s) t) = sched_class (tasks s t)"
  "rqs (sched_fork_init E p s) = rqs s" "this_cpu (sched_fork_init E p s) = this_cpu s" "current (sched_fork_init E p s) = current s"
  by (simp_all add: sched_fork_init_def)

lemma sched_fork_init_rest:
  "rt_clock (sched_fork_init E p s) = rt_clock s" "rt_reads (sched_fork_init E p s) = rt_reads s"
  "tgs (sched_fork_init E p s) = tgs s" "tg_list (sched_fork_init E p s) = tg_list s"
  by (simp_all add: sched_fork_init_def init_sched_mm_cid_def Let_def split: option.split)

lemma balance_push_off:
  assumes "s' = balance_push_set c False s" "balance_callback (rqs s c) = [Cb_push]"
  shows "s' = upd_rq c (\<lambda>r. r\<lparr>balance_callback := []\<rparr>) s"
  using assms by (simp add: balance_push_set_def)

lemma sched_init_idle_frame:
  assumes "s' = sched_init_idle B s" "balance_callback (rqs s (this_cpu s)) = [Cb_push]"
  shows "hvf (tasks s' t) = hvf (tasks s t)" "sched_class (tasks s' t) = (if t = current s then Idle else sched_class (tasks s t))"
    "rt_clock s' = rt_clock s" "rt_reads s' = rt_reads s" "tgs s' = tgs s" "tg_list s' = tg_list s" "this_cpu s' = this_cpu s"
    "hvf_of d s' = hvf_of d s" "rq_curr (rqs s' (this_cpu s)) = current s" "rq_idle (rqs s' (this_cpu s)) = current s"
    "balance_callback (rqs s' d) = (if d = this_cpu s then [] else balance_callback (rqs s d))"
proof -
  let ?a = "upd_ext (boot_call B Set_kthread_struct) (upd_ext (enter_lazy_tlb (hkern B) (Some (init_mm B)) (current s))
    (upd_ext (mmgrab_lazy_tlb (hkern B) (Some (init_mm B))) s))"
  define u where "u = init_idle B (current s) (this_cpu s) (sched_fork_init (hkern B) (current s) ?a)"
  note I = init_idle_frame [OF u_def]
  let ?v = "upd_ext (boot_call B Idle_thread_set_boot_cpu) (upd_ext (boot_call B Calc_load_update) u)"
  have "s' = balance_push_set (this_cpu s) False ?v"
    using I(7) by (simp add: assms(1) sched_init_idle_def u_def Let_def sched_fork_init_frame)
  moreover have "balance_callback (rqs ?v (this_cpu s)) = [Cb_push]" using I(9) assms(2) by (simp add: sched_fork_init_frame)
  ultimately have e: "s' = upd_rq (this_cpu s) (\<lambda>r. r\<lparr>balance_callback := []\<rparr>) ?v"
    by (rule balance_push_off)
  show "hvf (tasks s' t) = hvf (tasks s t)" "sched_class (tasks s' t) = (if t = current s then Idle else sched_class (tasks s t))"
    "rt_clock s' = rt_clock s" "rt_reads s' = rt_reads s" "tgs s' = tgs s" "tg_list s' = tg_list s" "this_cpu s' = this_cpu s"
    "hvf_of d s' = hvf_of d s" "rq_curr (rqs s' (this_cpu s)) = current s" "rq_idle (rqs s' (this_cpu s)) = current s"
    "balance_callback (rqs s' d) = (if d = this_cpu s then [] else balance_callback (rqs s d))"
    unfolding e using I by (simp_all add: sched_fork_init_frame sched_fork_init_rest)
qed

lemma init_uclamp_frame:
  "hvf (tasks (init_uclamp p s) t) = hvf (tasks s t)" "sched_class (tasks (init_uclamp p s) t) = sched_class (tasks s t)"
  "rt_clock (init_uclamp p s) = rt_clock s" "rt_reads (init_uclamp p s) = rt_reads s" "tgs (init_uclamp p s) = tgs s"
  "tg_list (init_uclamp p s) = tg_list s" "hvf_of d (init_uclamp p s) = hvf_of d s"
  "balance_callback (rqs (init_uclamp p s) d) = balance_callback (rqs s d)"
  "rq_curr (rqs (init_uclamp p s) d) = rq_curr (rqs s d)" "rq_idle (rqs (init_uclamp p s) d) = rq_idle (rqs s d)"
  by (simp_all add: init_uclamp_def init_uclamp_rq_def Let_def)

lemma root_group_frame:
  assumes "s' = sched_init_root_group B s"
  shows "tasks s' = tasks s" "rqs s' = rqs s" "rt_clock s' = rt_clock s" "rt_reads s' = rt_reads s" "current s' = current s"
    "this_cpu s' = this_cpu s" "nr_cpu_ids s' = nr_cpu_ids s" "tg_list s' = root_task_group # tg_list s"
    "shape s' root_task_group = ([], tg_parent (tgs s root_task_group))"
  by (simp_all add: assms sched_init_root_group_def shape_def Let_def)

text \<open>
  C6. From the static data of the kernel image \<open>sched_init\<close> returns without a \<open>BUG\<close>, and the state it leaves is one from
  which the invariants of the HVF class and of the tree of groups start. The boot thread is the idle task of its
  cpu, which runs tasks; every other possible cpu pushes tasks away until it is activated.
\<close>

theorem sched_init_establishes:
  assumes B: "boot_lib_ok B" and st: "static_data B s" and cl: "clock_ok T0 s"
  shows "\<exists>s'. sched_init B s = Inr s' \<and> hvf_boot T0 s' \<and> tg_reach G s' \<and>
    rq_curr (rqs s' (this_cpu s)) = current s \<and> rq_idle (rqs s' (this_cpu s)) = current s \<and>
    sched_class (tasks s' (current s)) = Idle \<and> balance_callback (rqs s' (this_cpu s)) = [] \<and>
    (\<forall>c \<in> set (for_each_cpu (cpu_possible_mask (hgenv B)) s). c \<noteq> this_cpu s \<longrightarrow> balance_callback (rqs s' c) = [Cb_push])"
proof -
  let ?P = "set (for_each_cpu (cpu_possible_mask (hgenv B)) s)"
  define s1 where "s1 = sched_init_root_group B (upd_ext (boot_call B Wait_bit_init) s)"
  note R = root_group_frame [OF s1_def]
  define s2 where "s2 = fold (sched_init_rq B) (for_each_cpu (cpu_possible_mask (hgenv B)) s) s1"
  note F = boot_frame_rqs [OF B, of "for_each_cpu (cpu_possible_mask (hgenv B)) s" s1, folded s2_def]
  obtain f where w: "set_load_weight (hkern B) (init_task B) False s2 = Inr (upd_task (init_task B) f s2)"
    and f: "\<And>v. sched_class (f v) = sched_class v \<and> hvf (f v) = hvf v"
    using load_weight_frame [of s2 "init_task B" "hkern B"] st F R(1) by (auto simp: static_data_def)
  define s3 where "s3 = upd_task (init_task B) (\<lambda>v. v\<lparr>se := (se v)\<lparr>slice := sched_base_slice (hkern B)\<rparr>\<rparr>) (upd_task (init_task B) f s2)"
  have p: "this_cpu s \<in> ?P" using st by (simp add: static_data_def)
  have b3: "balance_callback (rqs s3 (this_cpu s3)) = [Cb_push]" using F R(6) p by (simp add: s3_def)
  define s4 where "s4 = sched_init_idle B s3"
  note I = sched_init_idle_frame [OF s4_def b3]
  let ?s' = "upd_ext (boot_call B Preempt_dynamic_init) (init_uclamp (init_task B)
    (upd_ext (boot_call B Psi_init) (upd_ext (boot_call B Init_sched_fair_class) s4)))\<lparr>scheduler_running := True\<rparr>"
  have fe: "for_each_cpu (cpu_possible_mask (hgenv B)) s1 = for_each_cpu (cpu_possible_mask (hgenv B)) s"
    using R(7) by (simp add: for_each_cpu_def)
  have e: "sched_init B s = Inr ?s'"
    using w fe by (simp add: sched_init_def sched_class_above_def s1_def [symmetric] s2_def [symmetric] s3_def s4_def Let_def)
  have same: "this_cpu s3 = this_cpu s" "current s3 = current s" using F R(5,6) by (simp_all add: s3_def)
  have h3: "hvf (tasks s3 t) = hvf (tasks s t)" "sched_class (tasks s3 t) = sched_class (tasks s t)" for t
    using F R(1) f by (simp_all add: s3_def)
  have "clock_ok T0 ?s'" using cl I(3,4) F R(3,4) by (simp add: clock_ok_def init_uclamp_frame s3_def)
  moreover have "hvf_of c ?s' = init_hvf_rq (hvf_of c ?s')" for c
  proof -
    have "hvf_of c ?s' = (if c \<in> ?P then init_hvf_rq (hvf_of c s) else hvf_of c s)"
      using F [of c] R(2) I(8) by (simp add: init_uclamp_frame s3_def)
    then show ?thesis using st by (auto simp: static_data_def init_hvf_rq_def)
  qed
  moreover have "sched_class (tasks ?s' t) \<noteq> Hvf \<and> \<not> hvf_on_rq (hvf (tasks ?s' t))" for t
    using st I(1,2) h3 by (simp add: init_uclamp_frame static_data_def)
  ultimately have "hvf_boot T0 ?s'" unfolding hvf_boot_def by blast
  moreover have "tg_reach G ?s'"
  proof (rule tg_reach.Boot)
    show "tg_list ?s' = [root_task_group]" using I(6) F R(8) st by (simp add: init_uclamp_frame s3_def static_data_def)
    show "shape ?s' root_task_group = ([], None)"
      using I(5) F R(9) st by (simp add: init_uclamp_frame s3_def static_data_def shape_def)
  qed
  moreover have "balance_callback (rqs ?s' c) = (if c = this_cpu s then [] else if c \<in> ?P then [Cb_push] else balance_callback (rqs s c))" for c
    using F [of c] R(2) I(11) same by (simp add: init_uclamp_frame s3_def)
  ultimately show ?thesis
    unfolding e using I(2,9,10) same by (simp add: init_uclamp_frame)
qed

definition henv0 :: "unit henv" where
  "henv0 = \<lparr>hsenv = senv0, hgenv = genv0 True, init_task = 1, init_mm = 0, boot_call = (\<lambda>_ x. x), rq_call = (\<lambda>_ _ x. x),
     cpu_call = (\<lambda>_ _ x. x), rq_attach_root = (\<lambda>_ s. s), fair_server_init = (\<lambda>_ s. s), init_cfs_bandwidth = (\<lambda>b. b),
     sched_clock_now = (\<lambda>_. 0), kthread_set_per_cpu = (\<lambda>_ _ x. x), init_idle_accounts = (\<lambda>_ _ x. x),
     housekeeping_domain = {0, 1}, has_rd = (\<lambda>_ _. True), rd_online = (\<lambda>_ _ x. x), dl_bw_deactivate = (\<lambda>_ _. 0),
     dl_cpumask_can_shrink = (\<lambda>_ _ _. 1), cpuhp_tasks_frozen = (\<lambda>_. True), cpuset_reset_sched_domains = (\<lambda>s. s),
     cpuset_force_rebuild = (\<lambda>x. x), cpuset_update_active_cpus = (\<lambda>s. s), hotplug_wait_event = (\<lambda>_ s. Inr s),
     stop_one_cpu_ret = (\<lambda>_ _ s. Inr (0, s)), all_threads = (\<lambda>_. [1]), clear_schedstats = (\<lambda>_ x. x)\<rparr>"

theorem sched_init_establishes_witness:
  "\<exists>s'. sched_init henv0 (boot0\<lparr>tg_list := []\<rparr>) = Inr s' \<and> hvf_boot 1700000000000 s' \<and> tg_reach (genv0 True) s' \<and>
     balance_callback (rqs s' 1) = [Cb_push]"
proof -
  have "boot_lib_ok henv0" by (simp add: boot_lib_ok_def boot_frame_def henv0_def)
  moreover have "static_data henv0 (boot0\<lparr>tg_list := []\<rparr>)"
    by (simp add: static_data_def henv0_def genv0_def sample_defs init_hvf_rq_def for_each_cpu_def tg0_def)
  moreover have "clock_ok 1700000000000 (boot0\<lparr>tg_list := []\<rparr>)"
    using boot0_hvf_boot by (simp add: hvf_boot_def clock_ok_def)
  ultimately obtain s' where "sched_init henv0 (boot0\<lparr>tg_list := []\<rparr>) = Inr s'" "hvf_boot 1700000000000 s'" "tg_reach (genv0 True) s'"
    "\<forall>c \<in> set (for_each_cpu (cpu_possible_mask (hgenv henv0)) (boot0\<lparr>tg_list := []\<rparr>)). c \<noteq> this_cpu (boot0\<lparr>tg_list := []\<rparr>) \<longrightarrow>
       balance_callback (rqs s' c) = [Cb_push]"
    using sched_init_establishes by blast
  moreover have "1 \<in> set (for_each_cpu (cpu_possible_mask (hgenv henv0)) (boot0\<lparr>tg_list := []\<rparr>))" "1 \<noteq> this_cpu (boot0\<lparr>tg_list := []\<rparr>)"
    by (simp_all add: henv0_def genv0_def for_each_cpu_def boot0_def)
  ultimately show ?thesis by blast
qed

section \<open>Down and up\<close>

text \<open>The part of the state that decides where tasks may run, without and with the online flags of the run queues.\<close>

definition same_masks :: "'x kstate \<Rightarrow> 'x kstate \<Rightarrow> bool" where
  "same_masks s s' \<longleftrightarrow>
     cpu_active_mask s' = cpu_active_mask s \<and> sched_smt_present s' = sched_smt_present s \<and>
     num_cpus_frozen s' = num_cpus_frozen s \<and> sched_smp_initialized s' = sched_smp_initialized s \<and>
     (\<forall>d. balance_callback (rqs s' d) = balance_callback (rqs s d))"

definition same_cpus :: "'x kstate \<Rightarrow> 'x kstate \<Rightarrow> bool" where
  "same_cpus s s' \<longleftrightarrow> same_masks s s' \<and> (\<forall>d. rq_online (rqs s' d) = rq_online (rqs s d))"

text \<open>
  What hotplug relies on. Rebuilding the domains may put a run queue online or offline, but never one of an
  inactive cpu online; the methods of the classes leave masks and flags alone; every run queue
  has a root domain that spans its cpu; whether tasks are frozen does not change on the way.
\<close>

definition hotplug_lib_ok :: "'x henv \<Rightarrow> bool" where
  "hotplug_lib_ok B \<longleftrightarrow>
     (\<forall>f s. f \<in> {cpuset_reset_sched_domains B, cpuset_update_active_cpus B} \<longrightarrow> same_masks s (f s) \<and>
        (\<forall>d. d \<notin> cpu_active_mask s \<longrightarrow> \<not> rq_online (rqs s d) \<longrightarrow> \<not> rq_online (rqs (f s) d))) \<and>
     (\<forall>k f c s. op_rq_online (class_ops (hkern B) k) = Some f \<or> op_rq_offline (class_ops (hkern B) k) = Some f \<longrightarrow>
        (\<exists>s'. f c s = Inr s' \<and> same_cpus s s')) \<and>
     (\<forall>c x. c \<in> Core_Group.cpu_possible_mask (hgenv B) \<longrightarrow> has_rd B c x \<and> c \<in> rd_span (hsenv B) c x) \<and>
     (\<forall>x y. cpuhp_tasks_frozen B x = cpuhp_tasks_frozen B y)"

lemma same_cpus_trans: "same_cpus s t \<Longrightarrow> same_cpus t u \<Longrightarrow> same_cpus s u"
  by (simp add: same_cpus_def same_masks_def)

lemma class_loops:
  assumes "hotplug_lib_ok B"
  shows "\<exists>s'. rq_online_classes (hkern B) c ks s = Inr s' \<and> same_cpus s s'"
    and "\<exists>s'. rq_offline_classes (hkern B) c ks s = Inr s' \<and> same_cpus s s'"
proof -
  have m: "\<exists>s'. f c s = Inr s' \<and> same_cpus s s'"
    if "op_rq_online (class_ops (hkern B) k) = Some f \<or> op_rq_offline (class_ops (hkern B) k) = Some f" for k f s
    using assms that unfolding hotplug_lib_ok_def by blast
  have r: "same_cpus u u" for u :: "'a kstate" by (simp add: same_cpus_def same_masks_def)
  have on: "\<exists>t. (case op_rq_online (class_ops (hkern B) k) of None \<Rightarrow> Inr s | Some f \<Rightarrow> f c s) = Inr t \<and> same_cpus s t" for k s
    using m r by (cases "op_rq_online (class_ops (hkern B) k)") auto
  have off: "\<exists>t. (case op_rq_offline (class_ops (hkern B) k) of None \<Rightarrow> Inr s | Some f \<Rightarrow> f c s) = Inr t \<and> same_cpus s t" for k s
    using m r by (cases "op_rq_offline (class_ops (hkern B) k)") auto
  show "\<exists>s'. rq_online_classes (hkern B) c ks s = Inr s' \<and> same_cpus s s'"
  proof (induction ks arbitrary: s)
    case (Cons k ks)
    obtain t where "(case op_rq_online (class_ops (hkern B) k) of None \<Rightarrow> Inr s | Some f \<Rightarrow> f c s) = Inr t" "same_cpus s t"
      using on by blast
    then show ?case using Cons [of t] same_cpus_trans by fastforce
  qed (use r in simp)
  show "\<exists>s'. rq_offline_classes (hkern B) c ks s = Inr s' \<and> same_cpus s s'"
  proof (induction ks arbitrary: s)
    case (Cons k ks)
    obtain t where "(case op_rq_offline (class_ops (hkern B) k) of None \<Rightarrow> Inr s | Some f \<Rightarrow> f c s) = Inr t" "same_cpus s t"
      using off by blast
    then show ?case using Cons [of t] same_cpus_trans by fastforce
  qed (use r in simp)
qed

lemma clock_same_cpus: "same_cpus s (update_rq_clock E c s)"
  by (simp add: same_cpus_def same_masks_def update_rq_clock_def update_rq_clock_task_def Let_def)

lemma core_deactivate_same: "same_cpus s (sched_core_cpu_deactivate E c s)"
proof -
  have f: "same_cpus u (fold (\<lambda>t. upd_rq t (\<lambda>v. v\<lparr>rq_core := l\<rparr>)) cs u)" for u :: "'a kstate" and cs l
  proof (induction cs arbitrary: u)
    case (Cons t cs)
    have "same_cpus u (upd_rq t (\<lambda>v. v\<lparr>rq_core := l\<rparr>) u)" by (simp add: same_cpus_def same_masks_def)
    from same_cpus_trans [OF this Cons] show ?case by (simp add: fun_upd_def)
  qed (simp add: same_cpus_def same_masks_def)
  show ?thesis
  proof (cases "find (\<lambda>t. t \<noteq> c) (for_each_cpu (cpu_smt_mask E c) s)")
    case (Some l)
    let ?r = "rqs s c"
    let ?u = "upd_rq l (\<lambda>v. v\<lparr>core_task_seq := core_task_seq ?r, core_pick_seq := core_pick_seq ?r,
       rq_core_cookie := rq_core_cookie ?r, core_forceidle_count := core_forceidle_count ?r,
       core_forceidle_seq := core_forceidle_seq ?r,
       core_forceidle_occupation := core_forceidle_occupation ?r, core_forceidle_start := 0\<rparr>) s"
    have "same_cpus s ?u" by (simp add: same_cpus_def same_masks_def)
    from same_cpus_trans [OF this f] Some show ?thesis
      by (simp add: sched_core_cpu_deactivate_def Let_def) (simp add: same_cpus_def same_masks_def)
  qed (simp add: sched_core_cpu_deactivate_def same_cpus_def same_masks_def Let_def)
qed

text \<open>The frozen counter moves only while tasks are frozen and the domains exist.\<close>

definition counts_frozen :: "'x henv \<Rightarrow> 'x kstate \<Rightarrow> bool" where
  "counts_frozen B s \<longleftrightarrow> sched_smp_initialized s \<and> cpuhp_tasks_frozen B (ext s)"

lemma cpuset_frame:
  assumes "hotplug_lib_ok B"
  shows "same_masks s (cpuset_reset_sched_domains B s)" "same_masks s (cpuset_update_active_cpus B s)"
    "d \<notin> cpu_active_mask s \<Longrightarrow> \<not> rq_online (rqs s d) \<Longrightarrow> \<not> rq_online (rqs (cpuset_reset_sched_domains B s) d)"
    "d \<notin> cpu_active_mask s \<Longrightarrow> \<not> rq_online (rqs s d) \<Longrightarrow> \<not> rq_online (rqs (cpuset_update_active_cpus B s) d)"
  using assms unfolding hotplug_lib_ok_def by blast+

lemma rd_frame: "hotplug_lib_ok B \<Longrightarrow> c \<in> Core_Group.cpu_possible_mask (hgenv B) \<Longrightarrow> has_rd B c x \<and> c \<in> rd_span (hsenv B) c x"
  "hotplug_lib_ok B \<Longrightarrow> cpuhp_tasks_frozen B x = cpuhp_tasks_frozen B y"
  unfolding hotplug_lib_ok_def by blast+

lemma set_offline:
  assumes B: "hotplug_lib_ok B" and c: "c \<in> Core_Group.cpu_possible_mask (hgenv B)"
  shows "\<exists>s'. sched_set_rq_offline B c s = Inr s' \<and> same_masks s s' \<and> \<not> rq_online (rqs s' c)"
proof (cases "rq_online (rqs s c)")
  case True
  obtain t where t: "rq_offline_classes (hkern B) c sched_classes (update_rq_clock (hkern B) c s) = Inr t"
    "same_cpus (update_rq_clock (hkern B) c s) t"
    using class_loops(2) [OF B] by blast
  then have "same_masks s t" using same_cpus_trans [OF clock_same_cpus] by (auto simp: same_cpus_def)
  then show ?thesis
    using True t(1) rd_frame(1) [OF B c] by (simp add: sched_set_rq_offline_def set_rq_offline_def same_masks_def)
next
  case False
  then show ?thesis
    using rd_frame(1) [OF B c] by (simp add: sched_set_rq_offline_def set_rq_offline_def same_masks_def)
qed

lemma set_online:
  assumes B: "hotplug_lib_ok B" and c: "c \<in> Core_Group.cpu_possible_mask (hgenv B)"
  shows "\<exists>s'. sched_set_rq_online B c s = Inr s' \<and> same_masks s s' \<and> rq_online (rqs s' c)"
proof (cases "rq_online (rqs s c)")
  case False
  let ?u = "upd_rq c (\<lambda>r. r\<lparr>rq_online := True\<rparr>) (upd_ext (rd_online B c True) s)"
  obtain t where t: "rq_online_classes (hkern B) c sched_classes ?u = Inr t" "same_cpus ?u t"
    using class_loops(1) [OF B] by blast
  then show ?thesis
    using False rd_frame(1) [OF B c]
    by (simp add: sched_set_rq_online_def set_rq_online_def same_cpus_def same_masks_def)
next
  case True
  then show ?thesis
    using rd_frame(1) [OF B c] by (simp add: sched_set_rq_online_def set_rq_online_def same_masks_def)
qed

lemma cpu_deactivate:
  assumes B: "hotplug_lib_ok B" and c: "c \<in> Core_Group.cpu_possible_mask (hgenv B)" and dl: "dl_bw_deactivate B c (ext s) = 0"
  shows "\<exists>s1. sched_cpu_deactivate B c s = Inr (0, s1) \<and> cpu_active_mask s1 = cpu_active_mask s - {c} \<and>
    \<not> rq_online (rqs s1 c) \<and> sched_smp_initialized s1 = sched_smp_initialized s \<and>
    (\<forall>d. balance_callback (rqs s1 d) = (if d = c then [Cb_push] else balance_callback (rqs s d))) \<and>
    sched_smt_present s1 = (if card (cpu_smt_mask (hkern B) c) = 2 then s32 (sched_smt_present s - 1) else sched_smt_present s) \<and>
    num_cpus_frozen s1 = (if counts_frozen B s then s32 (num_cpus_frozen s + 1) else num_cpus_frozen s)"
proof -
  let ?a = "balance_push_set c True (upd_ext (cpu_call B Nohz_exit_idle c) s\<lparr>cpu_active_mask := cpu_active_mask s - {c}\<rparr>)"
  obtain t where t: "sched_set_rq_offline B c ?a = Inr t" "same_masks ?a t" "\<not> rq_online (rqs t c)"
    using set_offline [OF B c] by blast
  define u where "u = sched_core_cpu_deactivate (hkern B) c (sched_smt_present_dec (hkern B) c t)"
  have u: "same_cpus (sched_smt_present_dec (hkern B) c t) u" by (simp add: u_def core_deactivate_same)
  let ?v = "upd_ext (cpu_call B (Update_numa False) c) u"
  have r: "sched_cpu_deactivate B c s = Inr (0, if \<not> sched_smp_initialized u then u
      else upd_ext (cpu_call B Numa_masks_clear c) (cpuset_cpu_inactive B c ?v))"
    using dl t(1) by (simp add: sched_cpu_deactivate_def u_def Let_def)
  have fz: "cpuhp_tasks_frozen B (ext ?v) = cpuhp_tasks_frozen B (ext s)" by (rule rd_frame(2) [OF B])
  note base = u [unfolded same_cpus_def same_masks_def sched_smt_present_dec_def] t(2,3) [unfolded same_masks_def balance_push_set_def]
  have off: "c \<notin> cpu_active_mask u" "\<not> rq_online (rqs u c)" using base by (auto split: if_splits)
  show ?thesis
  proof (cases "sched_smp_initialized u")
    case False
    then show ?thesis using r base by (auto simp: counts_frozen_def split: if_splits)
  next
    case True
    note f = cpuset_frame(1,2) [OF B, unfolded same_masks_def] cpuset_frame(3,4) [OF B]
    show ?thesis
      using True r base off fz f
      by (auto simp: cpuset_cpu_inactive_def counts_frozen_def split: if_splits)
  qed
qed

lemma cpuset_active_frame:
  assumes B: "hotplug_lib_ok B"
  shows "cpu_active_mask (cpuset_cpu_active B s) = cpu_active_mask s"
    "sched_smt_present (cpuset_cpu_active B s) = sched_smt_present s"
    "balance_callback (rqs (cpuset_cpu_active B s) d) = balance_callback (rqs s d)"
    "num_cpus_frozen (cpuset_cpu_active B s) =
       (if cpuhp_tasks_frozen B (ext s) then s32 (num_cpus_frozen s - 1) else num_cpus_frozen s)"
  using cpuset_frame(1,2) [OF B] by (simp_all add: cpuset_cpu_active_def same_masks_def Let_def)

lemma cpu_activate:
  assumes B: "hotplug_lib_ok B" and c: "c \<in> Core_Group.cpu_possible_mask (hgenv B)"
  shows "\<exists>s1. sched_cpu_activate B c s = Inr (0, s1) \<and> cpu_active_mask s1 = insert c (cpu_active_mask s) \<and>
    rq_online (rqs s1 c) \<and>
    (\<forall>d. balance_callback (rqs s1 d) = balance_callback (rqs (balance_push_set c False s) d)) \<and>
    sched_smt_present s1 = (if card (cpu_smt_mask (hkern B) c) = 2 then s32 (sched_smt_present s + 1) else sched_smt_present s) \<and>
    num_cpus_frozen s1 = (if counts_frozen B s then s32 (num_cpus_frozen s - 1) else num_cpus_frozen s)"
proof -
  define a where "a = (sched_smt_present_inc (hkern B) c (balance_push_set c False s))"
  define b where "b = a\<lparr>cpu_active_mask := insert c (cpu_active_mask a)\<rparr>"
  let ?n = "upd_ext (cpu_call B Numa_masks_set c) (upd_ext (cpu_call B (Update_numa True) c) b)"
  define e where "e = (if sched_smp_initialized b then cpuset_cpu_active B ?n else b)"
  obtain t where t: "sched_set_rq_online B c e = Inr t" "same_masks e t" "rq_online (rqs t c)"
    using set_online [OF B c] by blast
  have p: "cpu_active_mask (balance_push_set c False s) = cpu_active_mask s" "num_cpus_frozen (balance_push_set c False s) = num_cpus_frozen s"
    "sched_smt_present (balance_push_set c False s) = sched_smt_present s" "sched_smp_initialized (balance_push_set c False s) = sched_smp_initialized s"
    by (simp_all add: balance_push_set_def split: list.split balance_cb.split)
  have fz: "cpuhp_tasks_frozen B (ext ?n) = cpuhp_tasks_frozen B (ext s)" by (rule rd_frame(2) [OF B])
  have "sched_cpu_activate B c s = Inr (0, t)"
    using t(1) by (cases "sched_smp_initialized a") (simp_all add: sched_cpu_activate_def a_def b_def e_def Let_def)
  moreover have "sched_smp_initialized b = sched_smp_initialized s" by (simp add: b_def a_def sched_smt_present_inc_def p)
  ultimately show ?thesis
    using t(2,3) fz p cpuset_active_frame [OF B, of ?n]
    by (auto simp: same_masks_def e_def counts_frozen_def b_def a_def sched_smt_present_inc_def)
qed

lemma s32_cancel: "- (2 ^ 31) \<le> n \<Longrightarrow> n < 2 ^ 31 \<Longrightarrow> s32 (s32 (n - 1) + 1) = n \<and> s32 (s32 (n + 1) - 1) = n"
  by (auto simp: s32_def mod_simps algebra_simps)

text \<open>
  C22. A cpu that is taken down refuses tasks: it is inactive, its run queue is offline, and its only callback is the
  push. When it comes up again everything is as before: the active mask, the callbacks of all cpus, the number of cores with
  several threads and the number of frozen cpus, also when a suspend takes the cpu down and up.
\<close>

theorem cpu_down_up:
  assumes "hotplug_lib_ok B" "c \<in> Core_Group.cpu_possible_mask (hgenv B)" "dl_bw_deactivate B c (ext s) = 0"
    and "c \<in> cpu_active_mask s" "balance_callback (rqs s c) = []"
    and "- (2 ^ 31) \<le> sched_smt_present s" "sched_smt_present s < 2 ^ 31" "- (2 ^ 31) \<le> num_cpus_frozen s" "num_cpus_frozen s < 2 ^ 31"
  shows "\<exists>s1 s2. sched_cpu_deactivate B c s = Inr (0, s1) \<and> c \<notin> cpu_active_mask s1 \<and> \<not> rq_online (rqs s1 c) \<and>
    balance_callback (rqs s1 c) = [Cb_push] \<and>
    sched_cpu_activate B c s1 = Inr (0, s2) \<and> cpu_active_mask s2 = cpu_active_mask s \<and> rq_online (rqs s2 c) \<and>
    (\<forall>d. balance_callback (rqs s2 d) = balance_callback (rqs s d)) \<and>
    sched_smt_present s2 = sched_smt_present s \<and> num_cpus_frozen s2 = num_cpus_frozen s"
proof -
  obtain s1 where d: "sched_cpu_deactivate B c s = Inr (0, s1)" "cpu_active_mask s1 = cpu_active_mask s - {c}"
    "\<not> rq_online (rqs s1 c)" "sched_smp_initialized s1 = sched_smp_initialized s"
    "\<And>d. balance_callback (rqs s1 d) = (if d = c then [Cb_push] else balance_callback (rqs s d))"
    "sched_smt_present s1 = (if card (cpu_smt_mask (hkern B) c) = 2 then s32 (sched_smt_present s - 1) else sched_smt_present s)"
    "num_cpus_frozen s1 = (if counts_frozen B s then s32 (num_cpus_frozen s + 1) else num_cpus_frozen s)"
    using cpu_deactivate [OF assms(1-3)] by blast
  obtain s2 where u: "sched_cpu_activate B c s1 = Inr (0, s2)" "cpu_active_mask s2 = insert c (cpu_active_mask s1)"
    "rq_online (rqs s2 c)" "\<And>d. balance_callback (rqs s2 d) = balance_callback (rqs (balance_push_set c False s1) d)"
    "sched_smt_present s2 = (if card (cpu_smt_mask (hkern B) c) = 2 then s32 (sched_smt_present s1 + 1) else sched_smt_present s1)"
    "num_cpus_frozen s2 = (if counts_frozen B s1 then s32 (num_cpus_frozen s1 - 1) else num_cpus_frozen s1)"
    using cpu_activate [OF assms(1,2), of s1] by blast
  have "counts_frozen B s1 = counts_frozen B s" using d(4) rd_frame(2) [OF assms(1), of "ext s1" "ext s"] by (simp add: counts_frozen_def)
  then have "sched_smt_present s2 = sched_smt_present s" "num_cpus_frozen s2 = num_cpus_frozen s"
    using u(5,6) d(6,7) s32_cancel assms(6-9) by auto
  moreover have "balance_callback (rqs s2 d') = balance_callback (rqs s d')" for d'
    using u(4) d(5) assms(5) by (simp add: balance_push_set_def)
  moreover have "cpu_active_mask s2 = cpu_active_mask s" using u(2) d(2) assms(4) by auto
  ultimately show ?thesis using d(1-3,5) u(1,3) by auto
qed

lemma henv0_hotplug_lib_ok: "hotplug_lib_ok henv0"
proof -
  have "op_rq_online (class_ops env0 k) = None" "op_rq_offline (class_ops env0 k) = None" for k
    by (cases k; simp add: env0_def plain_ops_def idle_ops_def hvf_sched_class_def)+
  then show ?thesis by (auto simp: hotplug_lib_ok_def henv0_def senv0_def genv0_def same_masks_def)
qed

theorem cpu_down_up_witness:
  "\<exists>s1 s2. sched_cpu_deactivate henv0 1 boot0 = Inr (0, s1) \<and> 1 \<notin> cpu_active_mask s1 \<and>
     sched_cpu_activate henv0 1 s1 = Inr (0, s2) \<and> cpu_active_mask s2 = {0, 1} \<and> num_cpus_frozen s2 = 0"
proof -
  have b: "1 \<in> Core_Group.cpu_possible_mask (hgenv henv0)" "dl_bw_deactivate henv0 1 (ext boot0) = 0" "1 \<in> cpu_active_mask boot0" "balance_callback (rqs boot0 1) = []"
    "sched_smt_present boot0 = 0" "num_cpus_frozen boot0 = 0" "cpu_active_mask boot0 = {0, 1}"
    by (simp_all add: henv0_def genv0_def boot0_def rq0_def)
  show ?thesis
    using cpu_down_up [OF henv0_hotplug_lib_ok b(1-4)] unfolding b(5-7) by auto
qed

section \<open>Pushing an HVF task away\<close>

text \<open>
  A cpu that goes down pushes its tasks to other cpus, and a task that may run on no other active cpu gets a
  wider mask. For an HVF task bound to this cpu the push never returns: the class has no \<open>set_cpus_allowed\<close>, which
  the fallback calls without a test.
\<close>

theorem hvf_push_never_returns:
  assumes "sched_class (tasks s p) = Hvf" "task_cpu (tasks s p) = this_cpu s" "task_on_rq_queued p s"
    and "pflags (tasks s p) AND PF_KTHREAD = 0" "\<not> is_migration_disabled (tasks s p)"
    and "cpus_ptr (tasks s p) \<inter> cpu_active_mask s = {}"
    and "\<And>u. cpuset_cpus_allowed_fallback E p u = (False, u)"
  shows "run_stop_work E (Balance_push_stop p) s \<noteq> Inr s'"
proof
  let ?u = "update_rq_clock E (this_cpu s) s"
  assume r: "run_stop_work E (Balance_push_stop p) s = Inr s'"
  have "cpus_ptr (tasks ?u p) = cpus_ptr (tasks s p)" "cpu_active_mask ?u = cpu_active_mask s"
    using clock_same_cpus [of s E "this_cpu s"] by (simp_all add: same_cpus_def same_masks_def)
  then have no: "first_allowed E p m ?u = None" for m
    using assms(4-6) by (auto simp: first_allowed_def find_None_iff is_cpu_allowed_def task_allowed_on_cpu_def)
  have "select_fallback_rq E c p ?u \<noteq> Inr v" for c v
    using no assms(1,7) hvf_affinity_faults [of ?u p E]
    by (cases v) (auto simp: select_fallback_rq_def fallback_loop.simps [of _ _ Fb_cpuset] do_set_cpus_allowed_def split: option.splits)
  moreover have "task_cpu (tasks ?u p) = this_cpu s" "task_on_rq_queued p ?u"
    using assms(2,3) by (simp_all add: task_on_rq_queued_def)
  ultimately show False
    using r by (auto simp: run_stop_work_def balance_push_cpu_stop_def Let_def)
qed

theorem hvf_push_never_returns_witness:
  "\<nexists>s'. run_stop_work env0 (Balance_push_stop 3) ((hvf_machine True)\<lparr>cpu_active_mask := {}\<rparr>) = Inr s'"
proof -
  let ?s = "(hvf_machine True)\<lparr>cpu_active_mask := {}\<rparr>"
  have "sched_class (tasks ?s 3) = Hvf" "task_cpu (tasks ?s 3) = this_cpu ?s" "task_on_rq_queued 3 ?s"
    "pflags (tasks ?s 3) AND PF_KTHREAD = 0" "\<not> is_migration_disabled (tasks ?s 3)" "cpus_ptr (tasks ?s 3) \<inter> cpu_active_mask ?s = {}"
    by (simp_all add: hvf_machine_sel hvf_task_def task0_def task_on_rq_queued_def is_migration_disabled_def)
  moreover have "cpuset_cpus_allowed_fallback env0 3 u = (False, u)" for u by (simp add: env0_def)
  ultimately show ?thesis
    using hvf_push_never_returns [of ?s 3 env0] by blast
qed

end
