(* ===== verification/Core_Nohz.thy ===== *)
theory Core_Nohz
  imports Sched_Policy
begin

text \<open>
  Idle and full dynamic ticks (\<^verbatim>\<open>kernel/sched/core.c\<close>): the cpu that gets a timer, waking a cpu that
  sleeps without a tick, the test whether a cpu may stop its tick, and the tick that another cpu runs for
  it once a second. Everything after \<open>wake_up_idle_cpu\<close> is compiled with \<open>CONFIG_NO_HZ_FULL\<close> only.
\<close>

section \<open>The environment\<close>

record 'x nenv =
  nkern :: "'x kenv"
  housekeeping_mask :: cpumask
  housekeeping_any_cpu :: "'x \<Rightarrow> cpu"
  tick_nohz_full_cpu :: "cpu \<Rightarrow> bool"
  tick_nohz_tick_stopped :: "cpu \<Rightarrow> 'x \<Rightarrow> bool"
  tick_nohz_full_kick_cpu :: "cpu \<Rightarrow> 'x \<Rightarrow> 'x"
  tick_nohz_dep_set_cpu :: "cpu \<Rightarrow> 'x \<Rightarrow> 'x"
  tick_nohz_dep_clear_cpu :: "cpu \<Rightarrow> 'x \<Rightarrow> 'x"
  calc_load_nohz_remote :: "cpu \<Rightarrow> 'x \<Rightarrow> 'x"
  set_rd_overloaded :: "cpu \<Rightarrow> 'x \<Rightarrow> 'x"
  dl_nr_running :: "cpu \<Rightarrow> 'x \<Rightarrow> int"
  rr_nr_running :: "cpu \<Rightarrow> 'x \<Rightarrow> int"
  rt_nr_running :: "cpu \<Rightarrow> 'x \<Rightarrow> int"
  cfs_task_bw_constrained :: "tid \<Rightarrow> 'x \<Rightarrow> bool"

section \<open>Timers and idle cpus\<close>

text \<open>The two nested loops of the search, over the domains of the cpu and the cpus of a domain.\<close>

fun busy_in_domains :: "'x kstate \<Rightarrow> cpu \<Rightarrow> cpumask \<Rightarrow> cpumask list \<Rightarrow> cpu option" where
  "busy_in_domains s c hk [] = None"
| "busy_in_domains s c hk (span # ds) =
     (case find (\<lambda>i. i \<noteq> c \<and> \<not> idle_cpu i s) (for_each_cpu (span \<inter> hk) s) of
        Some i \<Rightarrow> Some i
      | None \<Rightarrow> busy_in_domains s c hk ds)"

definition get_nohz_timer_target :: "'x nenv \<Rightarrow> 'x kstate \<Rightarrow> cpu" where
  "get_nohz_timer_target N s =
     (let c = this_cpu s; hk = housekeeping_mask N
      in if c \<in> hk \<and> \<not> idle_cpu c s then c
         else case busy_in_domains s c hk (domain_spans (nkern N) c (ext s)) of
                Some i \<Rightarrow> i
              | None \<Rightarrow> if c \<in> hk then c else housekeeping_any_cpu N (ext s))"

definition wake_up_idle_cpu :: "cpu \<Rightarrow> 'x kstate \<Rightarrow> 'x kstate" where
  "wake_up_idle_cpu c s =
     (if c = this_cpu s then s
      else
        let (not_polling, s) = set_nr_and_not_polling (rq_idle (rqs s c)) TIF_NEED_RESCHED s
        in if not_polling then s\<lparr>resched_ipis := c # resched_ipis s\<rparr> else s)"

section \<open>Full dynamic ticks\<close>

definition wake_up_full_nohz_cpu :: "'x nenv \<Rightarrow> cpu \<Rightarrow> 'x kstate \<Rightarrow> bool \<times> 'x kstate" where
  "wake_up_full_nohz_cpu N c s =
     (if c \<notin> cpu_online_mask s then (True, s)
      else if tick_nohz_full_cpu N c then
        (True, if c \<noteq> this_cpu s \<or> tick_nohz_tick_stopped N (this_cpu s) (ext s)
               then upd_ext (tick_nohz_full_kick_cpu N c) s else s)
      else (False, s))"

definition wake_up_nohz_cpu :: "'x nenv \<Rightarrow> cpu \<Rightarrow> 'x kstate \<Rightarrow> 'x kstate" where
  "wake_up_nohz_cpu N c s =
     (let (done_full, s) = wake_up_full_nohz_cpu N c s
      in if \<not> done_full then wake_up_idle_cpu c s else s)"

definition need_bw_check :: "cpu \<Rightarrow> tid \<Rightarrow> 'x kstate \<Rightarrow> bool" where
  "need_bw_check c p s =
     (if nr_running (rqs s c) \<noteq> 1 then False
      else if sched_class (tasks s p) \<noteq> Fair then False
      else if \<not> task_on_rq_queued p s then False
      else True)"

definition sched_can_stop_tick :: "'x nenv \<Rightarrow> cpu \<Rightarrow> 'x kstate \<Rightarrow> bool" where
  "sched_can_stop_tick N c s =
     (let rr = rr_nr_running N c (ext s); fifo_nr_running = s32 (rt_nr_running N c (ext s) - rr)
      in if dl_nr_running N c (ext s) \<noteq> 0 then False
         else if rr \<noteq> 0 then rr = 1
         else if fifo_nr_running \<noteq> 0 then True
         else if cfs_h_nr_queued (rqs s c) > 1 then False
         else if need_bw_check c (rq_curr (rqs s c)) s \<and> cfs_task_bw_constrained N (rq_curr (rqs s c)) (ext s) then False
         else True)"

definition sched_update_tick_dependency :: "'x nenv \<Rightarrow> cpu \<Rightarrow> 'x kstate \<Rightarrow> 'x kstate" where
  "sched_update_tick_dependency N c s =
     (if \<not> tick_nohz_full_cpu N c then s
      else if sched_can_stop_tick N c s then upd_ext (tick_nohz_dep_clear_cpu N c) s
      else upd_ext (tick_nohz_dep_set_cpu N c) s)"

text \<open>What the other classes call when a task is queued or leaves.\<close>

definition add_nr_running :: "'x nenv \<Rightarrow> cpu \<Rightarrow> int \<Rightarrow> 'x kstate \<Rightarrow> 'x kstate" where
  "add_nr_running N c n s =
     (let prev_nr = nr_running (rqs s c);
          s = upd_rq c (\<lambda>r. r\<lparr>nr_running := u32 (prev_nr + n)\<rparr>) s;
          s = (if prev_nr < 2 \<and> nr_running (rqs s c) \<ge> 2 then upd_ext (set_rd_overloaded N c) s else s)
      in sched_update_tick_dependency N c s)"

definition sub_nr_running :: "'x nenv \<Rightarrow> cpu \<Rightarrow> int \<Rightarrow> 'x kstate \<Rightarrow> 'x kstate" where
  "sub_nr_running N c n s =
     sched_update_tick_dependency N c (upd_rq c (\<lambda>r. r\<lparr>nr_running := u32 (nr_running r - n)\<rparr>) s)"

section \<open>The remote tick\<close>

text \<open>
  The work item of a cpu. The work queue is outside this repository: an item that is pending is started once and
  is no longer pending while it runs, and queueing a pending item does nothing. The last two fields record a warning
  and an initialisation of an item that is still in use.
\<close>

record tick_work =
  tw_cpu :: cpu
  tw_state :: int
  tw_pending :: bool
  tw_running :: bool
  tw_warned :: bool
  tw_clobbered :: bool

abbreviation (input) TICK_SCHED_REMOTE_OFFLINE :: int where "TICK_SCHED_REMOTE_OFFLINE \<equiv> 0"
abbreviation (input) TICK_SCHED_REMOTE_OFFLINING :: int where "TICK_SCHED_REMOTE_OFFLINING \<equiv> 1"
abbreviation (input) TICK_SCHED_REMOTE_RUNNING :: int where "TICK_SCHED_REMOTE_RUNNING \<equiv> 2"

definition queue_delayed_work :: "tick_work \<Rightarrow> tick_work" where
  "queue_delayed_work w = w\<lparr>tw_pending := True\<rparr>"

definition remote_tick :: "'x nenv \<Rightarrow> cpu \<Rightarrow> 'x kstate \<Rightarrow> 'x kstate res" where
  "remote_tick N c s =
     (if tick_nohz_tick_stopped N c (ext s) \<and> c \<in> cpu_online_mask s then
        let cur = rq_curr (rqs s c); s = update_rq_clock (nkern N) c s
        in bindr (call (op_task_tick (ops_of (nkern N) cur s)) (\<lambda>f. f c cur False s))
             (\<lambda>s. Inr (upd_ext (calc_load_nohz_remote N c) s))
      else Inr s)"

definition remote_requeue :: "tick_work \<Rightarrow> tick_work" where
  "remote_requeue w =
     (let os = tw_state w;
          w = (if os = TICK_SCHED_REMOTE_RUNNING then w else w\<lparr>tw_state := os - 1\<rparr>);
          w = w\<lparr>tw_warned := tw_warned w \<or> os = TICK_SCHED_REMOTE_OFFLINE\<rparr>
      in if os = TICK_SCHED_REMOTE_RUNNING then queue_delayed_work w else w)"

definition sched_tick_remote :: "'x nenv \<Rightarrow> tick_work \<Rightarrow> 'x kstate \<Rightarrow> (tick_work \<times> 'x kstate) res" where
  "sched_tick_remote N w s = bindr (remote_tick N (tw_cpu w) s) (\<lambda>s. Inr (remote_requeue w, s))"

definition sched_tick_start :: "'x nenv \<Rightarrow> cpu \<Rightarrow> tick_work \<Rightarrow> tick_work" where
  "sched_tick_start N c w =
     (if c \<in> housekeeping_mask N then w
      else
        let os = tw_state w;
            w = w\<lparr>tw_state := TICK_SCHED_REMOTE_RUNNING, tw_warned := tw_warned w \<or> os = TICK_SCHED_REMOTE_RUNNING\<rparr>
        in if os = TICK_SCHED_REMOTE_OFFLINE then
             queue_delayed_work (w\<lparr>tw_cpu := c, tw_pending := False,
               tw_clobbered := tw_clobbered w \<or> tw_pending w \<or> tw_running w\<rparr>)
           else w)"

definition sched_tick_stop :: "'x nenv \<Rightarrow> cpu \<Rightarrow> tick_work \<Rightarrow> tick_work" where
  "sched_tick_stop N c w =
     (if c \<in> housekeeping_mask N then w
      else
        w\<lparr>tw_state := TICK_SCHED_REMOTE_OFFLINING,
          tw_warned := tw_warned w \<or> tw_state w \<noteq> TICK_SCHED_REMOTE_RUNNING\<rparr>)"

text \<open>
  The steps of one cpu: hotplug starts and stops the remote tick in turn, the queue starts a pending item,
  and an item ends with \<open>remote_requeue\<close>.
\<close>

inductive tick_step :: "'x nenv \<Rightarrow> cpu \<Rightarrow> bool \<times> tick_work \<Rightarrow> bool \<times> tick_work \<Rightarrow> bool"
  for N :: "'x nenv" and c :: cpu where
  up: "tick_step N c (False, w) (True, sched_tick_start N c w)"
| down: "tick_step N c (True, w) (False, sched_tick_stop N c w)"
| run: "tw_pending w \<Longrightarrow> \<not> tw_running w \<Longrightarrow> tick_step N c (b, w) (b, w\<lparr>tw_pending := False, tw_running := True\<rparr>)"
| finish: "tw_running w \<Longrightarrow> tick_step N c (b, w) (b, (remote_requeue w)\<lparr>tw_running := False\<rparr>)"

inductive_cases tick_stepE: "tick_step N c (b, w) (b', w')"

end
