(* ===== verification/Nohz_Theorems.thy ===== *)
theory Nohz_Theorems
  imports Core_Nohz Core_Theorems
begin

text \<open>
  The dynamic tick: the state machine of the remote tick, the choice of a cpu for a timer, and what the test for
  stopping the tick overlooks.
\<close>

declare set_inorder [simp del] length_inorder [simp del]

section \<open>The remote tick\<close>

definition tick_ok :: "'x nenv \<Rightarrow> cpu \<Rightarrow> bool \<times> tick_work \<Rightarrow> bool" where
  "tick_ok N c st \<longleftrightarrow> (case st of (b, w) \<Rightarrow>
     \<not> tw_warned w \<and> \<not> tw_clobbered w \<and> \<not> (tw_pending w \<and> tw_running w) \<and> tw_state w \<in> {0, 1, 2} \<and>
     (tw_state w = 0 \<longleftrightarrow> \<not> tw_pending w \<and> \<not> tw_running w) \<and> (c \<notin> housekeeping_mask N \<longrightarrow> b = (tw_state w = 2)) \<and>
     (c \<in> housekeeping_mask N \<longrightarrow> tw_state w = 0))"

lemma tick_ok_step: "tick_step N c st st' \<Longrightarrow> tick_ok N c st \<Longrightarrow> tick_ok N c st'"
  by (induction rule: tick_step.induct)
    (auto simp: tick_ok_def sched_tick_start_def sched_tick_stop_def remote_requeue_def queue_delayed_work_def Let_def)

text \<open>
  C19. In every order of hotplug and of the work queue, the work item of the remote tick is never initialised while
  it is in use and none of the warnings of the state diagram fires. While a cpu without housekeeping duties is
  up, the item is pending or running, and not both: its ticks go on, once each.
\<close>

theorem remote_tick_is_safe:
  assumes "(tick_step N c)\<^sup>*\<^sup>* (False, w0) (b, w)"
    and "tw_state w0 = 0" "\<not> tw_pending w0" "\<not> tw_running w0" "\<not> tw_warned w0" "\<not> tw_clobbered w0"
  shows "\<not> tw_warned w \<and> \<not> tw_clobbered w \<and> \<not> (tw_pending w \<and> tw_running w) \<and>
    (b \<and> c \<notin> housekeeping_mask N \<longrightarrow> tw_pending w \<or> tw_running w) \<and>
    (tw_state w = 0 \<longrightarrow> \<not> tw_pending w \<and> \<not> tw_running w)"
proof -
  have "tick_ok N c (b, w)"
    using assms(1)
  proof (induction rule: rtranclp_induct)
    case base
    then show ?case using assms(2-) by (auto simp: tick_ok_def)
  next
    case (step y z)
    then show ?case by (blast intro: tick_ok_step)
  qed
  then show ?thesis by (auto simp: tick_ok_def)
qed

definition nenv0 :: "unit nenv" where
  "nenv0 = \<lparr>nkern = env0, housekeeping_mask = {1}, housekeeping_any_cpu = (\<lambda>_. 1), tick_nohz_full_cpu = (\<lambda>c. c = 0),
     tick_nohz_tick_stopped = (\<lambda>c _. c = 0), tick_nohz_full_kick_cpu = (\<lambda>_ x. x), tick_nohz_dep_set_cpu = (\<lambda>_ x. x),
     tick_nohz_dep_clear_cpu = (\<lambda>_ x. x), calc_load_nohz_remote = (\<lambda>_ x. x), set_rd_overloaded = (\<lambda>_ x. x),
     dl_nr_running = (\<lambda>_ _. 0), rr_nr_running = (\<lambda>_ _. 0), rt_nr_running = (\<lambda>_ _. 0), cfs_task_bw_constrained = (\<lambda>_ _. False)\<rparr>"

text \<open>A cpu goes up, its item is started, the cpu goes down and up again before the item ends, and is queued again.\<close>

theorem remote_tick_is_safe_witness:
  "\<exists>w. (tick_step nenv0 0)\<^sup>*\<^sup>* (False, \<lparr>tw_cpu = 0, tw_state = 0, tw_pending = False, tw_running = False, tw_warned = False,
     tw_clobbered = False\<rparr>) (True, w) \<and> tw_pending w \<and> \<not> tw_running w \<and> tw_state w = 2 \<and> \<not> tw_warned w"
proof -
  let ?w = "\<lambda>s p r. \<lparr>tw_cpu = 0, tw_state = s, tw_pending = p, tw_running = r, tw_warned = False, tw_clobbered = False\<rparr>"
  let ?R = "tick_step nenv0 0"
  have "?R (False, ?w 0 False False) (True, ?w 2 True False)" "?R (False, ?w 1 False True) (True, ?w 2 False True)"
    using tick_step.up [of nenv0 0 "?w 0 False False"] tick_step.up [of nenv0 0 "?w 1 False True"]
    by (simp_all add: sched_tick_start_def queue_delayed_work_def nenv0_def)
  moreover have "?R (True, ?w 2 True False) (True, ?w 2 False True)" using tick_step.run [of "?w 2 True False" nenv0 0 True] by simp
  moreover have "?R (True, ?w 2 False True) (False, ?w 1 False True)"
    using tick_step.down [of nenv0 0 "?w 2 False True"] by (simp add: sched_tick_stop_def nenv0_def)
  moreover have "?R (True, ?w 2 False True) (True, ?w 2 True False)"
    using tick_step.finish [of "?w 2 False True" nenv0 0 True] by (simp add: remote_requeue_def queue_delayed_work_def Let_def)
  ultimately have r: "?R\<^sup>*\<^sup>* (False, ?w 0 False False) (True, ?w 2 True False)"
    by (meson rtranclp.rtrancl_into_rtrancl rtranclp.rtrancl_refl)
  from remote_tick_is_safe [OF r] r show ?thesis by auto
qed

section \<open>Timers\<close>

lemma busy_in_domains_some:
  "busy_in_domains s c hk ds = Some i \<Longrightarrow> i \<in> hk \<and> \<not> idle_cpu i s \<and> (\<exists>m\<in>set ds. i \<in> m)"
  by (induction ds) (fastforce simp: find_Some_iff for_each_cpu_def split: option.splits dest: nth_mem)+

lemma busy_in_domains_none:
  "busy_in_domains s c hk ds = None \<Longrightarrow> m \<in> set ds \<Longrightarrow> i \<in> m \<Longrightarrow> i \<in> hk \<Longrightarrow> i < nr_cpu_ids s \<Longrightarrow> i \<noteq> c \<Longrightarrow> idle_cpu i s"
  by (induction ds) (auto simp: find_None_iff for_each_cpu_def split: option.splits)

text \<open>
  The cpu chosen for a timer is a housekeeping cpu, and it is idle only when every housekeeping cpu in the domains of
  this cpu is idle.
\<close>

theorem timer_target_is_busy_housekeeper:
  assumes "housekeeping_any_cpu N (ext s) \<in> housekeeping_mask N"
    and "m \<in> set (domain_spans (nkern N) (this_cpu s) (ext s))" "i \<in> m" "i \<in> housekeeping_mask N" "i < nr_cpu_ids s"
  shows "get_nohz_timer_target N s \<in> housekeeping_mask N \<and> (idle_cpu (get_nohz_timer_target N s) s \<longrightarrow> idle_cpu i s)"
  using assms busy_in_domains_some [of s "this_cpu s" "housekeeping_mask N" "domain_spans (nkern N) (this_cpu s) (ext s)"]
    busy_in_domains_none [of s "this_cpu s" "housekeeping_mask N" "domain_spans (nkern N) (this_cpu s) (ext s)" m i]
  by (auto simp: get_nohz_timer_target_def Let_def split: option.splits)

section \<open>What keeps the tick\<close>

text \<open>
  C39. The test for stopping the tick does not know the HVF class. With a running HVF task, no task of a higher class
  and at most one fair task, the dependency that keeps the tick of a full dynamic-tick cpu is cleared however many HVF
  tasks wait in the queue. The end of a time slice is then left to the remote tick, and each of its turns, a second
  apart, adds the length of one tick to the run time of the task.
\<close>

theorem tick_stops_while_hvf_waits:
  assumes "sched_class (tasks s (rq_curr (rqs s c))) = Hvf" "cfs_h_nr_queued (rqs s c) \<le> 1"
    and "dl_nr_running N c (ext s) = 0" "rr_nr_running N c (ext s) = 0" "rt_nr_running N c (ext s) = 0"
    and "tick_nohz_full_cpu N c" "tick_nohz_tick_stopped N c (ext s)" "c \<in> cpu_online_mask s"
  defines "p \<equiv> rq_curr (rqs s c)"
  shows "sched_update_tick_dependency N c s = upd_ext (tick_nohz_dep_clear_cpu N c) s \<and>
    (\<exists>s'. remote_tick N c s = Inr s' \<and> runtime (hvf (tasks s' p)) = s64 (runtime (hvf (tasks s p)) + tick_nsec (nkern N)))"
proof
  show "sched_update_tick_dependency N c s = upd_ext (tick_nohz_dep_clear_cpu N c) s"
    using assms by (simp add: sched_update_tick_dependency_def sched_can_stop_tick_def need_bw_check_def s32_def Let_def)
  show "\<exists>s'. remote_tick N c s = Inr s' \<and> runtime (hvf (tasks s' p)) = s64 (runtime (hvf (tasks s p)) + tick_nsec (nkern N))"
    using assms(1,7,8) by (simp add: remote_tick_def hvf_sched_class_def task_tick_hvf_def resched_curr_def p_def Let_def)
qed

theorem tick_stops_while_hvf_waits_witness:
  "nr_hvf_queued (rq_hvf (rqs (hvf_machine True) 0)) = 1 \<and>
   sched_update_tick_dependency nenv0 0 (hvf_machine True) = upd_ext (tick_nohz_dep_clear_cpu nenv0 0) (hvf_machine True) \<and>
   (\<exists>s'. remote_tick nenv0 0 (hvf_machine True) = Inr s' \<and> runtime (hvf (tasks s' 2)) = s64 (runtime (hvf (hvf_task 2 False)) + tick_nsec env0))"
proof -
  let ?s = "hvf_machine True"
  have c: "rq_curr (rqs ?s 0) = 2" "cfs_h_nr_queued (rqs ?s 0) \<le> 1" "0 \<in> cpu_online_mask ?s"
    "nr_hvf_queued (rq_hvf (rqs ?s 0)) = 1" "tasks ?s 2 = hvf_task 2 False"
    by (simp_all add: hvf_machine_def boot0_def rq0_def)
  have n: "dl_nr_running nenv0 0 (ext ?s) = 0" "rr_nr_running nenv0 0 (ext ?s) = 0" "rt_nr_running nenv0 0 (ext ?s) = 0"
    "tick_nohz_full_cpu nenv0 0" "tick_nohz_tick_stopped nenv0 0 (ext ?s)" "nkern nenv0 = env0"
    by (simp_all add: nenv0_def)
  have "sched_class (tasks ?s (rq_curr (rqs ?s 0))) = Hvf" using c by (simp add: hvf_task_def)
  note tick_stops_while_hvf_waits [OF this c(2) n(1-5) c(3)]
  then show ?thesis using c n(6) by simp
qed

end
