(* ===== verification/Fork_Types.thy ===== *)
theory Fork_Types
  imports Core_Hotplug
begin

text \<open>
  The data of \<^verbatim>\<open>kernel/fork.c\<close>: the flags and arguments of the clone system calls
  (\<^verbatim>\<open>include/uapi/linux/sched.h\<close>), the part of a task that is not the scheduler's, and the environment. The
  scheduler's part of a fork is the one of the core scheduler; memory, files, credentials, signals, namespaces and
  pids beyond their counts are services of the environment.
\<close>

section \<open>Flags and arguments\<close>

type_synonym cflags = "64 word"
type_synonym user_ptr = "64 word"

abbreviation (input) CSIGNAL :: cflags where "CSIGNAL \<equiv> 0x000000ff"
abbreviation (input) CLONE_VM :: cflags where "CLONE_VM \<equiv> 0x00000100"
abbreviation (input) CLONE_FS :: cflags where "CLONE_FS \<equiv> 0x00000200"
abbreviation (input) CLONE_FILES :: cflags where "CLONE_FILES \<equiv> 0x00000400"
abbreviation (input) CLONE_SIGHAND :: cflags where "CLONE_SIGHAND \<equiv> 0x00000800"
abbreviation (input) CLONE_PIDFD :: cflags where "CLONE_PIDFD \<equiv> 0x00001000"
abbreviation (input) CLONE_PTRACE :: cflags where "CLONE_PTRACE \<equiv> 0x00002000"
abbreviation (input) CLONE_VFORK :: cflags where "CLONE_VFORK \<equiv> 0x00004000"
abbreviation (input) CLONE_PARENT :: cflags where "CLONE_PARENT \<equiv> 0x00008000"
abbreviation (input) CLONE_THREAD :: cflags where "CLONE_THREAD \<equiv> 0x00010000"
abbreviation (input) CLONE_NEWNS :: cflags where "CLONE_NEWNS \<equiv> 0x00020000"
abbreviation (input) CLONE_SYSVSEM :: cflags where "CLONE_SYSVSEM \<equiv> 0x00040000"
abbreviation (input) CLONE_PARENT_SETTID :: cflags where "CLONE_PARENT_SETTID \<equiv> 0x00100000"
abbreviation (input) CLONE_CHILD_CLEARTID :: cflags where "CLONE_CHILD_CLEARTID \<equiv> 0x00200000"
abbreviation (input) CLONE_DETACHED :: cflags where "CLONE_DETACHED \<equiv> 0x00400000"
abbreviation (input) CLONE_UNTRACED :: cflags where "CLONE_UNTRACED \<equiv> 0x00800000"
abbreviation (input) CLONE_CHILD_SETTID :: cflags where "CLONE_CHILD_SETTID \<equiv> 0x01000000"
abbreviation (input) CLONE_NEWCGROUP :: cflags where "CLONE_NEWCGROUP \<equiv> 0x02000000"
abbreviation (input) CLONE_NEWUTS :: cflags where "CLONE_NEWUTS \<equiv> 0x04000000"
abbreviation (input) CLONE_NEWIPC :: cflags where "CLONE_NEWIPC \<equiv> 0x08000000"
abbreviation (input) CLONE_NEWUSER :: cflags where "CLONE_NEWUSER \<equiv> 0x10000000"
abbreviation (input) CLONE_NEWPID :: cflags where "CLONE_NEWPID \<equiv> 0x20000000"
abbreviation (input) CLONE_NEWNET :: cflags where "CLONE_NEWNET \<equiv> 0x40000000"
abbreviation (input) CLONE_IO :: cflags where "CLONE_IO \<equiv> 0x80000000"
abbreviation (input) CLONE_CLEAR_SIGHAND :: cflags where "CLONE_CLEAR_SIGHAND \<equiv> 0x100000000"
abbreviation (input) CLONE_INTO_CGROUP :: cflags where "CLONE_INTO_CGROUP \<equiv> 0x200000000"
abbreviation (input) CLONE_NEWTIME :: cflags where "CLONE_NEWTIME \<equiv> 0x00000080"
abbreviation (input) CLONE_ARGS_SIZE_VER0 :: int where "CLONE_ARGS_SIZE_VER0 \<equiv> 64"
abbreviation (input) CLONE_ARGS_SIZE_VER2 :: int where "CLONE_ARGS_SIZE_VER2 \<equiv> 88"
abbreviation (input) PF_USER_WORKER :: "32 word" where "PF_USER_WORKER \<equiv> 0x00004000"
abbreviation (input) PF_IDLE :: "32 word" where "PF_IDLE \<equiv> 0x00000002"
abbreviation (input) PF_FORKNOEXEC :: "32 word" where "PF_FORKNOEXEC \<equiv> 0x00000040"
abbreviation (input) PF_SUPERPRIV :: "32 word" where "PF_SUPERPRIV \<equiv> 0x00000100"
abbreviation (input) PF_NPROC_EXCEEDED :: "32 word" where "PF_NPROC_EXCEEDED \<equiv> 0x00001000"
abbreviation (input) ERESTARTNOINTR :: int where "ERESTARTNOINTR \<equiv> 513"
abbreviation (input) EINTR :: int where "EINTR \<equiv> 4"
abbreviation (input) SIGCHLD :: int where "SIGCHLD \<equiv> 17"

text \<open>\<open>has f m\<close> is the test \<open>f & m\<close>.\<close>

abbreviation (input) has :: "cflags \<Rightarrow> cflags \<Rightarrow> bool" where "has f m \<equiv> f AND m \<noteq> 0"

record clone_args =
  ca_flags :: cflags
  ca_pidfd :: user_ptr
  ca_child_tid :: user_ptr
  ca_parent_tid :: user_ptr
  ca_exit_signal :: "64 word"
  ca_stack :: user_ptr
  ca_stack_size :: "64 word"
  ca_tls :: "64 word"
  ca_set_tid :: user_ptr
  ca_set_tid_size :: "64 word"
  ca_cgroup :: "64 word"

record kernel_clone_args =
  ka_flags :: cflags
  ka_pidfd :: user_ptr
  ka_child_tid :: user_ptr
  ka_parent_tid :: user_ptr
  ka_name :: "string option"
  ka_exit_signal :: int
  ka_kthread :: bool
  ka_io_thread :: bool
  ka_user_worker :: bool
  ka_no_files :: bool
  ka_idle :: bool
  ka_stack :: user_ptr
  ka_stack_size :: "64 word"
  ka_tls :: "64 word"
  ka_set_tid :: "int list"
  ka_cgroup :: int
  ka_fn :: "nat option"

definition kargs_zero :: kernel_clone_args where
  "kargs_zero = \<lparr>ka_flags = 0, ka_pidfd = 0, ka_child_tid = 0, ka_parent_tid = 0, ka_name = None, ka_exit_signal = 0,
     ka_kthread = False, ka_io_thread = False, ka_user_worker = False, ka_no_files = False, ka_idle = False, ka_stack = 0,
     ka_stack_size = 0, ka_tls = 0, ka_set_tid = [], ka_cgroup = 0, ka_fn = None\<rparr>"

section \<open>Processes\<close>

text \<open>
  The part of a task that is not the scheduler's. Files, directory, handlers and signals are objects with a
  count of users; user pointers are addresses, zero for none.
\<close>

record proc =
  pr_files :: "nat option"
  pr_fs :: "nat option"
  pr_sighand :: "nat option"
  pr_signal :: "nat option"
  pr_group_leader :: tid
  pr_tgid :: int
  pr_real_parent :: tid
  pr_exit_signal :: int
  pr_parent_exec_id :: int
  pr_self_exec_id :: int
  pr_children :: "tid list"
  pr_set_child_tid :: user_ptr
  pr_clear_child_tid :: user_ptr
  pr_vfork_done :: bool
  pr_thread_pid :: "nat option"
  pr_comm :: string

datatype pid_type = PIDTYPE_PID | PIDTYPE_TGID | PIDTYPE_PGID | PIDTYPE_SID

record signal_struct =
  sg_nr_threads :: int
  sg_quick_threads :: int
  sg_live :: int
  sg_sigcnt :: int
  sg_threads :: "tid list"
  sg_curr_target :: tid
  sg_multiprocess :: "tid list"
  sg_unkillable :: bool
  sg_has_child_subreaper :: bool
  sg_is_child_subreaper :: bool
  sg_oom_score_adj :: int
  sg_oom_score_adj_min :: int
  sg_pids :: "pid_type \<Rightarrow> nat option"

record ('x, 'y) pstate =
  pk :: "'x kstate"
  procs :: "tid \<Rightarrow> proc"
  signals :: "nat \<Rightarrow> signal_struct option"
  files_count :: "nat \<Rightarrow> int"
  fs_users :: "nat \<Rightarrow> int"
  fs_in_exec :: "nat \<Rightarrow> bool"
  sighand_count :: "nat \<Rightarrow> int"
  mm_users :: "nat \<Rightarrow> int"
  task_used :: "tid \<Rightarrow> bool"
  stack_refcount :: "tid \<Rightarrow> int"
  nr_threads :: int
  max_threads :: int
  total_forks :: int
  process_counts :: "cpu \<Rightarrow> int"
  task_list :: "tid list"
  pext :: 'y

section \<open>The environment\<close>

text \<open>
  What a new task holds of the services outside the scheduler, and the services that are called without a
  result. \<open>Res_fd\<close> is a reserved file descriptor, \<open>Res_pidfile\<close> the file of a pidfd.
\<close>

datatype fork_res =
    Res_stack | Res_creds | Res_delayacct | Res_kthread | Res_mempolicy | Res_perf | Res_audit | Res_security
  | Res_semundo | Res_namespaces | Res_io | Res_thread | Res_pid | Res_fd | Res_pidfile | Res_cgroup
  | Res_cred | Res_nsproxy

datatype fork_note =
    Recalc_sigpending | Stack_account int | Setup_thread_stack | Block_signals | Early_init | Dec_rlimit_nproc | Counters_init
  | Lockdep_free | Shm_init | Flush_handlers | Signalfd_cleanup | Init_signal_rest | Taskstats_tgid_free | Mm_clear_owner
  | Mmput_last nat | Uprobe_dup bool | Mm_init_owner | Futex_init | Sas_ss_reset | Late_init | Start_time | Klp_copy | Rseq_fork
  | Copy_seccomp | Ptrace_init bool | Shared_pending | Tty_kref | Attach_pid pid_type | Join_group_stop | Fd_install int
  | Proc_connector | Perf_fork | Uprobe_copy | Cgroup_post_fork | Mm_multiprocess | Free_task_rest | Lru_gen_add
  | Get_task_struct | Get_pid | Put_pid | Ptrace_event int | Exit_sem | Exit_shm | Switch_namespaces | Commit_creds | Perf_namespaces

record ('x, 'y) fenv =
  fhenv :: "'x henv"
  acquire :: "fork_res \<Rightarrow> tid \<Rightarrow> kernel_clone_args \<Rightarrow> 'y \<Rightarrow> int \<times> 'y"
  release :: "fork_res \<Rightarrow> tid \<Rightarrow> 'y \<Rightarrow> 'y"
  fnote :: "fork_note \<Rightarrow> tid \<Rightarrow> 'y \<Rightarrow> 'y"
  kmem_alloc :: "(nat \<Rightarrow> bool) \<Rightarrow> 'y \<Rightarrow> nat option \<times> 'y"
  arch_dup_task_struct :: "tid \<Rightarrow> tid \<Rightarrow> 'y \<Rightarrow> int \<times> 'y"
  scs_prepare :: "tid \<Rightarrow> 'y \<Rightarrow> int \<times> 'y"
  has_io_context :: "tid \<Rightarrow> 'y \<Rightarrow> bool"
  alloc_pid :: "tid \<Rightarrow> int list \<Rightarrow> 'y \<Rightarrow> (int + nat) \<times> 'y"
  put_user :: "int \<Rightarrow> user_ptr \<Rightarrow> 'y \<Rightarrow> int \<times> 'y"
  dup_fd :: "nat \<Rightarrow> ('x, 'y) pstate \<Rightarrow> (int + nat) \<times> ('x, 'y) pstate"
  copy_fs_struct :: "nat \<Rightarrow> ('x, 'y) pstate \<Rightarrow> nat option \<times> ('x, 'y) pstate"
  exit_files :: "tid \<Rightarrow> ('x, 'y) pstate \<Rightarrow> ('x, 'y) pstate"
  exit_fs :: "tid \<Rightarrow> ('x, 'y) pstate \<Rightarrow> ('x, 'y) pstate"
  put_files_struct :: "nat \<Rightarrow> ('x, 'y) pstate \<Rightarrow> ('x, 'y) pstate"
  free_fs_struct :: "nat \<Rightarrow> ('x, 'y) pstate \<Rightarrow> ('x, 'y) pstate"
  mm_init :: "nat \<Rightarrow> nat \<Rightarrow> tid \<Rightarrow> 'x kstate \<Rightarrow> bool \<times> 'x kstate"
  dup_mmap :: "nat \<Rightarrow> nat \<Rightarrow> 'y \<Rightarrow> int \<times> 'y"
  module_got :: "nat \<Rightarrow> 'y \<Rightarrow> bool \<times> 'y"
  sched_core_fork :: "tid \<Rightarrow> 'x kstate \<Rightarrow> 'x kstate"
  sched_core_free :: "tid \<Rightarrow> 'x kstate \<Rightarrow> 'x kstate"
  task_sigpending :: "tid \<Rightarrow> 'y \<Rightarrow> bool"
  fatal_signal_pending :: "tid \<Rightarrow> 'y \<Rightarrow> bool"
  nproc_exceeded :: "tid \<Rightarrow> 'y \<Rightarrow> bool"
  other_pid_ns :: "tid \<Rightarrow> 'y \<Rightarrow> bool"
  pidns_adding :: "nat \<Rightarrow> 'y \<Rightarrow> bool"
  is_child_reaper :: "nat \<Rightarrow> bool"
  pid_nr :: "nat \<Rightarrow> int"
  pid_vnr :: "tid \<Rightarrow> 'y \<Rightarrow> int"
  init_struct_pid :: nat
  ptrace_event_enabled :: "tid \<Rightarrow> int \<Rightarrow> 'y \<Rightarrow> bool"
  wait_for_vfork :: "tid \<Rightarrow> ('x, 'y) pstate \<Rightarrow> (bool \<times> ('x, 'y) pstate) res"
  copy_clone_struct :: "user_ptr \<Rightarrow> int \<Rightarrow> 'y \<Rightarrow> int + clone_args"
  copy_set_tid :: "user_ptr \<Rightarrow> nat \<Rightarrow> 'y \<Rightarrow> int list option"
  access_ok :: "user_ptr \<Rightarrow> 64 word \<Rightarrow> bool"
  valid_signal :: "64 word \<Rightarrow> bool"
  max_pid_ns_level :: nat
  clone_legacy_flags :: cflags
  page_size :: int
  thread_size :: int
  max_threads_limit :: int
  unshare_userns :: "cflags \<Rightarrow> tid \<Rightarrow> 'y \<Rightarrow> int \<times> bool \<times> 'y"
  unshare_nsproxy_namespaces :: "cflags \<Rightarrow> tid \<Rightarrow> 'y \<Rightarrow> int \<times> bool \<times> 'y"
  set_cred_ucounts :: "tid \<Rightarrow> 'y \<Rightarrow> int \<times> 'y"
  thread_group_leader :: "proc \<Rightarrow> bool"
  thread_group_empty :: "tid \<Rightarrow> 'y \<Rightarrow> bool"
  task_pgrp :: "signal_struct \<Rightarrow> nat option"
  task_session :: "signal_struct \<Rightarrow> nat option"
  current_is_single_threaded :: "tid \<Rightarrow> 'y \<Rightarrow> bool"

abbreviation fkern :: "('x, 'y) fenv \<Rightarrow> 'x kenv" where
  "fkern F \<equiv> hkern (fhenv F)"

abbreviation upd_pk :: "('x kstate \<Rightarrow> 'x kstate) \<Rightarrow> ('x, 'y) pstate \<Rightarrow> ('x, 'y) pstate" where
  "upd_pk f st \<equiv> st\<lparr>pk := f (pk st)\<rparr>"

abbreviation upd_proc :: "tid \<Rightarrow> (proc \<Rightarrow> proc) \<Rightarrow> ('x, 'y) pstate \<Rightarrow> ('x, 'y) pstate" where
  "upd_proc p f st \<equiv> st\<lparr>procs := (procs st)(p := f (procs st p))\<rparr>"

abbreviation tell :: "('x, 'y) fenv \<Rightarrow> fork_note \<Rightarrow> tid \<Rightarrow> ('x, 'y) pstate \<Rightarrow> ('x, 'y) pstate" where
  "tell F n p st \<equiv> st\<lparr>pext := fnote F n p (pext st)\<rparr>"

abbreviation drop_res :: "('x, 'y) fenv \<Rightarrow> fork_res \<Rightarrow> tid \<Rightarrow> ('x, 'y) pstate \<Rightarrow> ('x, 'y) pstate" where
  "drop_res F r p st \<equiv> st\<lparr>pext := release F r p (pext st)\<rparr>"

abbreviation me :: "('x, 'y) pstate \<Rightarrow> tid" where
  "me st \<equiv> current (pk st)"

definition take_res :: "('x, 'y) fenv \<Rightarrow> fork_res \<Rightarrow> tid \<Rightarrow> kernel_clone_args \<Rightarrow> ('x, 'y) pstate \<Rightarrow> int \<times> ('x, 'y) pstate" where
  "take_res F r p a st = (case acquire F r p a (pext st) of (e, y) \<Rightarrow> (e, st\<lparr>pext := y\<rparr>))"

text \<open>An update of the signal structure of a task; a task without one is a fault.\<close>

definition upd_signal :: "tid \<Rightarrow> (signal_struct \<Rightarrow> signal_struct) \<Rightarrow> ('x, 'y) pstate \<Rightarrow> ('x, 'y) pstate res" where
  "upd_signal p f st =
     (case pr_signal (procs st p) of
        None \<Rightarrow> Inl Bad_pointer
      | Some i \<Rightarrow>
          (case signals st i of
             None \<Rightarrow> Inl Bad_pointer
           | Some g \<Rightarrow> Inr (st\<lparr>signals := (signals st)(i := Some (f g))\<rparr>)))"

end
