(* ===== verification/Fork_Model.thy ===== *)
theory Fork_Model
  imports Fork_Types Hvf_Syscalls "HOL-Library.Log_Nat"
begin

text \<open>
  Creating processes (\<^verbatim>\<open>kernel/fork.c\<close>): the objects a child shares with its parent or gets for itself,
  \<open>copy_process\<close> with its stages and the labels its failures go to, its callers up to the system calls, \<open>unshare\<close>,
  and the limit on threads.
\<close>

section \<open>Objects with a count\<close>

definition mmput :: "('x, 'y) fenv \<Rightarrow> nat \<Rightarrow> ('x, 'y) pstate \<Rightarrow> ('x, 'y) pstate" where
  "mmput F m st =
     (let st = st\<lparr>mm_users := (mm_users st)(m := mm_users st m - 1)\<rparr>
      in if mm_users st m = 0 then tell F (Mmput_last m) (me st) st else st)"

definition dup_mm :: "('x, 'y) fenv \<Rightarrow> tid \<Rightarrow> nat \<Rightarrow> ('x, 'y) pstate \<Rightarrow> nat option \<times> ('x, 'y) pstate" where
  "dup_mm F p oldmm st =
     (case kmem_alloc F (\<lambda>m. mm_users st m \<noteq> 0) (pext st) of
        (None, y) \<Rightarrow> (None, st\<lparr>pext := y\<rparr>)
      | (Some m, y) \<Rightarrow>
          (case mm_init F m oldmm p (pk st) of
             (False, k) \<Rightarrow> (None, st\<lparr>pk := k, pext := y\<rparr>)
           | (True, k) \<Rightarrow>
               let st = st\<lparr>pk := k, pext := fnote F (Uprobe_dup True) p y, mm_users := (mm_users st)(m := 1)\<rparr>
               in case dup_mmap F m oldmm (pext st) of
                    (err, y) \<Rightarrow>
                      let st = st\<lparr>pext := y\<rparr> in
                      if err \<noteq> 0 then
                        (None, tell F (Uprobe_dup False) p (mmput F m (tell F Mm_init_owner p st)))
                      else
                        (case module_got F m (fnote F (Uprobe_dup False) p y) of
                           (False, y) \<Rightarrow> (None, mmput F m (tell F Mm_init_owner p (st\<lparr>pext := y\<rparr>)))
                         | (True, y) \<Rightarrow> (Some m, st\<lparr>pext := y\<rparr>))))"

definition copy_mm :: "('x, 'y) fenv \<Rightarrow> cflags \<Rightarrow> tid \<Rightarrow> ('x, 'y) pstate \<Rightarrow> int \<times> ('x, 'y) pstate" where
  "copy_mm F fl p st =
     (let st = upd_pk (upd_task p (\<lambda>v. v\<lparr>nvcsw := 0, nivcsw := 0, mm := None, active_mm := None\<rparr>)) st
      in case mm (tasks (pk st) (me st)) of
           None \<Rightarrow> (0, st)
         | Some oldmm \<Rightarrow>
             (case (if has fl CLONE_VM then (Some oldmm, st\<lparr>mm_users := (mm_users st)(oldmm := mm_users st oldmm + 1)\<rparr>)
                    else dup_mm F p oldmm st) of
                (None, st) \<Rightarrow> (- ENOMEM, st)
              | (Some m, st) \<Rightarrow>
                  (0, upd_pk (\<lambda>s. sched_mm_cid_fork p (upd_task p (\<lambda>v. v\<lparr>mm := Some m, active_mm := Some m\<rparr>) s)) st)))"

definition copy_fs :: "('x, 'y) fenv \<Rightarrow> cflags \<Rightarrow> tid \<Rightarrow> ('x, 'y) pstate \<Rightarrow> (int \<times> ('x, 'y) pstate) res" where
  "copy_fs F fl p st =
     (case pr_fs (procs st (me st)) of
        None \<Rightarrow> Inl Bad_pointer
      | Some fs \<Rightarrow>
          if has fl CLONE_FS then
            Inr (if fs_in_exec st fs then (- EAGAIN, st) else (0, st\<lparr>fs_users := (fs_users st)(fs := fs_users st fs + 1)\<rparr>))
          else
            (case copy_fs_struct F fs st of
               (None, st) \<Rightarrow> Inr (- ENOMEM, upd_proc p (\<lambda>v. v\<lparr>pr_fs := None\<rparr>) st)
             | (Some n, st) \<Rightarrow> Inr (0, upd_proc p (\<lambda>v. v\<lparr>pr_fs := Some n\<rparr>) st)))"

definition copy_files :: "('x, 'y) fenv \<Rightarrow> cflags \<Rightarrow> tid \<Rightarrow> bool \<Rightarrow> ('x, 'y) pstate \<Rightarrow> int \<times> ('x, 'y) pstate" where
  "copy_files F fl p no_files st =
     (case pr_files (procs st (me st)) of
        None \<Rightarrow> (0, st)
      | Some oldf \<Rightarrow>
          if no_files then (0, upd_proc p (\<lambda>v. v\<lparr>pr_files := None\<rparr>) st)
          else if has fl CLONE_FILES then (0, st\<lparr>files_count := (files_count st)(oldf := files_count st oldf + 1)\<rparr>)
          else
            (case dup_fd F oldf st of
               (Inl e, st) \<Rightarrow> (e, st)
             | (Inr newf, st) \<Rightarrow> (0, upd_proc p (\<lambda>v. v\<lparr>pr_files := Some newf\<rparr>) st)))"

definition copy_sighand :: "('x, 'y) fenv \<Rightarrow> cflags \<Rightarrow> tid \<Rightarrow> ('x, 'y) pstate \<Rightarrow> (int \<times> ('x, 'y) pstate) res" where
  "copy_sighand F fl p st =
     (if has fl CLONE_SIGHAND then
        (case pr_sighand (procs st (me st)) of
           None \<Rightarrow> Inl Bad_pointer
         | Some h \<Rightarrow> Inr (0, st\<lparr>sighand_count := (sighand_count st)(h := sighand_count st h + 1)\<rparr>))
      else
        (case kmem_alloc F (\<lambda>h. sighand_count st h \<noteq> 0) (pext st) of
           (None, y) \<Rightarrow> Inr (- ENOMEM, upd_proc p (\<lambda>v. v\<lparr>pr_sighand := None\<rparr>) (st\<lparr>pext := y\<rparr>))
         | (Some h, y) \<Rightarrow>
             let st = upd_proc p (\<lambda>v. v\<lparr>pr_sighand := Some h\<rparr>) (st\<lparr>pext := y, sighand_count := (sighand_count st)(h := 1)\<rparr>)
             in Inr (0, if has fl CLONE_CLEAR_SIGHAND then tell F Flush_handlers p st else st)))"

definition cleanup_sighand :: "('x, 'y) fenv \<Rightarrow> tid \<Rightarrow> nat \<Rightarrow> ('x, 'y) pstate \<Rightarrow> ('x, 'y) pstate" where
  "cleanup_sighand F p h st =
     (let st = st\<lparr>sighand_count := (sighand_count st)(h := sighand_count st h - 1)\<rparr>
      in if sighand_count st h = 0 then tell F Signalfd_cleanup p st else st)"

definition new_signal :: "tid \<Rightarrow> int \<Rightarrow> int \<Rightarrow> signal_struct" where
  "new_signal p adj adj_min =
     \<lparr>sg_nr_threads = 1, sg_quick_threads = 1, sg_live = 1, sg_sigcnt = 1, sg_threads = [p], sg_curr_target = p,
      sg_multiprocess = [], sg_unkillable = False, sg_has_child_subreaper = False, sg_is_child_subreaper = False,
      sg_oom_score_adj = adj, sg_oom_score_adj_min = adj_min, sg_pids = (\<lambda>_. None)\<rparr>"

definition copy_signal :: "('x, 'y) fenv \<Rightarrow> cflags \<Rightarrow> tid \<Rightarrow> ('x, 'y) pstate \<Rightarrow> (int \<times> ('x, 'y) pstate) res" where
  "copy_signal F fl p st =
     (if has fl CLONE_THREAD then Inr (0, st)
      else
        (case kmem_alloc F (\<lambda>i. signals st i \<noteq> None) (pext st) of
           (None, y) \<Rightarrow> Inr (- ENOMEM, upd_proc p (\<lambda>v. v\<lparr>pr_signal := None\<rparr>) (st\<lparr>pext := y\<rparr>))
         | (Some i, y) \<Rightarrow>
             (case Option.bind (pr_signal (procs st (me st))) (signals st) of
                None \<Rightarrow> Inl Bad_pointer
              | Some g \<Rightarrow>
                  Inr (0, tell F Init_signal_rest p (upd_proc p (\<lambda>v. v\<lparr>pr_signal := Some i\<rparr>)
                    (st\<lparr>pext := y, signals := (signals st)(i := Some (new_signal p (sg_oom_score_adj g) (sg_oom_score_adj_min g)))\<rparr>))))))"

definition free_signal_struct :: "('x, 'y) fenv \<Rightarrow> tid \<Rightarrow> nat \<Rightarrow> ('x, 'y) pstate \<Rightarrow> ('x, 'y) pstate" where
  "free_signal_struct F p i st = (tell F Taskstats_tgid_free p st)\<lparr>signals := (signals st)(i := None)\<rparr>"

text \<open>A stack whose task is not dead is kept.\<close>

definition put_task_stack :: "('x, 'y) fenv \<Rightarrow> tid \<Rightarrow> ('x, 'y) pstate \<Rightarrow> ('x, 'y) pstate" where
  "put_task_stack F p st =
     (let st = st\<lparr>stack_refcount := (stack_refcount st)(p := stack_refcount st p - 1)\<rparr>
      in if stack_refcount st p = 0 \<and> tstate (tasks (pk st) p) = TASK_DEAD then drop_res F Res_stack p st else st)"

definition free_task :: "('x, 'y) fenv \<Rightarrow> tid \<Rightarrow> ('x, 'y) pstate \<Rightarrow> ('x, 'y) pstate" where
  "free_task F p st =
     (let st = upd_pk (release_user_cpus_ptr p) st;
          st = (if pflags (tasks (pk st) p) AND PF_KTHREAD \<noteq> 0 then drop_res F Res_kthread p st else st)
      in (tell F Free_task_rest p st)\<lparr>task_used := (task_used st)(p := False)\<rparr>)"

text \<open>The fields \<open>dup_task_struct\<close> sets in the copy of the parent.\<close>

definition dup_task_fields :: "task_struct \<Rightarrow> task_struct" where
  "dup_task_fields v =
     v\<lparr>tif_need_resched := False, tif_need_resched_lazy := False, wake_q_queued := False, mm_cid := None, last_mm_cid := None,
       mm_cid_active := False, migrate_from_cpu := None\<rparr>"

definition dup_task_struct :: "('x, 'y) fenv \<Rightarrow> tid \<Rightarrow> kernel_clone_args \<Rightarrow> ('x, 'y) pstate \<Rightarrow> tid option \<times> ('x, 'y) pstate" where
  "dup_task_struct F orig a st =
     (case kmem_alloc F (task_used st) (pext st) of
        (None, y) \<Rightarrow> (None, st\<lparr>pext := y\<rparr>)
      | (Some p, y) \<Rightarrow>
          let free = (\<lambda>st. (None, st\<lparr>task_used := (task_used st)(p := False)\<rparr>));
              st = st\<lparr>pext := y, task_used := (task_used st)(p := True)\<rparr>
          in case arch_dup_task_struct F p orig (pext st) of (err, y) \<Rightarrow>
               let st = st\<lparr>pext := y\<rparr> in
               if err \<noteq> 0 then free st
               else
                 let st = upd_proc p (\<lambda>_. procs st orig) (upd_pk (upd_task p (\<lambda>_. tasks (pk st) orig)) st)
                 in case take_res F Res_stack p a st of (err, st) \<Rightarrow>
                      if err \<noteq> 0 then free st
                      else
                        let st = tell F (Stack_account 1) p (st\<lparr>stack_refcount := (stack_refcount st)(p := 1)\<rparr>)
                        in case scs_prepare F p (pext st) of (err, y) \<Rightarrow>
                             let st = st\<lparr>pext := y\<rparr> in
                             if err \<noteq> 0 then free (drop_res F Res_stack p (tell F (Stack_account (- 1)) p st))
                             else
                               let st = tell F Setup_thread_stack p (upd_pk (upd_task p dup_task_fields) st)
                               in (Some p, upd_pk (\<lambda>s. snd (dup_user_cpus_ptr (fkern F) p orig s)) st))"

section \<open>The stages of copy_process\<close>

text \<open>The local variables of \<open>copy_process\<close>: the new task, its pid, and the descriptor of its pidfd.\<close>

record fork_loc =
  fl_p :: tid
  fl_pid :: "nat option"
  fl_pidfd :: "int option"

type_synonym ('x, 'y) fork_stage = "fork_loc \<times> ('x, 'y) pstate \<Rightarrow> (int \<times> fork_loc \<times> ('x, 'y) pstate) res"

text \<open>The combinations of flags that are refused before anything is done.\<close>

definition clone_flags_ok :: "('x, 'y) fenv \<Rightarrow> cflags \<Rightarrow> ('x, 'y) pstate \<Rightarrow> bool" where
  "clone_flags_ok F fl st \<longleftrightarrow>
     fl AND (CLONE_NEWNS OR CLONE_FS) \<noteq> (CLONE_NEWNS OR CLONE_FS) \<and>
     fl AND (CLONE_NEWUSER OR CLONE_FS) \<noteq> (CLONE_NEWUSER OR CLONE_FS) \<and>
     \<not> (has fl CLONE_THREAD \<and> \<not> has fl CLONE_SIGHAND) \<and>
     \<not> (has fl CLONE_SIGHAND \<and> \<not> has fl CLONE_VM) \<and>
     \<not> (has fl CLONE_PARENT \<and> (case Option.bind (pr_signal (procs st (me st))) (signals st) of None \<Rightarrow> False | Some g \<Rightarrow> sg_unkillable g)) \<and>
     \<not> (has fl CLONE_THREAD \<and> (has fl (CLONE_NEWUSER OR CLONE_NEWPID) \<or> other_pid_ns F (me st) (pext st))) \<and>
     \<not> (has fl CLONE_PIDFD \<and> has fl CLONE_DETACHED)"

definition fork_signals :: "('x, 'y) fenv \<Rightarrow> kernel_clone_args \<Rightarrow> ('x, 'y) fork_stage" where
  "fork_signals F a x =
     (case x of (l, st) \<Rightarrow>
        bindr (if has (ka_flags a) CLONE_THREAD then Inr st
               else upd_signal (me st) (\<lambda>g. g\<lparr>sg_multiprocess := me st # sg_multiprocess g\<rparr>) st) (\<lambda>st.
          let st = tell F Recalc_sigpending (me st) st
          in Inr (if task_sigpending F (me st) (pext st) then - ERESTARTNOINTR else 0, l, st)))"

definition fork_dup :: "('x, 'y) fenv \<Rightarrow> kernel_clone_args \<Rightarrow> ('x, 'y) fork_stage" where
  "fork_dup F a x =
     (case x of (l, st) \<Rightarrow>
        case dup_task_struct F (me st) a st of
          (None, st) \<Rightarrow> Inr (- ENOMEM, l, st)
        | (Some p, st) \<Rightarrow> Inr (0, l\<lparr>fl_p := p\<rparr>, st))"

definition child_flags :: "kernel_clone_args \<Rightarrow> 32 word \<Rightarrow> 32 word" where
  "child_flags a fs =
     (let fs = fs AND NOT PF_KTHREAD;
          fs = (if ka_kthread a then fs OR PF_KTHREAD else fs);
          fs = (if ka_user_worker a then fs OR PF_USER_WORKER else fs)
      in if ka_io_thread a then fs OR PF_IO_WORKER else fs)"

text \<open>The first fields of the copy: its flags, its name and the addresses for its thread id.\<close>

definition fork_early :: "('x, 'y) fenv \<Rightarrow> kernel_clone_args \<Rightarrow> tid \<Rightarrow> ('x, 'y) pstate \<Rightarrow> ('x, 'y) pstate" where
  "fork_early F a p st =
     (let st = upd_pk (upd_task p (\<lambda>v. v\<lparr>pflags := child_flags a (pflags v), pi_top_task := None\<rparr>)) st;
          st = (if ka_user_worker a then tell F Block_signals p st else st);
          st = upd_proc p (\<lambda>v. v\<lparr>
                 pr_comm := (case ka_name a of None \<Rightarrow> pr_comm v | Some n \<Rightarrow> take 15 n),
                 pr_set_child_tid := (if has (ka_flags a) CLONE_CHILD_SETTID then ka_child_tid a else 0),
                 pr_clear_child_tid := (if has (ka_flags a) CLONE_CHILD_CLEARTID then ka_child_tid a else 0)\<rparr>) st
      in tell F Early_init p st)"

definition fork_creds :: "('x, 'y) fenv \<Rightarrow> kernel_clone_args \<Rightarrow> ('x, 'y) fork_stage" where
  "fork_creds F a x =
     (case x of (l, st) \<Rightarrow>
        case take_res F Res_creds (fl_p l) a (fork_early F a (fl_p l) st) of
          (e, st) \<Rightarrow> Inr (if e < 0 then e else 0, l, st))"

definition fork_limits :: "('x, 'y) fenv \<Rightarrow> ('x, 'y) fork_stage" where
  "fork_limits F x =
     (case x of (l, st) \<Rightarrow>
        if nproc_exceeded F (fl_p l) (pext st) then Inr (- EAGAIN, l, st)
        else
          let st = upd_pk (\<lambda>s. upd_task (current s) (\<lambda>v. v\<lparr>pflags := pflags v AND NOT PF_NPROC_EXCEEDED\<rparr>) s) st
          in Inr (if nr_threads st \<ge> max_threads st then - EAGAIN else 0, l, st))"

text \<open>The fields of the copy that start anew.\<close>

definition fork_fields :: "('x, 'y) fenv \<Rightarrow> tid \<Rightarrow> ('x, 'y) pstate \<Rightarrow> ('x, 'y) pstate" where
  "fork_fields F p st =
     (let st = upd_pk (\<lambda>s. upd_task p (\<lambda>v. v\<lparr>
                 pflags := (pflags v AND NOT (PF_SUPERPRIV OR PF_WQ_WORKER OR PF_IDLE OR PF_NO_SETAFFINITY)) OR PF_FORKNOEXEC,
                 default_timer_slack_ns := timer_slack_ns (tasks s (current s))\<rparr>) s) st;
          st = upd_proc p (\<lambda>v. v\<lparr>pr_children := [], pr_vfork_done := False\<rparr>) st
      in tell F Counters_init p st)"

definition fork_kthread :: "('x, 'y) fenv \<Rightarrow> kernel_clone_args \<Rightarrow> ('x, 'y) fork_stage" where
  "fork_kthread F a x =
     (case x of (l, st) \<Rightarrow>
        let p = fl_p l; st = fork_fields F p (snd (take_res F Res_delayacct p a st))
        in if ka_kthread a then
             (case take_res F Res_kthread p a st of (e, st) \<Rightarrow> Inr (if e \<noteq> 0 then - EAGAIN else 0, l, st))
           else Inr (0, l, st))"

text \<open>A stage that only takes a resource.\<close>

definition fork_take :: "('x, 'y) fenv \<Rightarrow> kernel_clone_args \<Rightarrow> fork_res \<Rightarrow> ('x, 'y) fork_stage" where
  "fork_take F a r x = (case x of (l, st) \<Rightarrow> case take_res F r (fl_p l) a st of (e, st) \<Rightarrow> Inr (e, l, st))"

definition fork_sched :: "('x, 'y) fenv \<Rightarrow> ('x, 'y) fork_stage" where
  "fork_sched F x =
     (case x of (l, st) \<Rightarrow> bindr (sched_fork (fkern F) (fl_p l) (pk st)) (\<lambda>(e, s). Inr (e, l, st\<lparr>pk := s\<rparr>)))"

definition fork_security :: "('x, 'y) fenv \<Rightarrow> kernel_clone_args \<Rightarrow> ('x, 'y) fork_stage" where
  "fork_security F a x = (case x of (l, st) \<Rightarrow> fork_take F a Res_security (l, tell F Shm_init (fl_p l) st))"

definition fork_files :: "('x, 'y) fenv \<Rightarrow> kernel_clone_args \<Rightarrow> ('x, 'y) fork_stage" where
  "fork_files F a x =
     (case x of (l, st) \<Rightarrow> case copy_files F (ka_flags a) (fl_p l) (ka_no_files a) st of (e, st) \<Rightarrow> Inr (e, l, st))"

definition fork_fs :: "('x, 'y) fenv \<Rightarrow> kernel_clone_args \<Rightarrow> ('x, 'y) fork_stage" where
  "fork_fs F a x = (case x of (l, st) \<Rightarrow> bindr (copy_fs F (ka_flags a) (fl_p l) st) (\<lambda>(e, st). Inr (e, l, st)))"

definition fork_sighand :: "('x, 'y) fenv \<Rightarrow> kernel_clone_args \<Rightarrow> ('x, 'y) fork_stage" where
  "fork_sighand F a x = (case x of (l, st) \<Rightarrow> bindr (copy_sighand F (ka_flags a) (fl_p l) st) (\<lambda>(e, st). Inr (e, l, st)))"

definition fork_signal :: "('x, 'y) fenv \<Rightarrow> kernel_clone_args \<Rightarrow> ('x, 'y) fork_stage" where
  "fork_signal F a x = (case x of (l, st) \<Rightarrow> bindr (copy_signal F (ka_flags a) (fl_p l) st) (\<lambda>(e, st). Inr (e, l, st)))"

definition fork_mm :: "('x, 'y) fenv \<Rightarrow> kernel_clone_args \<Rightarrow> ('x, 'y) fork_stage" where
  "fork_mm F a x = (case x of (l, st) \<Rightarrow> case copy_mm F (ka_flags a) (fl_p l) st of (e, st) \<Rightarrow> Inr (e, l, st))"

definition fork_pid :: "('x, 'y) fenv \<Rightarrow> kernel_clone_args \<Rightarrow> ('x, 'y) fork_stage" where
  "fork_pid F a x =
     (case x of (l, st) \<Rightarrow>
        if fl_pid l = Some (init_struct_pid F) then Inr (0, l, st)
        else
          (case alloc_pid F (fl_p l) (ka_set_tid a) (pext st) of
             (Inl e, y) \<Rightarrow> Inr (e, l, st\<lparr>pext := y\<rparr>)
           | (Inr n, y) \<Rightarrow> Inr (0, l\<lparr>fl_pid := Some n\<rparr>, st\<lparr>pext := y\<rparr>)))"

definition pidfd_prepare :: "('x, 'y) fenv \<Rightarrow> tid \<Rightarrow> kernel_clone_args \<Rightarrow> ('x, 'y) pstate \<Rightarrow> int \<times> ('x, 'y) pstate" where
  "pidfd_prepare F p a st =
     (case take_res F Res_fd p a st of (fd, st) \<Rightarrow>
        if fd < 0 then (fd, st)
        else
          (case take_res F Res_pidfile p a st of (e, st) \<Rightarrow>
             if e < 0 then (e, drop_res F Res_fd p st) else (fd, st)))"

definition fork_pidfd :: "('x, 'y) fenv \<Rightarrow> kernel_clone_args \<Rightarrow> ('x, 'y) fork_stage" where
  "fork_pidfd F a x =
     (case x of (l, st) \<Rightarrow>
        if has (ka_flags a) CLONE_PIDFD then
          (case pidfd_prepare F (fl_p l) a st of (r, st) \<Rightarrow>
             if r < 0 then Inr (r, l, st) else Inr (0, l\<lparr>fl_pidfd := Some r\<rparr>, st))
        else Inr (0, l, st))"

definition fork_put_pidfd :: "('x, 'y) fenv \<Rightarrow> kernel_clone_args \<Rightarrow> ('x, 'y) fork_stage" where
  "fork_put_pidfd F a x =
     (case x of (l, st) \<Rightarrow>
        case fl_pidfd l of
          None \<Rightarrow> Inr (0, l, st)
        | Some fd \<Rightarrow> (case put_user F fd (ka_pidfd a) (pext st) of (e, y) \<Rightarrow> Inr (e, l, st\<lparr>pext := y\<rparr>)))"

text \<open>The number of the new task and its thread group.\<close>

definition fork_identity :: "('x, 'y) fenv \<Rightarrow> cflags \<Rightarrow> tid \<Rightarrow> nat \<Rightarrow> ('x, 'y) pstate \<Rightarrow> ('x, 'y) pstate" where
  "fork_identity F fl p n st =
     (let c = me st;
          st = tell F Futex_init p st;
          st = (if fl AND (CLONE_VM OR CLONE_VFORK) = CLONE_VM then tell F Sas_ss_reset p st else st);
          st = upd_pk (upd_task p (\<lambda>v. v\<lparr>pid := pid_nr F n\<rparr>)) st;
          st = upd_proc p (\<lambda>v. if has fl CLONE_THREAD
                 then v\<lparr>pr_group_leader := pr_group_leader (procs st c), pr_tgid := pr_tgid (procs st c)\<rparr>
                 else v\<lparr>pr_group_leader := p, pr_tgid := pid_nr F n\<rparr>) st
      in tell F Late_init p st)"

definition fork_cgroup :: "('x, 'y) fenv \<Rightarrow> kernel_clone_args \<Rightarrow> ('x, 'y) fork_stage" where
  "fork_cgroup F a x =
     (case x of (l, st) \<Rightarrow>
        case fl_pid l of
          None \<Rightarrow> Inl Bad_pointer
        | Some n \<Rightarrow> fork_take F a Res_cgroup (l, fork_identity F (ka_flags a) (fl_p l) n st))"

definition fork_sched_cgroup :: "('x, 'y) fenv \<Rightarrow> ('x, 'y) fork_stage" where
  "fork_sched_cgroup F x =
     (case x of (l, st) \<Rightarrow> bindr (sched_cgroup_fork (fkern F) (fl_p l) (pk st)) (\<lambda>s. Inr (0, l, st\<lparr>pk := s\<rparr>)))"

text \<open>The parent of the new task and the signal it gets when the task ends.\<close>

definition fork_family :: "('x, 'y) fenv \<Rightarrow> kernel_clone_args \<Rightarrow> tid \<Rightarrow> ('x, 'y) pstate \<Rightarrow> ('x, 'y) pstate" where
  "fork_family F a p st =
     (let c = me st; fl = ka_flags a;
          st = tell F Start_time p st;
          st = upd_proc p (\<lambda>v.
                 if has fl (CLONE_PARENT OR CLONE_THREAD) then
                   v\<lparr>pr_real_parent := pr_real_parent (procs st c), pr_parent_exec_id := pr_parent_exec_id (procs st c),
                     pr_exit_signal := (if has fl CLONE_THREAD then - 1
                                        else pr_exit_signal (procs st (pr_group_leader (procs st c))))\<rparr>
                 else v\<lparr>pr_real_parent := c, pr_parent_exec_id := pr_self_exec_id (procs st c),
                        pr_exit_signal := ka_exit_signal a\<rparr>) st;
          st = tell F Klp_copy p st;
          st = upd_pk (sched_core_fork F p) st
      in tell F Rseq_fork p st)"

definition fork_parent :: "('x, 'y) fenv \<Rightarrow> kernel_clone_args \<Rightarrow> ('x, 'y) fork_stage" where
  "fork_parent F a x =
     (case x of (l, st) \<Rightarrow>
        case fl_pid l of
          None \<Rightarrow> Inl Bad_pointer
        | Some n \<Rightarrow>
            let st = fork_family F a (fl_p l) st
            in Inr (if \<not> pidns_adding F n (pext st) then - ENOMEM
                    else if fatal_signal_pending F (me st) (pext st) then - EINTR else 0, l, st))"

section \<open>The labels of its failures\<close>

datatype fork_label =
    Bad_fork_core_free | Bad_fork_cancel_cgroup | Bad_fork_put_pidfd | Bad_fork_free_pid | Bad_fork_cleanup_thread
  | Bad_fork_cleanup_io | Bad_fork_cleanup_namespaces | Bad_fork_cleanup_mm | Bad_fork_cleanup_signal
  | Bad_fork_cleanup_sighand | Bad_fork_cleanup_fs | Bad_fork_cleanup_files | Bad_fork_cleanup_semundo
  | Bad_fork_cleanup_security | Bad_fork_cleanup_audit | Bad_fork_cleanup_perf | Bad_fork_sched_cancel_fork
  | Bad_fork_cleanup_policy | Bad_fork_cleanup_delayacct | Bad_fork_cleanup_count | Bad_fork_free | Fork_out

text \<open>In the order of the source: from a label on, everything below it is executed.\<close>

definition fork_labels :: "fork_label list" where
  "fork_labels = [Bad_fork_core_free, Bad_fork_cancel_cgroup, Bad_fork_put_pidfd, Bad_fork_free_pid, Bad_fork_cleanup_thread,
     Bad_fork_cleanup_io, Bad_fork_cleanup_namespaces, Bad_fork_cleanup_mm, Bad_fork_cleanup_signal, Bad_fork_cleanup_sighand,
     Bad_fork_cleanup_fs, Bad_fork_cleanup_files, Bad_fork_cleanup_semundo, Bad_fork_cleanup_security, Bad_fork_cleanup_audit,
     Bad_fork_cleanup_perf, Bad_fork_sched_cancel_fork, Bad_fork_cleanup_policy, Bad_fork_cleanup_delayacct,
     Bad_fork_cleanup_count, Bad_fork_free, Fork_out]"

definition bad_fork :: "('x, 'y) fenv \<Rightarrow> cflags \<Rightarrow> fork_loc \<Rightarrow> fork_label \<Rightarrow> ('x, 'y) pstate \<Rightarrow> ('x, 'y) pstate res" where
  "bad_fork F fl l lbl st =
     (let p = fl_p l in
      case lbl of
        Bad_fork_core_free \<Rightarrow> Inr (upd_pk (sched_core_free F p) st)
      | Bad_fork_cancel_cgroup \<Rightarrow> Inr (drop_res F Res_cgroup p st)
      | Bad_fork_put_pidfd \<Rightarrow>
          Inr (if has fl CLONE_PIDFD then drop_res F Res_fd p (drop_res F Res_pidfile p st) else st)
      | Bad_fork_free_pid \<Rightarrow> Inr (if fl_pid l \<noteq> Some (init_struct_pid F) then drop_res F Res_pid p st else st)
      | Bad_fork_cleanup_thread \<Rightarrow> Inr (drop_res F Res_thread p st)
      | Bad_fork_cleanup_io \<Rightarrow> Inr (if has_io_context F p (pext st) then drop_res F Res_io p st else st)
      | Bad_fork_cleanup_namespaces \<Rightarrow> Inr (drop_res F Res_namespaces p st)
      | Bad_fork_cleanup_mm \<Rightarrow>
          (case mm (tasks (pk st) p) of None \<Rightarrow> Inr st | Some m \<Rightarrow> Inr (mmput F m (tell F Mm_clear_owner p st)))
      | Bad_fork_cleanup_signal \<Rightarrow>
          if has fl CLONE_THREAD then Inr st
          else (case pr_signal (procs st p) of None \<Rightarrow> Inl Bad_pointer | Some i \<Rightarrow> Inr (free_signal_struct F p i st))
      | Bad_fork_cleanup_sighand \<Rightarrow>
          (case pr_sighand (procs st p) of None \<Rightarrow> Inl Bad_pointer | Some h \<Rightarrow> Inr (cleanup_sighand F p h st))
      | Bad_fork_cleanup_fs \<Rightarrow> Inr (exit_fs F p st)
      | Bad_fork_cleanup_files \<Rightarrow> Inr (exit_files F p st)
      | Bad_fork_cleanup_semundo \<Rightarrow> Inr (drop_res F Res_semundo p st)
      | Bad_fork_cleanup_security \<Rightarrow> Inr (drop_res F Res_security p st)
      | Bad_fork_cleanup_audit \<Rightarrow> Inr (drop_res F Res_audit p st)
      | Bad_fork_cleanup_perf \<Rightarrow> Inr (drop_res F Res_perf p st)
      | Bad_fork_sched_cancel_fork \<Rightarrow> Inr st
      | Bad_fork_cleanup_policy \<Rightarrow> Inr (drop_res F Res_mempolicy p (tell F Lockdep_free p st))
      | Bad_fork_cleanup_delayacct \<Rightarrow> Inr (drop_res F Res_delayacct p st)
      | Bad_fork_cleanup_count \<Rightarrow> Inr (drop_res F Res_creds p (tell F Dec_rlimit_nproc p st))
      | Bad_fork_free \<Rightarrow>
          Inr (free_task F p (put_task_stack F p (tell F (Stack_account (- 1)) p
            (upd_pk (upd_task p (\<lambda>v. v\<lparr>tstate := TASK_DEAD\<rparr>)) st))))
      | Fork_out \<Rightarrow>
          if has fl CLONE_THREAD then Inr st
          else upd_signal (me st) (\<lambda>g. g\<lparr>sg_multiprocess := remove1 (me st) (sg_multiprocess g)\<rparr>) st)"

fun run_cleanups :: "('x, 'y) fenv \<Rightarrow> cflags \<Rightarrow> fork_loc \<Rightarrow> fork_label list \<Rightarrow> ('x, 'y) pstate \<Rightarrow> ('x, 'y) pstate res" where
  "run_cleanups F fl l [] st = Inr st"
| "run_cleanups F fl l (lbl # lbls) st = bindr (bad_fork F fl l lbl st) (run_cleanups F fl l lbls)"

definition goto_label :: "('x, 'y) fenv \<Rightarrow> cflags \<Rightarrow> fork_label \<Rightarrow> fork_loc \<times> ('x, 'y) pstate \<Rightarrow> ('x, 'y) pstate res" where
  "goto_label F fl lbl x = (case x of (l, st) \<Rightarrow> run_cleanups F fl l (dropWhile (\<lambda>b. b \<noteq> lbl) fork_labels) st)"

definition fork_stages :: "('x, 'y) fenv \<Rightarrow> kernel_clone_args \<Rightarrow> (('x, 'y) fork_stage \<times> fork_label) list" where
  "fork_stages F a =
     [(fork_signals F a, Fork_out), (fork_dup F a, Fork_out), (fork_creds F a, Bad_fork_free),
      (fork_limits F, Bad_fork_cleanup_count), (fork_kthread F a, Bad_fork_cleanup_delayacct),
      (fork_take F a Res_mempolicy, Bad_fork_cleanup_delayacct), (fork_sched F, Bad_fork_cleanup_policy),
      (fork_take F a Res_perf, Bad_fork_sched_cancel_fork), (fork_take F a Res_audit, Bad_fork_cleanup_perf),
      (fork_security F a, Bad_fork_cleanup_audit), (fork_take F a Res_semundo, Bad_fork_cleanup_security),
      (fork_files F a, Bad_fork_cleanup_semundo), (fork_fs F a, Bad_fork_cleanup_files),
      (fork_sighand F a, Bad_fork_cleanup_fs), (fork_signal F a, Bad_fork_cleanup_sighand),
      (fork_mm F a, Bad_fork_cleanup_signal), (fork_take F a Res_namespaces, Bad_fork_cleanup_mm),
      (fork_take F a Res_io, Bad_fork_cleanup_namespaces), (fork_take F a Res_thread, Bad_fork_cleanup_io),
      (fork_pid F a, Bad_fork_cleanup_thread), (fork_pidfd F a, Bad_fork_free_pid), (fork_put_pidfd F a, Bad_fork_put_pidfd),
      (fork_cgroup F a, Bad_fork_put_pidfd), (fork_sched_cgroup F, Bad_fork_cancel_cgroup),
      (fork_parent F a, Bad_fork_core_free)]"

fun run_stages ::
    "('x, 'y) fenv \<Rightarrow> cflags \<Rightarrow> (('x, 'y) fork_stage \<times> fork_label) list \<Rightarrow> fork_loc \<times> ('x, 'y) pstate \<Rightarrow>
     (int \<times> fork_loc \<times> ('x, 'y) pstate) res" where
  "run_stages F fl [] x = Inr (0, x)"
| "run_stages F fl ((f, lbl) # rest) x =
     bindr (f x) (\<lambda>(e, x).
       if e \<noteq> 0 then bindr (goto_label F fl lbl x) (\<lambda>st. Inr (e, fst x, st)) else run_stages F fl rest x)"

section \<open>Publishing the new task\<close>

text \<open>A new leader joins the children of its parent and the list of processes; a thread joins its group.\<close>

definition publish_leader :: "('x, 'y) fenv \<Rightarrow> tid \<Rightarrow> nat \<Rightarrow> ('x, 'y) pstate \<Rightarrow> ('x, 'y) pstate res" where
  "publish_leader F p n st =
     (let c = me st; r = pr_real_parent (procs st p) in
      case (Option.bind (pr_signal (procs st c)) (signals st), Option.bind (pr_signal (procs st r)) (signals st)) of
        (Some cg, Some rg) \<Rightarrow>
          bindr (upd_signal p (\<lambda>g. g\<lparr>
                   sg_pids := (sg_pids g)(PIDTYPE_TGID := Some n, PIDTYPE_PGID := task_pgrp F cg, PIDTYPE_SID := task_session F cg),
                   sg_unkillable := sg_unkillable g \<or> is_child_reaper F n,
                   sg_has_child_subreaper := sg_has_child_subreaper rg \<or> sg_is_child_subreaper rg\<rparr>) st) (\<lambda>st.
            let st = tell F Tty_kref p (tell F Shared_pending p st);
                st = upd_proc r (\<lambda>v. v\<lparr>pr_children := pr_children v @ [p]\<rparr>) st;
                st = st\<lparr>task_list := task_list st @ [p]\<rparr>;
                st = tell F (Attach_pid PIDTYPE_SID) p (tell F (Attach_pid PIDTYPE_PGID) p (tell F (Attach_pid PIDTYPE_TGID) p st));
                k = this_cpu (pk st)
            in Inr (st\<lparr>process_counts := (process_counts st)(k := process_counts st k + 1)\<rparr>))
      | _ \<Rightarrow> Inl Bad_pointer)"

definition publish_thread :: "('x, 'y) fenv \<Rightarrow> tid \<Rightarrow> ('x, 'y) pstate \<Rightarrow> ('x, 'y) pstate res" where
  "publish_thread F p st =
     bindr (upd_signal (me st) (\<lambda>g. g\<lparr>sg_nr_threads := sg_nr_threads g + 1, sg_quick_threads := sg_quick_threads g + 1,
              sg_live := sg_live g + 1, sg_sigcnt := sg_sigcnt g + 1\<rparr>) st) (\<lambda>st.
       upd_signal p (\<lambda>g. g\<lparr>sg_threads := sg_threads g @ [p]\<rparr>) (tell F Join_group_stop p st))"

definition copy_oom_score_adj :: "('x, 'y) fenv \<Rightarrow> cflags \<Rightarrow> tid \<Rightarrow> ('x, 'y) pstate \<Rightarrow> ('x, 'y) pstate res" where
  "copy_oom_score_adj F fl p st =
     (if mm (tasks (pk st) p) = None then Inr st
      else if fl AND (CLONE_VM OR CLONE_THREAD OR CLONE_VFORK) \<noteq> CLONE_VM then Inr st
      else
        (case Option.bind (pr_signal (procs st (me st))) (signals st) of
           None \<Rightarrow> Inl Bad_pointer
         | Some cg \<Rightarrow>
             upd_signal p (\<lambda>g. g\<lparr>sg_oom_score_adj := sg_oom_score_adj cg, sg_oom_score_adj_min := sg_oom_score_adj_min cg\<rparr>)
               (tell F Mm_multiprocess p st)))"

definition fork_publish :: "('x, 'y) fenv \<Rightarrow> bool \<Rightarrow> kernel_clone_args \<Rightarrow> fork_loc \<Rightarrow> ('x, 'y) pstate \<Rightarrow> ('x, 'y) pstate res" where
  "fork_publish F trc a l st =
     (case fl_pid l of
        None \<Rightarrow> Inl Bad_pointer
      | Some n \<Rightarrow>
          let p = fl_p l; st = tell F Copy_seccomp p st in
          bindr (if pid (tasks (pk st) p) = 0 then Inr st
                 else
                   let st = tell F (Ptrace_init (has (ka_flags a) CLONE_PTRACE \<or> trc)) p st;
                       st = upd_proc p (\<lambda>v. v\<lparr>pr_thread_pid := Some n\<rparr>) st
                   in bindr (if thread_group_leader F (procs st p) then publish_leader F p n st else publish_thread F p st) (\<lambda>st.
                        let st = tell F (Attach_pid PIDTYPE_PID) p st
                        in Inr (st\<lparr>nr_threads := nr_threads st + 1\<rparr>))) (\<lambda>st.
          let st = st\<lparr>total_forks := total_forks st + 1\<rparr> in
          bindr (if has (ka_flags a) CLONE_THREAD then Inr st
                 else upd_signal (me st) (\<lambda>g. g\<lparr>sg_multiprocess := remove1 (me st) (sg_multiprocess g)\<rparr>) st) (\<lambda>st.
          let st = (case fl_pidfd l of None \<Rightarrow> st | Some fd \<Rightarrow> tell F (Fd_install fd) p st);
              st = tell F Proc_connector p st;
              st = upd_pk (sched_post_fork p) st;
              st = tell F Uprobe_copy p (tell F Perf_fork p (tell F Cgroup_post_fork p st))
          in bindr (copy_oom_score_adj F (ka_flags a) p st) (\<lambda>st.
             Inr (upd_pk (copy_process_params p) st)))))"

definition copy_process ::
    "('x, 'y) fenv \<Rightarrow> nat option \<Rightarrow> bool \<Rightarrow> kernel_clone_args \<Rightarrow> ('x, 'y) pstate \<Rightarrow> ((int + tid) \<times> ('x, 'y) pstate) res" where
  "copy_process F pid0 trc a st =
     (if \<not> clone_flags_ok F (ka_flags a) st then Inr (Inl (- EINVAL), st)
      else
        bindr (run_stages F (ka_flags a) (fork_stages F a) (\<lparr>fl_p = 0, fl_pid = pid0, fl_pidfd = None\<rparr>, st)) (\<lambda>(e, l, st).
          if e \<noteq> 0 then Inr (Inl e, st)
          else bindr (fork_publish F trc a l st) (\<lambda>st. Inr (Inr (fl_p l), st))))"

section \<open>The callers of copy_process\<close>

definition fork_idle :: "('x, 'y) fenv \<Rightarrow> cpu \<Rightarrow> ('x, 'y) pstate \<Rightarrow> ((int + tid) \<times> ('x, 'y) pstate) res" where
  "fork_idle F c st =
     bindr (copy_process F (Some (init_struct_pid F)) False
              (kargs_zero\<lparr>ka_flags := CLONE_VM, ka_kthread := True, ka_idle := True, ka_fn := Some 0\<rparr>) st) (\<lambda>(r, st).
       case r of
         Inl e \<Rightarrow> Inr (Inl e, st)
       | Inr p \<Rightarrow>
           bindr (upd_signal p (\<lambda>g. g\<lparr>sg_pids := (sg_pids g)(PIDTYPE_TGID := Some (init_struct_pid F),
                    PIDTYPE_PGID := Some (init_struct_pid F), PIDTYPE_SID := Some (init_struct_pid F))\<rparr>)
                    (upd_proc p (\<lambda>v. v\<lparr>pr_thread_pid := Some (init_struct_pid F)\<rparr>) st)) (\<lambda>st.
             Inr (Inr p, upd_pk (init_idle (fhenv F) p c) st)))"

text \<open>The argument of the kernel's own threads: the low 32 bits of the flags, without the signal.\<close>

definition kargs_of_flags :: "64 word \<Rightarrow> kernel_clone_args" where
  "kargs_of_flags flags =
     kargs_zero\<lparr>ka_flags := ((flags AND 0xffffffff) OR CLONE_VM OR CLONE_UNTRACED) AND NOT CSIGNAL,
       ka_exit_signal := uint (flags AND CSIGNAL)\<rparr>"

definition create_io_thread :: "('x, 'y) fenv \<Rightarrow> nat \<Rightarrow> ('x, 'y) pstate \<Rightarrow> ((int + tid) \<times> ('x, 'y) pstate) res" where
  "create_io_thread F fn st =
     copy_process F None False
       ((kargs_of_flags (CLONE_FS OR CLONE_FILES OR CLONE_SIGHAND OR CLONE_THREAD OR CLONE_IO))
          \<lparr>ka_fn := Some fn, ka_io_thread := True, ka_user_worker := True\<rparr>) st"

abbreviation (input) PTRACE_EVENT_FORK :: int where "PTRACE_EVENT_FORK \<equiv> 1"
abbreviation (input) PTRACE_EVENT_VFORK :: int where "PTRACE_EVENT_VFORK \<equiv> 2"
abbreviation (input) PTRACE_EVENT_CLONE :: int where "PTRACE_EVENT_CLONE \<equiv> 3"
abbreviation (input) PTRACE_EVENT_VFORK_DONE :: int where "PTRACE_EVENT_VFORK_DONE \<equiv> 5"

definition wait_for_vfork_done :: "('x, 'y) fenv \<Rightarrow> tid \<Rightarrow> ('x, 'y) pstate \<Rightarrow> (bool \<times> ('x, 'y) pstate) res" where
  "wait_for_vfork_done F child st =
     bindr (wait_for_vfork F child st) (\<lambda>(killed, st).
       let st = (if killed then upd_proc child (\<lambda>v. v\<lparr>pr_vfork_done := False\<rparr>) st else st)
       in Inr (killed, upd_pk (upd_ext (put_task_struct (fkern F) child)) st))"

definition kernel_clone :: "('x, 'y) fenv \<Rightarrow> kernel_clone_args \<Rightarrow> ('x, 'y) pstate \<Rightarrow> (int \<times> ('x, 'y) pstate) res" where
  "kernel_clone F a st =
     (let fl = ka_flags a in
      if has fl CLONE_PIDFD \<and> has fl CLONE_PARENT_SETTID \<and> ka_pidfd a = ka_parent_tid a then Inr (- EINVAL, st)
      else
        let ev = (if has fl CLONE_VFORK then PTRACE_EVENT_VFORK
                  else if ka_exit_signal a \<noteq> SIGCHLD then PTRACE_EVENT_CLONE else PTRACE_EVENT_FORK);
            trc = (if has fl CLONE_UNTRACED \<or> \<not> ptrace_event_enabled F (me st) ev (pext st) then 0 else ev)
        in bindr (copy_process F None (trc \<noteq> 0) a st) (\<lambda>(r, st).
             case r of
               Inl e \<Rightarrow> Inr (e, st)
             | Inr p \<Rightarrow>
                 let st = tell F Get_pid p st; nr = pid_vnr F p (pext st);
                     st = (if has fl CLONE_PARENT_SETTID then st\<lparr>pext := snd (put_user F nr (ka_parent_tid a) (pext st))\<rparr> else st);
                     st = (if has fl CLONE_VFORK then tell F Get_task_struct p (upd_proc p (\<lambda>v. v\<lparr>pr_vfork_done := True\<rparr>) st) else st);
                     st = (if \<not> has fl CLONE_VM then tell F Lru_gen_add p st else st)
                 in bindr (wake_up_new_task (fkern F) p (pk st)) (\<lambda>s.
                    let st = st\<lparr>pk := s\<rparr>; st = (if trc \<noteq> 0 then tell F (Ptrace_event trc) p st else st)
                    in bindr (if has fl CLONE_VFORK then
                                bindr (wait_for_vfork_done F p st) (\<lambda>(killed, st).
                                  Inr (if \<not> killed then tell F (Ptrace_event PTRACE_EVENT_VFORK_DONE) p st else st))
                              else Inr st) (\<lambda>st.
                       Inr (nr, tell F Put_pid p st)))))"

definition kernel_thread :: "('x, 'y) fenv \<Rightarrow> nat \<Rightarrow> string option \<Rightarrow> 64 word \<Rightarrow> ('x, 'y) pstate \<Rightarrow> (int \<times> ('x, 'y) pstate) res" where
  "kernel_thread F fn name flags st =
     kernel_clone F ((kargs_of_flags flags)\<lparr>ka_fn := Some fn, ka_name := name, ka_kthread := True\<rparr>) st"

definition user_mode_thread :: "('x, 'y) fenv \<Rightarrow> nat \<Rightarrow> 64 word \<Rightarrow> ('x, 'y) pstate \<Rightarrow> (int \<times> ('x, 'y) pstate) res" where
  "user_mode_thread F fn flags st = kernel_clone F ((kargs_of_flags flags)\<lparr>ka_fn := Some fn\<rparr>) st"

definition sys_fork :: "('x, 'y) fenv \<Rightarrow> ('x, 'y) pstate \<Rightarrow> (int \<times> ('x, 'y) pstate) res" where
  "sys_fork F st = kernel_clone F (kargs_zero\<lparr>ka_exit_signal := SIGCHLD\<rparr>) st"

definition sys_vfork :: "('x, 'y) fenv \<Rightarrow> ('x, 'y) pstate \<Rightarrow> (int \<times> ('x, 'y) pstate) res" where
  "sys_vfork F st = kernel_clone F (kargs_zero\<lparr>ka_flags := CLONE_VFORK OR CLONE_VM, ka_exit_signal := SIGCHLD\<rparr>) st"

definition sys_clone ::
    "('x, 'y) fenv \<Rightarrow> 64 word \<Rightarrow> user_ptr \<Rightarrow> user_ptr \<Rightarrow> user_ptr \<Rightarrow> 64 word \<Rightarrow> ('x, 'y) pstate \<Rightarrow> (int \<times> ('x, 'y) pstate) res" where
  "sys_clone F clone_flags newsp parent_tidptr child_tidptr tls st =
     kernel_clone F (kargs_zero\<lparr>ka_flags := (clone_flags AND 0xffffffff) AND NOT CSIGNAL, ka_pidfd := parent_tidptr,
       ka_child_tid := child_tidptr, ka_parent_tid := parent_tidptr, ka_exit_signal := uint (clone_flags AND CSIGNAL),
       ka_stack := newsp, ka_tls := tls\<rparr>) st"

definition copy_clone_args_from_user ::
    "('x, 'y) fenv \<Rightarrow> user_ptr \<Rightarrow> int \<Rightarrow> 'y \<Rightarrow> int + kernel_clone_args" where
  "copy_clone_args_from_user F uargs usize y =
     (if usize > page_size F then Inl (- E2BIG)
      else if usize < CLONE_ARGS_SIZE_VER0 then Inl (- EINVAL)
      else
        (case copy_clone_struct F uargs usize y of
           Inl err \<Rightarrow> Inl err
         | Inr args \<Rightarrow>
             if uint (ca_set_tid_size args) > int (max_pid_ns_level F) then Inl (- EINVAL)
             else if ca_set_tid args = 0 \<and> ca_set_tid_size args > 0 then Inl (- EINVAL)
             else if ca_set_tid args \<noteq> 0 \<and> ca_set_tid_size args = 0 then Inl (- EINVAL)
             else if ca_exit_signal args AND NOT CSIGNAL \<noteq> 0 \<or> \<not> valid_signal F (ca_exit_signal args) then Inl (- EINVAL)
             else if has (ca_flags args) CLONE_INTO_CGROUP \<and> (uint (ca_cgroup args) > 2 ^ 31 - 1 \<or> usize < CLONE_ARGS_SIZE_VER2)
             then Inl (- EINVAL)
             else
               let k = kargs_zero\<lparr>ka_flags := ca_flags args, ka_pidfd := ca_pidfd args, ka_child_tid := ca_child_tid args,
                 ka_parent_tid := ca_parent_tid args, ka_exit_signal := s32 (uint (ca_exit_signal args)), ka_stack := ca_stack args,
                 ka_stack_size := ca_stack_size args, ka_tls := ca_tls args, ka_cgroup := s32 (uint (ca_cgroup args))\<rparr>
               in if ca_set_tid args \<noteq> 0 then
                    (case copy_set_tid F (ca_set_tid args) (unat (ca_set_tid_size args)) y of
                       None \<Rightarrow> Inl (- EFAULT)
                     | Some ts \<Rightarrow> Inr (k\<lparr>ka_set_tid := ts\<rparr>))
                  else Inr k))"

definition clone3_stack_valid :: "('x, 'y) fenv \<Rightarrow> kernel_clone_args \<Rightarrow> bool \<times> kernel_clone_args" where
  "clone3_stack_valid F k =
     (if ka_stack k = 0 then (\<not> ka_stack_size k > 0, k)
      else if ka_stack_size k = 0 then (False, k)
      else if \<not> access_ok F (ka_stack k) (ka_stack_size k) then (False, k)
      else (True, k\<lparr>ka_stack := ka_stack k + ka_stack_size k\<rparr>))"

definition clone3_args_valid :: "('x, 'y) fenv \<Rightarrow> kernel_clone_args \<Rightarrow> bool \<times> kernel_clone_args" where
  "clone3_args_valid F k =
     (if has (ka_flags k) (NOT (clone_legacy_flags F OR CLONE_CLEAR_SIGHAND OR CLONE_INTO_CGROUP)) then (False, k)
      else if has (ka_flags k) (CLONE_DETACHED OR (CSIGNAL AND NOT CLONE_NEWTIME)) then (False, k)
      else if ka_flags k AND (CLONE_SIGHAND OR CLONE_CLEAR_SIGHAND) = (CLONE_SIGHAND OR CLONE_CLEAR_SIGHAND) then (False, k)
      else if has (ka_flags k) (CLONE_THREAD OR CLONE_PARENT) \<and> ka_exit_signal k \<noteq> 0 then (False, k)
      else clone3_stack_valid F k)"

definition sys_clone3 :: "('x, 'y) fenv \<Rightarrow> user_ptr \<Rightarrow> int \<Rightarrow> ('x, 'y) pstate \<Rightarrow> (int \<times> ('x, 'y) pstate) res" where
  "sys_clone3 F uargs usize st =
     (case copy_clone_args_from_user F uargs usize (pext st) of
        Inl err \<Rightarrow> Inr (err, st)
      | Inr k \<Rightarrow>
          (case clone3_args_valid F k of
             (False, _) \<Rightarrow> Inr (- EINVAL, st)
           | (True, k) \<Rightarrow> kernel_clone F k st))"

definition sys_set_tid_address :: "('x, 'y) fenv \<Rightarrow> user_ptr \<Rightarrow> ('x, 'y) pstate \<Rightarrow> int \<times> ('x, 'y) pstate" where
  "sys_set_tid_address F tidptr st =
     (pid_vnr F (me st) (pext st), upd_proc (me st) (\<lambda>v. v\<lparr>pr_clear_child_tid := tidptr\<rparr>) st)"

section \<open>Unsharing\<close>

definition check_unshare_flags :: "('x, 'y) fenv \<Rightarrow> cflags \<Rightarrow> ('x, 'y) pstate \<Rightarrow> int" where
  "check_unshare_flags F fl st =
     (if has fl (NOT (CLONE_THREAD OR CLONE_FS OR CLONE_NEWNS OR CLONE_SIGHAND OR CLONE_VM OR CLONE_FILES OR CLONE_SYSVSEM OR
           CLONE_NEWUTS OR CLONE_NEWIPC OR CLONE_NEWNET OR CLONE_NEWUSER OR CLONE_NEWPID OR CLONE_NEWCGROUP OR CLONE_NEWTIME))
      then - EINVAL
      else if has fl (CLONE_THREAD OR CLONE_SIGHAND OR CLONE_VM) \<and> \<not> thread_group_empty F (me st) (pext st) then - EINVAL
      else if has fl (CLONE_SIGHAND OR CLONE_VM) \<and>
              (case pr_sighand (procs st (me st)) of None \<Rightarrow> False | Some h \<Rightarrow> sighand_count st h > 1) then - EINVAL
      else if has fl CLONE_VM \<and> \<not> current_is_single_threaded F (me st) (pext st) then - EINVAL
      else 0)"

definition unshare_fs :: "('x, 'y) fenv \<Rightarrow> cflags \<Rightarrow> ('x, 'y) pstate \<Rightarrow> int \<times> nat option \<times> ('x, 'y) pstate" where
  "unshare_fs F fl st =
     (case pr_fs (procs st (me st)) of
        None \<Rightarrow> (0, None, st)
      | Some fs \<Rightarrow>
          if \<not> has fl CLONE_FS then (0, None, st)
          else if fs_users st fs = 1 then (0, None, st)
          else (case copy_fs_struct F fs st of (None, st) \<Rightarrow> (- ENOMEM, None, st) | (Some n, st) \<Rightarrow> (0, Some n, st)))"

definition unshare_fd :: "('x, 'y) fenv \<Rightarrow> cflags \<Rightarrow> ('x, 'y) pstate \<Rightarrow> int \<times> nat option \<times> ('x, 'y) pstate" where
  "unshare_fd F fl st =
     (case pr_files (procs st (me st)) of
        None \<Rightarrow> (0, None, st)
      | Some fd \<Rightarrow>
          if has fl CLONE_FILES \<and> files_count st fd > 1 then
            (case dup_fd F fd st of (Inl e, st) \<Rightarrow> (e, None, st) | (Inr n, st) \<Rightarrow> (0, Some n, st))
          else (0, None, st))"

text \<open>The flags that a request implies.\<close>

definition unshare_implied :: "cflags \<Rightarrow> cflags" where
  "unshare_implied fl =
     (let fl = (if has fl CLONE_NEWUSER then fl OR CLONE_THREAD OR CLONE_FS else fl);
          fl = (if has fl CLONE_VM then fl OR CLONE_SIGHAND else fl);
          fl = (if has fl CLONE_SIGHAND then fl OR CLONE_THREAD else fl)
      in if has fl CLONE_NEWNS then fl OR CLONE_FS else fl)"

text \<open>What is left in \<open>new_fs\<close>, \<open>new_fd\<close> and \<open>new_cred\<close> at the end is given back.\<close>

definition unshare_cleanup_fs :: "('x, 'y) fenv \<Rightarrow> nat option \<Rightarrow> ('x, 'y) pstate \<Rightarrow> ('x, 'y) pstate" where
  "unshare_cleanup_fs F new_fs st = (case new_fs of None \<Rightarrow> st | Some n \<Rightarrow> free_fs_struct F n st)"

definition unshare_cleanup_fd :: "('x, 'y) fenv \<Rightarrow> nat option \<Rightarrow> nat option \<Rightarrow> ('x, 'y) pstate \<Rightarrow> ('x, 'y) pstate" where
  "unshare_cleanup_fd F new_fd new_fs st =
     unshare_cleanup_fs F new_fs (case new_fd of None \<Rightarrow> st | Some n \<Rightarrow> put_files_struct F n st)"

definition unshare_cleanup_cred ::
    "('x, 'y) fenv \<Rightarrow> bool \<Rightarrow> nat option \<Rightarrow> nat option \<Rightarrow> ('x, 'y) pstate \<Rightarrow> ('x, 'y) pstate" where
  "unshare_cleanup_cred F new_cred new_fd new_fs st =
     unshare_cleanup_fd F new_fd new_fs (if new_cred then drop_res F Res_cred (me st) st else st)"

definition unshare_install ::
    "('x, 'y) fenv \<Rightarrow> cflags \<Rightarrow> bool \<Rightarrow> bool \<Rightarrow> bool \<Rightarrow> nat option \<Rightarrow> nat option \<Rightarrow> ('x, 'y) pstate \<Rightarrow>
     nat option \<times> nat option \<times> ('x, 'y) pstate" where
  "unshare_install F fl do_sysvsem new_cred new_nsproxy new_fd new_fs st =
     (let c = me st;
          st = (if do_sysvsem then tell F Exit_sem c st else st);
          st = (if has fl CLONE_NEWIPC then tell F Shm_init c (tell F Exit_shm c st) else st);
          st = (if new_nsproxy then tell F Switch_namespaces c st else st);
          (new_fs, st) = (case (new_fs, pr_fs (procs st c)) of
                            (Some n, Some fs) \<Rightarrow>
                              (let st = upd_proc c (\<lambda>v. v\<lparr>pr_fs := Some n\<rparr>) st;
                                   st = st\<lparr>fs_users := (fs_users st)(fs := fs_users st fs - 1)\<rparr>
                               in (if fs_users st fs \<noteq> 0 then None else Some fs, st))
                          | _ \<Rightarrow> (new_fs, st));
          (new_fd, st) = (case new_fd of
                            None \<Rightarrow> (None, st)
                          | Some n \<Rightarrow> (pr_files (procs st c), upd_proc c (\<lambda>v. v\<lparr>pr_files := Some n\<rparr>) st));
          st = (if new_cred then tell F Commit_creds c st else st)
      in (new_fd, new_fs, st))"

definition ksys_unshare :: "('x, 'y) fenv \<Rightarrow> cflags \<Rightarrow> ('x, 'y) pstate \<Rightarrow> int \<times> ('x, 'y) pstate" where
  "ksys_unshare F fl0 st =
     (let fl = unshare_implied fl0; c = me st; err = check_unshare_flags F fl st in
      if err \<noteq> 0 then (err, st)
      else
        let do_sysvsem = has fl (CLONE_NEWIPC OR CLONE_SYSVSEM); (err, new_fs, st) = unshare_fs F fl st in
        if err \<noteq> 0 then (err, st)
        else
          let (err, new_fd, st) = unshare_fd F fl st in
          if err \<noteq> 0 then (err, unshare_cleanup_fs F new_fs st)
          else
            let (err, new_cred, y) = unshare_userns F fl c (pext st); st = st\<lparr>pext := y\<rparr> in
            if err \<noteq> 0 then (err, unshare_cleanup_fd F new_fd new_fs st)
            else
              let (err, new_nsproxy, y) = unshare_nsproxy_namespaces F fl c (pext st); st = st\<lparr>pext := y\<rparr> in
              if err \<noteq> 0 then (err, unshare_cleanup_cred F new_cred new_fd new_fs st)
              else
                let (err, y) = (if new_cred then set_cred_ucounts F c (pext st) else (0, pext st)); st = st\<lparr>pext := y\<rparr> in
                if err \<noteq> 0 then (err, unshare_cleanup_cred F new_cred new_fd new_fs st)
                else if new_fs \<noteq> None \<or> new_fd \<noteq> None \<or> do_sysvsem \<or> new_cred \<or> new_nsproxy then
                  (let (new_fd, new_fs, st) = unshare_install F fl do_sysvsem new_cred new_nsproxy new_fd new_fs st
                   in (0, unshare_cleanup_cred F False new_fd new_fs (tell F Perf_namespaces c st)))
                else (0, unshare_cleanup_cred F False new_fd new_fs (tell F Perf_namespaces c st)))"

definition unshare_files :: "('x, 'y) fenv \<Rightarrow> ('x, 'y) pstate \<Rightarrow> int \<times> ('x, 'y) pstate" where
  "unshare_files F st =
     (case unshare_fd F CLONE_FILES st of
        (err, None, st) \<Rightarrow> (err, st)
      | (err, Some n, st) \<Rightarrow>
          if err \<noteq> 0 then (err, st)
          else
            (case pr_files (procs st (me st)) of
               None \<Rightarrow> (0, st)
             | Some old \<Rightarrow> (0, put_files_struct F old (upd_proc (me st) (\<lambda>v. v\<lparr>pr_files := Some n\<rparr>) st))))"

section \<open>The limit on threads\<close>

abbreviation (input) MIN_THREADS :: int where "MIN_THREADS \<equiv> 20"

text \<open>\<open>bitlen\<close> is \<open>fls64\<close>, the number of bits of a number.\<close>

definition set_max_threads :: "('x, 'y) fenv \<Rightarrow> int \<Rightarrow> int \<Rightarrow> ('x, 'y) pstate \<Rightarrow> ('x, 'y) pstate" where
  "set_max_threads F nr_pages suggested st =
     (let threads = (if bitlen nr_pages + bitlen (page_size F) > 64 then max_threads_limit F
                     else u64 (nr_pages * page_size F) div u64 (thread_size F * 8));
          threads = (if threads > suggested then suggested else threads)
      in st\<lparr>max_threads := max MIN_THREADS (min threads (max_threads_limit F))\<rparr>)"

text \<open>\<open>parsed\<close> is what \<open>proc_dointvec_minmax\<close> answers for the range \<open>1..MAX_THREADS\<close>.\<close>

definition sysctl_max_threads :: "int + int \<Rightarrow> bool \<Rightarrow> ('x, 'y) pstate \<Rightarrow> int \<times> ('x, 'y) pstate" where
  "sysctl_max_threads parsed is_write st =
     (case parsed of
        Inl ret \<Rightarrow> (ret, st)
      | Inr threads \<Rightarrow> if \<not> is_write then (0, st) else (0, st\<lparr>max_threads := threads\<rparr>))"

end
