(* ===== verification/Fork_Ledger.thy ===== *)
theory Fork_Ledger
  imports Fork_Model Sample_Env "HOL-Library.Multiset"
begin

text \<open>
  The accounts of a fork: what the services promise, what a child under construction holds at each label
  of \<open>copy_process\<close>, and that every label gives back its part.
\<close>

declare set_inorder [simp del] length_inorder [simp del]

section \<open>What the services promise\<close>

text \<open>
  \<open>held\<close> reads, from the state of the services, what the task under construction holds of them. Taking a
  resource adds it, unless the call fails; giving it back needs one that is held. Only the per-thread structure of a kernel
  thread may be given back without one, and \<open>copy_io\<close> may succeed without a context.
\<close>

definition took :: "fork_res \<Rightarrow> int \<Rightarrow> bool" where
  "took r e \<longleftrightarrow> (if r \<in> {Res_fd, Res_pidfile, Res_creds} then e \<ge> 0 else e = 0)"

definition acquire_ok :: "('x, 'y) fenv \<Rightarrow> ('y \<Rightarrow> fork_res multiset) \<Rightarrow> bool" where
  "acquire_ok F held \<longleftrightarrow>
     (\<forall>r p a y e y'. acquire F r p a y = (e, y') \<longrightarrow>
        held y' = held y + (if took r e \<and> (r = Res_io \<longrightarrow> has_io_context F p y') then {#r#} else {#}) \<and> (r = Res_delayacct \<longrightarrow> e = 0))"

definition release_ok :: "('x, 'y) fenv \<Rightarrow> ('y \<Rightarrow> fork_res multiset) \<Rightarrow> bool" where
  "release_ok F held \<longleftrightarrow> (\<forall>r p y. r \<in># held y \<or> r = Res_kthread \<longrightarrow> held (release F r p y) = held y - {#r#})"

definition ledger_ok :: "('x, 'y) fenv \<Rightarrow> ('y \<Rightarrow> fork_res multiset) \<Rightarrow> bool" where
  "ledger_ok F held \<longleftrightarrow> acquire_ok F held \<and> release_ok F held \<and>
     (\<forall>p y. has_io_context F p y \<longleftrightarrow> Res_io \<in># held y) \<and>
     (\<forall>n p y. held (fnote F n p y) = held y) \<and>
     (\<forall>u y i y'. kmem_alloc F u y = (i, y') \<longrightarrow> held y' = held y \<and> (\<forall>k. i = Some k \<longrightarrow> \<not> u k)) \<and>
     (\<forall>p q y. held (snd (arch_dup_task_struct F p q y)) = held y \<and> held (snd (scs_prepare F p y)) = held y) \<and>
     (\<forall>v u y. held (snd (put_user F v u y)) = held y) \<and>
     (\<forall>m n y. held (snd (dup_mmap F m n y)) = held y \<and> held (snd (module_got F m y)) = held y) \<and>
     (\<forall>p ts y. case alloc_pid F p ts y of
        (Inl e, y') \<Rightarrow> e \<noteq> 0 \<and> held y' = held y
      | (Inr n, y') \<Rightarrow> n \<noteq> init_struct_pid F \<and> held y' = held y + {#Res_pid#})"

text \<open>Adding a user to a counted object, if there is one.\<close>

definition bump :: "nat option \<Rightarrow> (nat \<Rightarrow> int) \<Rightarrow> nat \<Rightarrow> int" where
  "bump i f = (case i of None \<Rightarrow> f | Some k \<Rightarrow> f(k := f k + 1))"

definition unbump :: "nat option \<Rightarrow> (nat \<Rightarrow> int) \<Rightarrow> nat \<Rightarrow> int" where
  "unbump i f = (case i of None \<Rightarrow> f | Some k \<Rightarrow> f(k := f k - 1))"

lemma unbump_bump [simp]: "unbump i (bump i f) = f"
  by (cases i) (simp_all add: bump_def unbump_def)

text \<open>
  New files and directories have one user and an object that was free; a task that gives them up drops one user.
\<close>

definition objects_ok :: "('x, 'y) fenv \<Rightarrow> ('y \<Rightarrow> fork_res multiset) \<Rightarrow> bool" where
  "objects_ok F held \<longleftrightarrow>
     (\<forall>f st. case dup_fd F f st of
        (Inl e, st') \<Rightarrow> e \<noteq> 0 \<and> (\<exists>y. held y = held (pext st) \<and> st' = st\<lparr>pext := y\<rparr>)
      | (Inr n, st') \<Rightarrow> files_count st n = 0 \<and>
          (\<exists>y. held y = held (pext st) \<and> st' = st\<lparr>files_count := bump (Some n) (files_count st), pext := y\<rparr>)) \<and>
     (\<forall>f st. case copy_fs_struct F f st of
        (None, st') \<Rightarrow> \<exists>y. held y = held (pext st) \<and> st' = st\<lparr>pext := y\<rparr>
      | (Some n, st') \<Rightarrow> fs_users st n = 0 \<and>
          (\<exists>y. held y = held (pext st) \<and> st' = st\<lparr>fs_users := bump (Some n) (fs_users st), pext := y\<rparr>)) \<and>
     (\<forall>p st. \<exists>y. held y = held (pext st) \<and>
        exit_files F p st = st\<lparr>files_count := unbump (pr_files (procs st p)) (files_count st),
          procs := (procs st)(p := (procs st p)\<lparr>pr_files := None\<rparr>), pext := y\<rparr>) \<and>
     (\<forall>p st. \<exists>y. held y = held (pext st) \<and>
        exit_fs F p st = st\<lparr>fs_users := unbump (pr_fs (procs st p)) (fs_users st),
          procs := (procs st)(p := (procs st p)\<lparr>pr_fs := None\<rparr>), pext := y\<rparr>)"

text \<open>What the scheduler's part and the other classes leave alone in a fork.\<close>

definition same_fork :: "'x kstate \<Rightarrow> 'x kstate \<Rightarrow> bool" where
  "same_fork s s' \<longleftrightarrow> current s' = current s \<and>
     (\<forall>t. mm (tasks s' t) = mm (tasks s t) \<and> pflags (tasks s' t) = pflags (tasks s t))"

definition kernel_ok :: "('x, 'y) fenv \<Rightarrow> bool" where
  "kernel_ok F \<longleftrightarrow>
     (\<forall>p s. same_fork s (sched_core_fork F p s) \<and> same_fork s (sched_core_free F p s)) \<and>
     (\<forall>m n p s. same_fork s (snd (mm_init F m n p s))) \<and>
     (\<forall>k f p s s'. op_task_fork (other_class (fkern F) k) = Some f \<longrightarrow> f p s = Inr s' \<longrightarrow> same_fork s s')"

definition fork_lib_ok :: "('x, 'y) fenv \<Rightarrow> ('y \<Rightarrow> fork_res multiset) \<Rightarrow> bool" where
  "fork_lib_ok F held \<longleftrightarrow> ledger_ok F held \<and> objects_ok F held \<and> kernel_ok F"

section \<open>The accounts at a label\<close>

text \<open>The services that the labels from the \<open>k\<close>-th on give back; the context of \<open>copy_io\<close> and the kernel thread's structure apart.\<close>

definition label_res :: "('x, 'y) fenv \<Rightarrow> cflags \<Rightarrow> fork_loc \<Rightarrow> (nat \<times> fork_res list) list" where
  "label_res F fl l =
     [(1, [Res_cgroup]), (2, if has fl CLONE_PIDFD then [Res_fd, Res_pidfile] else []),
      (3, if fl_pid l \<noteq> Some (init_struct_pid F) then [Res_pid] else []), (4, [Res_thread]), (6, [Res_namespaces]),
      (12, [Res_semundo]), (13, [Res_security]), (14, [Res_audit]), (15, [Res_perf]), (17, [Res_mempolicy]),
      (18, [Res_delayacct]), (19, [Res_creds]), (20, [Res_stack])]"

definition res_from :: "('x, 'y) fenv \<Rightarrow> cflags \<Rightarrow> fork_loc \<Rightarrow> nat \<Rightarrow> fork_res multiset" where
  "res_from F fl l k = mset (concat (map snd (filter (\<lambda>(i, _). k \<le> i) (label_res F fl l))))"

text \<open>The signal structures while the parent collects signals.\<close>

definition collecting :: "cflags \<Rightarrow> ('x, 'y) pstate \<Rightarrow> nat \<Rightarrow> signal_struct option" where
  "collecting fl st =
     (if has fl CLONE_THREAD then signals st
      else case pr_signal (procs st (me st)) of
             None \<Rightarrow> signals st
           | Some j \<Rightarrow> (signals st)(j := map_option (\<lambda>g. g\<lparr>sg_multiprocess := me st # sg_multiprocess g\<rparr>) (signals st j)))"

text \<open>What a failed fork must not have changed, the counts of objects apart.\<close>

definition rest_of :: "('x, 'y) pstate \<Rightarrow> tid \<times> (nat \<Rightarrow> bool) \<times> int \<times> int \<times> (cpu \<Rightarrow> int) \<times> tid list" where
  "rest_of st = (me st, fs_in_exec st, nr_threads st, total_forks st, process_counts st, task_list st)"

text \<open>\<open>i\<close> is the signal structure of the child, which is its own unless it is a thread.\<close>

definition signals_at ::
    "cflags \<Rightarrow> ('x, 'y) pstate \<Rightarrow> nat \<Rightarrow> nat option \<Rightarrow> (nat \<Rightarrow> signal_struct option) \<Rightarrow> bool" where
  "signals_at fl st0 k i sig \<longleftrightarrow>
     (let sig0 = (if k \<le> 21 then collecting fl st0 else signals st0)
      in if k \<le> 8 \<and> \<not> has fl CLONE_THREAD then \<exists>j g. i = Some j \<and> signals st0 j = None \<and> sig = sig0(j := Some g)
         else sig = sig0)"

definition counts_at :: "kernel_clone_args \<Rightarrow> ('x, 'y) pstate \<Rightarrow> nat \<Rightarrow> tid \<Rightarrow> ('x, 'y) pstate \<Rightarrow> bool" where
  "counts_at a st0 k p st \<longleftrightarrow>
     rest_of st = rest_of st0 \<and>
     (\<forall>t. task_used st0 t \<longrightarrow> procs st t = procs st0 t) \<and>
     (if k \<le> 20 then \<not> task_used st0 p \<and> task_used st = (task_used st0)(p := True) \<and> stack_refcount st p = 1
      else task_used st = task_used st0) \<and>
     signals_at (ka_flags a) st0 k (pr_signal (procs st p)) (signals st) \<and>
     mm_users st = (if k \<le> 7 then bump (mm (tasks (pk st) p)) (mm_users st0) else mm_users st0) \<and>
     sighand_count st = (if k \<le> 9 then bump (pr_sighand (procs st p)) (sighand_count st0) else sighand_count st0) \<and>
     fs_users st = (if k \<le> 10 then bump (pr_fs (procs st p)) (fs_users st0) else fs_users st0) \<and>
     files_count st = (if k \<le> 11 then bump (pr_files (procs st p)) (files_count st0) else files_count st0)"

definition ledger_at :: "('x, 'y) fenv \<Rightarrow> ('y \<Rightarrow> fork_res multiset) \<Rightarrow> cflags \<Rightarrow> nat \<Rightarrow> fork_loc \<Rightarrow> bool \<Rightarrow> 'y \<Rightarrow> bool" where
  "ledger_at F held fl k l kthread y \<longleftrightarrow>
     (\<exists>kt io. held y = res_from F fl l k + kt + io \<and> kt \<in> {{#}, {#Res_kthread#}} \<and> io \<in> {{#}, {#Res_io#}} \<and>
        (kt \<noteq> {#} \<longrightarrow> k \<le> 20 \<and> kthread) \<and> (io \<noteq> {#} \<longrightarrow> k \<le> 5))"

definition forked ::
    "('x, 'y) fenv \<Rightarrow> ('y \<Rightarrow> fork_res multiset) \<Rightarrow> kernel_clone_args \<Rightarrow> ('x, 'y) pstate \<Rightarrow> nat \<Rightarrow> fork_loc \<Rightarrow> ('x, 'y) pstate \<Rightarrow> bool" where
  "forked F held a st0 k l st \<longleftrightarrow> counts_at a st0 k (fl_p l) st \<and>
     ledger_at F held (ka_flags a) k l (pflags (tasks (pk st) (fl_p l)) AND PF_KTHREAD \<noteq> 0) (pext st)"

section \<open>The services, one by one\<close>

lemma take_resD:
  assumes "ledger_ok F held" "take_res F r p a st = (e, st')"
  obtains y where "st' = st\<lparr>pext := y\<rparr>"
    "held y = held (pext st) + (if took r e \<and> (r = Res_io \<longrightarrow> has_io_context F p y) then {#r#} else {#})" "r = Res_delayacct \<Longrightarrow> e = 0"
proof -
  obtain y where y: "acquire F r p a (pext st) = (e, y)" "st' = st\<lparr>pext := y\<rparr>"
    using assms(2) by (auto simp: take_res_def split: prod.splits)
  from assms(1) have "acquire_ok F held" by (simp add: ledger_ok_def)
  with y that show thesis unfolding acquire_ok_def by blast
qed

lemma take_plain:
  assumes "ledger_ok F held" "take_res F r p a st = (e, st')" "r \<noteq> Res_io"
  shows "\<exists>y. st' = st\<lparr>pext := y\<rparr> \<and> held y = held (pext st) + (if took r e then {#r#} else {#})"
proof (rule take_resD [OF assms(1,2)])
  fix y assume "st' = st\<lparr>pext := y\<rparr>"
    "held y = held (pext st) + (if took r e \<and> (r = Res_io \<longrightarrow> has_io_context F p y) then {#r#} else {#})"
  with assms(3) show ?thesis by (intro exI [of _ y]) simp
qed

lemma release_held:
  "ledger_ok F held \<Longrightarrow> r \<in># held y \<or> r = Res_kthread \<Longrightarrow> held (release F r p y) = held y - {#r#}"
  by (auto simp: ledger_ok_def release_ok_def)

lemma note_held: "ledger_ok F held \<Longrightarrow> held (fnote F n p y) = held y"
  by (simp add: ledger_ok_def)

lemma io_held: "ledger_ok F held \<Longrightarrow> has_io_context F p y = (Res_io \<in># held y)"
  by (simp add: ledger_ok_def)

lemma kmem_allocD:
  assumes "ledger_ok F held" "kmem_alloc F u y = (i, y')"
  shows "held y' = held y \<and> (\<forall>k. i = Some k \<longrightarrow> \<not> u k)"
proof -
  have "\<forall>u y i y'. kmem_alloc F u y = (i, y') \<longrightarrow> held y' = held y \<and> (\<forall>k. i = Some k \<longrightarrow> \<not> u k)"
    using assms(1) unfolding ledger_ok_def by (elim conjE)
  with assms(2) show ?thesis by blast
qed

lemma quiet_held:
  assumes "ledger_ok F held"
  shows "arch_dup_task_struct F p q y = (e, y') \<Longrightarrow> held y' = held y" "scs_prepare F p y = (e, y') \<Longrightarrow> held y' = held y"
    "put_user F v u y = (e, y') \<Longrightarrow> held y' = held y" "dup_mmap F m n y = (e, y') \<Longrightarrow> held y' = held y"
    "module_got F m y = (b, y') \<Longrightarrow> held y' = held y"
  using assms unfolding ledger_ok_def by (metis snd_conv)+

lemma alloc_pidD:
  assumes "ledger_ok F held"
  shows "alloc_pid F p ts y = (Inl e, y') \<Longrightarrow> e \<noteq> 0 \<and> held y' = held y"
    "alloc_pid F p ts y = (Inr n, y') \<Longrightarrow> n \<noteq> init_struct_pid F \<and> held y' = held y + {#Res_pid#}"
proof -
  have *: "case alloc_pid F p ts y of (Inl e, y') \<Rightarrow> e \<noteq> 0 \<and> held y' = held y
      | (Inr n, y') \<Rightarrow> n \<noteq> init_struct_pid F \<and> held y' = held y + {#Res_pid#}"
    using assms by (simp only: ledger_ok_def)
  show "alloc_pid F p ts y = (Inl e, y') \<Longrightarrow> e \<noteq> 0 \<and> held y' = held y"
    "alloc_pid F p ts y = (Inr n, y') \<Longrightarrow> n \<noteq> init_struct_pid F \<and> held y' = held y + {#Res_pid#}"
    using * by simp_all
qed

lemma dup_fdD:
  assumes "objects_ok F held"
  shows "dup_fd F f st = (Inl e, st') \<Longrightarrow> e \<noteq> 0 \<and> (\<exists>y. held y = held (pext st) \<and> st' = st\<lparr>pext := y\<rparr>)"
    "dup_fd F f st = (Inr n, st') \<Longrightarrow> files_count st n = 0 \<and>
       (\<exists>y. held y = held (pext st) \<and> st' = st\<lparr>files_count := bump (Some n) (files_count st), pext := y\<rparr>)"
proof -
  have *: "case dup_fd F f st of (Inl e, st') \<Rightarrow> e \<noteq> 0 \<and> (\<exists>y. held y = held (pext st) \<and> st' = st\<lparr>pext := y\<rparr>)
      | (Inr n, st') \<Rightarrow> files_count st n = 0 \<and>
          (\<exists>y. held y = held (pext st) \<and> st' = st\<lparr>files_count := bump (Some n) (files_count st), pext := y\<rparr>)"
    using assms unfolding objects_ok_def by (elim conjE) meson
  show "dup_fd F f st = (Inl e, st') \<Longrightarrow> e \<noteq> 0 \<and> (\<exists>y. held y = held (pext st) \<and> st' = st\<lparr>pext := y\<rparr>)"
    "dup_fd F f st = (Inr n, st') \<Longrightarrow> files_count st n = 0 \<and>
       (\<exists>y. held y = held (pext st) \<and> st' = st\<lparr>files_count := bump (Some n) (files_count st), pext := y\<rparr>)"
    using * by simp_all
qed

lemma copy_fs_structD:
  assumes "objects_ok F held"
  shows "copy_fs_struct F f st = (None, st') \<Longrightarrow> \<exists>y. held y = held (pext st) \<and> st' = st\<lparr>pext := y\<rparr>"
    "copy_fs_struct F f st = (Some n, st') \<Longrightarrow> fs_users st n = 0 \<and>
       (\<exists>y. held y = held (pext st) \<and> st' = st\<lparr>fs_users := bump (Some n) (fs_users st), pext := y\<rparr>)"
proof -
  have *: "case copy_fs_struct F f st of (None, st') \<Rightarrow> \<exists>y. held y = held (pext st) \<and> st' = st\<lparr>pext := y\<rparr>
      | (Some n, st') \<Rightarrow> fs_users st n = 0 \<and>
          (\<exists>y. held y = held (pext st) \<and> st' = st\<lparr>fs_users := bump (Some n) (fs_users st), pext := y\<rparr>)"
    using assms unfolding objects_ok_def by (elim conjE) meson
  show "copy_fs_struct F f st = (None, st') \<Longrightarrow> \<exists>y. held y = held (pext st) \<and> st' = st\<lparr>pext := y\<rparr>"
    "copy_fs_struct F f st = (Some n, st') \<Longrightarrow> fs_users st n = 0 \<and>
       (\<exists>y. held y = held (pext st) \<and> st' = st\<lparr>fs_users := bump (Some n) (fs_users st), pext := y\<rparr>)"
    using * by simp_all
qed

lemma exit_filesD:
  "objects_ok F held \<Longrightarrow> \<exists>y. held y = held (pext st) \<and>
     exit_files F p st = st\<lparr>files_count := unbump (pr_files (procs st p)) (files_count st),
       procs := (procs st)(p := (procs st p)\<lparr>pr_files := None\<rparr>), pext := y\<rparr>"
  unfolding objects_ok_def by blast

lemma exit_fsD:
  "objects_ok F held \<Longrightarrow> \<exists>y. held y = held (pext st) \<and>
     exit_fs F p st = st\<lparr>fs_users := unbump (pr_fs (procs st p)) (fs_users st),
       procs := (procs st)(p := (procs st p)\<lparr>pr_fs := None\<rparr>), pext := y\<rparr>"
  unfolding objects_ok_def by blast

section \<open>Labels and services\<close>

lemma signals_at_numeral [simp]:
  "signals_at fl st0 7 = signals_at fl st0 8" "signals_at fl st0 10 = signals_at fl st0 9" "signals_at fl st0 11 = signals_at fl st0 9"
  "signals_at fl st0 12 = signals_at fl st0 9" "signals_at fl st0 20 = signals_at fl st0 9" "signals_at fl st0 21 = signals_at fl st0 9"
  by (simp_all add: signals_at_def fun_eq_iff)

lemma signals_at_collecting [simp]: "signals_at fl st0 9 i sig = (sig = collecting fl st0)"
  by (simp add: signals_at_def)

lemma counts_at_pext [simp]: "counts_at a st0 k p (st\<lparr>pext := y\<rparr>) = counts_at a st0 k p st"
  by (simp add: counts_at_def rest_of_def)

lemma counts_at_Suc:
  assumes "k \<notin> {7, 8, 9, 10, 11, 20, 21}"
  shows "counts_at a st0 (Suc k) p st = counts_at a st0 k p st"
proof -
  have e: "(Suc k \<le> 20) = (k \<le> 20)" "(Suc k \<le> 21) = (k \<le> 21)" "(Suc k \<le> 8) = (k \<le> 8)" "(Suc k \<le> 7) = (k \<le> 7)"
    "(Suc k \<le> 9) = (k \<le> 9)" "(Suc k \<le> 10) = (k \<le> 10)" "(Suc k \<le> 11) = (k \<le> 11)"
    using assms by auto
  show ?thesis unfolding counts_at_def signals_at_def e ..
qed

lemma ledger_give:
  assumes "ledger_at F held fl k l b y" "k \<notin> {5, 20}" "res_from F fl l k = res_from F fl l (Suc k) + R"
    and "R \<subseteq># held y \<Longrightarrow> held y' = held y - R"
  shows "ledger_at F held fl (Suc k) l b y'"
proof -
  obtain kt io where h: "held y = R + (res_from F fl l (Suc k) + kt + io)" "kt \<in> {{#}, {#Res_kthread#}}" "io \<in> {{#}, {#Res_io#}}"
      "kt \<noteq> {#} \<longrightarrow> k \<le> 20 \<and> b" "io \<noteq> {#} \<longrightarrow> k \<le> 5"
    using assms(1,3) unfolding ledger_at_def by (auto simp: ac_simps)
  then have "held y' = res_from F fl l (Suc k) + kt + io" using assms(4) by simp
  moreover have "kt \<noteq> {#} \<longrightarrow> Suc k \<le> 20 \<and> b" "io \<noteq> {#} \<longrightarrow> Suc k \<le> 5" using h(4,5) assms(2) by auto
  ultimately show ?thesis using h(2,3) unfolding ledger_at_def by blast
qed

lemma ledger_take:
  assumes "ledger_at F held fl (Suc k) l b y" "res_from F fl l k = res_from F fl l (Suc k) + R" "held y' = held y + R"
  shows "ledger_at F held fl k l b y'"
proof -
  obtain kt io where h: "held y = res_from F fl l (Suc k) + kt + io" "kt \<in> {{#}, {#Res_kthread#}}" "io \<in> {{#}, {#Res_io#}}"
      "kt \<noteq> {#} \<longrightarrow> Suc k \<le> 20 \<and> b" "io \<noteq> {#} \<longrightarrow> Suc k \<le> 5"
    using assms(1) unfolding ledger_at_def by blast
  then have "held y' = res_from F fl l k + kt + io" using assms(2,3) by (simp add: ac_simps)
  moreover have "kt \<noteq> {#} \<longrightarrow> k \<le> 20 \<and> b" "io \<noteq> {#} \<longrightarrow> k \<le> 5" using h(4,5) by auto
  ultimately show ?thesis using h(2,3) unfolding ledger_at_def by blast
qed

lemma ledger_quiet: "ledger_at F held fl k l b y \<Longrightarrow> held y' = held y \<Longrightarrow> ledger_at F held fl k l b y'"
  unfolding ledger_at_def by simp

lemma forked_give:
  assumes "forked F held a st0 k l st" "k \<notin> {5, 7, 8, 9, 10, 11, 20, 21}"
    and "res_from F (ka_flags a) l k = res_from F (ka_flags a) l (Suc k) + R" "R \<subseteq># held (pext st) \<Longrightarrow> held y = held (pext st) - R"
  shows "forked F held a st0 (Suc k) l (st\<lparr>pext := y\<rparr>)"
  using assms ledger_give [of F held "ka_flags a" k l _ "pext st" R y] by (auto simp: forked_def counts_at_Suc)

lemma forked_take:
  assumes "forked F held a st0 (Suc k) l st" "k \<notin> {7, 8, 9, 10, 11, 20, 21}"
    and "res_from F (ka_flags a) l k = res_from F (ka_flags a) l (Suc k) + R" "held y = held (pext st) + R"
  shows "forked F held a st0 k l (st\<lparr>pext := y\<rparr>)"
  using assms ledger_take [of F held "ka_flags a" k l _ "pext st" R y] by (auto simp: forked_def counts_at_Suc)

lemma forked_quiet: "forked F held a st0 k l st \<Longrightarrow> held y = held (pext st) \<Longrightarrow> forked F held a st0 k l (st\<lparr>pext := y\<rparr>)"
  by (auto simp: forked_def intro: ledger_quiet)

lemma res_from_step:
  "res_from F fl l 0 = res_from F fl l (Suc 0)"
  "res_from F fl l 1 = res_from F fl l 2 + {#Res_cgroup#}"
  "res_from F fl l 2 = res_from F fl l 3 + (if has fl CLONE_PIDFD then {#Res_fd, Res_pidfile#} else {#})"
  "res_from F fl l 3 = res_from F fl l 4 + (if fl_pid l \<noteq> Some (init_struct_pid F) then {#Res_pid#} else {#})"
  "res_from F fl l 4 = res_from F fl l 5 + {#Res_thread#}"
  "res_from F fl l 5 = res_from F fl l 6"
  "res_from F fl l 6 = res_from F fl l 7 + {#Res_namespaces#}"
  "res_from F fl l 7 = res_from F fl l 8" "res_from F fl l 8 = res_from F fl l 9" "res_from F fl l 9 = res_from F fl l 10"
  "res_from F fl l 10 = res_from F fl l 11" "res_from F fl l 11 = res_from F fl l 12"
  "res_from F fl l 12 = res_from F fl l 13 + {#Res_semundo#}" "res_from F fl l 13 = res_from F fl l 14 + {#Res_security#}"
  "res_from F fl l 14 = res_from F fl l 15 + {#Res_audit#}" "res_from F fl l 15 = res_from F fl l 16 + {#Res_perf#}"
  "res_from F fl l 16 = res_from F fl l 17" "res_from F fl l 17 = res_from F fl l 18 + {#Res_mempolicy#}"
  "res_from F fl l 18 = res_from F fl l 19 + {#Res_delayacct#}" "res_from F fl l 19 = res_from F fl l 20 + {#Res_creds#}"
  "res_from F fl l 20 = res_from F fl l 21 + {#Res_stack#}" "res_from F fl l 21 = {#}" "res_from F fl l 22 = {#}"
  by (simp_all add: res_from_def label_res_def)

section \<open>Every label gives back its part\<close>

lemma drop_one:
  assumes "ledger_ok F held" "forked F held a st0 k l st" "k \<notin> {5, 7, 8, 9, 10, 11, 20, 21}"
    and "res_from F (ka_flags a) l k = res_from F (ka_flags a) l (Suc k) + {#r#}"
  shows "forked F held a st0 (Suc k) l (drop_res F r p st)"
  using assms(3,4) release_held [OF assms(1), of r "pext st" p] by (intro forked_give [OF assms(2)]) auto

lemma drop_none:
  assumes "forked F held a st0 k l st" "k \<notin> {5, 7, 8, 9, 10, 11, 20, 21}"
    and "res_from F (ka_flags a) l k = res_from F (ka_flags a) l (Suc k)"
  shows "forked F held a st0 (Suc k) l st"
  using forked_give [OF assms(1,2), of "{#}" "pext st"] assms(3) by simp

text \<open>A change of the objects alone: the services and the flags of the task stay.\<close>

lemma forked_objects:
  assumes "forked F held a st0 k l st" "counts_at a st0 (Suc k) (fl_p l) st'" "k \<notin> {5, 20}"
    and "res_from F (ka_flags a) l k = res_from F (ka_flags a) l (Suc k)"
    and "held (pext st') = held (pext st)" "pflags (tasks (pk st') (fl_p l)) = pflags (tasks (pk st) (fl_p l))"
  shows "forked F held a st0 (Suc k) l st'"
  using assms ledger_give [of F held "ka_flags a" k l _ "pext st" "{#}" "pext st'"] by (auto simp: forked_def)

lemma mmput_shape:
  assumes "ledger_ok F held"
  obtains y where "held y = held (pext st)" "mmput F m st = st\<lparr>mm_users := unbump (Some m) (mm_users st), pext := y\<rparr>"
proof
  let ?y = "if mm_users st m = 1 then fnote F (Mmput_last m) (me st) (pext st) else pext st"
  show "held ?y = held (pext st)" by (simp add: note_held [OF assms])
  show "mmput F m st = st\<lparr>mm_users := unbump (Some m) (mm_users st), pext := ?y\<rparr>"
    by (simp add: mmput_def unbump_def Let_def)
qed

lemma cleanup_sighand_shape:
  assumes "ledger_ok F held"
  obtains y where "held y = held (pext st)"
    "cleanup_sighand F p h st = st\<lparr>sighand_count := unbump (Some h) (sighand_count st), pext := y\<rparr>"
proof
  let ?y = "if sighand_count st h = 1 then fnote F Signalfd_cleanup p (pext st) else pext st"
  show "held ?y = held (pext st)" by (simp add: note_held [OF assms])
  show "cleanup_sighand F p h st = st\<lparr>sighand_count := unbump (Some h) (sighand_count st), pext := ?y\<rparr>"
    by (simp add: cleanup_sighand_def unbump_def Let_def)
qed

lemma unwind_mm:
  assumes "ledger_ok F held" "forked F held a st0 7 l st" "bad_fork F (ka_flags a) l Bad_fork_cleanup_mm st = Inr st'"
  shows "forked F held a st0 8 l st'"
proof -
  have c: "counts_at a st0 7 (fl_p l) st" using assms(2) by (simp add: forked_def)
  have "counts_at a st0 (Suc 7) (fl_p l) st' \<and> held (pext st') = held (pext st) \<and> tasks (pk st') = tasks (pk st)"
  proof (cases "mm (tasks (pk st) (fl_p l))")
    case None
    then show ?thesis using c assms(3) by (simp add: bad_fork_def counts_at_def bump_def)
  next
    case (Some m)
    then have st': "st' = mmput F m (tell F Mm_clear_owner (fl_p l) st)" using assms(3) by (simp add: bad_fork_def)
    obtain y where y: "held y = held (pext (tell F Mm_clear_owner (fl_p l) st))"
      "st' = (tell F Mm_clear_owner (fl_p l) st)\<lparr>mm_users := unbump (Some m) (mm_users (tell F Mm_clear_owner (fl_p l) st)), pext := y\<rparr>"
      unfolding st' by (rule mmput_shape [OF assms(1)])
    then show ?thesis using c Some by (simp add: note_held [OF assms(1)] counts_at_def rest_of_def)
  qed
  then have *: "counts_at a st0 (Suc 7) (fl_p l) st'" "held (pext st') = held (pext st)" "tasks (pk st') = tasks (pk st)"
    by simp_all
  show ?thesis using forked_objects [OF assms(2) *(1)] * by (simp add: res_from_step)
qed

lemma unwind_signal:
  assumes "ledger_ok F held" "forked F held a st0 8 l st" "bad_fork F (ka_flags a) l Bad_fork_cleanup_signal st = Inr st'"
  shows "forked F held a st0 9 l st'"
proof -
  have c: "counts_at a st0 8 (fl_p l) st" using assms(2) by (simp add: forked_def)
  have free: "(collecting fl st0) i = None" if "signals st0 i = None" for i fl
    using that by (auto simp: collecting_def split: option.split)
  have s: "signals_at (ka_flags a) st0 8 (pr_signal (procs st (fl_p l))) (signals st)" using c by (simp add: counts_at_def)
  have "counts_at a st0 (Suc 8) (fl_p l) st' \<and> held (pext st') = held (pext st) \<and> tasks (pk st') = tasks (pk st)"
  proof (cases "has (ka_flags a) CLONE_THREAD")
    case True
    then show ?thesis using c assms(3) by (simp add: bad_fork_def counts_at_def signals_at_def)
  next
    case False
    then obtain i g where i: "pr_signal (procs st (fl_p l)) = Some i" "signals st0 i = None"
      "signals st = (collecting (ka_flags a) st0)(i := Some g)" using s by (auto simp: signals_at_def Let_def)
    then have st': "st' = free_signal_struct F (fl_p l) i st" using assms(3) False by (simp add: bad_fork_def)
    have "signals st' = collecting (ka_flags a) st0" using i free [OF i(2)] by (simp add: st' free_signal_struct_def fun_upd_idem)
    then show ?thesis using c by (simp add: st' free_signal_struct_def note_held [OF assms(1)] counts_at_def rest_of_def signals_at_def)
  qed
  then have *: "counts_at a st0 (Suc 8) (fl_p l) st'" "held (pext st') = held (pext st)" "tasks (pk st') = tasks (pk st)"
    by simp_all
  show ?thesis using forked_objects [OF assms(2) *(1)] * by (simp add: res_from_step)
qed

lemma unwind_sighand:
  assumes "ledger_ok F held" "forked F held a st0 9 l st" "bad_fork F (ka_flags a) l Bad_fork_cleanup_sighand st = Inr st'"
  shows "forked F held a st0 10 l st'"
proof -
  have c: "counts_at a st0 9 (fl_p l) st" using assms(2) by (simp add: forked_def)
  obtain h where h: "pr_sighand (procs st (fl_p l)) = Some h" "st' = cleanup_sighand F (fl_p l) h st"
    using assms(3) by (auto simp: bad_fork_def Let_def split: option.splits)
  obtain y where "held y = held (pext st)" "st' = st\<lparr>sighand_count := unbump (Some h) (sighand_count st), pext := y\<rparr>"
    unfolding h(2) by (rule cleanup_sighand_shape [OF assms(1)])
  then have *: "counts_at a st0 (Suc 9) (fl_p l) st'" "held (pext st') = held (pext st)" "tasks (pk st') = tasks (pk st)"
    using c h(1) by (simp_all add: counts_at_def rest_of_def)
  show ?thesis using forked_objects [OF assms(2) *(1)] * by (simp add: res_from_step)
qed

lemma unwind_fs:
  assumes "objects_ok F held" "forked F held a st0 10 l st" "bad_fork F (ka_flags a) l Bad_fork_cleanup_fs st = Inr st'"
  shows "forked F held a st0 11 l st'"
proof -
  have c: "counts_at a st0 10 (fl_p l) st" using assms(2) by (simp add: forked_def)
  obtain y where y: "held y = held (pext st)" "exit_fs F (fl_p l) st = st\<lparr>fs_users := unbump (pr_fs (procs st (fl_p l))) (fs_users st),
       procs := (procs st)(fl_p l := (procs st (fl_p l))\<lparr>pr_fs := None\<rparr>), pext := y\<rparr>"
    using exit_fsD [OF assms(1)] by blast
  have *: "counts_at a st0 (Suc 10) (fl_p l) st'" "held (pext st') = held (pext st)" "tasks (pk st') = tasks (pk st)"
    using c assms(3) y by (auto simp: bad_fork_def counts_at_def rest_of_def)
  show ?thesis using forked_objects [OF assms(2) *(1)] * by (simp add: res_from_step)
qed

lemma unwind_files:
  assumes "objects_ok F held" "forked F held a st0 11 l st" "bad_fork F (ka_flags a) l Bad_fork_cleanup_files st = Inr st'"
  shows "forked F held a st0 12 l st'"
proof -
  have c: "counts_at a st0 11 (fl_p l) st" using assms(2) by (simp add: forked_def)
  obtain y where y: "held y = held (pext st)" "exit_files F (fl_p l) st = st\<lparr>files_count := unbump (pr_files (procs st (fl_p l))) (files_count st),
       procs := (procs st)(fl_p l := (procs st (fl_p l))\<lparr>pr_files := None\<rparr>), pext := y\<rparr>"
    using exit_filesD [OF assms(1)] by blast
  have *: "counts_at a st0 (Suc 11) (fl_p l) st'" "held (pext st') = held (pext st)" "tasks (pk st') = tasks (pk st)"
    using c assms(3) y by (auto simp: bad_fork_def counts_at_def rest_of_def)
  show ?thesis using forked_objects [OF assms(2) *(1)] * by (simp add: res_from_step)
qed

text \<open>A change of the scheduler's state that keeps the address space and the flags of every task.\<close>

lemma forked_kernel: "forked F held a st0 k l st \<Longrightarrow> same_fork (pk st) s \<Longrightarrow> forked F held a st0 k l (st\<lparr>pk := s\<rparr>)"
  by (simp add: forked_def counts_at_def rest_of_def same_fork_def)

lemma unwind_pidfd:
  assumes "ledger_ok F held" "forked F held a st0 2 l st" "bad_fork F (ka_flags a) l Bad_fork_put_pidfd st = Inr st'"
  shows "forked F held a st0 3 l st'"
proof (cases "has (ka_flags a) CLONE_PIDFD")
  case True
  let ?y = "release F Res_pidfile (fl_p l) (pext st)"
  have st': "st' = st\<lparr>pext := release F Res_fd (fl_p l) ?y\<rparr>" using assms(3) True by (simp add: bad_fork_def Let_def)
  have "held (pext st') = held (pext st) - {#Res_fd, Res_pidfile#}" if sub: "{#Res_fd, Res_pidfile#} \<subseteq># held (pext st)"
  proof -
    obtain M where M: "held (pext st) = {#Res_fd, Res_pidfile#} + M" using sub unfolding mset_subset_eq_exists_conv by blast
    then have "held ?y = {#Res_fd#} + M" using release_held [OF assms(1), of Res_pidfile "pext st"] by simp
    then show ?thesis using M release_held [OF assms(1), of Res_fd ?y] by (simp add: st')
  qed
  then show ?thesis
    using forked_give [OF assms(2), of "{#Res_fd, Res_pidfile#}" "pext st'"] True by (simp add: st' res_from_step(3))
next
  case False
  then show ?thesis using assms(3) drop_none [OF assms(2)] by (simp add: bad_fork_def res_from_step(3))
qed

lemma unwind_io:
  assumes "ledger_ok F held" "forked F held a st0 5 l st" "bad_fork F (ka_flags a) l Bad_fork_cleanup_io st = Inr st'"
  shows "forked F held a st0 6 l st'"
proof -
  obtain kt io where h: "held (pext st) = res_from F (ka_flags a) l 6 + kt + io" "kt \<in> {{#}, {#Res_kthread#}}" "io \<in> {{#}, {#Res_io#}}"
      "kt \<noteq> {#} \<longrightarrow> pflags (tasks (pk st) (fl_p l)) AND PF_KTHREAD \<noteq> 0"
    using assms(2) unfolding forked_def ledger_at_def by (auto simp: res_from_step(6))
  have n: "Res_io \<notin># res_from F (ka_flags a) l 6 + kt" using h(2) by (auto simp: res_from_def label_res_def)
  have "held (pext st') = res_from F (ka_flags a) l 6 + kt"
  proof (cases "io = {#}")
    case True
    then have "st' = st" using assms(3) h n io_held [OF assms(1)] by (simp add: bad_fork_def Let_def)
    with True h(1) show ?thesis by simp
  next
    case False
    then have io: "io = {#Res_io#}" using h(3) by simp
    then have "has_io_context F (fl_p l) (pext st)" using h(1) io_held [OF assms(1)] by simp
    then have "st' = drop_res F Res_io (fl_p l) st" using assms(3) by (simp add: bad_fork_def Let_def)
    then show ?thesis using release_held [OF assms(1), of Res_io "pext st"] h(1) io by simp
  qed
  then have "ledger_at F held (ka_flags a) 6 l (pflags (tasks (pk st) (fl_p l)) AND PF_KTHREAD \<noteq> 0) (pext st')"
    using h(2,4) unfolding ledger_at_def by auto
  moreover have "st' = st\<lparr>pext := pext st'\<rparr>" using assms(3) by (auto simp: bad_fork_def Let_def split: if_splits)
  moreover have "counts_at a st0 6 (fl_p l) st" using assms(2) counts_at_Suc [of 5 a st0] by (simp add: forked_def)
  ultimately show ?thesis unfolding forked_def by (metis counts_at_pext pstate.select_convs(1) pstate.surjective pstate.update_convs(16))
qed

lemma unwind_free:
  assumes "ledger_ok F held" "forked F held a st0 20 l st" "bad_fork F (ka_flags a) l Bad_fork_free st = Inr st'"
  shows "forked F held a st0 21 l st'"
proof -
  let ?p = "fl_p l"
  have c: "counts_at a st0 20 ?p st" and L: "ledger_at F held (ka_flags a) 20 l (pflags (tasks (pk st) ?p) AND PF_KTHREAD \<noteq> 0) (pext st)"
    using assms(2) by (simp_all add: forked_def)
  obtain kt where h: "held (pext st) = {#Res_stack#} + kt" "kt \<in> {{#}, {#Res_kthread#}}"
      "kt \<noteq> {#} \<longrightarrow> pflags (tasks (pk st) ?p) AND PF_KTHREAD \<noteq> 0"
    using L unfolding ledger_at_def by (auto simp: res_from_step)
  have "stack_refcount st ?p = 1" using c by (simp add: counts_at_def)
  then have st': "st' = free_task F ?p (drop_res F Res_stack ?p (tell F (Stack_account (- 1)) ?p
      (upd_pk (upd_task ?p (\<lambda>v. v\<lparr>tstate := TASK_DEAD\<rparr>)) st\<lparr>stack_refcount := (stack_refcount st)(?p := 0)\<rparr>)))"
    using assms(3) by (simp add: bad_fork_def put_task_stack_def Let_def)
  have "held (release F Res_stack ?p (fnote F (Stack_account (- 1)) ?p (pext st))) = kt"
    using release_held [OF assms(1)] h(1) by (simp add: note_held [OF assms(1)])
  then have "held (pext st') = {#}"
    using h(2,3) release_held [OF assms(1), of Res_kthread]
    by (auto simp: st' free_task_def note_held [OF assms(1)] release_user_cpus_ptr_def Let_def)
  moreover have "counts_at a st0 21 ?p st'"
    using c by (simp add: st' free_task_def counts_at_def rest_of_def release_user_cpus_ptr_def fun_upd_idem Let_def)
  ultimately show ?thesis unfolding forked_def ledger_at_def by (simp add: res_from_step)
qed

lemma unwind_out:
  assumes "forked F held a st0 21 l st" "bad_fork F (ka_flags a) l Fork_out st = Inr st'" "task_used st0 (me st0)"
  shows "forked F held a st0 22 l st'"
proof -
  have c: "counts_at a st0 21 (fl_p l) st" using assms(1) by (simp add: forked_def)
  then have m: "me st = me st0" "procs st (me st0) = procs st0 (me st0)" "signals st = collecting (ka_flags a) st0"
    using assms(3) by (auto simp: counts_at_def rest_of_def signals_at_def)
  have "signals st' = signals st0 \<and> st' = st\<lparr>signals := signals st'\<rparr>"
  proof (cases "has (ka_flags a) CLONE_THREAD")
    case True
    then show ?thesis using m assms(2) by (auto simp: bad_fork_def collecting_def)
  next
    case False
    then show ?thesis using m assms(2)
      by (auto simp: bad_fork_def collecting_def upd_signal_def fun_upd_idem split: option.splits)
  qed
  then have "counts_at a st0 22 (fl_p l) st'" "pext st' = pext st" "pk st' = pk st"
    using c by (auto simp: counts_at_def rest_of_def signals_at_def)
  then show ?thesis using assms(1) unfolding forked_def ledger_at_def by (simp add: res_from_step)
qed

lemma nth_fork_labels:
  "k < 22 \<Longrightarrow> drop k fork_labels = fork_labels ! k # drop (Suc k) fork_labels"
proof -
  have "length fork_labels = 22" by (simp add: fork_labels_def)
  then show "k < 22 \<Longrightarrow> drop k fork_labels = fork_labels ! k # drop (Suc k) fork_labels" by (simp add: Cons_nth_drop_Suc)
qed

lemma unwind_label:
  assumes ok: "fork_lib_ok F held" and u: "task_used st0 (me st0)" and f: "forked F held a st0 k l st"
    and k: "k < 22" and r: "bad_fork F (ka_flags a) l (fork_labels ! k) st = Inr st'"
  shows "forked F held a st0 (Suc k) l st'"
proof -
  have L: "ledger_ok F held" and O: "objects_ok F held" and K: "kernel_ok F" using ok by (simp_all add: fork_lib_ok_def)
  have n: "forked F held a st0 i l (tell F x p st)" if "forked F held a st0 i l st" for i x p
    using forked_quiet [OF that] note_held [OF L] by simp
  note d = drop_one [OF L] drop_none
  have "k \<in> set [0..<22]" using k by simp
  then consider "k = 0" | "k = 1" | "k = 2" | "k = 3" | "k = 4" | "k = 5" | "k = 6" | "k = 7" | "k = 8" | "k = 9" | "k = 10" | "k = 11"
    | "k = 12" | "k = 13" | "k = 14" | "k = 15" | "k = 16" | "k = 17" | "k = 18" | "k = 19" | "k = 20" | "k = 21"
    by (auto simp: upt_rec)
  then show ?thesis
  proof cases
    case 1
    then have "forked F held a st0 (Suc 0) l st" using d(2) [OF f] by (simp add: res_from_step(1))
    then show ?thesis
      using r 1 K forked_kernel [of F held a st0 "Suc 0" l st] by (auto simp: fork_labels_def bad_fork_def kernel_ok_def Let_def)
  next
    case 2
    then show ?thesis using r d(1) [OF f, where r = Res_cgroup and p = "fl_p l"] res_from_step(2) [of F "ka_flags a" l]
      by (simp add: fork_labels_def bad_fork_def numeral_2_eq_2 Let_def)
  next case 3 then show ?thesis using r f unwind_pidfd [OF L] by (simp add: fork_labels_def)
  next
    case 4
    then show ?thesis using r d(1) [OF f, where r = Res_pid and p = "fl_p l"] d(2) [OF f] by (auto simp: fork_labels_def bad_fork_def res_from_step Let_def split: if_splits)
  next case 5 then show ?thesis using r d(1) [OF f, where r = Res_thread and p = "fl_p l"] by (simp add: fork_labels_def bad_fork_def res_from_step Let_def)
  next case 6 then show ?thesis using r f unwind_io [OF L] by (simp add: fork_labels_def)
  next case 7 then show ?thesis using r d(1) [OF f, where r = Res_namespaces and p = "fl_p l"] by (simp add: fork_labels_def bad_fork_def res_from_step Let_def)
  next case 8 then show ?thesis using r f unwind_mm [OF L] by (simp add: fork_labels_def)
  next case 9 then show ?thesis using r f unwind_signal [OF L] by (simp add: fork_labels_def)
  next case 10 then show ?thesis using r f unwind_sighand [OF L] by (simp add: fork_labels_def)
  next case 11 then show ?thesis using r f unwind_fs [OF O] by (simp add: fork_labels_def)
  next case 12 then show ?thesis using r f unwind_files [OF O] by (simp add: fork_labels_def)
  next case 13 then show ?thesis using r d(1) [OF f, where r = Res_semundo and p = "fl_p l"] by (simp add: fork_labels_def bad_fork_def res_from_step Let_def)
  next case 14 then show ?thesis using r d(1) [OF f, where r = Res_security and p = "fl_p l"] by (simp add: fork_labels_def bad_fork_def res_from_step Let_def)
  next case 15 then show ?thesis using r d(1) [OF f, where r = Res_audit and p = "fl_p l"] by (simp add: fork_labels_def bad_fork_def res_from_step Let_def)
  next case 16 then show ?thesis using r d(1) [OF f, where r = Res_perf and p = "fl_p l"] by (simp add: fork_labels_def bad_fork_def res_from_step Let_def)
  next case 17 then show ?thesis using r d(2) [OF f] by (simp add: fork_labels_def bad_fork_def res_from_step Let_def)
  next case 18 then show ?thesis using r d(1) [OF n [OF f], where r = Res_mempolicy and p = "fl_p l"] by (auto simp: fork_labels_def bad_fork_def res_from_step Let_def)
  next case 19 then show ?thesis using r d(1) [OF f, where r = Res_delayacct and p = "fl_p l"] by (simp add: fork_labels_def bad_fork_def res_from_step Let_def)
  next case 20 then show ?thesis using r d(1) [OF n [OF f], where r = Res_creds and p = "fl_p l"] by (auto simp: fork_labels_def bad_fork_def res_from_step Let_def)
  next case 21 then show ?thesis using r f unwind_free [OF L] by (simp add: fork_labels_def)
  next case 22 then show ?thesis using r f unwind_out [OF _ _ u] by (simp add: fork_labels_def)
  qed
qed

text \<open>From a label down to the end: nothing is left.\<close>

lemma unwind_all:
  assumes "fork_lib_ok F held" "task_used st0 (me st0)" "k \<le> 22" "forked F held a st0 k l st"
    and "run_cleanups F (ka_flags a) l (drop k fork_labels) st = Inr st'"
  shows "forked F held a st0 22 l st'"
  using assms(3-5)
proof (induction "22 - k" arbitrary: k st)
  case 0
  then show ?case by (simp add: fork_labels_def)
next
  case (Suc n)
  then have k: "k < 22" by simp
  from Suc.prems(3) k obtain st1 where s: "bad_fork F (ka_flags a) l (fork_labels ! k) st = Inr st1"
    "run_cleanups F (ka_flags a) l (drop (Suc k) fork_labels) st1 = Inr st'"
    by (auto simp: nth_fork_labels)
  have "forked F held a st0 (Suc k) l st1" by (rule unwind_label [OF assms(1,2) Suc.prems(2) k s(1)])
  moreover have "n = 22 - Suc k" "Suc k \<le> 22" using Suc.hyps(2) k by simp_all
  ultimately show ?case using Suc.hyps(1) s(2) by blast
qed

end
