(* ===== verification/Fork_Stages.thy ===== *)
theory Fork_Stages
  imports Fork_Ledger
begin

text \<open>
  Every stage of \<open>copy_process\<close> leads from the accounts at one label to those at the next, or fails with those of the
  label it goes to.
\<close>

declare set_inorder [simp del] length_inorder [simp del]

section \<open>Every stage keeps the accounts\<close>

text \<open>On the way down the child still has the objects of its parent that it has not copied.\<close>

definition inherits :: "('x, 'y) pstate \<Rightarrow> nat \<Rightarrow> fork_loc \<Rightarrow> ('x, 'y) pstate \<Rightarrow> bool" where
  "inherits st0 k l st \<longleftrightarrow> (k \<le> 20 \<longrightarrow>
     (11 < k \<longrightarrow> pr_files (procs st (fl_p l)) = pr_files (procs st0 (me st0))) \<and>
     (10 < k \<longrightarrow> pr_fs (procs st (fl_p l)) = pr_fs (procs st0 (me st0))) \<and>
     (9 < k \<longrightarrow> pr_sighand (procs st (fl_p l)) = pr_sighand (procs st0 (me st0))))"

text \<open>Before the structure of a kernel thread is taken none is held, and a kernel thread is marked as one.\<close>

definition early :: "('y \<Rightarrow> fork_res multiset) \<Rightarrow> kernel_clone_args \<Rightarrow> nat \<Rightarrow> fork_loc \<Rightarrow> ('x, 'y) pstate \<Rightarrow> bool" where
  "early held a k l st \<longleftrightarrow> (18 < k \<longrightarrow> Res_kthread \<notin># held (pext st)) \<and>
     (k = 19 \<and> ka_kthread a \<longrightarrow> pflags (tasks (pk st) (fl_p l)) AND PF_KTHREAD \<noteq> 0)"

lemma early_low [simp]: "k \<le> 18 \<Longrightarrow> early held a k l st"
  by (simp add: early_def)

definition fork_inv ::
    "('x, 'y) fenv \<Rightarrow> ('y \<Rightarrow> fork_res multiset) \<Rightarrow> kernel_clone_args \<Rightarrow> ('x, 'y) pstate \<Rightarrow> nat \<Rightarrow> fork_loc \<times> ('x, 'y) pstate \<Rightarrow> bool" where
  "fork_inv F held a st0 k x \<longleftrightarrow> forked F held a st0 k (fst x) (snd x) \<and> inherits st0 k (fst x) (snd x) \<and>
     early held a k (fst x) (snd x)"

text \<open>A stage leads from the accounts at \<open>k\<close> to those at \<open>k'\<close>, or fails with those at \<open>kf\<close>.\<close>

definition stage_ok ::
    "('x, 'y) fenv \<Rightarrow> ('y \<Rightarrow> fork_res multiset) \<Rightarrow> kernel_clone_args \<Rightarrow> ('x, 'y) pstate \<Rightarrow> nat \<Rightarrow> ('x, 'y) fork_stage \<Rightarrow> nat \<Rightarrow> nat \<Rightarrow> bool" where
  "stage_ok F held a st0 k f k' kf \<longleftrightarrow>
     (\<forall>x e x'. fork_inv F held a st0 k x \<longrightarrow> f x = Inr (e, x') \<longrightarrow>
        (if e = 0 then fork_inv F held a st0 k' x' else forked F held a st0 kf (fst x') (snd x')))"

lemma stage_okI:
  assumes "\<And>l st e l' st'. forked F held a st0 k l st \<Longrightarrow> inherits st0 k l st \<Longrightarrow> early held a k l st \<Longrightarrow>
    f (l, st) = Inr (e, l', st') \<Longrightarrow>
    if e = 0 then forked F held a st0 k' l' st' \<and> inherits st0 k' l' st' \<and> early held a k' l' st'
    else forked F held a st0 kf l' st'"
  shows "stage_ok F held a st0 k f k' kf"
proof -
  have "if e = 0 then fork_inv F held a st0 k' x' else forked F held a st0 kf (fst x') (snd x')"
    if x: "fork_inv F held a st0 k x" "f x = Inr (e, x')" for x e x'
  proof -
    obtain l st l' st' where [simp]: "x = (l, st)" "x' = (l', st')" by (metis surj_pair)
    show ?thesis using x assms [of l st e l' st'] by (simp add: fork_inv_def)
  qed
  then show ?thesis unfolding stage_ok_def by blast
qed

lemma inherits_pext [simp]: "inherits st0 k l (st\<lparr>pext := y\<rparr>) = inherits st0 k l st"
  by (simp add: inherits_def)

lemma inherits_pk [simp]: "inherits st0 k l (st\<lparr>pk := s\<rparr>) = inherits st0 k l st"
  by (simp add: inherits_def)

lemma inherits_down: "inherits st0 (Suc k) l st \<Longrightarrow> k \<notin> {9, 10, 11, 20} \<Longrightarrow> inherits st0 k l st"
proof -
  assume "k \<notin> {9, 10, 11, 20}"
  then have "(Suc k \<le> 20) = (k \<le> 20)" "(11 < Suc k) = (11 < k)" "(10 < Suc k) = (10 < k)" "(9 < Suc k) = (9 < k)" by auto
  then show "inherits st0 (Suc k) l st \<Longrightarrow> inherits st0 k l st" by (simp add: inherits_def)
qed

text \<open>The stages that take one resource.\<close>

lemma stage_take:
  assumes "ledger_ok F held" "k \<notin> {7, 8, 9, 10, 11} \<and> k \<le> 18" "r \<notin> {Res_io, Res_fd, Res_pidfile, Res_creds}"
    and "\<And>l. res_from F (ka_flags a) l k = res_from F (ka_flags a) l (Suc k) + {#r#}"
  shows "stage_ok F held a st0 (Suc k) (fork_take F a r) k (Suc k)"
proof (rule stage_okI)
  fix l st e l' st' assume f: "forked F held a st0 (Suc k) l st" "inherits st0 (Suc k) l st" "fork_take F a r (l, st) = Inr (e, l', st')"
  then have t: "take_res F r (fl_p l) a st = (e, st')" "l' = l" by (auto simp: fork_take_def split: prod.splits)
  obtain y where y: "st' = st\<lparr>pext := y\<rparr>" "held y = held (pext st) + (if took r e \<and> (r = Res_io \<longrightarrow> has_io_context F (fl_p l) y) then {#r#} else {#})"
    by (rule take_resD [OF assms(1) t(1)])
  have w: "took r e = (e = 0)" using assms(3) by (auto simp: took_def)
  show "if e = 0 then forked F held a st0 k l' st' \<and> inherits st0 k l' st' \<and> early held a k l' st'
      else forked F held a st0 (Suc k) l' st'"
  proof (cases "e = 0")
    case True
    then have "held y = held (pext st) + {#r#}" using y(2) w assms(3) by auto
    from forked_take [OF f(1) _ assms(4) this] inherits_down [OF f(2)] assms(2) True t(2) y(1) show ?thesis by (auto simp: early_def)
  next
    case False
    then show ?thesis using forked_quiet [OF f(1)] y w t(2) by simp
  qed
qed

lemma same_fork_refl [simp]: "same_fork s s"
  by (simp add: same_fork_def)

lemma same_fork_task:
  "same_fork s u \<Longrightarrow> mm v = mm (tasks u p) \<Longrightarrow> pflags v = pflags (tasks u p) \<Longrightarrow> same_fork s (u\<lparr>tasks := (tasks u)(p := v)\<rparr>)"
  by (simp add: same_fork_def)

lemma same_fork_trans: "same_fork s u \<Longrightarrow> same_fork u v \<Longrightarrow> same_fork s v"
  by (simp add: same_fork_def)

lemma sched_fork_same:
  assumes "sched_fork E p s = Inr (e, s')"
  shows "same_fork s s'"
proof -
  have w: "set_load_weight E p False u = Inr v \<Longrightarrow> same_fork u v" for u v
    by (auto simp: set_load_weight_def same_fork_def Let_def split: if_splits option.splits)
  have u: "mm (uclamp_fork v) = mm v" "pflags (uclamp_fork v) = pflags v" for v by (simp_all add: uclamp_fork_def Let_def)
  define s1 where "s1 = sched_fork_init E p s"
  define s2 where "s2 = upd_task p (\<lambda>v. v\<lparr>tstate := TASK_NEW, prio := normal_prio (tasks s1 (current s1))\<rparr>) s1"
  define s3 where "s3 = upd_task p uclamp_fork s2"
  have "same_fork s s1" by (simp add: s1_def sched_fork_init_def same_fork_def)
  then have 3: "same_fork s s3" unfolding s3_def s2_def by (intro same_fork_task) (simp_all add: u)
  define r where "r = (if sched_reset_on_fork (tasks s3 p) then
      let s = (if task_has_dl_policy (tasks s3 p) \<or> task_has_rt_policy (tasks s3 p) then
                 upd_task p (\<lambda>v. v\<lparr>policy := SCHED_NORMAL, static_prio := NICE_TO_PRIO 0, rt_priority := 0\<rparr>) s3
               else if PRIO_TO_NICE (static_prio (tasks s3 p)) < 0 then upd_task p (\<lambda>v. v\<lparr>static_prio := NICE_TO_PRIO 0\<rparr>) s3
               else s3);
          s = upd_task p (\<lambda>v. v\<lparr>prio := static_prio v, normal_prio := static_prio v\<rparr>) s
      in bindr (set_load_weight E p False s)
           (\<lambda>s. Inr (upd_task p (\<lambda>v. v\<lparr>se := (se v)\<lparr>custom_slice := False, slice := sched_base_slice E\<rparr>, sched_reset_on_fork := False\<rparr>) s))
      else Inr s3)"
  obtain s4 where 4: "r = Inr s4" "s' = (if dl_prio (prio (tasks s4 p)) then s4
      else upd_task p (\<lambda>v. v\<lparr>sched_class := (if rt_prio (prio v) then Rt else Fair), on_cpu := False\<rparr>) s4)"
    using assms unfolding sched_fork_def Let_def s1_def [symmetric] s2_def [symmetric] s3_def [symmetric] r_def
    by (auto split: if_splits)
  have "same_fork s s4"
    using 4(1) 3 unfolding r_def Let_def
    by (auto split: if_splits intro!: same_fork_task dest!: w elim!: same_fork_trans [rotated])
  then show ?thesis using 4(2) by (auto intro: same_fork_task)
qed

lemma sched_cgroup_fork_same:
  assumes "kernel_ok F" "sched_cgroup_fork (fkern F) p s = Inr s'"
  shows "same_fork s s'"
proof -
  have h: "same_fork u (task_fork_hvf p u)" for u by (simp add: task_fork_hvf_def clear_hvf_values_def same_fork_def Let_def)
  have o: "same_fork u v" if "op_task_fork (class_ops (fkern F) k) = Some f" "f p u = Inr v" for k f u v
    using that assms(1) h by (cases "k = Hvf") (auto simp: kernel_ok_def hvf_sched_class_def)
  have t: "same_fork v w \<Longrightarrow> same_fork u v \<Longrightarrow> same_fork u w" for u v w by (simp add: same_fork_def)
  define u where "u = set_task_cpu_raw (fkern F) p (this_cpu s)
     (upd_task p (\<lambda>v. v\<lparr>sched_task_group := autogroup_task_group (fkern F) p (fork_css_tg (fkern F) p (ext s)) (ext s)\<rparr>) s)"
  have "same_fork s u" by (simp add: u_def same_fork_def set_task_cpu_raw_def set_task_rq_def Let_def)
  moreover have "same_fork u s'"
    using assms(2) o [of _ _ u s'] unfolding sched_cgroup_fork_def Let_def
    by (auto simp: u_def split: option.splits)
  ultimately show ?thesis using t by blast
qed

lemma stage_kernel:
  assumes "\<And>l st e l' st'. f (l, st) = Inr (e, l', st') \<Longrightarrow> l' = l \<and> (\<exists>s. st' = st\<lparr>pk := s\<rparr> \<and> same_fork (pk st) s)"
    and "k \<notin> {5, 7, 8, 9, 10, 11} \<and> k \<le> 18" "\<And>l. res_from F (ka_flags a) l k = res_from F (ka_flags a) l (Suc k)"
  shows "stage_ok F held a st0 (Suc k) f k (Suc k)"
proof (rule stage_okI)
  fix l st e l' st' assume f: "forked F held a st0 (Suc k) l st" "inherits st0 (Suc k) l st" "f (l, st) = Inr (e, l', st')"
  then obtain s where s: "l' = l" "st' = st\<lparr>pk := s\<rparr>" "same_fork (pk st) s" using assms(1) by blast
  have "forked F held a st0 (Suc k) l st'" using forked_kernel [OF f(1) s(3)] s(2) by simp
  moreover from this have "forked F held a st0 k l st'"
    using forked_take [of F held a st0 k l st' "{#}" "pext st'"] assms(2,3) by simp
  ultimately show "if e = 0 then forked F held a st0 k l' st' \<and> inherits st0 k l' st' \<and> early held a k l' st'
      else forked F held a st0 (Suc k) l' st'"
    using inherits_down [OF f(2)] assms(2) s by (auto simp: early_def)
qed

lemma stage_sched: "stage_ok F held a st0 (Suc 16) (fork_sched F) 16 (Suc 16)"
proof (rule stage_kernel)
  show "l' = l \<and> (\<exists>s. st' = st\<lparr>pk := s\<rparr> \<and> same_fork (pk st) s)" if "fork_sched F (l, st) = Inr (e, l', st')" for l st e l' st'
    using that by (auto simp: fork_sched_def intro!: exI dest: sched_fork_same)
qed (simp_all add: res_from_step)

lemma stage_sched_cgroup:
  assumes "kernel_ok F"
  shows "stage_ok F held a st0 (Suc 0) (fork_sched_cgroup F) 0 (Suc 0)"
proof (rule stage_kernel)
  show "l' = l \<and> (\<exists>s. st' = st\<lparr>pk := s\<rparr> \<and> same_fork (pk st) s)" if "fork_sched_cgroup F (l, st) = Inr (e, l', st')" for l st e l' st'
    using that by (auto simp: fork_sched_cgroup_def intro!: exI dest: sched_cgroup_fork_same [OF assms])
qed (simp_all add: res_from_step)

lemma forked_notused: "forked F held a st0 k l st \<Longrightarrow> k \<le> 20 \<Longrightarrow> \<not> task_used st0 (fl_p l)"
  by (simp add: forked_def counts_at_def)

lemma forked_me: "forked F held a st0 k l st \<Longrightarrow> me st = me st0"
  by (simp add: forked_def counts_at_def rest_of_def)

lemma forked_parent: "forked F held a st0 k l st \<Longrightarrow> task_used st0 t \<Longrightarrow> procs st t = procs st0 t"
  by (simp add: forked_def counts_at_def)

text \<open>Changes of the child that the accounts do not see.\<close>

lemma forked_child:
  assumes "forked F held a st0 k l st" "k \<le> 20"
    and "pr_files v = pr_files (procs st (fl_p l))" "pr_fs v = pr_fs (procs st (fl_p l))"
      "pr_sighand v = pr_sighand (procs st (fl_p l))" "pr_signal v = pr_signal (procs st (fl_p l))"
  shows "forked F held a st0 k l (st\<lparr>procs := (procs st)(fl_p l := v)\<rparr>)"
  using assms forked_notused [OF assms(1,2)] by (auto simp: forked_def counts_at_def rest_of_def)

lemma inherits_child:
  assumes "inherits st0 k l st" "pr_files v = pr_files (procs st (fl_p l))" "pr_fs v = pr_fs (procs st (fl_p l))"
      "pr_sighand v = pr_sighand (procs st (fl_p l))"
  shows "inherits st0 k l (st\<lparr>procs := (procs st)(fl_p l := v)\<rparr>)"
  using assms by (simp add: inherits_def)

lemma forked_empty: "forked F held a st0 21 l st \<Longrightarrow> held (pext st) = {#}"
  by (auto simp: forked_def ledger_at_def res_from_step)

lemma stage_signals:
  assumes L: "ledger_ok F held" and u: "task_used st0 (me st0)"
  shows "stage_ok F held a st0 22 (fork_signals F a) 21 21"
proof -
  have main: "forked F held a st0 21 l' st'" if f: "forked F held a st0 22 l st" "fork_signals F a (l, st) = Inr (e, l', st')" for l st e l' st'
  proof -
    have c: "counts_at a st0 22 (fl_p l) st" using f(1) by (simp add: forked_def)
    have m: "me st = me st0" "procs st (me st0) = procs st0 (me st0)" "signals st = signals st0"
      using c u by (auto simp: counts_at_def rest_of_def signals_at_def)
    obtain st1 where s: "(if has (ka_flags a) CLONE_THREAD then Inr st
         else upd_signal (me st) (\<lambda>g. g\<lparr>sg_multiprocess := me st # sg_multiprocess g\<rparr>) st) = Inr st1"
        "st' = tell F Recalc_sigpending (me st1) st1" "l' = l"
      using f(2) unfolding fork_signals_def by (auto simp: Let_def)
    have "signals st1 = collecting (ka_flags a) st0 \<and> st1 = st\<lparr>signals := signals st1\<rparr>"
      using s(1) m by (auto simp: collecting_def upd_signal_def split: if_splits option.splits)
    then have "counts_at a st0 21 (fl_p l) st1" "pext st1 = pext st" "pk st1 = pk st"
      using c by (auto simp: counts_at_def rest_of_def signals_at_def)
    moreover have "ledger_at F held (ka_flags a) 22 l b y = ledger_at F held (ka_flags a) 21 l b y" for b y
      by (simp add: ledger_at_def res_from_step)
    ultimately have "forked F held a st0 21 l st1" using f(1) by (simp add: forked_def)
    then show ?thesis using forked_quiet [of F held a st0 21 l st1] s(2,3) note_held [OF L] by simp
  qed
  show ?thesis
  proof (rule stage_okI)
    fix l st e l' st' assume "forked F held a st0 22 l st" "fork_signals F a (l, st) = Inr (e, l', st')"
    from main [OF this] forked_empty [OF main [OF this]]
    show "if e = 0 then forked F held a st0 21 l' st' \<and> inherits st0 21 l' st' \<and> early held a 21 l' st'
        else forked F held a st0 21 l' st'"
      by (simp add: inherits_def early_def)
  qed
qed

text \<open>What \<open>dup_task_struct\<close> leaves: a new task that is not yet known, or nothing.\<close>

definition dup_result ::
    "('y \<Rightarrow> fork_res multiset) \<Rightarrow> ('x, 'y) pstate \<Rightarrow> tid \<Rightarrow> tid option \<Rightarrow> ('x, 'y) pstate \<Rightarrow> bool" where
  "dup_result held st orig i st' \<longleftrightarrow>
     (\<exists>p s pr sr tu y. st' = st\<lparr>pk := s, procs := pr, stack_refcount := sr, task_used := tu, pext := y\<rparr> \<and>
       current s = current (pk st) \<and> (\<forall>t. task_used st t \<longrightarrow> pr t = procs st t) \<and>
       (if i = None then tu = task_used st \<and> held y = held (pext st)
        else i = Some p \<and> \<not> task_used st p \<and> tu = (task_used st)(p := True) \<and> sr p = 1 \<and> pr p = procs st orig \<and>
             held y = held (pext st) + {#Res_stack#}))"

lemma dup_failI:
  "st' = st\<lparr>pk := s, procs := pr, stack_refcount := sr, task_used := task_used st, pext := y\<rparr> \<Longrightarrow> current s = current (pk st) \<Longrightarrow>
   \<forall>t. task_used st t \<longrightarrow> pr t = procs st t \<Longrightarrow> held y = held (pext st) \<Longrightarrow> i = None \<Longrightarrow> dup_result held st orig i st'"
  unfolding dup_result_def by auto

lemma dup_someI:
  "st' = st\<lparr>pk := s, procs := pr, stack_refcount := sr, task_used := (task_used st)(p := True), pext := y\<rparr> \<Longrightarrow> current s = current (pk st) \<Longrightarrow>
   \<forall>t. task_used st t \<longrightarrow> pr t = procs st t \<Longrightarrow> i = Some p \<Longrightarrow> \<not> task_used st p \<Longrightarrow> sr p = 1 \<Longrightarrow> pr p = procs st orig \<Longrightarrow>
   held y = held (pext st) + {#Res_stack#} \<Longrightarrow> dup_result held st orig i st'"
  unfolding dup_result_def by auto

lemma dup_task_structD:
  assumes L: "ledger_ok F held" and r: "dup_task_struct F orig a st = (i, st')"
  shows "dup_result held st orig i st'"
proof (cases "kmem_alloc F (task_used st) (pext st)")
  case (Pair j y)
  show ?thesis
  proof (cases j)
    case None
    then have "st' = st\<lparr>pext := y\<rparr>" "i = None" using r Pair by (simp_all add: dup_task_struct_def)
    then show ?thesis using kmem_allocD [OF L Pair]
      by (intro dup_failI [where s = "pk st" and pr = "procs st" and sr = "stack_refcount st" and y = y]) simp_all
  next
    case (Some p)
    have y: "held y = held (pext st)" "\<not> task_used st p" using kmem_allocD [OF L Pair] Some by simp_all
    have tu: "((task_used st)(p := False)) = task_used st" using y(2) by (auto simp: fun_eq_iff)
    let ?pr = "(procs st)(p := procs st orig)" and ?sr = "(stack_refcount st)(p := 1)"
    have pr: "\<forall>t. task_used st t \<longrightarrow> ?pr t = procs st t" using y(2) by auto
    obtain e1 y1 where 1: "arch_dup_task_struct F p orig y = (e1, y1)" by (metis surj_pair)
    note y1 = quiet_held(1) [OF L 1]
    let ?s1 = "st\<lparr>task_used := (task_used st)(p := True), pext := y1, pk := set_task p (tasks (pk st) orig) (pk st),
        procs := (procs st)(p := procs st orig)\<rparr>"
    obtain e2 s2 where 2: "take_res F Res_stack p a ?s1 = (e2, s2)" by (metis surj_pair)
    obtain y2 where y2: "s2 = ?s1\<lparr>pext := y2\<rparr>" "held y2 = held (pext ?s1) + (if took Res_stack e2 then {#Res_stack#} else {#})"
      using take_plain [OF L 2] by blast
    obtain e3 y3 where 3: "scs_prepare F p (fnote F (Stack_account 1) p y2) = (e3, y3)" by (metis surj_pair)
    have y3: "held y3 = held (pext st) + (if e2 = 0 then {#Res_stack#} else {#})"
      using quiet_held(2) [OF L 3] y1 y2(2) y(1) by (simp add: note_held [OF L] took_def)
    note step = dup_task_struct_def Pair Some 1 2 y2(1) 3 Let_def
    consider "e1 \<noteq> 0" | "e1 = 0" "e2 \<noteq> 0" | "e1 = 0" "e2 = 0" "e3 \<noteq> 0" | "e1 = 0" "e2 = 0" "e3 = 0" by blast
    then show ?thesis
    proof cases
      case 1
      then have "dup_task_struct F orig a st = (None, st\<lparr>task_used := task_used st, pext := y1\<rparr>)" by (simp add: step tu)
      with r y y1 show ?thesis
        by (intro dup_failI [where s = "pk st" and pr = "procs st" and sr = "stack_refcount st" and y = y1]) simp_all
    next
      case 2
      then have "dup_task_struct F orig a st = (None, st\<lparr>pk := pk ?s1, procs := ?pr, task_used := task_used st, pext := y2\<rparr>)"
        by (simp add: step tu)
      moreover have "held y2 = held (pext st)" using y y1 y2(2) 2 by (simp add: took_def)
      ultimately show ?thesis using r pr
        by (intro dup_failI [where s = "pk ?s1" and pr = ?pr and sr = "stack_refcount st" and y = y2]) simp_all
    next
      case 3
      let ?y4 = "release F Res_stack p (fnote F (Stack_account (- 1)) p y3)"
      have "held ?y4 = held (pext st)" using release_held [OF L] y3 3 by (simp add: note_held [OF L])
      moreover have "dup_task_struct F orig a st =
          (None, st\<lparr>pk := pk ?s1, procs := ?pr, stack_refcount := ?sr, task_used := task_used st, pext := ?y4\<rparr>)"
        using 3 by (simp add: step tu)
      ultimately show ?thesis using r pr
        by (intro dup_failI [where s = "pk ?s1" and pr = ?pr and sr = ?sr and y = ?y4]) simp_all
    next
      case 4
      let ?s4 = "snd (dup_user_cpus_ptr (fkern F) p orig (upd_task p dup_task_fields (pk ?s1)))" and ?y4 = "fnote F Setup_thread_stack p y3"
      have "current ?s4 = current (pk st)" by (simp add: dup_user_cpus_ptr_def Let_def split: option.split)
      moreover have "held ?y4 = held (pext st) + {#Res_stack#}" using y3 4 by (simp add: note_held [OF L])
      moreover have "dup_task_struct F orig a st =
          (Some p, st\<lparr>pk := ?s4, procs := ?pr, stack_refcount := ?sr, task_used := (task_used st)(p := True), pext := ?y4\<rparr>)"
        using 4 by (simp add: step)
      ultimately show ?thesis using r pr y(2)
        by (intro dup_someI [where s = ?s4 and pr = ?pr and sr = ?sr and p = p and y = ?y4]) simp_all
    qed
  qed
qed

lemma stage_dup:
  assumes L: "ledger_ok F held" and u: "task_used st0 (me st0)"
  shows "stage_ok F held a st0 21 (fork_dup F a) 20 21"
proof (rule stage_okI)
  fix l st e l' st' assume f: "forked F held a st0 21 l st" "fork_dup F a (l, st) = Inr (e, l', st')"
  show "if e = 0 then forked F held a st0 20 l' st' \<and> inherits st0 20 l' st' \<and> early held a 20 l' st'
      else forked F held a st0 21 l' st'"
  proof -
    have c: "counts_at a st0 21 (fl_p l) st" using f(1) by (simp add: forked_def)
    have tu: "task_used st = task_used st0" "me st = me st0" "procs st (me st0) = procs st0 (me st0)"
      using c u by (simp_all add: counts_at_def rest_of_def)
    obtain i where d: "dup_task_struct F (me st) a st = (i, st')"
      "case i of None \<Rightarrow> e \<noteq> 0 \<and> l' = l | Some p \<Rightarrow> e = 0 \<and> l' = l\<lparr>fl_p := p\<rparr>"
      using f(2) by (auto simp: fork_dup_def split: prod.splits option.splits)
    obtain p s pr sr tu' y where r: "st' = st\<lparr>pk := s, procs := pr, stack_refcount := sr, task_used := tu', pext := y\<rparr>"
       "current s = current (pk st)" "\<forall>t. task_used st t \<longrightarrow> pr t = procs st t"
       "if i = None then tu' = task_used st \<and> held y = held (pext st)
        else i = Some p \<and> \<not> task_used st p \<and> tu' = (task_used st)(p := True) \<and> sr p = 1 \<and> pr p = procs st (me st) \<and>
             held y = held (pext st) + {#Res_stack#}"
      using dup_task_structD [OF L d(1)] unfolding dup_result_def by blast
    show ?thesis
    proof (cases i)
      case None
      then have "counts_at a st0 21 (fl_p l) st'" using c r tu by (simp add: counts_at_def rest_of_def)
      moreover have "ledger_at F held (ka_flags a) 21 l b (pext st')" for b
      proof -
        have "held (pext st') = {#}" using forked_empty [OF f(1)] r(1,4) None by simp
        then show ?thesis unfolding ledger_at_def by (intro exI [of _ "{#}"]) (simp add: res_from_step)
      qed
      moreover have "e \<noteq> 0" "l' = l" using None d(2) by simp_all
      ultimately show ?thesis by (simp add: forked_def)
    next
      case (Some q)
      then have n: "\<not> task_used st0 p" "tu' = (task_used st0)(p := True)" "sr p = 1" "pr p = procs st0 (me st0)"
          "held y = {#Res_stack#}" "q = p"
        using r(4) tu forked_empty [OF f(1)] by simp_all
      have q: "e = 0" "l' = l\<lparr>fl_p := p\<rparr>" using Some d(2) n(6) by simp_all
      have pr: "\<forall>t. task_used st0 t \<longrightarrow> pr t = procs st0 t" using r(3) tu(1) c by (simp add: counts_at_def)
      have "counts_at a st0 20 p st'" using c r(1,2) n(1-3) pr by (simp add: counts_at_def rest_of_def)
      moreover have "ledger_at F held (ka_flags a) 20 l' b (pext st')" for b
        unfolding ledger_at_def using n(5) r(1) by (intro exI [of _ "{#}"]) (simp add: res_from_step)
      moreover have "inherits st0 20 l' st'" using n(4) r(1) q(2) by (simp add: inherits_def)
      moreover have "fl_p l' = p" "held (pext st') = {#Res_stack#}" using q(2) n(5) r(1) by simp_all
      ultimately show ?thesis using q(1) by (simp add: forked_def early_def)
    qed
  qed
qed

text \<open>Before the structure of a kernel thread is taken, the flags of the child may change.\<close>

lemma forked_flags:
  assumes "forked F held a st0 k l st" "Res_kthread \<notin># held (pext st)" "mm v = mm (tasks (pk st) (fl_p l))"
  shows "forked F held a st0 k l (st\<lparr>pk := (pk st)\<lparr>tasks := (tasks (pk st))(fl_p l := v)\<rparr>\<rparr>)"
proof -
  obtain kt io where h: "held (pext st) = res_from F (ka_flags a) l k + kt + io" "kt \<in> {{#}, {#Res_kthread#}}" "io \<in> {{#}, {#Res_io#}}"
      "io \<noteq> {#} \<longrightarrow> k \<le> 5"
    using assms(1) unfolding forked_def ledger_at_def by blast
  then have "kt = {#}" using assms(2) by auto
  with h have "ledger_at F held (ka_flags a) k l b (pext st)" for b
    unfolding ledger_at_def by (intro exI [of _ "{#}"] exI [of _ io]) simp
  moreover have "counts_at a st0 k (fl_p l) (st\<lparr>pk := (pk st)\<lparr>tasks := (tasks (pk st))(fl_p l := v)\<rparr>\<rparr>)"
    using assms(1,3) by (simp add: forked_def counts_at_def rest_of_def)
  ultimately show ?thesis by (simp add: forked_def)
qed

lemma forked_other:
  assumes "forked F held a st0 k l st" "t \<noteq> fl_p l"
  shows "forked F held a st0 k l (st\<lparr>pk := (pk st)\<lparr>tasks := (tasks (pk st))(t := v)\<rparr>\<rparr>)"
  using assms by (simp add: forked_def counts_at_def rest_of_def)

lemma forked_tell:
  "ledger_ok F held \<Longrightarrow> forked F held a st0 k l st \<Longrightarrow> forked F held a st0 k l (st\<lparr>pext := fnote F n p (pext st)\<rparr>)"
  by (simp add: forked_quiet note_held)

lemma kthread_flag: "(child_flags a fs AND PF_KTHREAD \<noteq> 0) = ka_kthread a"
proof -
  have *: "x AND PF_KTHREAD \<noteq> 0 \<longleftrightarrow> bit x 21" for x :: "32 word"
    using and_exp_eq_0_iff_not_bit [of x 21] by simp
  show ?thesis unfolding * by (simp add: child_flags_def Let_def bit_simps)
qed

text \<open>What the blocks of assignments between two failures keep.\<close>

definition kept :: "('x, 'y) fenv \<Rightarrow> ('y \<Rightarrow> fork_res multiset) \<Rightarrow> kernel_clone_args \<Rightarrow> ('x, 'y) pstate \<Rightarrow> nat \<Rightarrow> fork_loc \<Rightarrow>
    fork_res multiset \<Rightarrow> ('x, 'y) pstate \<Rightarrow> bool" where
  "kept F held a st0 k l h st \<longleftrightarrow> forked F held a st0 k l st \<and> inherits st0 k l st \<and> held (pext st) = h"

lemma kept_tell: "ledger_ok F held \<Longrightarrow> kept F held a st0 k l h st \<Longrightarrow> kept F held a st0 k l h (tell F n p st)"
  by (simp add: kept_def forked_tell note_held)

lemma kept_if: "kept F held a st0 k l h x \<Longrightarrow> kept F held a st0 k l h y \<Longrightarrow> kept F held a st0 k l h (if b then x else y)"
  by simp

lemma kept_child:
  assumes "kept F held a st0 k l h st" "k \<le> 20" "p = fl_p l"
    and "pr_files v = pr_files (procs st p)" "pr_fs v = pr_fs (procs st p)"
      "pr_sighand v = pr_sighand (procs st p)" "pr_signal v = pr_signal (procs st p)"
  shows "kept F held a st0 k l h (st\<lparr>procs := (procs st)(p := v)\<rparr>)"
  using assms forked_child [of F held a st0 k l st v] inherits_child [of st0 k l st v] by (simp add: kept_def)

lemma kept_flags:
  assumes "kept F held a st0 k l h st" "Res_kthread \<notin># h" "p = fl_p l" "mm v = mm (tasks (pk st) p)"
  shows "kept F held a st0 k l h (st\<lparr>pk := (pk st)\<lparr>tasks := (tasks (pk st))(p := v)\<rparr>\<rparr>)"
  using assms forked_flags [of F held a st0 k l st v] by (simp add: kept_def)

lemma kept_early:
  assumes "ledger_ok F held" "kept F held a st0 20 l h st" "Res_kthread \<notin># h"
  shows "kept F held a st0 20 l h (fork_early F a (fl_p l) st)"
  unfolding fork_early_def Let_def
  by (intro kept_tell kept_child kept_if kept_flags assms) simp_all

lemma early_kthread: "(pflags (tasks (pk (fork_early F a p st)) p) AND PF_KTHREAD \<noteq> 0) = ka_kthread a"
  using kthread_flag by (simp add: fork_early_def Let_def)

lemma kept_fields:
  assumes "ledger_ok F held" "kept F held a st0 k l h st" "k \<le> 20" "Res_kthread \<notin># h"
  shows "kept F held a st0 k l h (fork_fields F (fl_p l) st)"
  unfolding fork_fields_def Let_def
  by (intro kept_tell kept_child kept_flags assms) simp_all

lemma stage_creds:
  assumes L: "ledger_ok F held"
  shows "stage_ok F held a st0 20 (fork_creds F a) 19 20"
proof (rule stage_okI)
  fix l st e l' st'
  assume f: "forked F held a st0 20 l st" "inherits st0 20 l st" "early held a 20 l st" "fork_creds F a (l, st) = Inr (e, l', st')"
  let ?u = "fork_early F a (fl_p l) st"
  have n: "Res_kthread \<notin># held (pext st)" using f(3) by (simp add: early_def)
  have "kept F held a st0 20 l (held (pext st)) ?u" by (rule kept_early [OF L _ n]) (simp add: kept_def f)
  then have u: "forked F held a st0 20 l ?u" "inherits st0 20 l ?u" "held (pext ?u) = held (pext st)"
    by (simp_all add: kept_def)
  obtain e' where e: "take_res F Res_creds (fl_p l) a ?u = (e', st')" "e = (if e' < 0 then e' else 0)" "l' = l"
    using f(4) by (auto simp: fork_creds_def split: prod.splits)
  obtain y where y: "st' = ?u\<lparr>pext := y\<rparr>" "held y = held (pext ?u) + (if took Res_creds e' then {#Res_creds#} else {#})"
    using take_plain [OF L e(1)] by blast
  show "if e = 0 then forked F held a st0 19 l' st' \<and> inherits st0 19 l' st' \<and> early held a 19 l' st' else forked F held a st0 20 l' st'"
  proof (cases "e' < 0")
    case True
    then have "held y = held (pext ?u)" using y(2) by (simp add: took_def)
    with forked_quiet [of F held a st0 20 l ?u y] u show ?thesis using True y(1) e(2,3) by simp
  next
    case False
    then have h: "held y = held (pext ?u) + {#Res_creds#}" using y(2) by (simp add: took_def)
    then have "forked F held a st0 19 l st'"
      using forked_take [of F held a st0 19 l ?u "{#Res_creds#}" y] u y(1) by (simp add: res_from_step)
    moreover have "inherits st0 19 l st'" using u y(1) by (simp add: inherits_def)
    moreover have "early held a 19 l st'" using u h n y(1) early_kthread [of F a "fl_p l" st] by (simp add: early_def)
    ultimately show ?thesis using False e(2,3) by simp
  qed
qed

lemma stage_limits:
  assumes "task_used st0 (me st0)"
  shows "stage_ok F held a st0 19 (fork_limits F) 19 19"
proof (rule stage_okI)
  fix l st e l' st'
  assume f: "forked F held a st0 19 l st" "inherits st0 19 l st" "early held a 19 l st" "fork_limits F (l, st) = Inr (e, l', st')"
  have n: "me st \<noteq> fl_p l" using forked_notused [OF f(1)] forked_me [OF f(1)] assms by auto
  let ?u = "upd_pk (\<lambda>s. upd_task (current s) (\<lambda>v. v\<lparr>pflags := pflags v AND NOT PF_NPROC_EXCEEDED\<rparr>) s) st"
  have "forked F held a st0 19 l ?u" by (rule forked_other [OF f(1) n])
  moreover have "early held a 19 l ?u" using f(3) n by (simp add: early_def)
  moreover have "l' = l" "st' = st \<and> e \<noteq> 0 \<or> st' = ?u" using f(4) by (auto simp: fork_limits_def Let_def split: if_splits)
  ultimately show "if e = 0 then forked F held a st0 19 l' st' \<and> inherits st0 19 l' st' \<and> early held a 19 l' st' else forked F held a st0 19 l' st'"
    using f(1,2) by auto
qed

lemma forked_kthread:
  assumes "forked F held a st0 k l st" "Res_kthread \<notin># held (pext st)" "k \<le> 20"
    "pflags (tasks (pk st) (fl_p l)) AND PF_KTHREAD \<noteq> 0" "held y = held (pext st) + {#Res_kthread#}"
  shows "forked F held a st0 k l (st\<lparr>pext := y\<rparr>)"
proof -
  obtain kt io where h: "held (pext st) = res_from F (ka_flags a) l k + kt + io" "kt \<in> {{#}, {#Res_kthread#}}" "io \<in> {{#}, {#Res_io#}}"
      "io \<noteq> {#} \<longrightarrow> k \<le> 5"
    using assms(1) unfolding forked_def ledger_at_def by blast
  then have "kt = {#}" using assms(2) by auto
  with h assms(3,5) have "ledger_at F held (ka_flags a) k l True y"
    unfolding ledger_at_def by (intro exI [of _ "{#Res_kthread#}"] exI [of _ io]) simp
  then show ?thesis using assms(1,4) by (simp add: forked_def)
qed

lemma fields_kthread:
  "pflags (tasks (pk (fork_fields F p st)) p) AND PF_KTHREAD = pflags (tasks (pk st) p) AND PF_KTHREAD"
proof -
  have "((x AND NOT (PF_SUPERPRIV OR PF_WQ_WORKER OR PF_IDLE OR PF_NO_SETAFFINITY)) OR PF_FORKNOEXEC) AND PF_KTHREAD = x AND PF_KTHREAD" for x
    by (simp add: bit.conj_disj_distrib2 and.assoc)
  then show ?thesis by (simp add: fork_fields_def Let_def)
qed

lemma stage_kthread:
  assumes L: "ledger_ok F held"
  shows "stage_ok F held a st0 19 (fork_kthread F a) 18 18"
proof (rule stage_okI)
  fix l st e l' st'
  assume f: "forked F held a st0 19 l st" "inherits st0 19 l st" "early held a 19 l st" "fork_kthread F a (l, st) = Inr (e, l', st')"
  have n: "Res_kthread \<notin># held (pext st)" "ka_kthread a \<Longrightarrow> pflags (tasks (pk st) (fl_p l)) AND PF_KTHREAD \<noteq> 0"
    using f(3) by (simp_all add: early_def)
  obtain d v where d: "take_res F Res_delayacct (fl_p l) a st = (d, v)" by fastforce
  obtain y where y: "v = st\<lparr>pext := y\<rparr>" "held y = held (pext st) + {#Res_delayacct#}"
    by (rule take_resD [OF L d]) (simp add: took_def)
  have "kept F held a st0 18 l (held y) v"
    using forked_take [of F held a st0 18 l st "{#Res_delayacct#}" y] f(1,2) y by (simp add: kept_def inherits_def res_from_step)
  then have "kept F held a st0 18 l (held y) (fork_fields F (fl_p l) v)" (is "kept _ _ _ _ _ _ _ ?u")
    by (rule kept_fields [OF L]) (simp_all add: y n)
  then have u: "forked F held a st0 18 l ?u" "inherits st0 18 l ?u" "Res_kthread \<notin># held (pext ?u)"
      "ka_kthread a \<Longrightarrow> pflags (tasks (pk ?u) (fl_p l)) AND PF_KTHREAD \<noteq> 0"
    using n fields_kthread [of F "fl_p l" v] y by (auto simp: kept_def)
  show "if e = 0 then forked F held a st0 18 l' st' \<and> inherits st0 18 l' st' \<and> early held a 18 l' st' else forked F held a st0 18 l' st'"
  proof (cases "ka_kthread a")
    case True
    obtain e' where t: "take_res F Res_kthread (fl_p l) a ?u = (e', st')" "l' = l" "e = (if e' \<noteq> 0 then - EAGAIN else 0)"
      using f(4) True d by (auto simp: fork_kthread_def Let_def split: prod.splits)
    obtain z where z: "st' = ?u\<lparr>pext := z\<rparr>" "held z = held (pext ?u) + (if took Res_kthread e' then {#Res_kthread#} else {#})"
      using take_plain [OF L t(1)] by blast
    have "forked F held a st0 18 l st'"
      using z forked_kthread [OF u(1,3) _ u(4) [OF True], of z] forked_quiet [OF u(1), of z] by (auto simp: took_def split: if_splits)
    then show ?thesis using z(1) u(2) t(2) by simp
  next
    case False
    then have "st' = ?u" "l' = l" "e = 0" using f(4) d by (auto simp: fork_kthread_def Let_def)
    then show ?thesis using u by simp
  qed
qed

section \<open>The stages that share or copy an object\<close>

text \<open>What a stage of the objects may use of the accounts: its parent is untouched and is not the child.\<close>

definition sharing :: "kernel_clone_args \<Rightarrow> ('x, 'y) pstate \<Rightarrow> nat \<Rightarrow> fork_loc \<Rightarrow> ('x, 'y) pstate \<Rightarrow> bool" where
  "sharing a st0 k l st \<longleftrightarrow> counts_at a st0 k (fl_p l) st \<and> inherits st0 k l st \<and> me st = me st0 \<and>
     procs st (me st0) = procs st0 (me st0) \<and> fl_p l \<noteq> me st0 \<and> \<not> task_used st0 (fl_p l)"

lemma stage_objects:
  assumes u: "task_used st0 (me st0)" and k: "k \<notin> {5, 20} \<and> k \<le> 18" "\<And>l. res_from F (ka_flags a) l k = res_from F (ka_flags a) l (Suc k)"
    and f: "\<And>l st e l' st'. f (l, st) = Inr (e, l', st') \<Longrightarrow> sharing a st0 (Suc k) l st \<Longrightarrow>
      l' = l \<and> held (pext st') = held (pext st) \<and> pflags (tasks (pk st') (fl_p l)) = pflags (tasks (pk st) (fl_p l)) \<and>
      (if e = 0 then counts_at a st0 k (fl_p l) st' \<and> inherits st0 k l st' else counts_at a st0 (Suc k) (fl_p l) st')"
  shows "stage_ok F held a st0 (Suc k) f k (Suc k)"
proof (rule stage_okI)
  fix l st e l' st'
  assume h: "forked F held a st0 (Suc k) l st" "inherits st0 (Suc k) l st" "f (l, st) = Inr (e, l', st')"
  have n: "\<not> task_used st0 (fl_p l)" using forked_notused [OF h(1)] k(1) by simp
  then have "sharing a st0 (Suc k) l st"
    using h(1,2) forked_me [OF h(1)] forked_parent [OF h(1) u] u by (auto simp: sharing_def forked_def)
  note * = f [OF h(3) this]
  have q: "ledger_at F held (ka_flags a) (Suc k) l b (pext st) \<Longrightarrow> ledger_at F held (ka_flags a) k l b (pext st')" for b
    using ledger_take [of F held "ka_flags a" k l b "pext st" "{#}" "pext st'"] * k(2) by simp
  show "if e = 0 then forked F held a st0 k l' st' \<and> inherits st0 k l' st' \<and> early held a k l' st' else forked F held a st0 (Suc k) l' st'"
    using * h(1) q k(1) ledger_quiet [of F held "ka_flags a" "Suc k" l _ "pext st" "pext st'"] by (auto simp: forked_def)
qed

text \<open>The three stages have one shape: the child gets an object, one more user of which is counted unless the stage fails.\<close>

abbreviation set_files :: "tid \<Rightarrow> nat option \<Rightarrow> 'y \<Rightarrow> ('x, 'y) pstate \<Rightarrow> ('x, 'y) pstate" where
  "set_files p i y st \<equiv> st\<lparr>procs := (procs st)(p := (procs st p)\<lparr>pr_files := i\<rparr>), pext := y\<rparr>"

abbreviation set_fs :: "tid \<Rightarrow> nat option \<Rightarrow> 'y \<Rightarrow> ('x, 'y) pstate \<Rightarrow> ('x, 'y) pstate" where
  "set_fs p i y st \<equiv> st\<lparr>procs := (procs st)(p := (procs st p)\<lparr>pr_fs := i\<rparr>), pext := y\<rparr>"

abbreviation set_sighand :: "tid \<Rightarrow> nat option \<Rightarrow> 'y \<Rightarrow> ('x, 'y) pstate \<Rightarrow> ('x, 'y) pstate" where
  "set_sighand p i y st \<equiv> st\<lparr>procs := (procs st)(p := (procs st p)\<lparr>pr_sighand := i\<rparr>), pext := y\<rparr>"

lemma proc_same [simp]:
  "pr_files v = i \<Longrightarrow> v\<lparr>pr_files := i\<rparr> = v" "pr_fs v = i \<Longrightarrow> v\<lparr>pr_fs := i\<rparr> = v" "pr_sighand v = i \<Longrightarrow> v\<lparr>pr_sighand := i\<rparr> = v"
  by auto

lemma copy_files_shape:
  assumes O: "objects_ok F held" and c: "copy_files F fl p no_files st = (e, st')" and p: "pr_files (procs st p) = pr_files (procs st (me st))"
  shows "\<exists>i y. held y = held (pext st) \<and> (if e = 0 then st' = set_files p i y (st\<lparr>files_count := bump i (files_count st)\<rparr>)
    else st' = set_files p i y st)"
proof (cases "pr_files (procs st (me st)) = None \<or> no_files \<or> has fl CLONE_FILES")
  case True
  let ?i = "if no_files then None else pr_files (procs st p)"
  have "e = 0 \<and> st' = set_files p ?i (pext st) (st\<lparr>files_count := bump ?i (files_count st)\<rparr>)"
    using c p True by (cases "pr_files (procs st (me st))") (auto simp: copy_files_def bump_def)
  then show ?thesis by (intro exI [of _ ?i] exI [of _ "pext st"]) simp
next
  case False
  then obtain f where f: "pr_files (procs st (me st)) = Some f" by auto
  obtain r w where r: "dup_fd F f st = (r, w)" by fastforce
  show ?thesis
  proof (cases r)
    case (Inl e')
    with r obtain y where "e' \<noteq> 0" "held y = held (pext st)" "w = st\<lparr>pext := y\<rparr>" using dup_fdD(1) [OF O] by blast
    with c f p False r Inl show ?thesis by (intro exI [of _ "Some f"] exI [of _ y]) (auto simp: copy_files_def)
  next
    case (Inr n)
    with r obtain y where "held y = held (pext st)" "w = st\<lparr>files_count := bump (Some n) (files_count st), pext := y\<rparr>"
      using dup_fdD(2) [OF O] by blast
    with c f False r Inr show ?thesis by (intro exI [of _ "Some n"] exI [of _ y]) (auto simp: copy_files_def)
  qed
qed

lemma copy_fs_shape:
  assumes O: "objects_ok F held" and c: "copy_fs F fl p st = Inr (e, st')" and p: "pr_fs (procs st p) = pr_fs (procs st (me st))"
  shows "\<exists>i y. held y = held (pext st) \<and> (if e = 0 then st' = set_fs p i y (st\<lparr>fs_users := bump i (fs_users st)\<rparr>)
    else st' = set_fs p i y st)"
proof -
  obtain f where f: "pr_fs (procs st (me st)) = Some f" using c by (auto simp: copy_fs_def split: option.splits)
  show ?thesis
  proof (cases "has fl CLONE_FS")
    case True
    then have "fs_in_exec st f \<and> e = - EAGAIN \<and> st' = st \<or> e = 0 \<and> st' = st\<lparr>fs_users := bump (Some f) (fs_users st)\<rparr>"
      using c f by (auto simp: copy_fs_def bump_def split: if_splits)
    then show ?thesis using f p by (intro exI [of _ "Some f"] exI [of _ "pext st"]) auto
  next
    case False
    obtain r w where r: "copy_fs_struct F f st = (r, w)" by fastforce
    show ?thesis
    proof (cases r)
      case None
      with r obtain y where "held y = held (pext st)" "w = st\<lparr>pext := y\<rparr>" using copy_fs_structD(1) [OF O] by blast
      with c f False r None show ?thesis by (intro exI [of _ None] exI [of _ y]) (auto simp: copy_fs_def)
    next
      case (Some n)
      with r obtain y where "held y = held (pext st)" "w = st\<lparr>fs_users := bump (Some n) (fs_users st), pext := y\<rparr>"
        using copy_fs_structD(2) [OF O] by blast
      with c f False r Some show ?thesis by (intro exI [of _ "Some n"] exI [of _ y]) (auto simp: copy_fs_def)
    qed
  qed
qed

lemma copy_sighand_shape:
  assumes L: "ledger_ok F held" and c: "copy_sighand F fl p st = Inr (e, st')" and p: "pr_sighand (procs st p) = pr_sighand (procs st (me st))"
  shows "\<exists>i y. held y = held (pext st) \<and> (if e = 0 then st' = set_sighand p i y (st\<lparr>sighand_count := bump i (sighand_count st)\<rparr>)
    else st' = set_sighand p i y st)"
proof (cases "has fl CLONE_SIGHAND")
  case True
  then obtain h where "pr_sighand (procs st p) = Some h" "e = 0" "st' = st\<lparr>sighand_count := bump (Some h) (sighand_count st)\<rparr>"
    using c p by (auto simp: copy_sighand_def bump_def split: option.splits)
  then show ?thesis by (intro exI [of _ "Some h"] exI [of _ "pext st"]) simp
next
  case False
  obtain r y where r: "kmem_alloc F (\<lambda>h. sighand_count st h \<noteq> 0) (pext st) = (r, y)" by fastforce
  note y = kmem_allocD [OF L r]
  show ?thesis
  proof (cases r)
    case None
    with c False r y show ?thesis by (intro exI [of _ None] exI [of _ y]) (auto simp: copy_sighand_def)
  next
    case (Some h)
    let ?z = "if has fl CLONE_CLEAR_SIGHAND then fnote F Flush_handlers p y else y"
    have "bump (Some h) (sighand_count st) = (sighand_count st)(h := 1)" using y Some by (simp add: bump_def)
    then have "e = 0" "st' = set_sighand p (Some h) ?z (st\<lparr>sighand_count := bump (Some h) (sighand_count st)\<rparr>)"
      using c False r Some by (auto simp: copy_sighand_def Let_def split: if_splits)
    moreover have "held ?z = held (pext st)" using y note_held [OF L] by simp
    ultimately show ?thesis by (intro exI [of _ "Some h"] exI [of _ ?z]) simp
  qed
qed

lemma stage_files:
  assumes O: "objects_ok F held" and u: "task_used st0 (me st0)"
  shows "stage_ok F held a st0 (Suc 11) (fork_files F a) 11 (Suc 11)"
proof (rule stage_objects [OF u])
  fix l st e l' st' assume f: "fork_files F a (l, st) = Inr (e, l', st')" "sharing a st0 (Suc 11) l st"
  from f(1) have c: "copy_files F (ka_flags a) (fl_p l) (ka_no_files a) st = (e, st')" "l' = l" by (auto simp: fork_files_def split: prod.splits)
  have p: "pr_files (procs st (fl_p l)) = pr_files (procs st (me st))" using f(2) by (simp add: sharing_def inherits_def)
  obtain i y where y: "held y = held (pext st)" "if e = 0 then st' = set_files (fl_p l) i y (st\<lparr>files_count := bump i (files_count st)\<rparr>)
      else st' = set_files (fl_p l) i y st"
    using copy_files_shape [OF O c(1) p] by blast
  show "l' = l \<and> held (pext st') = held (pext st) \<and> pflags (tasks (pk st') (fl_p l)) = pflags (tasks (pk st) (fl_p l)) \<and>
      (if e = 0 then counts_at a st0 11 (fl_p l) st' \<and> inherits st0 11 l st' else counts_at a st0 (Suc 11) (fl_p l) st')"
    using c(2) f(2) y by (cases "e = 0") (simp_all add: sharing_def counts_at_def rest_of_def inherits_def)
qed (simp_all add: res_from_step)

lemma stage_fs:
  assumes O: "objects_ok F held" and u: "task_used st0 (me st0)"
  shows "stage_ok F held a st0 (Suc 10) (fork_fs F a) 10 (Suc 10)"
proof (rule stage_objects [OF u])
  fix l st e l' st' assume f: "fork_fs F a (l, st) = Inr (e, l', st')" "sharing a st0 (Suc 10) l st"
  from f(1) have c: "copy_fs F (ka_flags a) (fl_p l) st = Inr (e, st')" "l' = l" by (auto simp: fork_fs_def)
  have p: "pr_fs (procs st (fl_p l)) = pr_fs (procs st (me st))" using f(2) by (simp add: sharing_def inherits_def)
  obtain i y where y: "held y = held (pext st)" "if e = 0 then st' = set_fs (fl_p l) i y (st\<lparr>fs_users := bump i (fs_users st)\<rparr>)
      else st' = set_fs (fl_p l) i y st"
    using copy_fs_shape [OF O c(1) p] by blast
  show "l' = l \<and> held (pext st') = held (pext st) \<and> pflags (tasks (pk st') (fl_p l)) = pflags (tasks (pk st) (fl_p l)) \<and>
      (if e = 0 then counts_at a st0 10 (fl_p l) st' \<and> inherits st0 10 l st' else counts_at a st0 (Suc 10) (fl_p l) st')"
    using c(2) f(2) y by (cases "e = 0") (simp_all add: sharing_def counts_at_def rest_of_def inherits_def)
qed (simp_all add: res_from_step)

lemma stage_sighand:
  assumes L: "ledger_ok F held" and u: "task_used st0 (me st0)"
  shows "stage_ok F held a st0 (Suc 9) (fork_sighand F a) 9 (Suc 9)"
proof (rule stage_objects [OF u])
  fix l st e l' st' assume f: "fork_sighand F a (l, st) = Inr (e, l', st')" "sharing a st0 (Suc 9) l st"
  from f(1) have c: "copy_sighand F (ka_flags a) (fl_p l) st = Inr (e, st')" "l' = l" by (auto simp: fork_sighand_def)
  have p: "pr_sighand (procs st (fl_p l)) = pr_sighand (procs st (me st))" using f(2) by (simp add: sharing_def inherits_def)
  obtain i y where y: "held y = held (pext st)" "if e = 0 then st' = set_sighand (fl_p l) i y (st\<lparr>sighand_count := bump i (sighand_count st)\<rparr>)
      else st' = set_sighand (fl_p l) i y st"
    using copy_sighand_shape [OF L c(1) p] by blast
  show "l' = l \<and> held (pext st') = held (pext st) \<and> pflags (tasks (pk st') (fl_p l)) = pflags (tasks (pk st) (fl_p l)) \<and>
      (if e = 0 then counts_at a st0 9 (fl_p l) st' \<and> inherits st0 9 l st' else counts_at a st0 (Suc 9) (fl_p l) st')"
    using c(2) f(2) y by (cases "e = 0") (simp_all add: sharing_def counts_at_def rest_of_def inherits_def)
qed (simp_all add: res_from_step)

lemma collecting_free: "collecting fl st0 i = None \<longleftrightarrow> signals st0 i = None"
  by (auto simp: collecting_def split: option.split)

lemma stage_signal:
  assumes L: "ledger_ok F held" and u: "task_used st0 (me st0)"
  shows "stage_ok F held a st0 (Suc 8) (fork_signal F a) 8 (Suc 8)"
proof (rule stage_objects [OF u])
  fix l st e l' st' assume f: "fork_signal F a (l, st) = Inr (e, l', st')" "sharing a st0 (Suc 8) l st"
  from f(1) have c: "copy_signal F (ka_flags a) (fl_p l) st = Inr (e, st')" "l' = l"
    by (auto simp: fork_signal_def)
  show "l' = l \<and> held (pext st') = held (pext st) \<and> pflags (tasks (pk st') (fl_p l)) = pflags (tasks (pk st) (fl_p l)) \<and>
      (if e = 0 then counts_at a st0 8 (fl_p l) st' \<and> inherits st0 8 l st' else counts_at a st0 (Suc 8) (fl_p l) st')"
  proof (cases "has (ka_flags a) CLONE_THREAD")
    case True
    then show ?thesis using c f(2)
      by (auto simp: copy_signal_def sharing_def counts_at_def rest_of_def inherits_def signals_at_def)
  next
    case False
    obtain r y where r: "kmem_alloc F (\<lambda>i. signals st i \<noteq> None) (pext st) = (r, y)" by fastforce
    note y = kmem_allocD [OF L r]
    show ?thesis
    proof (cases r)
      case None
      then show ?thesis using c f(2) False r y by (auto simp: copy_signal_def sharing_def counts_at_def rest_of_def)
    next
      case (Some i)
      obtain g where g: "e = 0" "st' = tell F Init_signal_rest (fl_p l) (upd_proc (fl_p l) (\<lambda>v. v\<lparr>pr_signal := Some i\<rparr>)
          (st\<lparr>pext := y, signals := (signals st)(i := Some g)\<rparr>))"
        using c(1) False r Some by (auto simp: copy_signal_def split: option.splits)
      have s: "signals st = collecting (ka_flags a) st0" using f(2) by (simp add: sharing_def counts_at_def)
      then have "signals st0 i = None" using y Some collecting_free by auto
      then have "signals_at (ka_flags a) st0 8 (Some i) (signals st')" using g(2) s False by (auto simp: signals_at_def)
      then show ?thesis using c(2) f(2) g y note_held [OF L] s by (auto simp: sharing_def counts_at_def rest_of_def inherits_def)
    qed
  qed
qed (simp_all add: res_from_step)

text \<open>The address space: a failed copy leaves the counts as they were.\<close>

lemma bump_none [simp]: "bump None f = f"
  by (simp add: bump_def)

lemma bump_some: "bump (Some k) f = f(k := f k + 1)"
  by (simp add: bump_def)

lemma mmput_new:
  assumes "ledger_ok F held" "mm_users st m = 0" "st1 = st\<lparr>mm_users := (mm_users st)(m := 1), pext := x\<rparr>"
  obtains y where "held y = held x" "mmput F m st1 = st\<lparr>pext := y\<rparr>"
proof -
  obtain y where y: "held y = held (pext st1)" "mmput F m st1 = st1\<lparr>mm_users := unbump (Some m) (mm_users st1), pext := y\<rparr>"
    by (rule mmput_shape [OF assms(1)])
  have "(mm_users st)(m := 0) = mm_users st" using assms(2) by auto
  then show thesis using that [of y] y assms(3) by (simp add: unbump_def)
qed

lemma dup_mm_shape:
  assumes L: "ledger_ok F held" and k: "kernel_ok F" and d: "dup_mm F p oldmm st = (r, st')"
  shows "\<exists>s y. held y = held (pext st) \<and> same_fork (pk st) s \<and> st' = st\<lparr>mm_users := bump r (mm_users st), pk := s, pext := y\<rparr>"
proof -
  note n = note_held [OF L]
  obtain i y1 where i: "kmem_alloc F (\<lambda>m. mm_users st m \<noteq> 0) (pext st) = (i, y1)" by fastforce
  note y1 = kmem_allocD [OF L i]
  show ?thesis
  proof (cases i)
    case None
    with d i have "r = None" "st' = st\<lparr>pext := y1\<rparr>" by (auto simp: dup_mm_def)
    with y1 show ?thesis by (intro exI [of _ "pk st"] exI [of _ y1]) simp
  next
    case (Some m)
    then have z: "mm_users st m = 0" using y1 by simp
    obtain b s where s: "mm_init F m oldmm p (pk st) = (b, s)" by fastforce
    have "same_fork (pk st) (snd (mm_init F m oldmm p (pk st)))" using k unfolding kernel_ok_def by blast
    then have f: "same_fork (pk st) s" using s by simp
    obtain err y2 where y2: "dup_mmap F m oldmm (fnote F (Uprobe_dup True) p y1) = (err, y2)" by fastforce
    obtain g y3 where y3: "module_got F m (fnote F (Uprobe_dup False) p y2) = (g, y3)" by fastforce
    have h: "held y2 = held (pext st)" "held y3 = held (pext st)" using quiet_held(4) [OF L y2] quiet_held(5) [OF L y3] y1 n by simp_all
    let ?st = "st\<lparr>pk := s\<rparr>"
    obtain y4 where y4: "held y4 = held y2" "mmput F m (?st\<lparr>mm_users := (mm_users st)(m := 1), pext := fnote F Mm_init_owner p y2\<rparr>) = ?st\<lparr>pext := y4\<rparr>"
      by (rule mmput_new [OF L, of ?st m _ "fnote F Mm_init_owner p y2"]) (simp_all add: z n)
    obtain y5 where y5: "held y5 = held y3" "mmput F m (?st\<lparr>mm_users := (mm_users st)(m := 1), pext := fnote F Mm_init_owner p y3\<rparr>) = ?st\<lparr>pext := y5\<rparr>"
      by (rule mmput_new [OF L, of ?st m _ "fnote F Mm_init_owner p y3"]) (simp_all add: z n)
    have b: "bump (Some m) (mm_users st) = (mm_users st)(m := 1)" using z by (simp add: bump_def)
    consider (init) "\<not> b" | (mmap) b "err \<noteq> 0" | (module) b "err = 0" "\<not> g" | (copied) b "err = 0" g by blast
    then show ?thesis
    proof cases
      case init
      with d i Some s have "r = None" "st' = ?st\<lparr>pext := y1\<rparr>" by (simp_all add: dup_mm_def)
      with f y1 show ?thesis by (intro exI [of _ s] exI [of _ y1]) simp
    next
      case mmap
      with d i Some s y2 y4(2) have "r = None" "st' = ?st\<lparr>pext := fnote F (Uprobe_dup False) p y4\<rparr>"
        by (simp_all add: dup_mm_def Let_def)
      with f h y4(1) n show ?thesis by (intro exI [of _ s] exI [of _ "fnote F (Uprobe_dup False) p y4"]) simp
    next
      case module
      with d i Some s y2 y3 y5(2) have "r = None" "st' = ?st\<lparr>pext := y5\<rparr>" by (simp_all add: dup_mm_def Let_def)
      with f h y5(1) show ?thesis by (intro exI [of _ s] exI [of _ y5]) simp
    next
      case copied
      with d i Some s y2 y3 have "r = Some m" "st' = ?st\<lparr>mm_users := (mm_users st)(m := 1), pext := y3\<rparr>" by (simp_all add: dup_mm_def Let_def)
      with f h b show ?thesis by (intro exI [of _ s] exI [of _ y3]) simp
    qed
  qed
qed

lemma copy_mm_shape:
  fixes F :: "('x, 'y) fenv"
  assumes L: "ledger_ok F held" and k: "kernel_ok F" and c: "copy_mm F fl p st = (e, st')" and p: "p \<noteq> me st"
  shows "\<exists>m s y. held y = held (pext st) \<and> current s = current (pk st) \<and> pflags (tasks s p) = pflags (tasks (pk st) p) \<and>
    (if e = 0 then mm (tasks s p) = m \<and> st' = st\<lparr>mm_users := bump m (mm_users st), pk := s, pext := y\<rparr>
     else st' = st\<lparr>pk := s, pext := y\<rparr>)"
proof -
  define s1 where "s1 = upd_task p (\<lambda>v. v\<lparr>nvcsw := 0, nivcsw := 0, mm := None, active_mm := None\<rparr>) (pk st)"
  have s1: "current s1 = current (pk st)" "pflags (tasks s1 p) = pflags (tasks (pk st) p)" "mm (tasks s1 p) = None"
      "mm (tasks s1 (me st)) = mm (tasks (pk st) (me st))" using p by (simp_all add: s1_def)
  define st1 where "st1 = st\<lparr>pk := s1\<rparr>"
  define fin :: "nat \<Rightarrow> 'x kstate \<Rightarrow> 'x kstate" where "fin = (\<lambda>n s. sched_mm_cid_fork p (upd_task p (\<lambda>v. v\<lparr>mm := Some n, active_mm := Some n\<rparr>) s))"
  have fin: "current (fin n s) = current s" "pflags (tasks (fin n s) p) = pflags (tasks s p)" "mm (tasks (fin n s) p) = Some n" for n s
    by (simp_all add: fin_def sched_mm_cid_fork_def)
  have c1: "(case mm (tasks s1 (me st)) of None \<Rightarrow> (0, st1)
      | Some oldmm \<Rightarrow> (case (if has fl CLONE_VM then (Some oldmm, st1\<lparr>mm_users := bump (Some oldmm) (mm_users st1)\<rparr>) else dup_mm F p oldmm st1) of
          (None, st) \<Rightarrow> (- ENOMEM, st) | (Some m, st) \<Rightarrow> (0, upd_pk (fin m) st))) = (e, st')"
    using c unfolding copy_mm_def Let_def s1_def [symmetric] st1_def [symmetric] fin_def bump_some by (simp add: st1_def s1)
  consider (none) "mm (tasks s1 (me st)) = None" | (share) old where "mm (tasks s1 (me st)) = Some old" "has fl CLONE_VM"
    | (dup) old where "mm (tasks s1 (me st)) = Some old" "\<not> has fl CLONE_VM" by fastforce
  then show ?thesis
  proof cases
    case none
    with c1 have "e = 0" "st' = st1" by simp_all
    with s1 show ?thesis by (intro exI [of _ None] exI [of _ s1] exI [of _ "pext st"]) (simp add: st1_def)
  next
    case share
    with c1 have "e = 0" "st' = upd_pk (fin old) (st1\<lparr>mm_users := bump (Some old) (mm_users st1)\<rparr>)" by simp_all
    with s1 fin show ?thesis
      by (intro exI [of _ "Some old"] exI [of _ "fin old s1"] exI [of _ "pext st"]) (simp add: st1_def)
  next
    case dup
    obtain r w where r: "dup_mm F p old st1 = (r, w)" by fastforce
    obtain s y where s: "held y = held (pext st)" "same_fork s1 s" "w = st\<lparr>mm_users := bump r (mm_users st), pk := s, pext := y\<rparr>"
      using dup_mm_shape [OF L k r] by (auto simp: st1_def)
    have q: "current s = current (pk st)" "pflags (tasks s p) = pflags (tasks (pk st) p)"
      using s(2) s1 by (simp_all add: same_fork_def)
    show ?thesis
    proof (cases r)
      case None
      with c1 dup r have "e \<noteq> 0" "st' = w" by auto
      with None s(3) have "e \<noteq> 0" "st' = st\<lparr>pk := s, pext := y\<rparr>" by simp_all
      then show ?thesis using q s(1) by (intro exI [of _ None] exI [of _ s] exI [of _ y]) simp
    next
      case (Some n)
      with c1 dup r have "e = 0" "st' = upd_pk (fin n) w" by simp_all
      with Some s(3) have "e = 0" "st' = st\<lparr>mm_users := bump (Some n) (mm_users st), pk := fin n s, pext := y\<rparr>" by simp_all
      then show ?thesis using q s(1) fin by (intro exI [of _ "Some n"] exI [of _ "fin n s"] exI [of _ y]) simp
    qed
  qed
qed

lemma stage_mm:
  assumes L: "ledger_ok F held" and k: "kernel_ok F" and u: "task_used st0 (me st0)"
  shows "stage_ok F held a st0 (Suc 7) (fork_mm F a) 7 (Suc 7)"
proof (rule stage_objects [OF u])
  fix l st e l' st' assume f: "fork_mm F a (l, st) = Inr (e, l', st')" "sharing a st0 (Suc 7) l st"
  from f(1) have c: "copy_mm F (ka_flags a) (fl_p l) st = (e, st')" "l' = l" by (auto simp: fork_mm_def split: prod.splits)
  have "fl_p l \<noteq> me st" using f(2) by (simp add: sharing_def)
  then obtain m s y where y: "held y = held (pext st)" "current s = current (pk st)" "pflags (tasks s (fl_p l)) = pflags (tasks (pk st) (fl_p l))"
      "if e = 0 then mm (tasks s (fl_p l)) = m \<and> st' = st\<lparr>mm_users := bump m (mm_users st), pk := s, pext := y\<rparr>
       else st' = st\<lparr>pk := s, pext := y\<rparr>"
    using copy_mm_shape [OF L k c(1)] by blast
  show "l' = l \<and> held (pext st') = held (pext st) \<and> pflags (tasks (pk st') (fl_p l)) = pflags (tasks (pk st) (fl_p l)) \<and>
      (if e = 0 then counts_at a st0 7 (fl_p l) st' \<and> inherits st0 7 l st' else counts_at a st0 (Suc 7) (fl_p l) st')"
    using c(2) f(2) y by (cases "e = 0") (simp_all add: sharing_def counts_at_def rest_of_def inherits_def)
qed (simp_all add: res_from_step)

section \<open>The other stages\<close>

lemma fork_inv_pair: "fork_inv F held a st0 k (l, st) = (forked F held a st0 k l st \<and> inherits st0 k l st \<and> early held a k l st)"
  by (simp add: fork_inv_def)

text \<open>A block of assignments before a stage.\<close>

lemma stage_after:
  assumes "stage_ok F held a st0 k f k' kf" "\<And>l st. fork_inv F held a st0 k (l, st) \<Longrightarrow> g (l, st) \<noteq> f (l, h l st) \<Longrightarrow> \<exists>w. g (l, st) = Inl w"
    and "\<And>l st. fork_inv F held a st0 k (l, st) \<Longrightarrow> fork_inv F held a st0 k (l, h l st)"
  shows "stage_ok F held a st0 k g k' kf"
proof -
  have "if e = 0 then fork_inv F held a st0 k' x' else forked F held a st0 kf (fst x') (snd x')"
    if x: "fork_inv F held a st0 k x" "g x = Inr (e, x')" for x e x'
  proof -
    obtain l st where [simp]: "x = (l, st)" by fastforce
    have "g (l, st) = f (l, h l st)" using assms(2) [of l st] x by auto
    with assms(1) [unfolded stage_ok_def, rule_format, of "(l, h l st)" e x'] assms(3) [of l st] x show ?thesis by simp
  qed
  then show ?thesis unfolding stage_ok_def by blast
qed

lemma stage_security:
  assumes L: "ledger_ok F held"
  shows "stage_ok F held a st0 (Suc 13) (fork_security F a) 13 (Suc 13)"
proof (rule stage_after [where h = "\<lambda>l st. tell F Shm_init (fl_p l) st"])
  show "stage_ok F held a st0 (Suc 13) (fork_take F a Res_security) 13 (Suc 13)"
    by (rule stage_take [OF L]) (simp_all add: res_from_step)
qed (use forked_tell [OF L] in \<open>auto simp: fork_security_def fork_inv_pair\<close>)

lemma kept_kernel: "kept F held a st0 k l h st \<Longrightarrow> same_fork (pk st) s \<Longrightarrow> kept F held a st0 k l h (st\<lparr>pk := s\<rparr>)"
  by (simp add: kept_def forked_kernel)

lemma kept_inv: "k \<le> 18 \<Longrightarrow> fork_inv F held a st0 k (l, st) = kept F held a st0 k l (held (pext st)) st"
  by (simp add: kept_def fork_inv_pair)

lemma kept_identity:
  assumes L: "ledger_ok F held" and k: "kept F held a st0 k l h st" "k \<le> 20"
  shows "kept F held a st0 k l h (fork_identity F fl (fl_p l) n st)"
  unfolding fork_identity_def Let_def
  by (intro kept_tell [OF L] kept_child kept_kernel kept_if k) (simp_all add: same_fork_def)

lemma stage_cgroup:
  assumes L: "ledger_ok F held"
  shows "stage_ok F held a st0 (Suc 1) (fork_cgroup F a) 1 (Suc 1)"
proof (rule stage_after [where h = "\<lambda>l st. fork_identity F (ka_flags a) (fl_p l) (the (fl_pid l)) st"])
  show "stage_ok F held a st0 (Suc 1) (fork_take F a Res_cgroup) 1 (Suc 1)"
    by (rule stage_take [OF L]) (simp_all add: res_from_def label_res_def)
  show "fork_inv F held a st0 (Suc 1) (l, fork_identity F (ka_flags a) (fl_p l) (the (fl_pid l)) st)"
    if "fork_inv F held a st0 (Suc 1) (l, st)" for l st
  proof -
    have "kept F held a st0 (Suc 1) l (held (pext st)) (fork_identity F (ka_flags a) (fl_p l) (the (fl_pid l)) st)"
      using that by (intro kept_identity [OF L]) (simp_all add: kept_inv)
    then show ?thesis by (simp add: kept_inv) (simp add: kept_def)
  qed
qed (auto simp: fork_cgroup_def split: option.splits)

lemma kept_family:
  assumes L: "ledger_ok F held" and c: "kernel_ok F" and k: "kept F held a st0 k l h st" "k \<le> 20"
  shows "kept F held a st0 k l h (fork_family F b (fl_p l) st)"
proof -
  have "same_fork s (sched_core_fork F p s)" for p s using c unfolding kernel_ok_def by blast
  then show ?thesis
    unfolding fork_family_def Let_def by (intro kept_tell [OF L] kept_child kept_kernel kept_if k) simp_all
qed

lemma stage_parent:
  assumes L: "ledger_ok F held" and c: "kernel_ok F"
  shows "stage_ok F held a st0 0 (fork_parent F a) 0 0"
proof (rule stage_okI)
  fix l st e l' st'
  assume f: "forked F held a st0 0 l st" "inherits st0 0 l st" "fork_parent F a (l, st) = Inr (e, l', st')"
  then have "kept F held a st0 0 l (held (pext st)) (fork_family F a (fl_p l) st)"
    by (intro kept_family [OF L c]) (simp_all add: kept_def)
  moreover have "l' = l \<and> st' = fork_family F a (fl_p l) st" using f(3) by (auto simp: fork_parent_def Let_def split: option.splits)
  ultimately show "if e = 0 then forked F held a st0 0 l' st' \<and> inherits st0 0 l' st' \<and> early held a 0 l' st' else forked F held a st0 0 l' st'"
    by (simp add: kept_def)
qed

lemma stage_io:
  assumes L: "ledger_ok F held"
  shows "stage_ok F held a st0 (Suc 5) (fork_take F a Res_io) 5 (Suc 5)"
proof (rule stage_okI)
  fix l st e l' st' assume f: "forked F held a st0 (Suc 5) l st" "inherits st0 (Suc 5) l st" "fork_take F a Res_io (l, st) = Inr (e, l', st')"
  then have t: "take_res F Res_io (fl_p l) a st = (e, st')" "l' = l" by (auto simp: fork_take_def split: prod.splits)
  obtain y where y: "st' = st\<lparr>pext := y\<rparr>" "held y = held (pext st) + (if took Res_io e \<and> (Res_io = Res_io \<longrightarrow> has_io_context F (fl_p l) y) then {#Res_io#} else {#})"
    by (rule take_resD [OF L t(1)])
  let ?io = "if e = 0 \<and> has_io_context F (fl_p l) y then {#Res_io#} else {#}"
  have h: "held y = held (pext st) + ?io" using y(2) by (simp add: took_def)
  obtain kt where "held (pext st) = res_from F (ka_flags a) l (Suc 5) + kt" "kt \<in> {{#}, {#Res_kthread#}}"
      "kt \<noteq> {#} \<longrightarrow> pflags (tasks (pk st) (fl_p l)) AND PF_KTHREAD \<noteq> 0"
    using f(1) unfolding forked_def ledger_at_def by auto
  with h have "ledger_at F held (ka_flags a) 5 l (pflags (tasks (pk st) (fl_p l)) AND PF_KTHREAD \<noteq> 0) y"
    unfolding ledger_at_def by (intro exI [of _ kt] exI [of _ ?io]) (simp add: res_from_step)
  then have "forked F held a st0 5 l st'" using f(1) counts_at_Suc [of 5 a st0 "fl_p l" st] y(1) by (simp add: forked_def)
  moreover have "forked F held a st0 (Suc 5) l st'" if "e \<noteq> 0" using forked_quiet [OF f(1)] h y(1) that by simp
  ultimately show "if e = 0 then forked F held a st0 5 l' st' \<and> inherits st0 5 l' st' \<and> early held a 5 l' st' else forked F held a st0 (Suc 5) l' st'"
    using f(2) t(2) y(1) by (simp add: inherits_def)
qed

text \<open>The local variables for the pid and the pidfd.\<close>

lemma forked_pid: "4 \<le> k \<Longrightarrow> forked F held a st0 k (l\<lparr>fl_pid := n\<rparr>) st = forked F held a st0 k l st"
  by (simp add: forked_def ledger_at_def res_from_def label_res_def)

lemma forked_fl_pidfd [simp]: "forked F held a st0 k (l\<lparr>fl_pidfd := n\<rparr>) st = forked F held a st0 k l st"
  by (simp add: forked_def ledger_at_def res_from_def label_res_def)

lemma inherits_loc [simp]: "inherits st0 k (l\<lparr>fl_pid := n\<rparr>) st = inherits st0 k l st" "inherits st0 k (l\<lparr>fl_pidfd := d\<rparr>) st = inherits st0 k l st"
  by (simp_all add: inherits_def)

lemma stage_pid:
  assumes L: "ledger_ok F held"
  shows "stage_ok F held a st0 (Suc 3) (fork_pid F a) 3 (Suc 3)"
proof (rule stage_okI)
  fix l st e l' st'
  assume f: "forked F held a st0 (Suc 3) l st" "inherits st0 (Suc 3) l st" "fork_pid F a (l, st) = Inr (e, l', st')"
  have i: "inherits st0 3 l st" using f(2) by (simp add: inherits_def)
  show "if e = 0 then forked F held a st0 3 l' st' \<and> inherits st0 3 l' st' \<and> early held a 3 l' st' else forked F held a st0 (Suc 3) l' st'"
  proof (cases "fl_pid l = Some (init_struct_pid F)")
    case True
    then have "e = 0" "l' = l" "st' = st" using f(3) by (auto simp: fork_pid_def)
    with i forked_take [OF f(1), of "{#}" "pext st"] True show ?thesis by (simp add: res_from_step)
  next
    case False
    obtain r y where r: "alloc_pid F (fl_p l) (ka_set_tid a) (pext st) = (r, y)" by fastforce
    show ?thesis
    proof (cases r)
      case (Inl e')
      with r False f(3) have "e = e'" "l' = l" "st' = st\<lparr>pext := y\<rparr>" by (auto simp: fork_pid_def)
      with alloc_pidD(1) [OF L] r Inl forked_quiet [OF f(1), of y] show ?thesis by simp
    next
      case (Inr n)
      with r False f(3) have s: "e = 0" "l' = l\<lparr>fl_pid := Some n\<rparr>" "st' = st\<lparr>pext := y\<rparr>" by (auto simp: fork_pid_def)
      have "n \<noteq> init_struct_pid F" "held y = held (pext st) + {#Res_pid#}" using alloc_pidD(2) [OF L] r Inr by auto
      moreover have "forked F held a st0 (Suc 3) l' st" using f(1) s(2) by (simp add: forked_pid)
      ultimately have "forked F held a st0 3 l' st'"
        using forked_take [of F held a st0 3 l' st "{#Res_pid#}" y] s by (simp add: res_from_step)
      with s i show ?thesis by simp
    qed
  qed
qed

lemma pidfd_prepare_shape:
  assumes L: "ledger_ok F held" and r: "pidfd_prepare F p a st = (r, st')"
  shows "\<exists>y. st' = st\<lparr>pext := y\<rparr> \<and> held y = held (pext st) + (if r < 0 then {#} else {#Res_fd, Res_pidfile#})"
proof -
  obtain d w where d: "take_res F Res_fd p a st = (d, w)" by fastforce
  obtain y where y: "w = st\<lparr>pext := y\<rparr>" "held y = held (pext st) + (if took Res_fd d then {#Res_fd#} else {#})"
    using take_plain [OF L d] by auto
  obtain e v where e: "take_res F Res_pidfile p a w = (e, v)" by fastforce
  obtain z where z: "v = w\<lparr>pext := z\<rparr>" "held z = held (pext w) + (if took Res_pidfile e then {#Res_pidfile#} else {#})"
    using take_plain [OF L e] by auto
  consider "d < 0" | "\<not> d < 0" "e < 0" | "\<not> d < 0" "\<not> e < 0" by blast
  then show ?thesis
  proof cases
    case 1
    with r d y show ?thesis by (intro exI [of _ y]) (auto simp: pidfd_prepare_def took_def)
  next
    case 2
    then have "Res_fd \<in># held z" "held z = held (pext st) + {#Res_fd#}" using y z by (simp_all add: took_def)
    moreover from 2 r d e have "r = e" "st' = drop_res F Res_fd p v" by (auto simp: pidfd_prepare_def)
    ultimately show ?thesis using release_held [OF L, of Res_fd z p] 2 y(1) z(1)
      by (intro exI [of _ "release F Res_fd p z"]) simp
  next
    case 3
    with r d e have "r = d" "st' = v" by (auto simp: pidfd_prepare_def)
    with 3 y z show ?thesis by (intro exI [of _ z]) (simp add: took_def)
  qed
qed

lemma stage_pidfd:
  assumes L: "ledger_ok F held"
  shows "stage_ok F held a st0 (Suc 2) (fork_pidfd F a) 2 (Suc 2)"
proof (rule stage_okI)
  fix l st e l' st'
  assume f: "forked F held a st0 (Suc 2) l st" "inherits st0 (Suc 2) l st" "fork_pidfd F a (l, st) = Inr (e, l', st')"
  have i: "inherits st0 2 l st" using f(2) by (simp add: inherits_def)
  show "if e = 0 then forked F held a st0 2 l' st' \<and> inherits st0 2 l' st' \<and> early held a 2 l' st' else forked F held a st0 (Suc 2) l' st'"
  proof (cases "has (ka_flags a) CLONE_PIDFD")
    case True
    obtain r w where r: "pidfd_prepare F (fl_p l) a st = (r, w)" by fastforce
    obtain y where y: "w = st\<lparr>pext := y\<rparr>" "held y = held (pext st) + (if r < 0 then {#} else {#Res_fd, Res_pidfile#})"
      using pidfd_prepare_shape [OF L r] by blast
    show ?thesis
    proof (cases "r < 0")
      case neg: True
      with f(3) True r have "e = r" "l' = l" "st' = w" by (auto simp: fork_pidfd_def)
      with neg y forked_quiet [OF f(1), of y] show ?thesis by simp
    next
      case False
      with f(3) True r have "e = 0" "l' = l\<lparr>fl_pidfd := Some r\<rparr>" "st' = w" by (auto simp: fork_pidfd_def)
      with False True y i forked_take [OF f(1), of "{#Res_fd, Res_pidfile#}" y] show ?thesis by (simp add: res_from_step)
    qed
  next
    case False
    then have "e = 0" "l' = l" "st' = st" using f(3) by (auto simp: fork_pidfd_def)
    with i forked_take [OF f(1), of "{#}" "pext st"] False show ?thesis by (simp add: res_from_step)
  qed
qed

lemma stage_put_pidfd:
  assumes L: "ledger_ok F held"
  shows "stage_ok F held a st0 2 (fork_put_pidfd F a) 2 2"
proof (rule stage_okI)
  fix l st e l' st'
  assume f: "forked F held a st0 2 l st" "inherits st0 2 l st" "fork_put_pidfd F a (l, st) = Inr (e, l', st')"
  show "if e = 0 then forked F held a st0 2 l' st' \<and> inherits st0 2 l' st' \<and> early held a 2 l' st' else forked F held a st0 2 l' st'"
  proof (cases "fl_pidfd l")
    case None
    with f show ?thesis by (auto simp: fork_put_pidfd_def)
  next
    case (Some d)
    obtain r y where r: "put_user F d (ka_pidfd a) (pext st) = (r, y)" by fastforce
    then have "l' = l" "st' = st\<lparr>pext := y\<rparr>" using f(3) Some by (auto simp: fork_put_pidfd_def)
    with f(2) forked_quiet [OF f(1), of y] quiet_held(3) [OF L r] show ?thesis by simp
  qed
qed

section \<open>All stages\<close>

definition stages_ok ::
    "('x, 'y) fenv \<Rightarrow> ('y \<Rightarrow> fork_res multiset) \<Rightarrow> kernel_clone_args \<Rightarrow> ('x, 'y) pstate \<Rightarrow> nat \<Rightarrow>
     (('x, 'y) fork_stage \<times> fork_label) list \<Rightarrow> bool" where
  "stages_ok F held a st0 k fs \<longleftrightarrow>
     (\<forall>x e x'. fork_inv F held a st0 k x \<longrightarrow> run_stages F (ka_flags a) fs x = Inr (e, x') \<longrightarrow>
        (if e = 0 then fork_inv F held a st0 0 x' else forked F held a st0 22 (fst x') (snd x')))"

lemma stages_nil: "stages_ok F held a st0 0 []"
  by (simp add: stages_ok_def)

lemma stages_cons:
  assumes lib: "fork_lib_ok F held" "task_used st0 (me st0)" and f: "stage_ok F held a st0 k f k' kf"
    and d: "dropWhile (\<lambda>b. b \<noteq> lbl) fork_labels = drop kf fork_labels" "kf \<le> 21" and fs: "stages_ok F held a st0 k' fs"
  shows "stages_ok F held a st0 k ((f, lbl) # fs)"
proof -
  have "if e = 0 then fork_inv F held a st0 0 x' else forked F held a st0 22 (fst x') (snd x')"
    if x: "fork_inv F held a st0 k x" "run_stages F (ka_flags a) ((f, lbl) # fs) x = Inr (e, x')" for x e x'
  proof -
    obtain e1 l1 st1 where 1: "f x = Inr (e1, l1, st1)" using x(2) by (cases "f x") auto
    with f x(1) have s: "if e1 = 0 then fork_inv F held a st0 k' (l1, st1) else forked F held a st0 kf l1 st1"
      unfolding stage_ok_def by fastforce
    show ?thesis
    proof (cases "e1 = 0")
      case True
      with 1 x(2) have "run_stages F (ka_flags a) fs (l1, st1) = Inr (e, x')" by simp
      with s True fs show ?thesis unfolding stages_ok_def by metis
    next
      case False
      with 1 x(2) d(1) obtain st where st: "run_cleanups F (ka_flags a) l1 (drop kf fork_labels) st1 = Inr st" "e = e1" "x' = (l1, st)"
        by (auto simp: goto_label_def)
      from unwind_all [OF lib _ _ st(1)] s False d(2) st(2,3) show ?thesis by simp
    qed
  qed
  then show ?thesis unfolding stages_ok_def by blast
qed

lemma stages_taking:
  assumes "ledger_ok F held"
  shows "stage_ok F held a st0 18 (fork_take F a Res_mempolicy) 17 18" "stage_ok F held a st0 16 (fork_take F a Res_perf) 15 16"
    "stage_ok F held a st0 15 (fork_take F a Res_audit) 14 15" "stage_ok F held a st0 13 (fork_take F a Res_semundo) 12 13"
    "stage_ok F held a st0 7 (fork_take F a Res_namespaces) 6 7" "stage_ok F held a st0 5 (fork_take F a Res_thread) 4 5"
  using stage_take [OF assms, of 17 Res_mempolicy a st0] stage_take [OF assms, of 15 Res_perf a st0] stage_take [OF assms, of 14 Res_audit a st0]
    stage_take [OF assms, of 12 Res_semundo a st0] stage_take [OF assms, of 6 Res_namespaces a st0] stage_take [OF assms, of 4 Res_thread a st0]
  by (simp_all add: res_from_step)

lemma stages_numbered:
  assumes l: "ledger_ok F held" "objects_ok F held" "kernel_ok F" and u: "task_used st0 (me st0)"
  shows "stage_ok F held a st0 17 (fork_sched F) 16 17" "stage_ok F held a st0 14 (fork_security F a) 13 14"
    "stage_ok F held a st0 12 (fork_files F a) 11 12" "stage_ok F held a st0 11 (fork_fs F a) 10 11"
    "stage_ok F held a st0 10 (fork_sighand F a) 9 10" "stage_ok F held a st0 9 (fork_signal F a) 8 9"
    "stage_ok F held a st0 8 (fork_mm F a) 7 8" "stage_ok F held a st0 6 (fork_take F a Res_io) 5 6"
    "stage_ok F held a st0 4 (fork_pid F a) 3 4" "stage_ok F held a st0 3 (fork_pidfd F a) 2 3"
    "stage_ok F held a st0 2 (fork_cgroup F a) 1 2" "stage_ok F held a st0 1 (fork_sched_cgroup F) 0 1"
  using stage_sched [of F held a st0] stage_security [OF l(1), of a st0] stage_files [OF l(2) u, of a] stage_fs [OF l(2) u, of a]
    stage_sighand [OF l(1) u, of a] stage_signal [OF l(1) u, of a] stage_mm [OF l(1,3) u, of a] stage_io [OF l(1), of a st0]
    stage_pid [OF l(1), of a st0] stage_pidfd [OF l(1), of a st0] stage_cgroup [OF l(1), of a st0] stage_sched_cgroup [OF l(3), of held a st0]
  by (simp_all add: numeral_eq_Suc)

lemma fork_stages_ok:
  assumes "fork_lib_ok F held" "task_used st0 (me st0)"
  shows "stages_ok F held a st0 22 (fork_stages F a)"
proof -
  have l: "ledger_ok F held" "objects_ok F held" "kernel_ok F" using assms(1) by (simp_all add: fork_lib_ok_def)
  note s = stage_signals [OF l(1) assms(2)] stage_dup [OF l(1) assms(2)] stage_creds [OF l(1)] stage_limits [OF assms(2)]
    stage_kthread [OF l(1)] stages_taking [OF l(1)] stages_numbered [OF l assms(2)] stage_put_pidfd [OF l(1)] stage_parent [OF l(1,3)]
  show ?thesis
    unfolding fork_stages_def by (rule stages_cons [OF assms] stages_nil s | simp add: fork_labels_def)+
qed

lemma fork_inv_start:
  assumes "held (pext st) = {#}"
  shows "fork_inv F held a st 22 (l, st)"
proof -
  have "counts_at a st 22 (fl_p l) st" by (simp add: counts_at_def signals_at_def)
  moreover have "ledger_at F held (ka_flags a) 22 l b (pext st)" for b using assms by (simp add: ledger_at_def res_from_step)
  ultimately show ?thesis using assms by (simp add: fork_inv_pair forked_def inherits_def early_def)
qed

text \<open>The two ends of the stages of a call.\<close>

lemma copy_process_stages:
  assumes "fork_lib_ok F held" "task_used st (me st)" "held (pext st) = {#}"
    and "run_stages F (ka_flags a) (fork_stages F a) (\<lparr>fl_p = 0, fl_pid = pid0, fl_pidfd = None\<rparr>, st) = Inr (e, l, st')"
  shows "if e = 0 then fork_inv F held a st 0 (l, st') else forked F held a st 22 l st'"
  using fork_stages_ok [OF assms(1,2), of a, unfolded stages_ok_def, rule_format, OF fork_inv_start [of held, OF assms(3)] assms(4)] by (auto split: if_splits)

end
