(* ===== verification/Fork_Theorems.thy ===== *)
theory Fork_Theorems
  imports Fork_Stages Hotplug_Theorems
begin

text \<open>
  What forking and unsharing leave behind when they fail.
\<close>

declare set_inorder [simp del] length_inorder [simp del]

section \<open>A fork that fails\<close>


section \<open>A fork that succeeds\<close>

text \<open>What the publication of a task leaves alone.\<close>

definition same_objects :: "('x, 'y) pstate \<Rightarrow> ('x, 'y) pstate \<Rightarrow> bool" where
  "same_objects st st' \<longleftrightarrow> task_used st' = task_used st \<and> mm_users st' = mm_users st \<and> sighand_count st' = sighand_count st \<and>
     fs_users st' = fs_users st \<and> files_count st' = files_count st \<and> pk st' = pk st \<and> total_forks st' = total_forks st \<and> nr_threads st' = nr_threads st \<and>
     (\<forall>t. pr_files (procs st' t) = pr_files (procs st t) \<and> pr_fs (procs st' t) = pr_fs (procs st t) \<and>
        pr_sighand (procs st' t) = pr_sighand (procs st t))"

lemma same_objects_trans [trans]: "same_objects st st1 \<Longrightarrow> same_objects st1 st2 \<Longrightarrow> same_objects st st2"
  by (simp add: same_objects_def)

lemma upd_signal_objects: "upd_signal p f st = Inr st' \<Longrightarrow> same_objects st st'"
  by (auto simp: upd_signal_def same_objects_def split: option.splits)

lemma same_objects_pext: "same_objects st (st1\<lparr>pext := y\<rparr>) = same_objects st st1" "same_objects (st\<lparr>pext := y\<rparr>) st1 = same_objects st st1"
  by (simp_all add: same_objects_def)

lemma publish_leader_objects:
  assumes "publish_leader F p n st = Inr st'"
  shows "same_objects st st'"
proof -
  obtain f st1 where 1: "upd_signal p f st = Inr st1" "same_objects st1 st'"
    using assms unfolding publish_leader_def Let_def by (auto simp: same_objects_def split: option.splits)
  show ?thesis by (rule same_objects_trans [OF upd_signal_objects [OF 1(1)] 1(2)])
qed

lemma publish_thread_objects:
  assumes "publish_thread F p st = Inr st'"
  shows "same_objects st st'"
proof -
  obtain f st1 where 1: "upd_signal (me st) f st = Inr st1" "upd_signal p (\<lambda>g. g\<lparr>sg_threads := sg_threads g @ [p]\<rparr>) (tell F Join_group_stop p st1) = Inr st'"
    using assms unfolding publish_thread_def by (auto split: sum.splits)
  from upd_signal_objects [OF 1(1)] upd_signal_objects [OF 1(2)] show ?thesis by (simp add: same_objects_pext same_objects_trans)
qed

lemma copy_oom_objects: "copy_oom_score_adj F fl p st = Inr st' \<Longrightarrow> same_objects st st'"
  by (auto simp: copy_oom_score_adj_def same_objects_pext dest!: upd_signal_objects split: if_splits option.splits) (simp_all add: same_objects_def)

lemma bindr_three:
  "bindr m (\<lambda>x. bindr (f x) (\<lambda>y. bindr (g y) (\<lambda>z. Inr (h z)))) = Inr r \<Longrightarrow>
   \<exists>x y z. m = Inr x \<and> f x = Inr y \<and> g y = Inr z \<and> r = h z"
  by auto

lemma fork_publish_objects:
  assumes "fork_publish F trc a l st = Inr st'"
  shows "\<exists>st1. st' = upd_pk (copy_process_params (fl_p l)) st1 \<and>
    same_objects (st\<lparr>nr_threads := nr_threads st + (if pid (tasks (pk st) (fl_p l)) = 0 then 0 else 1), total_forks := total_forks st + 1,
      pk := sched_post_fork (fl_p l) (pk st)\<rparr>) st1"
proof -
  let ?p = "fl_p l"
  obtain n where n: "fl_pid l = Some n" using assms by (auto simp: fork_publish_def split: option.splits)
  from bindr_three [OF assms [unfolded fork_publish_def n option.case Let_def]] show ?thesis
  proof (elim exE conjE, goal_cases)
    case (1 st2 st3 st4)
    have "same_objects (st\<lparr>nr_threads := nr_threads st + (if pid (tasks (pk st) ?p) = 0 then 0 else 1)\<rparr>) st2"
    proof (cases "pid (tasks (pk st) ?p) = 0")
      case True
      with 1(1) show ?thesis by (auto simp: same_objects_def)
    next
      case False
      let ?st1 = "upd_proc ?p (\<lambda>v. v\<lparr>pr_thread_pid := Some n\<rparr>) (tell F (Ptrace_init (has (ka_flags a) CLONE_PTRACE \<or> trc)) ?p (tell F Copy_seccomp ?p st))"
      obtain w where "same_objects ?st1 w" "st2 = tell F (Attach_pid PIDTYPE_PID) ?p w\<lparr>nr_threads := nr_threads w + 1\<rparr>"
        using False 1(1) publish_leader_objects [of F ?p n ?st1] publish_thread_objects [of F ?p ?st1] by (auto split: if_splits)
      moreover have "same_objects st ?st1" by (simp add: same_objects_def)
      ultimately show ?thesis using False same_objects_trans [of st ?st1 w] by (simp add: same_objects_def)
    qed
    moreover have "same_objects (st2\<lparr>total_forks := total_forks st2 + 1\<rparr>) st3"
      using 1(2) by (auto split: if_splits dest: upd_signal_objects) (simp add: same_objects_def)
    moreover have "same_objects (st3\<lparr>pk := sched_post_fork ?p (pk st3)\<rparr>) st4"
      using copy_oom_objects [OF 1(3)] by (cases "fl_pidfd l") (simp_all add: same_objects_def)
    ultimately show ?case using 1(4) by (intro exI [of _ st4]) (simp add: same_objects_def)
  qed
qed

text \<open>
  C9. A call of \<open>copy_process\<close> that succeeds returns a task structure that was free, and each object of the new task,
  its address space, handlers, directories and files, shared or copied, has exactly one user more than before the call.
  The call is counted once, and the new task has no HVF parameters.
\<close>

theorem copy_process_success_counts:
  assumes "fork_lib_ok F held" "task_used st (me st)" "held (pext st) = {#}"
    and "copy_process F pid0 trc a st = Inr (Inr p, st')"
  shows "\<not> task_used st p \<and> task_used st' = (task_used st)(p := True) \<and>
    mm_users st' = bump (mm (tasks (pk st') p)) (mm_users st) \<and>
    sighand_count st' = bump (pr_sighand (procs st' p)) (sighand_count st) \<and>
    fs_users st' = bump (pr_fs (procs st' p)) (fs_users st) \<and> files_count st' = bump (pr_files (procs st' p)) (files_count st) \<and>
    total_forks st' = total_forks st + 1 \<and> nr_threads st' = nr_threads st + (if pid (tasks (pk st') p) = 0 then 0 else 1) \<and>
    deadline_1 (tasks (pk st') p) = 0 \<and> deadline_2 (tasks (pk st') p) = 0 \<and> computation_time (tasks (pk st') p) = 0 \<and>
    \<not> pars_set (tasks (pk st') p)"
proof -
  obtain l st1 where r: "run_stages F (ka_flags a) (fork_stages F a) (\<lparr>fl_p = 0, fl_pid = pid0, fl_pidfd = None\<rparr>, st) = Inr (0, l, st1)"
      "fork_publish F trc a l st1 = Inr st'" "p = fl_p l"
    using assms(4) by (auto simp: copy_process_def split: if_splits)
  have c: "counts_at a st 0 p st1" using copy_process_stages [OF assms(1-3) r(1)] r(3) by (simp add: fork_inv_pair forked_def)
  obtain st2 where s: "st' = upd_pk (copy_process_params p) st2"
    "same_objects (st1\<lparr>nr_threads := nr_threads st1 + (if pid (tasks (pk st1) p) = 0 then 0 else 1), total_forks := total_forks st1 + 1,
      pk := sched_post_fork p (pk st1)\<rparr>) st2"
    using fork_publish_objects [OF r(2)] r(3) by blast
  have "mm (tasks (sched_post_fork p u) p) = mm (tasks u p) \<and> pid (tasks (sched_post_fork p u) p) = pid (tasks u p)" for u :: "'a kstate"
    by (simp add: sched_post_fork_def uclamp_post_fork_def uclamp_update_util_min_rt_default_def
      uclamp_sync_util_min_rt_def Let_def)
  with s c show ?thesis
    by (auto simp: same_objects_def counts_at_def rest_of_def copy_process_params_def)
qed

section \<open>Unsharing\<close>

text \<open>
  The services of \<open>ksys_unshare\<close>: a new set of credentials and a new set of namespaces are held by the caller
  when they are returned, and the other services and the release of files and directories do not touch them.
\<close>

definition userns_ok :: "('x, 'y) fenv \<Rightarrow> ('y \<Rightarrow> fork_res multiset) \<Rightarrow> bool" where
  "userns_ok F held \<longleftrightarrow>
     (\<forall>fl p y e b y'. unshare_userns F fl p y = (e, b, y') \<longrightarrow>
        held y' = held y + (if b then {#Res_cred#} else {#}) \<and> (e \<noteq> 0 \<longrightarrow> \<not> b))"

definition nsproxy_ok :: "('x, 'y) fenv \<Rightarrow> ('y \<Rightarrow> fork_res multiset) \<Rightarrow> bool" where
  "nsproxy_ok F held \<longleftrightarrow>
     (\<forall>fl p y e b y'. unshare_nsproxy_namespaces F fl p y = (e, b, y') \<longrightarrow>
        held y' = held y + (if b then {#Res_nsproxy#} else {#}) \<and> (e \<noteq> 0 \<longrightarrow> \<not> b))"

definition unshare_quiet :: "('x, 'y) fenv \<Rightarrow> ('y \<Rightarrow> fork_res multiset) \<Rightarrow> bool" where
  "unshare_quiet F held \<longleftrightarrow>
     (\<forall>p y. held (snd (set_cred_ucounts F p y)) = held y) \<and>
     (\<forall>n st. held (pext (put_files_struct F n st)) = held (pext st)) \<and>
     (\<forall>n st. held (pext (free_fs_struct F n st)) = held (pext st))"

lemma unshare_fs_held:
  assumes "objects_ok F held" "unshare_fs F fl st = (e, n, st')"
  shows "held (pext st') = held (pext st) \<and> pk st' = pk st"
proof -
  have "held (pext w) = held (pext st) \<and> pk w = pk st" if "copy_fs_struct F i st = (r, w)" for i r w
    using that copy_fs_structD [OF assms(1), of i st] by (cases r) fastforce+
  then show ?thesis using assms(2) by (auto simp: unshare_fs_def split: option.splits if_splits prod.splits)
qed

lemma unshare_fd_held:
  assumes "objects_ok F held" "unshare_fd F fl st = (e, n, st')"
  shows "held (pext st') = held (pext st) \<and> pk st' = pk st"
proof -
  have "held (pext w) = held (pext st) \<and> pk w = pk st" if "dup_fd F i st = (r, w)" for i r w
    using that dup_fdD [OF assms(1), of i st] by (cases r) fastforce+
  then show ?thesis using assms(2) by (auto simp: unshare_fd_def split: option.splits if_splits prod.splits sum.splits)
qed

lemma cleanup_fd_held: "unshare_quiet F held \<Longrightarrow> held (pext (unshare_cleanup_fd F a b st)) = held (pext st)"
  by (auto simp: unshare_quiet_def unshare_cleanup_fd_def unshare_cleanup_fs_def split: option.splits)

lemma cleanup_cred_held:
  assumes "ledger_ok F held" "unshare_quiet F held" "Res_cred \<in># held (pext st)"
  shows "held (pext (unshare_cleanup_cred F True a b st)) = held (pext st) - {#Res_cred#}"
  using assms(3) by (simp add: unshare_cleanup_cred_def cleanup_fd_held [OF assms(2)] release_held [OF assms(1)])

text \<open>
  C40. A call of unshare that gets new credentials and new namespaces and then fails to charge the credentials to
  their owner returns the error without giving the namespaces back: the caller still holds them and nothing refers to
  them.
\<close>

theorem unshare_leaks_nsproxy:
  fixes F :: "('x, 'y) fenv"
  assumes lib: "ledger_ok F held" "objects_ok F held" "userns_ok F held" "nsproxy_ok F held" "unshare_quiet F held"
    and ok: "check_unshare_flags F (unshare_implied fl) st = 0"
      "unshare_fs F (unshare_implied fl) st = (0, fs, st1)" "unshare_fd F (unshare_implied fl) st1 = (0, fd, st2)"
      "unshare_userns F (unshare_implied fl) (me st) (pext st2) = (0, True, y1)"
      "unshare_nsproxy_namespaces F (unshare_implied fl) (me st) y1 = (0, True, y2)"
    and bad: "set_cred_ucounts F (me st) y2 = (e, y3)" "e \<noteq> 0"
  shows "\<exists>st'. ksys_unshare F fl st = (e, st') \<and> held (pext st') = held (pext st) + {#Res_nsproxy#}"
proof -
  let ?st = "st2\<lparr>pext := y3\<rparr>"
  have r: "ksys_unshare F fl st = (e, unshare_cleanup_cred F True fd fs ?st)"
    using ok bad by (simp add: ksys_unshare_def Let_def)
  have "held y1 = held (pext st2) + {#Res_cred#}" using lib(3) ok(4) unfolding userns_ok_def by fastforce
  moreover have "held y2 = held y1 + {#Res_nsproxy#}" using lib(4) ok(5) unfolding nsproxy_ok_def by fastforce
  moreover have "held y3 = held y2" using lib(5) bad(1) unfolding unshare_quiet_def by (metis snd_conv)
  moreover have "held (pext st2) = held (pext st)" using unshare_fs_held [OF lib(2) ok(2)] unshare_fd_held [OF lib(2) ok(3)] by simp
  ultimately have "held (pext ?st) = held (pext st) + {#Res_cred#} + {#Res_nsproxy#}" by simp
  then show ?thesis using r cleanup_cred_held [OF lib(1,5), of ?st fd fs] by simp
qed

section \<open>A sample environment\<close>

text \<open>
  Services that fail for the resources of \<open>bad\<close> and succeed for all others; their state is what is held of them.
  A new object gets the first free number.
\<close>

definition first_free :: "(nat \<Rightarrow> bool) \<Rightarrow> nat option" where
  "first_free u = find (\<lambda>n. \<not> u n) [0..<20]"

definition fenv0 :: "fork_res list \<Rightarrow> (unit, fork_res multiset) fenv" where
  "fenv0 bad = \<lparr>fhenv = henv0,
     acquire = (\<lambda>r p a y. if r \<in> set bad \<and> r \<noteq> Res_delayacct then (- ENOMEM, y) else (0, add_mset r y)),
     release = (\<lambda>r p y. y - {#r#}), fnote = (\<lambda>_ _ y. y), kmem_alloc = (\<lambda>u y. (first_free u, y)),
     arch_dup_task_struct = (\<lambda>_ _ y. (0, y)), scs_prepare = (\<lambda>_ y. (0, y)), has_io_context = (\<lambda>_ y. Res_io \<in># y),
     alloc_pid = (\<lambda>p ts y. if Res_pid \<in> set bad then (Inl (- ENOMEM), y) else (Inr 7, add_mset Res_pid y)),
     put_user = (\<lambda>_ _ y. (0, y)),
     dup_fd = (\<lambda>f st. case first_free (\<lambda>n. files_count st n \<noteq> 0) of
        None \<Rightarrow> (Inl (- ENOMEM), st) | Some n \<Rightarrow> (Inr n, st\<lparr>files_count := bump (Some n) (files_count st)\<rparr>)),
     copy_fs_struct = (\<lambda>f st. case first_free (\<lambda>n. fs_users st n \<noteq> 0) of
        None \<Rightarrow> (None, st) | Some n \<Rightarrow> (Some n, st\<lparr>fs_users := bump (Some n) (fs_users st)\<rparr>)),
     exit_files = (\<lambda>p st. st\<lparr>files_count := unbump (pr_files (procs st p)) (files_count st),
        procs := (procs st)(p := (procs st p)\<lparr>pr_files := None\<rparr>)\<rparr>),
     exit_fs = (\<lambda>p st. st\<lparr>fs_users := unbump (pr_fs (procs st p)) (fs_users st),
        procs := (procs st)(p := (procs st p)\<lparr>pr_fs := None\<rparr>)\<rparr>),
     put_files_struct = (\<lambda>n st. st\<lparr>files_count := unbump (Some n) (files_count st)\<rparr>),
     free_fs_struct = (\<lambda>n st. st\<lparr>fs_users := unbump (Some n) (fs_users st)\<rparr>),
     mm_init = (\<lambda>_ _ _ s. (True, s)), dup_mmap = (\<lambda>_ _ y. (0, y)), module_got = (\<lambda>_ y. (True, y)),
     sched_core_fork = (\<lambda>_ s. s), sched_core_free = (\<lambda>_ s. s), task_sigpending = (\<lambda>_ _. False),
     fatal_signal_pending = (\<lambda>_ _. False), nproc_exceeded = (\<lambda>_ _. False), other_pid_ns = (\<lambda>_ _. False),
     pidns_adding = (\<lambda>_ _. True), is_child_reaper = (\<lambda>_. False), pid_nr = int, pid_vnr = (\<lambda>p _. int p), init_struct_pid = 0,
     ptrace_event_enabled = (\<lambda>_ _ _. False), wait_for_vfork = (\<lambda>_ st. Inr (False, st)), copy_clone_struct = (\<lambda>_ _ _. Inl (- EFAULT)),
     copy_set_tid = (\<lambda>_ _ _. None), access_ok = (\<lambda>_ _. True), valid_signal = (\<lambda>n. n \<le> 64), max_pid_ns_level = 32,
     clone_legacy_flags = 0xffffffff, page_size = 4096, thread_size = 16384, max_threads_limit = 0x3fffffff,
     unshare_userns = (\<lambda>fl p y. if has fl CLONE_NEWUSER then (0, True, add_mset Res_cred y) else (0, False, y)),
     unshare_nsproxy_namespaces = (\<lambda>fl p y. if has fl (CLONE_NEWNS OR CLONE_NEWUTS OR CLONE_NEWIPC OR CLONE_NEWNET OR CLONE_NEWPID OR
        CLONE_NEWCGROUP OR CLONE_NEWTIME) then (0, True, add_mset Res_nsproxy y) else (0, False, y)),
     set_cred_ucounts = (\<lambda>p y. (if Res_cred \<in> set bad then - EAGAIN else 0, y)),
     thread_group_leader = (\<lambda>v. pr_exit_signal v \<ge> 0), thread_group_empty = (\<lambda>_ _. True),
     task_pgrp = (\<lambda>g. sg_pids g PIDTYPE_PGID), task_session = (\<lambda>g. sg_pids g PIDTYPE_SID), current_is_single_threaded = (\<lambda>_ _. True)\<rparr>"

lemma first_free_some: "first_free u = Some n \<Longrightarrow> \<not> u n"
  by (auto simp: first_free_def find_Some_iff)

lemma fenv0_ledger: "ledger_ok (fenv0 bad) (\<lambda>y. y)"
proof -
  have "acquire_ok (fenv0 bad) (\<lambda>y. y)" by (auto simp: acquire_ok_def fenv0_def took_def)
  moreover have "release_ok (fenv0 bad) (\<lambda>y. y)" by (simp add: release_ok_def fenv0_def)
  ultimately show ?thesis by (auto simp: ledger_ok_def fenv0_def dest: first_free_some)
qed

lemma fenv0_objects: "objects_ok (fenv0 bad) (\<lambda>y. y)"
  unfolding objects_ok_def
proof (intro conjI allI)
  fix f :: nat and st :: "(unit, fork_res multiset) pstate"
  show "case dup_fd (fenv0 bad) f st of (Inl e, st') \<Rightarrow> e \<noteq> 0 \<and> (\<exists>y. y = pext st \<and> st' = st\<lparr>pext := y\<rparr>)
      | (Inr n, st') \<Rightarrow> files_count st n = 0 \<and> (\<exists>y. y = pext st \<and> st' = st\<lparr>files_count := bump (Some n) (files_count st), pext := y\<rparr>)"
    by (auto simp: fenv0_def split: option.split dest: first_free_some)
  show "case copy_fs_struct (fenv0 bad) f st of (None, st') \<Rightarrow> \<exists>y. y = pext st \<and> st' = st\<lparr>pext := y\<rparr>
      | (Some n, st') \<Rightarrow> fs_users st n = 0 \<and> (\<exists>y. y = pext st \<and> st' = st\<lparr>fs_users := bump (Some n) (fs_users st), pext := y\<rparr>)"
    by (auto simp: fenv0_def split: option.split dest: first_free_some)
qed (simp_all add: fenv0_def)

text \<open>Task 1 with files, directories, handlers and signals of its own, no other of which is used.\<close>

definition pstate0 :: "(unit, fork_res multiset) pstate" where
  "pstate0 = \<lparr>pk = boot0,
     procs = (\<lambda>_. \<lparr>pr_files = Some 1, pr_fs = Some 1, pr_sighand = Some 1, pr_signal = Some 1, pr_group_leader = 1, pr_tgid = 1,
       pr_real_parent = 1, pr_exit_signal = SIGCHLD, pr_parent_exec_id = 0, pr_self_exec_id = 0, pr_children = [], pr_set_child_tid = 0,
       pr_clear_child_tid = 0, pr_vfork_done = False, pr_thread_pid = Some 1, pr_comm = ''init''\<rparr>),
     signals = (\<lambda>i. if i = 1 then Some (new_signal 1 0 0) else None), files_count = (\<lambda>i. if i = 1 then 1 else 0),
     fs_users = (\<lambda>i. if i = 1 then 1 else 0), fs_in_exec = (\<lambda>_. False), sighand_count = (\<lambda>i. if i = 1 then 1 else 0),
     mm_users = (\<lambda>i. if i = 1 then 1 else 0), task_used = (\<lambda>t. t = 1), stack_refcount = (\<lambda>_. 1), nr_threads = 1, max_threads = 100, total_forks = 0,
     process_counts = (\<lambda>_. 0), task_list = [1], pext = {#}\<rparr>"

theorem unshare_leaks_nsproxy_witness:
  "\<exists>st'. ksys_unshare (fenv0 [Res_cred]) (CLONE_NEWUSER OR CLONE_NEWNS) pstate0 = (- EAGAIN, st') \<and> pext st' = {#Res_nsproxy#}"
proof -
  let ?F = "fenv0 [Res_cred]" and ?fl = "CLONE_NEWUSER OR CLONE_NEWNS"
  have l: "userns_ok ?F (\<lambda>y. y)" "nsproxy_ok ?F (\<lambda>y. y)" "unshare_quiet ?F (\<lambda>y. y)"
    by (auto simp: userns_ok_def nsproxy_ok_def unshare_quiet_def fenv0_def)
  have fl: "unshare_implied ?fl = 0x10030200" by (simp add: unshare_implied_def Let_def)
  have c: "check_unshare_flags ?F (unshare_implied ?fl) pstate0 = 0" "unshare_fs ?F (unshare_implied ?fl) pstate0 = (0, None, pstate0)"
      "unshare_fd ?F (unshare_implied ?fl) pstate0 = (0, None, pstate0)"
    unfolding fl by (simp_all add: check_unshare_flags_def unshare_fs_def unshare_fd_def fenv0_def pstate0_def)
  have u: "unshare_userns ?F (unshare_implied ?fl) (me pstate0) (pext pstate0) = (0, True, {#Res_cred#})"
      "unshare_nsproxy_namespaces ?F (unshare_implied ?fl) (me pstate0) {#Res_cred#} = (0, True, {#Res_nsproxy, Res_cred#})"
      "set_cred_ucounts ?F (me pstate0) {#Res_nsproxy, Res_cred#} = (- EAGAIN, {#Res_nsproxy, Res_cred#})"
    unfolding fl by (simp_all add: fenv0_def pstate0_def)
  have "\<exists>st'. ksys_unshare ?F ?fl pstate0 = (- EAGAIN, st') \<and> pext st' = pext pstate0 + {#Res_nsproxy#}"
    by (rule unshare_leaks_nsproxy [OF fenv0_ledger fenv0_objects l c u]) simp
  then show ?thesis by (simp add: pstate0_def)
qed

lemma fenv0_kernel: "kernel_ok (fenv0 bad)"
  by (auto simp: kernel_ok_def fenv0_def henv0_def senv0_def env0_def idle_ops_def plain_ops_def same_fork_def)

text \<open>A fork in the sample environment up to its first services.\<close>

lemma fenv0_sel [simp]:
  "fnote (fenv0 bad) n p y = y" "release (fenv0 bad) r p y = y - {#r#}" "task_sigpending (fenv0 bad) p y = False"
  "kmem_alloc (fenv0 bad) u y = (first_free u, y)" "arch_dup_task_struct (fenv0 bad) p q y = (0, y)" "scs_prepare (fenv0 bad) p y = (0, y)"
  "nproc_exceeded (fenv0 bad) p y = False"
  "acquire (fenv0 bad) r p a y = (if r \<in> set bad \<and> r \<noteq> Res_delayacct then (- ENOMEM, y) else (0, add_mset r y))"
  by (simp_all add: fenv0_def)

definition forking :: "(unit, fork_res multiset) pstate \<Rightarrow> bool" where
  "forking st \<longleftrightarrow> nr_threads st < max_threads st \<and> me st = 1 \<and> (\<exists>i g. pr_signal (procs st 1) = Some i \<and> signals st i = Some g)"








section \<open>A new thread in the sample environment\<close>

lemma fenv0_more [simp]:
  "alloc_pid (fenv0 []) p ts y = (Inr 7, add_mset Res_pid y)" "pidns_adding (fenv0 bad) n y = True" "fatal_signal_pending (fenv0 bad) p y = False"
  "sched_core_fork (fenv0 bad) p s = s" "pid_nr (fenv0 bad) n = int n" "thread_group_leader (fenv0 bad) v = (pr_exit_signal v \<ge> 0)"
  "fkern (fenv0 bad) = env0" "init_struct_pid (fenv0 bad) = 0"
  by (simp_all add: fenv0_def henv0_def senv0_def)

definition thread_args :: kernel_clone_args where
  "thread_args = kargs_zero\<lparr>ka_flags := CLONE_VM OR CLONE_FS OR CLONE_FILES OR CLONE_SIGHAND OR CLONE_THREAD\<rparr>"

text \<open>The parent 1 and its new thread 0, before and after the scheduler has set up the thread.\<close>

definition threading :: "bool \<Rightarrow> (unit, fork_res multiset) pstate \<Rightarrow> bool" where
  "threading b st \<longleftrightarrow> forking st \<and> pr_files (procs st 1) = Some 1 \<and> pr_fs (procs st 1) = Some 1 \<and> pr_sighand (procs st 1) = Some 1 \<and>
     pr_signal (procs st 0) = pr_signal (procs st 1) \<and> \<not> fs_in_exec st 1 \<and> mm (tasks (pk st) 1) = Some 1 \<and> normal_prio (tasks (pk st) 1) = 120 \<and>
     \<not> sched_reset_on_fork (tasks (pk st) 0) \<and> (b \<longrightarrow> sched_class (tasks (pk st) 0) = Fair)"

lemma thread_args_sel [simp]: "ka_flags thread_args = 0x10f00" "ka_kthread thread_args = False" "ka_no_files thread_args = False"
  by (simp_all add: thread_args_def kargs_zero_def)

lemma threading_early:
  assumes "threading False st" "fl_p l = 0"
  shows "\<exists>st'. fork_creds (fenv0 []) thread_args (l, st) = Inr (0, l, st') \<and> threading False st'"
    "\<exists>st'. fork_limits (fenv0 []) (l, st) = Inr (0, l, st') \<and> threading False st'"
    "\<exists>st'. fork_kthread (fenv0 []) thread_args (l, st) = Inr (0, l, st') \<and> threading False st'"
  using assms by (simp_all add: threading_def forking_def fork_creds_def fork_early_def fork_limits_def fork_kthread_def fork_fields_def take_res_def Let_def)

lemma threading_take:
  assumes "threading b st"
  shows "\<exists>st'. fork_take (fenv0 []) thread_args r (l, st) = Inr (0, l, st') \<and> threading b st'"
  using assms by (simp add: threading_def forking_def fork_take_def take_res_def)

lemma threading_sched:
  assumes "threading False st" "fl_p l = 0"
  shows "\<exists>st'. fork_sched (fenv0 []) (l, st) = Inr (0, l, st') \<and> threading True st'"
  using assms
  by (simp add: threading_def forking_def fork_sched_def sched_fork_def sched_fork_init_def uclamp_fork_def dl_prio_def rt_prio_def Let_def)

lemma threading_shares:
  assumes "threading True st" "fl_p l = 0"
  shows "\<exists>st'. fork_security (fenv0 []) thread_args (l, st) = Inr (0, l, st') \<and> threading True st'"
    "\<exists>st'. fork_files (fenv0 []) thread_args (l, st) = Inr (0, l, st') \<and> threading True st'"
    "\<exists>st'. fork_fs (fenv0 []) thread_args (l, st) = Inr (0, l, st') \<and> threading True st'"
    "\<exists>st'. fork_sighand (fenv0 []) thread_args (l, st) = Inr (0, l, st') \<and> threading True st'"
    "\<exists>st'. fork_signal (fenv0 []) thread_args (l, st) = Inr (0, l, st') \<and> threading True st'"
    "\<exists>st'. fork_mm (fenv0 []) thread_args (l, st) = Inr (0, l, st') \<and> threading True st'"
  using assms
  by (simp_all add: threading_def forking_def fork_security_def fork_take_def take_res_def fork_files_def copy_files_def fork_fs_def copy_fs_def
    fork_sighand_def copy_sighand_def fork_signal_def copy_signal_def fork_mm_def copy_mm_def sched_mm_cid_fork_def Let_def)

lemma threading_late:
  assumes "threading True st" "fl_p l = 0" "fl_pid l = Some 7" "fl_pidfd l = None"
  shows "\<exists>st'. fork_pidfd (fenv0 []) thread_args (l, st) = Inr (0, l, st') \<and> threading True st'"
    "\<exists>st'. fork_put_pidfd (fenv0 []) thread_args (l, st) = Inr (0, l, st') \<and> threading True st'"
    "\<exists>st'. fork_cgroup (fenv0 []) thread_args (l, st) = Inr (0, l, st') \<and> threading True st' \<and> pid (tasks (pk st') 0) = 7"
  using assms
  by (simp_all add: threading_def forking_def fork_pidfd_def fork_put_pidfd_def fork_cgroup_def fork_identity_def fork_take_def take_res_def Let_def)

lemma threading_sched_cgroup:
  assumes "threading True st" "fl_p l = 0"
  shows "\<exists>st'. fork_sched_cgroup (fenv0 []) (l, st) = Inr (0, l, st') \<and> threading True st' \<and> pid (tasks (pk st') 0) = pid (tasks (pk st) 0)"
proof -
  have "op_task_fork (other_class env0 Fair) = None" by (simp add: env0_def plain_ops_def)
  with assms show ?thesis
    by (simp add: threading_def forking_def fork_sched_cgroup_def sched_cgroup_fork_def set_task_cpu_raw_def set_task_rq_def Let_def)
qed

lemma threading_parent:
  assumes "threading True st" "fl_p l = 0" "fl_pid l = Some 7"
  shows "\<exists>st'. fork_parent (fenv0 []) thread_args (l, st) = Inr (0, l, st') \<and> threading True st' \<and> pid (tasks (pk st') 0) = pid (tasks (pk st) 0) \<and>
    pr_exit_signal (procs st' 0) = - 1"
  using assms by (simp add: threading_def forking_def fork_parent_def fork_family_def Let_def)

lemma threading_publish:
  assumes "threading True st" "fl_p l = 0" "fl_pid l = Some 7" "fl_pidfd l = None" "pr_exit_signal (procs st 0) = - 1"
  shows "\<exists>st'. fork_publish (fenv0 []) False thread_args l st = Inr st'"
proof -
  obtain i g where "pr_signal (procs st 1) = Some i" "signals st i = Some g" using assms(1) by (auto simp: threading_def forking_def)
  with assms show ?thesis
    by (simp add: threading_def forking_def fork_publish_def publish_thread_def upd_signal_def copy_oom_score_adj_def Let_def)
qed

lemma threading_start:
  "\<exists>st'. fork_dup (fenv0 []) thread_args (l, pstate0) = Inr (0, l\<lparr>fl_p := 0\<rparr>, st') \<and> threading False st'"
  by (simp add: fork_dup_def dup_task_struct_def take_res_def first_free_def upt_conv_Cons threading_def forking_def pstate0_def boot0_def task0_def
    new_signal_def dup_user_cpus_ptr_def dup_task_fields_def Let_def)

lemma threading_pid:
  assumes "threading True st" "fl_p l = 0" "fl_pid l = None"
  shows "\<exists>st'. fork_pid (fenv0 []) thread_args (l, st) = Inr (0, l\<lparr>fl_pid := Some 7\<rparr>, st') \<and> threading True st'"
  using assms by (simp add: threading_def forking_def fork_pid_def)

text \<open>From states with \<open>P\<close> a stage, or a list of stages, succeeds and leads to a state with \<open>Q\<close>.\<close>

definition passes ::
    "(('x, 'y) pstate \<Rightarrow> bool) \<Rightarrow> ('x, 'y) fork_stage \<Rightarrow> fork_loc \<Rightarrow> fork_loc \<Rightarrow> (('x, 'y) pstate \<Rightarrow> bool) \<Rightarrow> bool" where
  "passes P f l l' Q \<longleftrightarrow> (\<forall>st. P st \<longrightarrow> (\<exists>st'. f (l, st) = Inr (0, l', st') \<and> Q st'))"

lemma passes_nil: "passes P (run_stages F fl []) l l P"
  by (simp add: passes_def)

lemma passes_cons:
  assumes "passes P f l l' Q" "passes Q (run_stages F fl fs) l' l'' R"
  shows "passes P (run_stages F fl ((f, lbl) # fs)) l l'' R"
  unfolding passes_def
proof (intro allI impI)
  fix st assume "P st"
  with assms(1) obtain st1 where 1: "f (l, st) = Inr (0, l', st1)" "Q st1" unfolding passes_def by blast
  with assms(2) obtain st2 where "run_stages F fl fs (l', st1) = Inr (0, l'', st2)" "R st2" unfolding passes_def by blast
  with 1 show "\<exists>st'. run_stages F fl ((f, lbl) # fs) (l, st) = Inr (0, l'', st') \<and> R st'" by simp
qed

lemma thread_stages:
  defines "l \<equiv> \<lparr>fl_p = 0, fl_pid = None, fl_pidfd = None\<rparr>"
  shows "passes (\<lambda>st. st = pstate0) (run_stages (fenv0 []) (ka_flags thread_args) (fork_stages (fenv0 []) thread_args)) l (l\<lparr>fl_pid := Some 7\<rparr>)
    (\<lambda>st. threading True st \<and> pr_exit_signal (procs st 0) = - 1)"
proof -
  let ?F = "fenv0 []" and ?a = thread_args and ?l = "l\<lparr>fl_pid := Some 7\<rparr>"
  have l: "fl_p l = 0" "fl_pid l = None" "l\<lparr>fl_p := 0\<rparr> = l" "fl_p ?l = 0" "fl_pid ?l = Some 7" "fl_pidfd ?l = None" by (simp_all add: l_def)
  have start: "passes (\<lambda>st. st = pstate0) (fork_signals ?F ?a) l l (\<lambda>st. st = pstate0)"
      "passes (\<lambda>st. st = pstate0) (fork_dup ?F ?a) l l (threading False)"
    using threading_start [of l] l(3) by (simp_all add: passes_def fork_signals_def Let_def)
  have early: "passes (threading False) (fork_creds ?F ?a) l l (threading False)" "passes (threading False) (fork_limits ?F) l l (threading False)"
      "passes (threading False) (fork_kthread ?F ?a) l l (threading False)" "passes (threading b) (fork_take ?F ?a r) l l (threading b)"
      "passes (threading False) (fork_sched ?F) l l (threading True)" for b r
    using threading_early [OF _ l(1)] threading_take threading_sched [OF _ l(1)] unfolding passes_def by blast+
  have shares: "passes (threading True) (fork_security ?F ?a) l l (threading True)" "passes (threading True) (fork_files ?F ?a) l l (threading True)"
      "passes (threading True) (fork_fs ?F ?a) l l (threading True)" "passes (threading True) (fork_sighand ?F ?a) l l (threading True)"
      "passes (threading True) (fork_signal ?F ?a) l l (threading True)" "passes (threading True) (fork_mm ?F ?a) l l (threading True)"
      "passes (threading True) (fork_pid ?F ?a) l ?l (threading True)"
    using threading_shares [OF _ l(1)] threading_pid [OF _ l(1,2)] unfolding passes_def by blast+
  have late: "passes (threading True) (fork_pidfd ?F ?a) ?l ?l (threading True)" "passes (threading True) (fork_put_pidfd ?F ?a) ?l ?l (threading True)"
      "passes (threading True) (fork_cgroup ?F ?a) ?l ?l (threading True)" "passes (threading True) (fork_sched_cgroup ?F) ?l ?l (threading True)"
      "passes (threading True) (fork_parent ?F ?a) ?l ?l (\<lambda>st. threading True st \<and> pr_exit_signal (procs st 0) = - 1)"
    using threading_late [OF _ l(4-6)] threading_sched_cgroup [OF _ l(4)] threading_parent [OF _ l(4,5)] unfolding passes_def by blast+
  show ?thesis unfolding fork_stages_def by (rule passes_cons passes_nil start early shares late)+
qed

theorem copy_process_success_counts_witness:
  "\<exists>st'. copy_process (fenv0 []) None False thread_args pstate0 = Inr (Inr 0, st') \<and> task_used st' = (task_used pstate0)(0 := True) \<and>
     total_forks st' = 1 \<and> \<not> pars_set (tasks (pk st') 0)"
proof -
  let ?l = "\<lparr>fl_p = 0, fl_pid = Some 7, fl_pidfd = None\<rparr>"
  obtain st1 where 1: "run_stages (fenv0 []) (ka_flags thread_args) (fork_stages (fenv0 []) thread_args)
        (\<lparr>fl_p = 0, fl_pid = None, fl_pidfd = None\<rparr>, pstate0) = Inr (0, ?l, st1)"
      "threading True st1" "pr_exit_signal (procs st1 0) = - 1"
    using thread_stages unfolding passes_def by auto
  obtain st' where 2: "fork_publish (fenv0 []) False thread_args ?l st1 = Inr st'" using threading_publish [OF 1(2) _ _ _ 1(3), of ?l] by auto
  have "clone_flags_ok (fenv0 []) (ka_flags thread_args) pstate0" by (simp add: clone_flags_ok_def fenv0_def)
  with 1(1) 2 have c: "copy_process (fenv0 []) None False thread_args pstate0 = Inr (Inr 0, st')" by (simp add: copy_process_def)
  have l: "fork_lib_ok (fenv0 []) (\<lambda>y. y)" by (simp add: fork_lib_ok_def fenv0_ledger fenv0_objects fenv0_kernel)
  have "task_used pstate0 (me pstate0)" "pext pstate0 = {#}" "total_forks pstate0 = 0" by (simp_all add: pstate0_def boot0_def)
  from copy_process_success_counts [OF l this(1,2) c] c this(3) show ?thesis by simp
qed

end
