(* ===== verification/Spec2Isabelle.thy ===== *)
theory Spec2Isabelle
  imports Hvf_Theorems Call_Theorems Cid_Theorems Pick_Theorems Hotplug_Theorems Nohz_Theorems Fork_Theorems
begin

text \<open>
  This library is a formal model and verification of a customised Linux 6.14.8 scheduler: a
  kernel tree in which a scheduling class HVF (Highest Value First, \<^verbatim>\<open>kernel/sched/hvf.c\<close>) has been added
  between the fair and the idle class, with the core scheduler (\<^verbatim>\<open>kernel/sched/core.c\<close>,
  \<^verbatim>\<open>kernel/sched/sched.h\<close>), the scheduling calls (\<^verbatim>\<open>kernel/sched/syscalls.c\<close>) and three new system calls
  (\<^verbatim>\<open>my_sched_syscalls/sched_sys.c\<close>). All paths are relative to \<^verbatim>\<open>src/customized-kernel/\<close>.

  \<^bold>\<open>How the parts interact.\<close> A task sets two deadlines and a computation time with
  \<open>set_scheduling_params\<close> and enters the class with \<open>sched_setscheduler\<close>, which goes through
  \<open>__sched_setscheduler\<close>: check, dequeue, change of the class, enqueue. \<open>enqueue_task_hvf\<close> computes the value of
  the task, a number of \<open>0..100\<close>, from the deadlines and the expected completion, and inserts it
  into the red-black tree of the run queue, which is ordered by value and caches its maximum.
  \<open>__schedule\<close> asks the classes in order for a task; \<open>pick_task_hvf\<close> answers with the cached maximum.
  The tick lets a time slice expire, after which the value decays; an overrun of the computation time is
  penalised at the next enqueue. On a wake-up \<open>select_task_rq_hvf\<close> picks a cpu by value and load.

  A new task comes from \<open>copy_process\<close> (\<^verbatim>\<open>kernel/fork.c\<close>), which calls \<open>sched_fork\<close>, \<open>sched_cgroup_fork\<close> and \<open>sched_post_fork\<close>
  and clears the HVF parameters.

  \<^bold>\<open>Conventions.\<close> C integers are \<^typ>\<open>int\<close> with the wrap-around of their width written out (\<open>s64\<close>, \<open>s32\<close>,
  \<open>u64\<close>, \<open>u32\<close>); flag words are machine words. The state of the machine is the record \<open>kstate\<close>; a task
  is its number in the table \<open>tasks\<close>, a run queue its cpu in the table \<open>rqs\<close>. \<open>pstate\<close> adds what a fork copies: files,
  directories, handlers, signals and address spaces with their counts of users. A function runs under the locks its
  source takes and is one atomic step; where code of several cpus interleaves without a lock (concurrency ids, the remote
  tick) the steps are an inductive relation. An error code is a value; a crash is a value of the type
  \<open>fault\<close>: a division trap, a call of a null method, a bad pointer, a \<open>BUG\<close>, a loop that does not end. An unset method
  of a class is \<open>None\<close> in its table. The configuration is SMP with utilisation clamps, core scheduling, task groups, fair
  bandwidth, cpu hotplug, SMT and NUMA balancing, without \<open>CONFIG_SCHED_CLASS_EXT\<close>, \<open>CONFIG_UCLAMP_TASK_GROUP\<close>, \<open>CONFIG_RT_GROUP_SCHED\<close>
  and interrupt time accounting; \<open>CONFIG_NO_HZ_FULL\<close> is assumed in \<open>Core_Nohz\<close> only.

  \<^bold>\<open>Code outside the repository\<close> is a parameter: the red-black tree (\<open>rb_lib\<close>), the sort and
  the allocator, the other scheduling classes and the services the core scheduler calls (the record
  \<open>kenv\<close>), credentials, limits and the pid table (\<open>senv\<close>), cgroups and the fair class's groups (\<open>genv\<close>), boot and hotplug
  services (\<open>henv\<close>), the tick (\<open>nenv\<close>), and what a fork calls (\<open>fenv\<close>). What they are relied on for is stated as
  named hypotheses (\<open>rb_lib_ok\<close>, \<open>sort_ok\<close>, \<open>alloc_ok\<close>, \<open>core_lib_ok\<close>, \<open>clock_ok\<close>, \<open>picks_keep_core\<close>, \<open>set_shares_ok\<close>, \<open>bandwidth_lib_ok\<close>,
  \<open>boot_lib_ok\<close>, \<open>hotplug_lib_ok\<close>, \<open>ledger_ok\<close>, \<open>objects_ok\<close>, \<open>kernel_ok\<close>) or in the property; \<open>Sample_Machine\<close>,
  \<open>Sample_Env\<close> and the theories of properties hold concrete instances, on which the properties are evaluated.

  \<^bold>\<open>The theories.\<close>
  \<^item> \<open>KPrelude\<close>: C integers, faults and the error monad, sorted lists. \<open>Sched_Types\<close>: the structures of
    \<^verbatim>\<open>include/linux/sched.h\<close> and \<^verbatim>\<open>sched.h\<close>, policies, classes.
  \<^item> \<open>Hvf_Value\<close>, \<open>Hvf_Queue\<close>, \<open>Hvf_Methods\<close>, \<open>Hvf_Balance\<close>: \<^verbatim>\<open>hvf.c\<close>, in its order: value, decay and penalty; the tree; the
    methods; the choice of a cpu. \<open>Value_Queue\<close> is the interface of a queue served by value, a locale that \<open>Hvf_Queue\<close> interprets on
    its definitions. \<open>Hvf_Invariant\<close>: the class as a step relation and the invariant of its
    reachable states.
  \<^item> \<open>Resched\<close>, \<open>Uclamp\<close>, \<open>Load_Weight\<close>, \<open>Core_Env\<close>, \<open>Core_Cookie\<close>, \<open>Core_Queue\<close>, \<open>Core_Affinity\<close>, \<open>Core_Balance\<close>, \<open>Core_Pick\<close>, \<open>Core_Sched\<close>, \<open>Core_Wake\<close>,
    \<open>Core_Migrate\<close>, \<open>Core_Loop\<close>: \<^verbatim>\<open>core.c\<close>: reschedule requests; utilisation clamps; weights; clock and class table; the
    tree of cookies; \<open>enqueue_task\<close> and \<open>dequeue_task\<close>; affinity; balance callbacks; the core-wide pick and cookie stealing;
    \<open>__schedule\<close>, the tick, fork, priority inheritance; wake-ups; migration and the stopper threads; \<open>schedule\<close>, wake
    queues, core-scheduling references.
  \<^item> \<open>Mm_Cid\<close>, \<open>Mm_Cid_Race\<close>: concurrency ids of address spaces, and their atomic operations as interleaved steps.
  \<^item> \<open>Core_Group\<close>, \<open>Group_Tree\<close>: task groups, the walk of their tree and the files of cpu weights. \<open>Core_Bandwidth\<close>, \<open>Group_Quota\<close>: quotas and
    the file cpu.max. \<open>Core_Hotplug\<close>: boot and cpu hotplug. \<open>Core_Nohz\<close>: dynamic ticks and the remote tick.
  \<^item> \<open>Sched_Policy\<close>, \<open>Sched_Calls\<close>: \<^verbatim>\<open>syscalls.c\<close>. \<open>Hvf_Syscalls\<close>: \<^verbatim>\<open>sched_sys.c\<close> and the fields that \<^verbatim>\<open>fork.c\<close> initialises.
  \<^item> \<open>Fork_Types\<close>, \<open>Fork_Model\<close>: \<^verbatim>\<open>fork.c\<close>: \<open>copy_process\<close> as a list of stages, each with the label it fails to, its callers, clone3,
    unshare and the limit on threads. \<open>Fork_Ledger\<close>: the accounts of a fork at each label, and that every label gives back its part. \<open>Fork_Stages\<close>: that
    every stage leads from the accounts at one label to those at the next.
  \<^item> \<open>Hvf_Theorems\<close>, \<open>Core_Theorems\<close>, \<open>Pick_Theorems\<close>, \<open>Cid_Theorems\<close>, \<open>Group_Theorems\<close>, \<open>Hotplug_Theorems\<close>, \<open>Nohz_Theorems\<close>, \<open>Call_Theorems\<close>,
    \<open>Fork_Theorems\<close> and this theory hold the properties.

  \<^bold>\<open>What is shown.\<close> For the class: in every reachable state the pick is a task of maximal value
  and the queues are exact and disjoint; the wrapping arithmetic computes the ideal value; enqueue and
  dequeue are inverse; the queue is served by falling value; decay, penalty and slices stay in range, with the
  sharp bound where they overflow; cpu selection respects the affinity and the documented order. For the core:
  boot establishes the invariants; the clamp buckets refine a multiset; the chosen cpu is allowed; migration requests make
  progress; the core-wide pick leaves one cookie per core; stealing ends and moves the first task of a cookie; core scheduling
  is counted correctly; address spaces keep their discipline; an active concurrency id is exclusive while remote clears do not
  overlap; the walk of the group tree visits every group once and quotas stay below those of the parent; a cpu can go down
  and come up again; the remote tick survives hotplug. For the calls: what is accepted, that errors change nothing, that
  privileges limit an unprivileged caller. For a fork: a call of \<open>copy_process\<close> that fails at any of its
  stages leaves nothing behind, and one that succeeds adds exactly one user to each object of the new task. Several properties state
  defects the model exposes: a task lost after the death of its predecessor, a lone task that leaves its cpu idle, null methods
  that user calls reach, deadlines that make the kernel divide by zero, a penalty that raises a value, a tree out of order after a
  group move, a tick that stops while HVF tasks wait, namespaces that a failed unshare leaks.

  \<^bold>\<open>Bounds.\<close> The invariant of the class assumes three and a half days of wall clock (303700049 milliseconds),
  the largest overrun whose squared penalty does not overflow; beyond it the property on the overflow
  shows that the code fails. Deadlines below \<open>2^40\<close> seconds keep every product below \<open>2^63\<close>. Loops are structural
  recursions on the list they walk, except: \<open>fallback_loop\<close>, with a proof of termination; the walk of
  \<open>sched_core_next\<close>, whose fuel, the size of the tree, is shown to be enough; the walk of the group tree, whose fuel, twice
  the number of groups, is shown to be enough; \<open>mm_cid_get\<close>, which is shown to return; and \<open>schedule\<close>, which may run forever
  and has a bound on its turns as an argument.

  \<^bold>\<open>Not modelled.\<close> Of \<^verbatim>\<open>core.c\<close>: high-resolution ticks, the dynamic preemption model and the preemption counter, statistics
  and their switches, debugging output. Locks, RCU and memory barriers have no counterpart, because steps are atomic; waiting
  for a task to leave its cpu is left out for that reason. Of \<^verbatim>\<open>fork.c\<close>: the allocation of stacks, caches and vm areas, and
  the release of an address space. The other scheduling classes, cgroups, files and namespaces are outside the
  repository. The user-space test programs, the plotting script, the build files and the kernel image are not kernel code.
\<close>

section \<open>The HVF queue\<close>



end
